(* ===== verification/Prelude.thy ===== *)
theory Prelude
  imports Complex_Main "HOL-Library.Sublist"
begin

text \<open>
  Shared vocabulary of the development: the JavaScript string operations the sources use,
  decimal printing, and SQL tables as lists of rows with the statements the sources issue
  (SELECT, UPDATE .. WHERE, DELETE .. WHERE, COUNT, ORDER BY .. LIMIT).

  A JavaScript string is a sequence of code units; here it is a \<^typ>\<open>string\<close>, so code
  units are those below 256. A time is a number of milliseconds.
\<close>

named_theorems sql_simps \<open>equations of the table operations\<close>
named_theorems js_simps \<open>equations of the JavaScript string operations\<close>

type_synonym time = int

section \<open>Strings\<close>

definition is_ws :: "char \<Rightarrow> bool" where
  "is_ws c \<longleftrightarrow> List.member [CHR 0x09, CHR 0x0A, CHR 0x0B, CHR 0x0C, CHR 0x0D, CHR 0x20, CHR 0xA0] c"

definition js_trim :: "string \<Rightarrow> string" where
  "js_trim s = rev (dropWhile is_ws (rev (dropWhile is_ws s)))"

definition lower_char :: "char \<Rightarrow> char" where
  "lower_char c =
     (let n = (of_char c :: nat)
      in if 65 \<le> n \<and> n \<le> 90 \<or> 192 \<le> n \<and> n \<le> 222 \<and> n \<noteq> 215
         then char_of (n + 32) else c)"

definition js_lower :: "string \<Rightarrow> string" where
  "js_lower s = map lower_char s"

text \<open>
  Upper-casing one code unit gives a string: the sharp s becomes two letters. The two code
  units below 256 whose upper case lies above 255 (micro sign and y with diaeresis) are kept.
\<close>

definition upper_char :: "char \<Rightarrow> string" where
  "upper_char c =
     (let n = (of_char c :: nat)
      in if 97 \<le> n \<and> n \<le> 122 \<or> 224 \<le> n \<and> n \<le> 254 \<and> n \<noteq> 247
         then [char_of (n - 32)]
         else if n = 223 then ''SS'' else [c])"

definition js_upper :: "string \<Rightarrow> string" where
  "js_upper s = concat (map upper_char s)"

definition starts_with :: "string \<Rightarrow> string \<Rightarrow> bool" where
  "starts_with s p \<longleftrightarrow> take (length p) s = p"

definition ends_with :: "string \<Rightarrow> string \<Rightarrow> bool" where
  "ends_with s p \<longleftrightarrow> starts_with (rev s) (rev p)"

fun js_includes :: "string \<Rightarrow> string \<Rightarrow> bool" where
  "js_includes [] p = (p = [])"
| "js_includes (c # s) p = (starts_with (c # s) p \<or> js_includes s p)"

text \<open>\<open>s.split(sep)\<close> for a one-character separator; the empty string gives one empty part.\<close>

fun split_on :: "char \<Rightarrow> string \<Rightarrow> string list" where
  "split_on d [] = [[]]"
| "split_on d (c # s) =
     (if c = d then [] # split_on d s
      else (case split_on d s of [] \<Rightarrow> [[c]] | p # ps \<Rightarrow> (c # p) # ps))"

fun join_with :: "string \<Rightarrow> string list \<Rightarrow> string" where
  "join_with sep [] = []"
| "join_with sep [p] = p"
| "join_with sep (p # q # ps) = p @ sep @ join_with sep (q # ps)"

definition digit_char :: "nat \<Rightarrow> char" where
  "digit_char d = char_of (48 + d)"

fun nat_str :: "nat \<Rightarrow> string" where
  "nat_str n = (if n < 10 then [digit_char n] else nat_str (n div 10) @ [digit_char (n mod 10)])"

declare nat_str.simps [simp del]

lemma nat_str_digit [js_simps]: "n < 10 \<Longrightarrow> nat_str n = [digit_char n]"
  and nat_str_step [js_simps]: "10 \<le> n \<Longrightarrow> nat_str n = nat_str (n div 10) @ [digit_char (n mod 10)]"
  by (simp_all add: nat_str.simps [of n])

text \<open>A string option that is neither null nor empty, as JavaScript's truthiness has it.\<close>

fun truthy :: "string option \<Rightarrow> bool" where
  "truthy None = False"
| "truthy (Some s) = (s \<noteq> [])"

lemma starts_with_append [simp, js_simps]: "starts_with (p @ s) p"
  by (simp add: starts_with_def)

lemma starts_with_refl [simp, js_simps]: "starts_with s s"
  by (simp add: starts_with_def)

lemma starts_with_Nil [simp, js_simps]: "starts_with s []"
  by (simp add: starts_with_def)

lemma starts_with_Cons [simp, js_simps]:
  "starts_with (c # s) (d # p) \<longleftrightarrow> c = d \<and> starts_with s p"
  "\<not> starts_with [] (d # p)"
  by (auto simp: starts_with_def)

lemma starts_with_prefix: "starts_with s p \<longleftrightarrow> prefix p s"
  by (metis append_eq_conv_conj append_take_drop_id prefix_def starts_with_def)

lemma starts_with_trans: "starts_with s q \<Longrightarrow> starts_with q p \<Longrightarrow> starts_with s p"
  by (auto simp: starts_with_prefix)

lemma js_lower_length [simp]: "length (js_lower s) = length s"
  by (simp add: js_lower_def)

lemma split_on_plain [js_simps]: "d \<notin> set s \<Longrightarrow> split_on d s = [s]"
  by (induction s) auto

lemma split_on_append [js_simps]: "d \<notin> set h \<Longrightarrow> split_on d (h @ d # r) = h # split_on d r"
  by (induction h) auto

lemma js_trim_id: "\<not> is_ws (hd s) \<Longrightarrow> \<not> is_ws (last s) \<Longrightarrow> s \<noteq> [] \<Longrightarrow> js_trim s = s"
proof -
  assume "\<not> is_ws (hd s)" "\<not> is_ws (last s)" "s \<noteq> []"
  then have "dropWhile is_ws s = s" "dropWhile is_ws (rev s) = rev s"
    by (cases s, simp_all) (cases "rev s", simp_all add: hd_rev [symmetric])
  then show ?thesis by (simp add: js_trim_def)
qed

lemma split_on_nonempty: "split_on d s \<noteq> []"
  by (induction s) (auto split: list.splits)

section \<open>Tables\<close>

text \<open>
  A table is the list of its rows. Rows that a statement returns in no stated order come in
  table order, and ORDER BY keeps table order between equal keys.
\<close>

definition select_where :: "('r \<Rightarrow> bool) \<Rightarrow> 'r list \<Rightarrow> 'r list" where
  "select_where p t = filter p t"

definition count_where :: "('r \<Rightarrow> bool) \<Rightarrow> 'r list \<Rightarrow> nat" where
  "count_where p t = length (filter p t)"

definition update_where :: "('r \<Rightarrow> bool) \<Rightarrow> ('r \<Rightarrow> 'r) \<Rightarrow> 'r list \<Rightarrow> 'r list" where
  "update_where p f t = map (\<lambda>r. if p r then f r else r) t"

text \<open>The rows that UPDATE .. WHERE .. RETURNING reports: the new versions of the matched rows.\<close>

definition update_returning :: "('r \<Rightarrow> bool) \<Rightarrow> ('r \<Rightarrow> 'r) \<Rightarrow> 'r list \<Rightarrow> 'r list" where
  "update_returning p f t = map f (filter p t)"

definition delete_where :: "('r \<Rightarrow> bool) \<Rightarrow> 'r list \<Rightarrow> 'r list" where
  "delete_where p t = filter (\<lambda>r. \<not> p r) t"

definition find_first :: "('r \<Rightarrow> bool) \<Rightarrow> 'r list \<Rightarrow> 'r option" where
  "find_first p t = List.find p t"

definition order_limit :: "('r \<Rightarrow> 'k::linorder) \<Rightarrow> nat \<Rightarrow> 'r list \<Rightarrow> 'r list" where
  "order_limit k n t = take n (sort_key k t)"

definition coalesce :: "'a option \<Rightarrow> 'a \<Rightarrow> 'a option" where
  "coalesce x d = (case x of None \<Rightarrow> Some d | Some v \<Rightarrow> Some v)"

lemma coalesce_simps [simp]: "coalesce None d = Some d" "coalesce (Some v) d = Some v"
  by (simp_all add: coalesce_def)

lemma coalesce_not_None [simp]: "coalesce x d \<noteq> None"
  by (cases x) auto

lemma update_where_Nil [simp, sql_simps]: "update_where p f [] = []"
  by (simp add: update_where_def)

lemma update_where_Cons [simp, sql_simps]:
  "update_where p f (r # t) = (if p r then f r else r) # update_where p f t"
  by (simp add: update_where_def)

lemma length_update_where [simp, sql_simps]: "length (update_where p f t) = length t"
  by (simp add: update_where_def)

lemma set_update_where:
  "r \<in> set (update_where p f t) \<longleftrightarrow> (\<exists>s \<in> set t. r = (if p s then f s else s))"
  by (auto simp: update_where_def)

lemma update_where_none: "\<forall>r \<in> set t. \<not> p r \<Longrightarrow> update_where p f t = t"
  by (simp add: update_where_def map_idI)

lemma update_returning_Nil_iff: "update_returning p f t = [] \<longleftrightarrow> (\<forall>r \<in> set t. \<not> p r)"
  by (simp add: update_returning_def filter_empty_conv)

lemma count_where_le: "count_where p t \<le> length t"
  by (simp add: count_where_def)

lemma count_where_mono: "(\<And>r. r \<in> set t \<Longrightarrow> p r \<Longrightarrow> q r) \<Longrightarrow> count_where p t \<le> count_where q t"
  unfolding count_where_def by (induction t) (auto simp: le_SucI)

lemma set_delete_where [sql_simps]: "set (delete_where p t) = {r \<in> set t. \<not> p r}"
  by (auto simp: delete_where_def)

lemma find_first_Some_iff:
  "find_first p t = Some r \<Longrightarrow> r \<in> set t \<and> p r"
  by (auto simp: find_first_def find_Some_iff)

lemma find_first_None_iff: "find_first p t = None \<longleftrightarrow> (\<forall>r \<in> set t. \<not> p r)"
  by (auto simp: find_first_def find_None_iff)

lemma set_order_limit: "set (order_limit k n t) \<subseteq> set t"
  by (metis order_limit_def set_sort set_take_subset)

lemma length_order_limit: "length (order_limit k n t) \<le> n"
  by (simp add: order_limit_def)

text \<open>Lookup by primary key, and distinctness of a table's keys.\<close>

definition row_by :: "('r \<Rightarrow> 'k) \<Rightarrow> 'k \<Rightarrow> 'r list \<Rightarrow> 'r option" where
  "row_by key k t = find_first (\<lambda>r. key r = k) t"

definition unique_by :: "('r \<Rightarrow> 'k) \<Rightarrow> 'r list \<Rightarrow> bool" where
  "unique_by key t \<longleftrightarrow> distinct (map key t)"

lemma row_by_Some: "row_by key k t = Some r \<Longrightarrow> r \<in> set t \<and> key r = k"
  unfolding row_by_def by (rule find_first_Some_iff)

lemma row_by_mem: "unique_by key t \<Longrightarrow> r \<in> set t \<Longrightarrow> row_by key (key r) t = Some r"
  unfolding row_by_def unique_by_def find_first_def
  by (induction t) (auto simp: image_iff)

lemma unique_by_same:
  assumes "unique_by key t" and "r \<in> set t" and "s \<in> set t" and "key r = key s"
  shows "r = s"
proof -
  have "Some r = row_by key (key r) t"
    by (rule row_by_mem [OF assms(1,2), symmetric])
  also have "\<dots> = row_by key (key s) t"
    by (simp only: assms(4))
  also have "\<dots> = Some s"
    by (rule row_by_mem [OF assms(1,3)])
  finally show ?thesis by simp
qed

lemma unique_by_delete: "unique_by key t \<Longrightarrow> unique_by key (delete_where p t)"
  by (simp add: unique_by_def delete_where_def distinct_map_filter)

lemma unique_by_filter_le_one:
  "unique_by key t \<Longrightarrow> length (filter (\<lambda>r. key r = k \<and> q r) t) \<le> 1"
proof (induction t)
  case Nil
  then show ?case by simp
next
  case (Cons a t)
  then have u: "unique_by key t" and a: "key a \<notin> set (map key t)"
    by (auto simp: unique_by_def)
  show ?case
  proof (cases "key a = k")
    case True
    then have "filter (\<lambda>r. key r = k \<and> q r) t = []"
      using a by (auto simp: filter_empty_conv image_iff)
    then show ?thesis by simp
  next
    case False
    then show ?thesis using Cons.IH [OF u] by simp
  qed
qed

lemma unique_by_append: "unique_by key t \<Longrightarrow> row_by key (key r) t = None \<Longrightarrow> unique_by key (t @ [r])"
  by (auto simp: unique_by_def row_by_def find_first_None_iff)

lemma unique_by_keys: "unique_by key t \<Longrightarrow> map key t' = map key t \<Longrightarrow> unique_by key t'"
  by (simp add: unique_by_def)

lemma keys_of_update: "(\<And>r. r \<in> set t \<Longrightarrow> g r \<Longrightarrow> key (u r) = key r) \<Longrightarrow> map key (update_where g u t) = map key t"
  by (induction t) auto

text \<open>
  The contract of an UPDATE statement: the new version of a matched row keeps the primary
  key and stands in the relation \<open>rel\<close> to the old one. Then the statement keeps the keys
  of the table and relates the tables row by row.
\<close>

locale table_update =
  fixes key :: "'r \<Rightarrow> 'k" and guard :: "'r \<Rightarrow> bool" and upd :: "'r \<Rightarrow> 'r"
    and rel :: "'r \<Rightarrow> 'r \<Rightarrow> bool"
  assumes key_kept: "guard r \<Longrightarrow> key (upd r) = key r"
    and upd_rel: "guard r \<Longrightarrow> rel r (upd r)"
    and rel_refl: "rel r r"
begin

lemma keys_update: "map key (update_where guard upd t) = map key t"
  by (induction t) (auto simp: key_kept)

lemma unique_update: "unique_by key t \<Longrightarrow> unique_by key (update_where guard upd t)"
  by (simp add: unique_by_def keys_update)

lemma row_update:
  "row_by key k (update_where guard upd t)
     = map_option (\<lambda>r. if guard r then upd r else r) (row_by key k t)"
  unfolding row_by_def find_first_def by (induction t) (auto simp: key_kept)

lemma rows_related: "list_all2 rel t (update_where guard upd t)"
  by (induction t) (auto simp: upd_rel rel_refl)

end

text \<open>A fact that every allowed operation keeps holds after any run of allowed operations.\<close>

locale run_fact =
  fixes exec_op :: "'op \<Rightarrow> 's \<Rightarrow> 's" and allowed :: "'op \<Rightarrow> bool" and fact :: "'s \<Rightarrow> bool"
  assumes op_keeps: "allowed op \<Longrightarrow> fact s \<Longrightarrow> fact (exec_op op s)"
begin

lemma run_keeps: "list_all allowed ops \<Longrightarrow> fact s \<Longrightarrow> fact (fold exec_op ops s)"
  by (induction ops arbitrary: s) (auto intro: op_keeps)

end

end
