(* ===== verification/Json.thy ===== *)
theory Json
  imports Prelude
begin

text \<open>
  JSON values as JavaScript holds them after \<open>JSON.parse\<close>, and HTTP replies. A number is
  a rational (parsing yields a finite double); an object is its list of entries in insertion
  order with distinct keys. A missing property is \<^const>\<open>None\<close>, so \<open>undefined\<close> and
  \<open>null\<close> stay apart.
\<close>

datatype json =
    JNull
  | JBool bool
  | JNum rat
  | JStr string
  | JArr "json list"
  | JObj "(string \<times> json) list"

definition jprop :: "string \<Rightarrow> (string \<times> json) list \<Rightarrow> json option" where
  "jprop k es = map_of es k"

text \<open>Property access \<open>v.k\<close>; on a value that is no object it is \<open>undefined\<close>.\<close>

fun jget :: "json \<Rightarrow> string \<Rightarrow> json option" where
  "jget (JObj es) k = jprop k es"
| "jget v k = None"

text \<open>\<open>typeof x === "string" ? x : undefined\<close>\<close>

fun as_string :: "json option \<Rightarrow> string option" where
  "as_string (Some (JStr s)) = Some s"
| "as_string v = None"

text \<open>\<open>Array.isArray(x) ? x : []\<close>\<close>

fun as_array :: "json option \<Rightarrow> json list" where
  "as_array (Some (JArr xs)) = xs"
| "as_array v = []"

definition jint :: "int \<Rightarrow> json" where
  "jint n = JNum (of_int n)"

fun jopt :: "string option \<Rightarrow> json" where
  "jopt None = JNull"
| "jopt (Some s) = JStr s"

text \<open>A reply: the status, the headers the handler sets, the JSON body.\<close>

record http =
  http_status :: nat
  http_headers :: "(string \<times> string) list"
  http_body :: json

definition reply :: "nat \<Rightarrow> (string \<times> json) list \<Rightarrow> http" where
  "reply st es = \<lparr>http_status = st, http_headers = [], http_body = JObj es\<rparr>"

definition error_reply :: "nat \<Rightarrow> string \<Rightarrow> http" where
  "error_reply st msg = reply st [(''error'', JStr msg)]"

lemma status_reply [simp]: "http_status (reply st es) = st"
  by (simp add: reply_def)

lemma status_error_reply [simp]: "http_status (error_reply st msg) = st"
  by (simp add: error_reply_def)

text \<open>
  A claim of the Content-Length header: \<open>Number(raw)\<close> is a parameter of the caller, here
  already read; \<^const>\<open>None\<close> stands for a missing header.
\<close>

datatype js_number = Fin rat | NotFinite

text \<open>\<open>hasBodyOverLimit\<close> of \<open>src/lib/request-limits.ts\<close>.\<close>

fun hasBodyOverLimit :: "js_number option \<Rightarrow> rat \<Rightarrow> bool" where
  "hasBodyOverLimit None maxBytes = False"
| "hasBodyOverLimit (Some NotFinite) maxBytes = True"
| "hasBodyOverLimit (Some (Fin n)) maxBytes = (n < 0 \<or> n > maxBytes)"

text \<open>
  \<open>String(v)\<close>. The callers compare the result with fixed words; the text of a number is never
  one of them, so one placeholder stands for it.
\<close>

fun js_String :: "json \<Rightarrow> string" where
  "js_String JNull = ''null''"
| "js_String (JBool b) = (if b then ''true'' else ''false'')"
| "js_String (JNum q) = ''(number)''"
| "js_String (JStr s) = s"
| "js_String (JArr xs) = join_with '','' (map (\<lambda>v. if v = JNull then '''' else js_String v) xs)"
| "js_String (JObj es) = ''[object Object]''"

text \<open>Truthiness of a value; a missing one is false.\<close>

fun js_truthy :: "json option \<Rightarrow> bool" where
  "js_truthy None = False"
| "js_truthy (Some JNull) = False"
| "js_truthy (Some (JBool b)) = b"
| "js_truthy (Some (JNum q)) = (q \<noteq> 0)"
| "js_truthy (Some (JStr s)) = (s \<noteq> [])"
| "js_truthy (Some v) = True"

text \<open>\<open>typeof v === "object" && v && !Array.isArray(v)\<close>, as the entries.\<close>

fun as_object :: "json option \<Rightarrow> (string \<times> json) list option" where
  "as_object (Some (JObj es)) = Some es"
| "as_object v = None"

end
