(* ===== verification/Job_Status.thy ===== *)
theory Job_Status
  imports Prelude
begin

text \<open>
  \<open>src/lib/job-status.ts\<close>: the closed vocabulary of job states and physical outcomes, the
  transition table, the two late-success windows; and \<open>src/shared/job-vocabulary.ts\<close>, its
  client-side mirror. The lemmas say what the table allows, and that the two vocabularies
  agree.
\<close>

section \<open>Vocabulary\<close>

datatype JobStatus = Queued | Claimed | Printing | Success | Failed | Expired

fun status_str :: "JobStatus \<Rightarrow> string" where
  "status_str Queued = ''queued''"
| "status_str Claimed = ''claimed''"
| "status_str Printing = ''printing''"
| "status_str Success = ''success''"
| "status_str Failed = ''failed''"
| "status_str Expired = ''expired''"

definition JOB_STATUSES :: "JobStatus list" where
  "JOB_STATUSES = [Queued, Claimed, Printing, Success, Failed, Expired]"

datatype PhysicalOutcome = NotPrinted | Printed | UnknownOutcome

fun outcome_str :: "PhysicalOutcome \<Rightarrow> string" where
  "outcome_str NotPrinted = ''not_printed''"
| "outcome_str Printed = ''printed''"
| "outcome_str UnknownOutcome = ''unknown''"

definition PHYSICAL_OUTCOME_UNKNOWN_MARKERS :: "string list" where
  "PHYSICAL_OUTCOME_UNKNOWN_MARKERS =
     [''AGENT_EXECUTION_TIMEOUT'',
      ''AGENT_RESTART_DURING_PRINT'',
      ''JOB_EXPIRED_DURING_PRINT'',
      ''UNKNOWN_PARTIAL_DELIVERY'',
      ''UNKNOWN_SUBMISSION_OUTCOME'']"

text \<open>\<open>error ?? ""\<close>\<close>

definition or_empty :: "string option \<Rightarrow> string" where
  "or_empty e = (case e of None \<Rightarrow> '''' | Some s \<Rightarrow> s)"

definition derivePhysicalOutcome :: "string \<Rightarrow> string option \<Rightarrow> PhysicalOutcome" where
  "derivePhysicalOutcome status error =
     (if status = ''success'' then Printed
      else if list_ex (\<lambda>marker. starts_with (or_empty error) marker) PHYSICAL_OUTCOME_UNKNOWN_MARKERS
      then UnknownOutcome
      else NotPrinted)"

text \<open>The type guard \<open>isJobStatus\<close>, with the status it narrows to.\<close>

definition parseJobStatus :: "string \<Rightarrow> JobStatus option" where
  "parseJobStatus value = List.find (\<lambda>s. status_str s = value) JOB_STATUSES"

definition isJobStatus :: "string option \<Rightarrow> bool" where
  "isJobStatus value =
     (case value of None \<Rightarrow> False | Some v \<Rightarrow> list_ex (\<lambda>s. status_str s = v) JOB_STATUSES)"

definition JOB_FILTER_STATUSES :: "string list" where
  "JOB_FILTER_STATUSES =
     [''all'', ''active'', ''in_flight'', ''queued'', ''claimed'', ''printing'', ''success'',
      ''printed'', ''failed'', ''expired'', ''unknown'', ''attention'', ''unassigned'']"

definition isJobFilterStatus :: "string option \<Rightarrow> bool" where
  "isJobFilterStatus value =
     (case value of None \<Rightarrow> False | Some v \<Rightarrow> List.member JOB_FILTER_STATUSES (js_lower v))"

section \<open>Transitions\<close>

definition isTerminal :: "JobStatus \<Rightarrow> bool" where
  "isTerminal status \<longleftrightarrow> status = Success \<or> status = Failed \<or> status = Expired"

fun ALLOWED_TRANSITIONS :: "JobStatus \<Rightarrow> JobStatus list" where
  "ALLOWED_TRANSITIONS Queued = []"
| "ALLOWED_TRANSITIONS Claimed = [Printing, Failed, Queued]"
| "ALLOWED_TRANSITIONS Printing = [Success, Failed]"
| "ALLOWED_TRANSITIONS Success = []"
| "ALLOWED_TRANSITIONS Failed = []"
| "ALLOWED_TRANSITIONS Expired = []"

text \<open>\<open>canTransition(from, to, { allowLateSuccess })\<close>\<close>

definition canTransition :: "JobStatus \<Rightarrow> JobStatus \<Rightarrow> bool \<Rightarrow> bool" where
  "canTransition frm tgt allowLateSuccess =
     (if isTerminal frm then allowLateSuccess \<and> frm = Failed \<and> tgt = Success
      else List.member (ALLOWED_TRANSITIONS frm) tgt)"

definition LATE_SUCCESS_ERROR_MARKERS :: "string list" where
  "LATE_SUCCESS_ERROR_MARKERS = [''AGENT_EXECUTION_TIMEOUT'', ''AGENT_RESTART_DURING_PRINT'']"

definition LATE_SUCCESS_MAX_AGE_MS :: int where
  "LATE_SUCCESS_MAX_AGE_MS = 24 * 60 * 60 * 1000"

definition EXPIRED_LATE_SUCCESS_GRACE_MS :: int where
  "EXPIRED_LATE_SUCCESS_GRACE_MS = 5 * 60 * 1000"

definition PRINTED_POST_EXPIRATION_MARKER :: string where
  "PRINTED_POST_EXPIRATION_MARKER = ''PRINTED_POST_EXPIRATION''"

definition isLateSuccessAllowed :: "JobStatus \<Rightarrow> string option \<Rightarrow> time \<Rightarrow> time \<Rightarrow> bool" where
  "isLateSuccessAllowed status err updatedAt nowMs =
     (if status \<noteq> Failed then False
      else let error = or_empty err
           in if \<not> list_ex (\<lambda>marker. starts_with error marker) LATE_SUCCESS_ERROR_MARKERS then False
              else let age = nowMs - updatedAt in age \<ge> 0 \<and> age \<le> LATE_SUCCESS_MAX_AGE_MS)"

text \<open>A column of type timestamp is always a finite time, so the finiteness test succeeds.\<close>

definition isExpiredLateSuccessAllowed :: "JobStatus \<Rightarrow> time \<Rightarrow> time \<Rightarrow> bool" where
  "isExpiredLateSuccessAllowed status expiresAt nowMs =
     (if status \<noteq> Expired then False
      else let age = nowMs - expiresAt in age \<ge> 0 \<and> age \<le> EXPIRED_LATE_SUCCESS_GRACE_MS)"

definition AGENT_REQUEUE_REASONS :: "string list" where
  "AGENT_REQUEUE_REASONS = [''pending_full'', ''agent_shutting_down'', ''ledger_unavailable'']"

section \<open>Lemmas\<close>

lemma status_str_inject [simp]: "status_str a = status_str b \<longleftrightarrow> a = b"
  by (cases a; cases b) auto

lemma parse_status_str [simp]: "parseJobStatus (status_str s) = Some s"
  by (cases s) (simp_all add: parseJobStatus_def JOB_STATUSES_def)

lemma parseJobStatus_Some: "parseJobStatus v = Some s \<Longrightarrow> v = status_str s"
  by (auto simp: parseJobStatus_def find_Some_iff)

lemma JOB_STATUSES_all [simp]: "s \<in> set JOB_STATUSES"
  by (cases s) (simp_all add: JOB_STATUSES_def)

lemma isJobStatus_iff: "isJobStatus (Some v) \<longleftrightarrow> (\<exists>s. parseJobStatus v = Some s)"
  by (auto simp: isJobStatus_def list_ex_iff dest: parseJobStatus_Some)

lemma isTerminal_simps [simp]:
  "\<not> isTerminal Queued" "\<not> isTerminal Claimed" "\<not> isTerminal Printing"
  "isTerminal Success" "isTerminal Failed" "isTerminal Expired"
  by (simp_all add: isTerminal_def)

lemma status_str_success [simp]: "status_str s = ''success'' \<longleftrightarrow> s = Success"
  by (cases s) auto

lemma outcome_success [simp]: "derivePhysicalOutcome ''success'' e = Printed"
  by (simp add: derivePhysicalOutcome_def)

lemma outcome_marker:
  assumes "status \<noteq> ''success''" and "m \<in> set PHYSICAL_OUTCOME_UNKNOWN_MARKERS"
    and "starts_with e m"
  shows "derivePhysicalOutcome status (Some e) = UnknownOutcome"
  using assms by (auto simp: derivePhysicalOutcome_def or_empty_def list_ex_iff)

lemma late_success_marker_unknown:
  "isLateSuccessAllowed st e u now \<Longrightarrow> derivePhysicalOutcome (status_str st) e = UnknownOutcome"
  by (auto simp: isLateSuccessAllowed_def derivePhysicalOutcome_def
        LATE_SUCCESS_ERROR_MARKERS_def PHYSICAL_OUTCOME_UNKNOWN_MARKERS_def split: if_splits)

lemma canTransition_nonterminal:
  "\<not> isTerminal frm \<Longrightarrow> canTransition frm tgt l \<longleftrightarrow>
     (frm = Claimed \<and> tgt \<in> {Printing, Failed, Queued}) \<or> (frm = Printing \<and> tgt \<in> {Success, Failed})"
  by (cases frm) (auto simp: canTransition_def)

lemma canTransition_terminal:
  "isTerminal frm \<Longrightarrow> canTransition frm tgt l \<longleftrightarrow> l \<and> frm = Failed \<and> tgt = Success"
  by (simp add: canTransition_def)

section \<open>The shared operator vocabulary\<close>

datatype Tone = ToneOk | ToneBad | ToneWarn | ToneInfo | ToneNeutral

definition UNKNOWN_OUTCOME_MARKERS :: "string list" where
  "UNKNOWN_OUTCOME_MARKERS =
     [''AGENT_EXECUTION_TIMEOUT'',
      ''AGENT_RESTART_DURING_PRINT'',
      ''JOB_EXPIRED_DURING_PRINT'',
      ''UNKNOWN_PARTIAL_DELIVERY'',
      ''UNKNOWN_SUBMISSION_OUTCOME'']"

datatype ViewOutcome = VPrinted | VNotPrinted | VUnknown | VUnproven

definition deriveOutcome :: "string \<Rightarrow> string option \<Rightarrow> ViewOutcome" where
  "deriveOutcome status error =
     (if status = ''success'' then VPrinted
      else let msg = or_empty error
           in if list_ex (\<lambda>marker. starts_with msg marker) UNKNOWN_OUTCOME_MARKERS then VUnknown
              else if status = ''claimed'' \<or> status = ''printing'' then VUnproven
              else VNotPrinted)"

definition jobTone :: "string \<Rightarrow> ViewOutcome option \<Rightarrow> Tone" where
  "jobTone status outcome =
     (if outcome = Some VUnknown then ToneWarn
      else let s = js_lower status
           in if s = ''success'' then ToneOk
              else if s = ''failed'' then ToneBad
              else if s = ''expired'' then ToneBad
              else if s = ''printing'' then ToneInfo
              else if s = ''claimed'' then ToneInfo
              else if s = ''queued'' then ToneNeutral
              else ToneNeutral)"

definition jobLabel :: "string \<Rightarrow> ViewOutcome option \<Rightarrow> string" where
  "jobLabel status outcome =
     (let s = js_lower status
      in if s = ''queued'' then ''Queued at Gateway''
         else if s = ''claimed'' then ''Sent to agent''
         else if s = ''printing'' then ''Printing''
         else if s = ''success'' then ''Printed''
         else if s = ''failed'' then
           (if outcome = Some VUnknown then ''Unknown outcome'' else ''Failed (not printed)'')
         else if s = ''expired'' then
           (if outcome = Some VUnknown then ''Unknown outcome'' else ''Expired (never claimed)'')
         else status)"

definition jobGuidance :: "string \<Rightarrow> ViewOutcome \<Rightarrow> string" where
  "jobGuidance status outcome =
     (if status = ''success'' then ''The agent confirmed the payload was fully transmitted to the printer.''
      else if outcome = VUnknown then
        ''Print status is unknown. The printer may have received part or all of the job. Automatic retry is paused to prevent duplicate printing. Verify the printer before reprinting.''
      else if status = ''expired'' then
        ''The job waited longer than its release window without being claimed. Nothing reached the agent. Start the agent, then re-send from the source document.''
      else if status = ''failed'' then
        ''The print failed before the printer started. Fix the cause shown in the error, then retry.''
      else if status = ''queued'' then ''Waiting for the agent to pick the job up.''
      else if status = ''claimed'' then ''The agent received the job and is about to print it.''
      else if status = ''printing'' then ''The printer is receiving the document now.''
      else '''')"

definition printerTone :: "string \<Rightarrow> Tone" where
  "printerTone status =
     (if status = ''online'' then ToneOk
      else if status = ''busy'' then ToneWarn
      else if status = ''error'' \<or> status = ''offline'' then ToneBad
      else ToneNeutral)"

definition printerLabel :: "string \<Rightarrow> string" where
  "printerLabel status =
     (if status = ''online'' then ''Online''
      else if status = ''offline'' then ''Offline''
      else if status = ''busy'' then ''Busy''
      else if status = ''error'' then ''Error - check printer''
      else ''Status unknown'')"

text \<open>The server's outcome as the client shows it: a live claim is not yet proven either way.\<close>

definition view_of_outcome :: "string \<Rightarrow> PhysicalOutcome \<Rightarrow> ViewOutcome" where
  "view_of_outcome status po =
     (case po of Printed \<Rightarrow> VPrinted | UnknownOutcome \<Rightarrow> VUnknown
      | NotPrinted \<Rightarrow> (if status = ''claimed'' \<or> status = ''printing'' then VUnproven else VNotPrinted))"

lemma markers_in_lockstep: "UNKNOWN_OUTCOME_MARKERS = PHYSICAL_OUTCOME_UNKNOWN_MARKERS"
  by (simp add: UNKNOWN_OUTCOME_MARKERS_def PHYSICAL_OUTCOME_UNKNOWN_MARKERS_def)

end
