(* ===== verification/Schema.thy ===== *)
theory Schema
  imports Json Job_Status
begin

text \<open>
  \<open>src/db/schema.ts\<close>: the rows of the tables the modelled components read and write, the
  database as the record of its tables, and the constraints PostgreSQL keeps on them. The
  closed vocabularies that the code branches on are datatypes; the other text columns are
  strings, with the CHECK constraints as predicates.
\<close>

datatype Lifecycle = Active | Disabled | Retired

fun lifecycle_str :: "Lifecycle \<Rightarrow> string" where
  "lifecycle_str Active = ''active''"
| "lifecycle_str Disabled = ''disabled''"
| "lifecycle_str Retired = ''retired''"

datatype AgentStatus = Online | Offline

fun agent_status_str :: "AgentStatus \<Rightarrow> string" where
  "agent_status_str Online = ''online''"
| "agent_status_str Offline = ''offline''"

record agent =
  ag_id :: string
  ag_tenant :: string
  ag_name :: string
  ag_pairing_hash :: "string option"
  ag_pairing_expires :: "time option"
  ag_secret :: "string option"
  ag_status :: AgentStatus
  ag_lifecycle :: Lifecycle
  ag_metadata :: "(string \<times> json) list option"
  ag_last_seen :: "time option"
  ag_created :: time
  ag_updated :: time

record printer =
  pr_id :: string
  pr_tenant :: string
  pr_agent :: string
  pr_name :: string
  pr_type :: string
  pr_class :: string
  pr_connection :: string
  pr_protocol :: string
  pr_status :: string
  pr_lifecycle :: Lifecycle
  pr_config :: "(string \<times> json) list option"
  pr_capabilities :: "json option"
  pr_last_seen :: "time option"
  pr_created :: time
  pr_updated :: time

record api_key =
  ak_id :: string
  ak_tenant :: string
  ak_scope :: string
  ak_name :: string
  ak_description :: "string option"
  ak_hash :: string
  ak_doc_types :: "string list option"
  ak_created :: time
  ak_last_used :: "time option"
  ak_revoked :: "time option"

record manager_session =
  ms_jti :: string
  ms_tenant :: string
  ms_user :: "string option"
  ms_role :: string
  ms_created :: time
  ms_expires :: time
  ms_revoked :: "time option"

record auth_rate_limit =
  rl_key :: string
  rl_failures :: nat
  rl_window_started :: time
  rl_locked_until :: "time option"
  rl_updated :: time

record discovery_session =
  ds_id :: string
  ds_tenant :: string
  ds_agent :: string
  ds_status :: string
  ds_config :: "(string \<times> json) list"
  ds_candidates :: "nat option"
  ds_started :: time
  ds_completed :: "time option"
  ds_created :: time
  ds_updated :: time

record discovered_device =
  dd_id :: string
  dd_tenant :: string
  dd_discovery :: string
  dd_agent :: string
  dd_source :: "string list"
  dd_protocol :: string
  dd_ip :: "string option"
  dd_hostname :: "string option"
  dd_port :: "int option"
  dd_name :: "string option"
  dd_manufacturer :: "string option"
  dd_model :: "string option"
  dd_serial :: "string option"
  dd_uri :: "string option"
  dd_confidence :: string
  dd_verification :: string
  dd_class :: string
  dd_capabilities :: "json option"
  dd_raw_metadata :: "json option"
  dd_provisioned :: "string option"
  dd_candidate_status :: string
  dd_updated :: time

record print_job =
  jb_id :: string
  jb_tenant :: string
  jb_api_key :: "string option"
  jb_destination :: "string option"
  jb_doc_type :: "string option"
  jb_agent :: string
  jb_printer :: string
  jb_status :: JobStatus
  jb_payload :: json
  jb_error :: "string option"
  jb_requested_by :: "string option"
  jb_request_id :: "string option"
  jb_idem :: "string option"
  jb_retries :: nat
  jb_claimed_at :: "time option"
  jb_token :: "string option"
  jb_attempts :: nat
  jb_delivered_at :: "time option"
  jb_acked_at :: "time option"
  jb_expires :: time
  jb_created :: time
  jb_updated :: time

record print_job_rate_limit =
  pl_key :: string
  pl_minute_started :: time
  pl_minute_count :: nat
  pl_hour_started :: time
  pl_hour_count :: nat
  pl_updated :: time

record plan =
  pn_id :: string
  pn_entitlements :: "(string \<times> json) list"

record tenant_subscription =
  ts_tenant :: string
  ts_plan :: string
  ts_status :: string

record tenant_user =
  tu_user :: string
  tu_tenant :: string
  tu_role :: string

record gateway_db =
  agents :: "agent list"
  printers :: "printer list"
  print_jobs :: "print_job list"
  api_keys :: "api_key list"
  manager_sessions :: "manager_session list"
  auth_rate_limits :: "auth_rate_limit list"
  print_job_rate_limits :: "print_job_rate_limit list"
  discovery_sessions :: "discovery_session list"
  discovered_devices :: "discovered_device list"
  plans :: "plan list"
  tenant_subscriptions :: "tenant_subscription list"
  tenant_users :: "tenant_user list"

definition empty_db :: gateway_db where
  "empty_db = \<lparr>agents = [], printers = [], print_jobs = [], api_keys = [], manager_sessions = [],
     auth_rate_limits = [], print_job_rate_limits = [], discovery_sessions = [],
     discovered_devices = [], plans = [], tenant_subscriptions = [], tenant_users = []\<rparr>"

text \<open>
  The clocks a handler reads: PostgreSQL's \<open>now()\<close> in SQL text and the gateway process's
  \<open>new Date()\<close>. Nothing ties them together.
\<close>

record clocks =
  db_now :: time
  app_now :: time

section \<open>Constraints of the tables\<close>

definition printer_checks :: "printer \<Rightarrow> bool" where
  "printer_checks p \<longleftrightarrow>
     List.member [''physical'', ''virtual'', ''redirected''] (pr_type p)
     \<and> List.member [''thermal'', ''laser'', ''inkjet'', ''label'', ''other'', ''unknown''] (pr_class p)
     \<and> List.member [''network'', ''usb'', ''spooler'', ''ipp'', ''ipps''] (pr_connection p)
     \<and> List.member [''raw'', ''escpos'', ''zpl'', ''tspl'', ''ipp'', ''ipps'', ''spooler'', ''windows_spooler'', ''unknown'']
         (pr_protocol p)
     \<and> List.member [''online'', ''offline'', ''busy'', ''error'', ''unknown''] (pr_status p)"

text \<open>
  \<open>payload->>'k'\<close>: the text of a property, NULL when it is missing or null. For a number,
  an array or an object it is the text of that JSON value, never one of the words compared
  here nor empty; one placeholder word stands for it.
\<close>

definition json_text :: "json \<Rightarrow> string \<Rightarrow> string option" where
  "json_text v k =
     (case jget v k of
        None \<Rightarrow> None
      | Some JNull \<Rightarrow> None
      | Some (JStr s) \<Rightarrow> Some s
      | Some (JBool b) \<Rightarrow> Some (if b then ''true'' else ''false'')
      | Some _ \<Rightarrow> Some ''(json)'')"

definition payload_contract_check :: "json \<Rightarrow> bool" where
  "payload_contract_check payload \<longleftrightarrow>
     (case payload of
        JObj _ \<Rightarrow>
          (let ty = json_text payload ''type'';
               proto = or_empty (json_text payload ''protocol'')
           in (ty = Some ''raw'' \<and> List.member [''raw'', ''escpos'', ''zpl'', ''tspl''] proto)
            \<or> (ty = Some ''escpos'' \<and> proto = ''escpos'')
            \<or> (ty = Some ''pdf'' \<and> proto = '''')
            \<or> (ty = Some ''image'' \<and> proto = ''''))
      | _ \<Rightarrow> False)"

text \<open>
  The composite foreign keys: the agent, the printer, the API key (where there is one) a row names are
  rows of its tenant.
\<close>

definition agent_exists :: "string \<Rightarrow> string \<Rightarrow> gateway_db \<Rightarrow> bool" where
  "agent_exists tenant agentId db \<longleftrightarrow> find_first (\<lambda>a. ag_tenant a = tenant \<and> ag_id a = agentId) (agents db) \<noteq> None"

definition printer_exists :: "string \<Rightarrow> string \<Rightarrow> gateway_db \<Rightarrow> bool" where
  "printer_exists tenant printerId db \<longleftrightarrow> find_first (\<lambda>p. pr_tenant p = tenant \<and> pr_id p = printerId) (printers db) \<noteq> None"

definition api_key_exists :: "string \<Rightarrow> string option \<Rightarrow> gateway_db \<Rightarrow> bool" where
  "api_key_exists tenant apiKeyId db \<longleftrightarrow>
     (case apiKeyId of None \<Rightarrow> True
      | Some k \<Rightarrow> find_first (\<lambda>r. ak_tenant r = tenant \<and> ak_id r = k) (api_keys db) \<noteq> None)"

text \<open>
  The two partial unique indexes on idempotency keys: per API key, and over the jobs created
  without one.
\<close>

definition idempotency_unique :: "print_job list \<Rightarrow> bool" where
  "idempotency_unique t \<longleftrightarrow>
     distinct (map (\<lambda>j. (jb_api_key j, jb_idem j)) (filter (\<lambda>j. jb_idem j \<noteq> None) t))"

definition agent_unique_pending :: "agent list \<Rightarrow> bool" where
  "agent_unique_pending t \<longleftrightarrow>
     distinct (map ag_pairing_hash (filter (\<lambda>a. ag_pairing_hash a \<noteq> None) t))"

end
