(* ===== verification/Job_Fencing.thy ===== *)
theory Job_Fencing
  imports Schema
begin

text \<open>
  \<open>src/lib/job-fencing.ts\<close>: the WHERE predicates of every write to \<open>print_jobs\<close> that is
  attributed to an agent. The claim token stands inside the predicate, so a write carrying a
  superseded token matches no row whatever happened since its author read the row.
\<close>

text \<open>\<open>claim_token IS NOT DISTINCT FROM t\<close> is equality of the two nullable values.\<close>

definition fencedJobWrite ::
  "string \<Rightarrow> string \<Rightarrow> JobStatus \<Rightarrow> string option \<Rightarrow> print_job \<Rightarrow> bool" where
  "fencedJobWrite jobId agentId expectedStatus claimToken p \<longleftrightarrow>
     jb_id p = jobId
     \<and> jb_agent p = agentId
     \<and> jb_status p = expectedStatus
     \<and> jb_token p = claimToken"

definition fencedDeliveryWrite ::
  "string \<Rightarrow> string \<Rightarrow> string option \<Rightarrow> JobStatus list \<Rightarrow> print_job \<Rightarrow> bool" where
  "fencedDeliveryWrite jobId agentId claimToken statuses p \<longleftrightarrow>
     jb_id p = jobId
     \<and> jb_agent p = agentId
     \<and> List.member statuses (jb_status p)
     \<and> (if truthy claimToken then jb_token p = claimToken else jb_token p = None)"

lemma fencedJobWrite_token:
  "fencedJobWrite i a s t p \<Longrightarrow> jb_token p = t"
  by (simp add: fencedJobWrite_def)

lemma fencedDeliveryWrite_token:
  "fencedDeliveryWrite i a t ss p \<Longrightarrow> jb_token p = (if truthy t then t else None)"
  by (auto simp: fencedDeliveryWrite_def)

text \<open>\<open>WHERE id = .. AND tenant_id = .. AND agent_id = ..\<close>, as the agent routes look a job up.\<close>

definition agent_job_where :: "string \<Rightarrow> agent \<Rightarrow> print_job \<Rightarrow> bool" where
  "agent_job_where jobId a p \<longleftrightarrow>
     jb_id p = jobId \<and> jb_tenant p = ag_tenant a \<and> jb_agent p = ag_id a"

end
