(* ===== verification/Job_Maintenance.thy ===== *)
theory Job_Maintenance
  imports Job_Fencing
begin

text \<open>
  \<open>src/lib/job-maintenance.ts\<close>: the sweep, five UPDATE statements over the job table. Each
  is its own transaction, so each reads its own \<open>now()\<close>; here every statement takes the
  time it runs at, and \<open>sweepPrintJobs\<close> is their composition.
\<close>

definition STALE_CLAIM_SECONDS :: int where "STALE_CLAIM_SECONDS = 90"
definition STALE_PRINTING_SECONDS :: int where "STALE_PRINTING_SECONDS = 10 * 60"
definition MAX_RETRIES :: nat where "MAX_RETRIES = 5"

definition ERR_EXPIRED_DURING_PRINT :: string where
  "ERR_EXPIRED_DURING_PRINT = ''JOB_EXPIRED_DURING_PRINT: physical output is unknown (full, partial or none)''"
definition ERR_EXPIRED_AFTER_DELIVERY :: string where
  "ERR_EXPIRED_AFTER_DELIVERY = ''UNKNOWN_PARTIAL_DELIVERY: job expired after delivery without an execution report (physical output is unknown)''"
definition ERR_SILENT_DELIVERY :: string where
  "ERR_SILENT_DELIVERY = ''UNKNOWN_PARTIAL_DELIVERY: claim lease expired after delivery without an execution report (physical output is unknown; manual reconciliation required)''"
definition ERR_EXECUTION_TIMEOUT :: string where
  "ERR_EXECUTION_TIMEOUT = ''AGENT_EXECUTION_TIMEOUT: agent execution lease expired (physical output is unknown; manual reconciliation required)''"
definition ERR_EXHAUSTED :: string where
  "ERR_EXHAUSTED = ''exceeded max retries after a stale claim (agent likely crashed or lost connection)''"

text \<open>\<open>scope.agentId ? AND agent_id = .. : (nothing)\<close>\<close>

definition agentFilter :: "string option \<Rightarrow> print_job \<Rightarrow> bool" where
  "agentFilter scope p \<longleftrightarrow> (if truthy scope then Some (jb_agent p) = scope else True)"

definition has_evidence :: "print_job \<Rightarrow> bool" where
  "has_evidence p \<longleftrightarrow> jb_delivered_at p \<noteq> None \<or> jb_acked_at p \<noteq> None"

definition claim_stale :: "time \<Rightarrow> print_job \<Rightarrow> bool" where
  "claim_stale now p \<longleftrightarrow> jb_updated p < now - STALE_CLAIM_SECONDS * 1000"

section \<open>The statements\<close>

definition sweep_expired_where :: "time \<Rightarrow> string option \<Rightarrow> print_job \<Rightarrow> bool" where
  "sweep_expired_where now scope p \<longleftrightarrow>
     \<not> List.member [Success, Failed, Expired] (jb_status p) \<and> jb_expires p \<le> now \<and> agentFilter scope p"

definition sweep_expired_set :: "time \<Rightarrow> print_job \<Rightarrow> print_job" where
  "sweep_expired_set now p = p\<lparr>
     jb_status := Expired,
     jb_error := (if jb_status p = Printing then Some ERR_EXPIRED_DURING_PRINT
                  else if jb_status p = Claimed \<and> (jb_delivered_at p \<noteq> None \<or> jb_acked_at p \<noteq> None)
                  then Some ERR_EXPIRED_AFTER_DELIVERY
                  else None),
     jb_updated := now\<rparr>"

definition sweep_requeued_where :: "time \<Rightarrow> string option \<Rightarrow> print_job \<Rightarrow> bool" where
  "sweep_requeued_where now scope p \<longleftrightarrow>
     jb_status p = Claimed \<and> jb_delivered_at p = None \<and> jb_acked_at p = None
     \<and> jb_updated p < now - STALE_CLAIM_SECONDS * 1000
     \<and> jb_retries p < MAX_RETRIES \<and> jb_expires p > now \<and> agentFilter scope p"

definition sweep_requeued_set :: "time \<Rightarrow> print_job \<Rightarrow> print_job" where
  "sweep_requeued_set now p = p\<lparr>
     jb_status := Queued, jb_claimed_at := None, jb_token := None,
     jb_delivered_at := None, jb_acked_at := None,
     jb_retries := jb_retries p + 1, jb_updated := now\<rparr>"

definition sweep_silent_where :: "time \<Rightarrow> string option \<Rightarrow> print_job \<Rightarrow> bool" where
  "sweep_silent_where now scope p \<longleftrightarrow>
     jb_status p = Claimed \<and> (jb_delivered_at p \<noteq> None \<or> jb_acked_at p \<noteq> None)
     \<and> jb_updated p < now - STALE_CLAIM_SECONDS * 1000 \<and> agentFilter scope p"

definition sweep_silent_set :: "time \<Rightarrow> print_job \<Rightarrow> print_job" where
  "sweep_silent_set now p = p\<lparr>
     jb_status := Failed, jb_error := Some ERR_SILENT_DELIVERY, jb_updated := now\<rparr>"

definition sweep_stale_printing_where :: "time \<Rightarrow> string option \<Rightarrow> print_job \<Rightarrow> bool" where
  "sweep_stale_printing_where now scope p \<longleftrightarrow>
     jb_status p = Printing \<and> jb_updated p < now - STALE_PRINTING_SECONDS * 1000 \<and> agentFilter scope p"

definition sweep_stale_printing_set :: "time \<Rightarrow> print_job \<Rightarrow> print_job" where
  "sweep_stale_printing_set now p = p\<lparr>
     jb_status := Failed,
     jb_error := Some (if jb_expires p \<le> now then ERR_EXPIRED_DURING_PRINT else ERR_EXECUTION_TIMEOUT),
     jb_updated := now\<rparr>"

definition sweep_exhausted_where :: "time \<Rightarrow> string option \<Rightarrow> print_job \<Rightarrow> bool" where
  "sweep_exhausted_where now scope p \<longleftrightarrow>
     jb_status p = Claimed \<and> jb_delivered_at p = None \<and> jb_acked_at p = None
     \<and> jb_updated p < now - STALE_CLAIM_SECONDS * 1000
     \<and> jb_retries p \<ge> MAX_RETRIES \<and> agentFilter scope p"

definition sweep_exhausted_set :: "time \<Rightarrow> print_job \<Rightarrow> print_job" where
  "sweep_exhausted_set now p = p\<lparr>
     jb_status := Failed, jb_error := Some ERR_EXHAUSTED, jb_updated := now\<rparr>"

section \<open>The sweep\<close>

text \<open>The times the five statements run at, in their order.\<close>

record sweep_clock =
  sw_expired :: time
  sw_requeued :: time
  sw_silent :: time
  sw_printing :: time
  sw_exhausted :: time

record sweep_result =
  res_expired :: nat
  res_requeuedClaims :: nat
  res_silentDeliveries :: nat
  res_stalePrinting :: nat
  res_exhaustedClaims :: nat

text \<open>The table after each statement.\<close>

definition sweep_table1 :: "sweep_clock \<Rightarrow> string option \<Rightarrow> print_job list \<Rightarrow> print_job list" where
  "sweep_table1 c scope t = update_where (sweep_expired_where (sw_expired c) scope) (sweep_expired_set (sw_expired c)) t"
definition sweep_table2 :: "sweep_clock \<Rightarrow> string option \<Rightarrow> print_job list \<Rightarrow> print_job list" where
  "sweep_table2 c scope t = update_where (sweep_requeued_where (sw_requeued c) scope) (sweep_requeued_set (sw_requeued c)) (sweep_table1 c scope t)"
definition sweep_table3 :: "sweep_clock \<Rightarrow> string option \<Rightarrow> print_job list \<Rightarrow> print_job list" where
  "sweep_table3 c scope t = update_where (sweep_silent_where (sw_silent c) scope) (sweep_silent_set (sw_silent c)) (sweep_table2 c scope t)"
definition sweep_table4 :: "sweep_clock \<Rightarrow> string option \<Rightarrow> print_job list \<Rightarrow> print_job list" where
  "sweep_table4 c scope t = update_where (sweep_stale_printing_where (sw_printing c) scope) (sweep_stale_printing_set (sw_printing c)) (sweep_table3 c scope t)"
definition sweep_table5 :: "sweep_clock \<Rightarrow> string option \<Rightarrow> print_job list \<Rightarrow> print_job list" where
  "sweep_table5 c scope t = update_where (sweep_exhausted_where (sw_exhausted c) scope) (sweep_exhausted_set (sw_exhausted c)) (sweep_table4 c scope t)"

text \<open>A metric call \<open>incrementMetric(name, value)\<close> is one entry of the returned list.\<close>

definition metric_if_pos :: "string \<Rightarrow> nat \<Rightarrow> (string \<times> nat) list" where
  "metric_if_pos name v = (if v > 0 then [(name, v)] else [])"

definition sweepPrintJobs ::
  "sweep_clock \<Rightarrow> string option \<Rightarrow> gateway_db \<Rightarrow> gateway_db \<times> sweep_result \<times> (string \<times> nat) list" where
  "sweepPrintJobs c scope db =
     (let t = print_jobs db;
          expired = update_returning (sweep_expired_where (sw_expired c) scope) (sweep_expired_set (sw_expired c)) t;
          requeued = update_returning (sweep_requeued_where (sw_requeued c) scope) (sweep_requeued_set (sw_requeued c))
                       (sweep_table1 c scope t);
          silent = update_returning (sweep_silent_where (sw_silent c) scope) (sweep_silent_set (sw_silent c))
                       (sweep_table2 c scope t);
          printing = update_returning (sweep_stale_printing_where (sw_printing c) scope) (sweep_stale_printing_set (sw_printing c))
                       (sweep_table3 c scope t);
          exhausted = update_returning (sweep_exhausted_where (sw_exhausted c) scope) (sweep_exhausted_set (sw_exhausted c))
                       (sweep_table4 c scope t);
          result = \<lparr>res_expired = length expired, res_requeuedClaims = length requeued,
                    res_silentDeliveries = length silent, res_stalePrinting = length printing,
                    res_exhaustedClaims = length exhausted\<rparr>;
          unknownExpiryCount = count_where (\<lambda>r. starts_with (or_empty (jb_error r)) ''JOB_EXPIRED_DURING_PRINT''
                                 \<or> starts_with (or_empty (jb_error r)) ''UNKNOWN_PARTIAL_DELIVERY'') expired;
          metrics = metric_if_pos ''print_jobs_expired_total'' (res_expired result)
                  @ metric_if_pos ''print_jobs_unknown_total'' unknownExpiryCount
                  @ metric_if_pos ''print_jobs_requeued_total'' (res_requeuedClaims result)
                  @ metric_if_pos ''print_jobs_failed_total'' (res_silentDeliveries result)
                  @ metric_if_pos ''print_jobs_unknown_total'' (res_silentDeliveries result)
                  @ metric_if_pos ''print_jobs_failed_total'' (res_stalePrinting result)
                  @ metric_if_pos ''print_jobs_unknown_total'' (res_stalePrinting result)
                  @ metric_if_pos ''print_jobs_failed_total'' (res_exhaustedClaims result)
      in (db\<lparr>print_jobs := sweep_table5 c scope t\<rparr>, result, metrics))"

lemmas sweep_where_defs =
  sweep_expired_where_def sweep_requeued_where_def sweep_silent_where_def
  sweep_stale_printing_where_def sweep_exhausted_where_def

lemmas sweep_set_defs =
  sweep_expired_set_def sweep_requeued_set_def sweep_silent_set_def
  sweep_stale_printing_set_def sweep_exhausted_set_def

lemmas sweep_table_defs =
  sweep_table1_def sweep_table2_def sweep_table3_def sweep_table4_def sweep_table5_def

end
