(* ===== verification/Job_Delivery.thy ===== *)
theory Job_Delivery
  imports Job_Maintenance
begin

text \<open>
  \<open>src/lib/job-delivery.ts\<close>: taking ownership of a queued job, the evidence writes, and the
  release of a claim that could not be delivered. \<open>claimJobForDelivery\<close> is one transaction
  holding the agent's advisory lock; \<open>SKIP LOCKED\<close> passes over rows a concurrent transaction
  holds, so the set of those rows is an argument. The token \<open>gen_random_uuid()\<close> draws is an
  argument too.
\<close>

definition MAX_AGENT_IN_FLIGHT_JOBS :: nat where "MAX_AGENT_IN_FLIGHT_JOBS = 500"
definition CLAIM_LEASE_SECONDS :: int where "CLAIM_LEASE_SECONDS = STALE_CLAIM_SECONDS"
definition MAX_DELIVERY_ATTEMPTS :: nat where "MAX_DELIVERY_ATTEMPTS = 5"

record ClaimedJobRow =
  cj_id :: string
  cj_agentId :: string
  cj_printerId :: string
  cj_documentType :: "string option"
  cj_status :: JobStatus
  cj_payload :: json
  cj_expiresAt :: time
  cj_retries :: nat
  cj_deliveryAttempts :: nat
  cj_claimToken :: "string option"
  cj_error :: "string option"
  cj_createdAt :: time
  cj_requestId :: "string option"

definition CLAIM_RETURNING :: "print_job \<Rightarrow> ClaimedJobRow" where
  "CLAIM_RETURNING p = \<lparr>
     cj_id = jb_id p,
     cj_agentId = jb_agent p,
     cj_printerId = jb_printer p,
     cj_documentType = jb_doc_type p,
     cj_status = jb_status p,
     cj_payload = jb_payload p,
     cj_expiresAt = jb_expires p,
     cj_retries = jb_retries p,
     cj_deliveryAttempts = jb_attempts p,
     cj_claimToken = jb_token p,
     cj_error = jb_error p,
     cj_createdAt = jb_created p,
     cj_requestId = jb_request_id p\<rparr>"

text \<open>
  \<open>JOIN agents .. JOIN printers .. AND a.lifecycle = 'active' AND a.status = 'online' AND
  pr.lifecycle = 'active' AND pr.status = 'online'\<close>: primary keys make the join at most one
  row per job, so a job counts once when its agent and its printer are there and ready.
\<close>

definition agent_ready :: "agent \<Rightarrow> bool" where
  "agent_ready a \<longleftrightarrow> ag_lifecycle a = Active \<and> ag_status a = Online"

definition printer_ready :: "printer \<Rightarrow> bool" where
  "printer_ready pr \<longleftrightarrow> pr_lifecycle pr = Active \<and> pr_status pr = ''online''"

definition joined_ready :: "gateway_db \<Rightarrow> print_job \<Rightarrow> bool" where
  "joined_ready db p \<longleftrightarrow>
     list_ex (\<lambda>a. ag_id a = jb_agent p \<and> ag_tenant a = jb_tenant p \<and> agent_ready a) (agents db)
     \<and> list_ex (\<lambda>pr. pr_id pr = jb_printer p \<and> pr_tenant pr = jb_tenant p \<and> printer_ready pr) (printers db)"

definition live_where :: "gateway_db \<Rightarrow> time \<Rightarrow> string \<Rightarrow> print_job \<Rightarrow> bool" where
  "live_where db now agentId p \<longleftrightarrow>
     jb_agent p = agentId
     \<and> List.member [Claimed, Printing] (jb_status p)
     \<and> jb_expires p > now
     \<and> joined_ready db p"

definition inFlight :: "gateway_db \<Rightarrow> time \<Rightarrow> string \<Rightarrow> nat" where
  "inFlight db now agentId = count_where (live_where db now agentId) (print_jobs db)"

definition claim_lock_where :: "gateway_db \<Rightarrow> time \<Rightarrow> string \<Rightarrow> string \<Rightarrow> print_job \<Rightarrow> bool" where
  "claim_lock_where db now jobId agentId p \<longleftrightarrow>
     jb_id p = jobId
     \<and> jb_agent p = agentId
     \<and> jb_status p = Queued
     \<and> jb_expires p > now
     \<and> jb_attempts p < MAX_DELIVERY_ATTEMPTS
     \<and> jb_retries p < MAX_RETRIES
     \<and> joined_ready db p"

text \<open>\<open>tenant_id = (SELECT tenant_id FROM agents WHERE id = ..)\<close>: false when there is no such agent.\<close>

definition agent_tenant_is :: "gateway_db \<Rightarrow> string \<Rightarrow> string \<Rightarrow> bool" where
  "agent_tenant_is db agentId tenantId \<longleftrightarrow>
     map_option ag_tenant (row_by ag_id agentId (agents db)) = Some tenantId"

definition claim_update_where :: "gateway_db \<Rightarrow> time \<Rightarrow> string \<Rightarrow> string \<Rightarrow> print_job \<Rightarrow> bool" where
  "claim_update_where db now jobId agentId p \<longleftrightarrow>
     jb_id p = jobId
     \<and> agent_tenant_is db agentId (jb_tenant p)
     \<and> jb_agent p = agentId
     \<and> jb_status p = Queued
     \<and> jb_expires p > now"

definition claim_set :: "time \<Rightarrow> string \<Rightarrow> print_job \<Rightarrow> print_job" where
  "claim_set now token p = p\<lparr>
     jb_status := Claimed,
     jb_claimed_at := Some now,
     jb_updated := now,
     jb_token := Some token,
     jb_delivered_at := None,
     jb_acked_at := None,
     jb_attempts := jb_attempts p + 1\<rparr>"

fun first_row :: "'r list \<Rightarrow> 'r option" where
  "first_row [] = None"
| "first_row (r # _) = Some r"

definition claimJobForDelivery ::
  "time \<Rightarrow> (string \<Rightarrow> bool) \<Rightarrow> string \<Rightarrow> string \<Rightarrow> string \<Rightarrow> gateway_db
     \<Rightarrow> gateway_db \<times> ClaimedJobRow option" where
  "claimJobForDelivery now lockedElsewhere token jobId agentId db =
     (if inFlight db now agentId \<ge> MAX_AGENT_IN_FLIGHT_JOBS then (db, None)
      else
        let locked = select_where (\<lambda>p. claim_lock_where db now jobId agentId p \<and> \<not> lockedElsewhere (jb_id p))
                       (print_jobs db)
        in if length locked = 0 then (db, None)
           else
             let guard = claim_update_where db now jobId agentId;
                 claimed = update_returning guard (claim_set now token) (print_jobs db)
             in (db\<lparr>print_jobs := update_where guard (claim_set now token) (print_jobs db)\<rparr>,
                 map_option CLAIM_RETURNING (first_row claimed)))"

section \<open>Evidence\<close>

definition delivered_set :: "clocks \<Rightarrow> print_job \<Rightarrow> print_job" where
  "delivered_set c p = p\<lparr>jb_delivered_at := Some (app_now c), jb_updated := app_now c\<rparr>"

definition markJobDelivered ::
  "clocks \<Rightarrow> string \<Rightarrow> string \<Rightarrow> string option \<Rightarrow> gateway_db \<Rightarrow> gateway_db \<times> bool" where
  "markJobDelivered c jobId agentId claimToken db =
     (let guard = fencedDeliveryWrite jobId agentId claimToken [Claimed, Printing];
          res = update_returning guard (delivered_set c) (print_jobs db)
      in (db\<lparr>print_jobs := update_where guard (delivered_set c) (print_jobs db)\<rparr>, length res > 0))"

definition ack_set :: "clocks \<Rightarrow> print_job \<Rightarrow> print_job" where
  "ack_set c p = p\<lparr>
     jb_acked_at := coalesce (jb_acked_at p) (db_now c),
     jb_delivered_at := coalesce (jb_delivered_at p) (db_now c),
     jb_updated := app_now c\<rparr>"

definition recordJobAck ::
  "clocks \<Rightarrow> string \<Rightarrow> string \<Rightarrow> string option \<Rightarrow> gateway_db \<Rightarrow> gateway_db \<times> bool" where
  "recordJobAck c jobId agentId claimToken db =
     (let guard = fencedDeliveryWrite jobId agentId claimToken [Claimed, Printing];
          res = update_returning guard (ack_set c) (print_jobs db)
      in (db\<lparr>print_jobs := update_where guard (ack_set c) (print_jobs db)\<rparr>, length res > 0))"

section \<open>Release\<close>

datatype ReleaseOutcome = Requeued | ReleaseFailed | Noop

definition release_where :: "string \<Rightarrow> string \<Rightarrow> string option \<Rightarrow> print_job \<Rightarrow> bool" where
  "release_where jobId agentId claimToken p \<longleftrightarrow>
     jb_id p = jobId
     \<and> jb_agent p = agentId
     \<and> jb_status p = Claimed
     \<and> jb_token p = claimToken
     \<and> jb_delivered_at p = None
     \<and> jb_acked_at p = None
     \<and> jb_attempts p < MAX_DELIVERY_ATTEMPTS"

definition release_set :: "time \<Rightarrow> string \<Rightarrow> print_job \<Rightarrow> print_job" where
  "release_set now reason p = p\<lparr>
     jb_status := Queued,
     jb_claimed_at := None,
     jb_token := None,
     jb_updated := now,
     jb_error := Some reason\<rparr>"

definition give_up_where :: "string \<Rightarrow> string \<Rightarrow> string option \<Rightarrow> print_job \<Rightarrow> bool" where
  "give_up_where jobId agentId claimToken p \<longleftrightarrow>
     jb_id p = jobId
     \<and> jb_agent p = agentId
     \<and> jb_status p = Claimed
     \<and> jb_token p = claimToken
     \<and> jb_delivered_at p = None
     \<and> jb_acked_at p = None
     \<and> jb_attempts p \<ge> MAX_DELIVERY_ATTEMPTS"

definition give_up_set :: "time \<Rightarrow> string \<Rightarrow> print_job \<Rightarrow> print_job" where
  "give_up_set now reason p = p\<lparr>
     jb_status := Failed,
     jb_updated := now,
     jb_error := Some (reason @ '' (giving up after '' @ nat_str MAX_DELIVERY_ATTEMPTS @ '' delivery attempts)'')\<rparr>"

text \<open>The two statements are separate transactions; \<open>now1\<close> and \<open>now2\<close> are their times.\<close>

definition releaseUndeliveredClaim ::
  "time \<Rightarrow> time \<Rightarrow> string \<Rightarrow> string \<Rightarrow> string option \<Rightarrow> string \<Rightarrow> gateway_db
     \<Rightarrow> gateway_db \<times> ReleaseOutcome" where
  "releaseUndeliveredClaim now1 now2 jobId agentId claimToken reason db =
     (let guard1 = release_where jobId agentId claimToken;
          requeued = update_returning guard1 (release_set now1 reason) (print_jobs db);
          db1 = db\<lparr>print_jobs := update_where guard1 (release_set now1 reason) (print_jobs db)\<rparr>
      in if length requeued > 0 then (db1, Requeued)
         else
           let guard2 = give_up_where jobId agentId claimToken;
               failed = update_returning guard2 (give_up_set now2 reason) (print_jobs db1);
               db2 = db1\<lparr>print_jobs := update_where guard2 (give_up_set now2 reason) (print_jobs db1)\<rparr>
           in if length failed > 0 then (db2, ReleaseFailed) else (db2, Noop))"

end
