(* ===== verification/Agent_Jobs.thy ===== *)
theory Agent_Jobs
  imports Job_Delivery
begin

text \<open>
  \<open>src/app/api/agent/jobs/route.ts\<close>: the agent's poll (GET) and its status report (PATCH).

  The poll is one transaction. Its statement reads candidates from the snapshot it starts
  with and then locks and updates the rows as they are by then; \<open>poll_claim\<close> takes both
  databases, and \<open>poll_jobs\<close> is the poll during which nobody else commits.

  The report reads the job, decides, and writes with the fence of \<^theory_text>\<open>Job_Fencing\<close>.
  \<open>patch_decide\<close> is everything up to the write, over the row it read; \<open>patch_commit\<close> is
  the write and the reply, over the database as it is when the write runs.
\<close>

definition MAX_CLAIM_BATCH :: nat where "MAX_CLAIM_BATCH = 20"
definition MAX_ERROR_LENGTH :: nat where "MAX_ERROR_LENGTH = 2000"

section \<open>The poll\<close>

text \<open>The poll joins on the ids alone.\<close>

definition poll_joined_ready :: "gateway_db \<Rightarrow> print_job \<Rightarrow> bool" where
  "poll_joined_ready db p \<longleftrightarrow>
     list_ex (\<lambda>a. ag_id a = jb_agent p \<and> agent_ready a) (agents db)
     \<and> list_ex (\<lambda>pr. pr_id pr = jb_printer p \<and> printer_ready pr) (printers db)"

definition poll_live_where :: "gateway_db \<Rightarrow> time \<Rightarrow> string \<Rightarrow> print_job \<Rightarrow> bool" where
  "poll_live_where db now agentId p \<longleftrightarrow>
     jb_agent p = agentId
     \<and> List.member [Claimed, Printing] (jb_status p)
     \<and> jb_expires p > now
     \<and> poll_joined_ready db p"

definition poll_inFlight :: "gateway_db \<Rightarrow> time \<Rightarrow> string \<Rightarrow> nat" where
  "poll_inFlight db now agentId = count_where (poll_live_where db now agentId) (print_jobs db)"

definition stale_candidate_where :: "gateway_db \<Rightarrow> time \<Rightarrow> string \<Rightarrow> print_job \<Rightarrow> bool" where
  "stale_candidate_where db now agentId p \<longleftrightarrow>
     jb_agent p = agentId
     \<and> jb_expires p > now
     \<and> jb_status p = Claimed
     \<and> jb_delivered_at p = None
     \<and> jb_acked_at p = None
     \<and> jb_updated p < now - STALE_CLAIM_SECONDS * 1000
     \<and> jb_retries p < MAX_RETRIES
     \<and> jb_attempts p < MAX_DELIVERY_ATTEMPTS
     \<and> poll_joined_ready db p"

definition queued_candidate_where :: "gateway_db \<Rightarrow> time \<Rightarrow> string \<Rightarrow> nat \<Rightarrow> print_job \<Rightarrow> bool" where
  "queued_candidate_where db now agentId queuedLimit p \<longleftrightarrow>
     jb_agent p = agentId
     \<and> jb_expires p > now
     \<and> jb_status p = Queued
     \<and> jb_attempts p < MAX_DELIVERY_ATTEMPTS
     \<and> jb_retries p < MAX_RETRIES
     \<and> queuedLimit > 0
     \<and> poll_joined_ready db p"

record candidate =
  ca_id :: string
  ca_created :: time
  ca_priority :: nat

definition candidate_of :: "nat \<Rightarrow> print_job \<Rightarrow> candidate" where
  "candidate_of priority p = \<lparr>ca_id = jb_id p, ca_created = jb_created p, ca_priority = priority\<rparr>"

definition queued_limit :: "gateway_db \<Rightarrow> time \<Rightarrow> string \<Rightarrow> nat" where
  "queued_limit db now agentId =
     (let remainingSlots = MAX_AGENT_IN_FLIGHT_JOBS - poll_inFlight db now agentId
      in min MAX_CLAIM_BATCH remainingSlots)"

definition candidate_ids :: "gateway_db \<Rightarrow> time \<Rightarrow> string \<Rightarrow> candidate list" where
  "candidate_ids db now agentId =
     (let limit = queued_limit db now agentId;
          stale = order_limit jb_created MAX_CLAIM_BATCH
                    (select_where (stale_candidate_where db now agentId) (print_jobs db));
          queued = order_limit jb_created limit
                    (select_where (queued_candidate_where db now agentId limit) (print_jobs db))
      in map (candidate_of 0) stale @ map (candidate_of 1) queued)"

text \<open>
  The rows \<open>claimable\<close> locks: candidates whose job, agent and printer are there and ready in
  \<open>db\<close>, in the order of priority and then age, rows locked elsewhere passed over, at most
  \<open>MAX_CLAIM_BATCH\<close>.
\<close>

definition claimable_ids ::
  "(string \<Rightarrow> bool) \<Rightarrow> candidate list \<Rightarrow> gateway_db \<Rightarrow> string list" where
  "claimable_ids lockedElsewhere cands db =
     map ca_id
       (take MAX_CLAIM_BATCH
         (filter (\<lambda>c. list_ex (\<lambda>p. jb_id p = ca_id c \<and> poll_joined_ready db p) (print_jobs db)
                       \<and> \<not> lockedElsewhere (ca_id c))
           (sort_key ca_priority (sort_key ca_created cands))))"

definition poll_set :: "time \<Rightarrow> (string \<Rightarrow> string) \<Rightarrow> print_job \<Rightarrow> print_job" where
  "poll_set now uuid p = p\<lparr>
     jb_status := Claimed,
     jb_claimed_at := Some now,
     jb_updated := now,
     jb_token := Some (uuid (jb_id p)),
     jb_acked_at := None,
     jb_attempts := jb_attempts p + 1,
     jb_retries := (if jb_status p = Claimed then jb_retries p + 1 else jb_retries p)\<rparr>"

text \<open>\<open>uuid\<close> gives the token drawn for each row; \<open>snap\<close> is the statement's snapshot.\<close>

definition poll_claim ::
  "time \<Rightarrow> (string \<Rightarrow> bool) \<Rightarrow> (string \<Rightarrow> string) \<Rightarrow> string \<Rightarrow> gateway_db \<Rightarrow> gateway_db
     \<Rightarrow> gateway_db \<times> ClaimedJobRow list" where
  "poll_claim now lockedElsewhere uuid agentId snap db =
     (let ids = claimable_ids lockedElsewhere (candidate_ids snap now agentId) db;
          guard = (\<lambda>p. List.member ids (jb_id p))
      in (db\<lparr>print_jobs := update_where guard (poll_set now uuid) (print_jobs db)\<rparr>,
          map CLAIM_RETURNING (update_returning guard (poll_set now uuid) (print_jobs db))))"

definition poll_jobs ::
  "time \<Rightarrow> (string \<Rightarrow> bool) \<Rightarrow> (string \<Rightarrow> string) \<Rightarrow> agent option \<Rightarrow> gateway_db
     \<Rightarrow> gateway_db \<times> (http + (ClaimedJobRow \<times> PhysicalOutcome) list)" where
  "poll_jobs now lockedElsewhere uuid auth db =
     (case auth of
        None \<Rightarrow> (db, Inl (error_reply 401 ''Unauthorized''))
      | Some a \<Rightarrow>
          (let (db', rows) = poll_claim now lockedElsewhere uuid (ag_id a) db db
           in (db', Inr (map (\<lambda>row. (row, derivePhysicalOutcome (status_str (cj_status row)) (cj_error row))) rows))))"

section \<open>The status report\<close>

text \<open>
  What the handler does with the row it read: it replies without a write, it fails with an
  exception the framework answers, or it goes on to one of its four fenced writes.
\<close>

datatype patch_plan =
    PatchReply http
  | PatchThrow
  | PatchExpire string JobStatus "string option" "string option"
  | PatchReject string JobStatus "string option" string
  | PatchPostExpiry string JobStatus "string option" string
  | PatchReport string JobStatus JobStatus "string option" "string option" bool

definition bounded_token :: "json option \<Rightarrow> string option" where
  "bounded_token raw =
     (case as_string raw of
        Some t \<Rightarrow> if length t > 0 \<and> length t \<le> 120 then Some t else None
      | None \<Rightarrow> None)"

definition patch_expiry_error :: "print_job \<Rightarrow> string option" where
  "patch_expiry_error job =
     (if jb_status job = Printing then Some ''JOB_EXPIRED_DURING_PRINT: physical output is unknown''
      else if jb_status job = Claimed \<and> (jb_delivered_at job \<noteq> None \<or> jb_acked_at job \<noteq> None)
      then Some ''UNKNOWN_PARTIAL_DELIVERY: job expired after delivery without an execution report''
      else None)"

definition post_expiry_error :: "string option \<Rightarrow> string" where
  "post_expiry_error errorMessage =
     take MAX_ERROR_LENGTH
       (PRINTED_POST_EXPIRATION_MARKER @ '': physical print completed after TTL expiry'' @
        (if truthy errorMessage then '' ('' @ or_empty errorMessage @ '')'' else ''''))"

definition patch_decide_job ::
  "time \<Rightarrow> string \<Rightarrow> JobStatus \<Rightarrow> string option \<Rightarrow> string \<Rightarrow> string option \<Rightarrow> print_job \<Rightarrow> patch_plan" where
  "patch_decide_job nowMs jobId requestedStatus errorMessage reason claimToken job =
     (let currentStatus = jb_status job in
      if requestedStatus \<noteq> Expired \<and> truthy (jb_token job) \<and> claimToken \<noteq> jb_token job then
        PatchReply (reply 409 [(''error'', JStr ''Stale claim token: this attempt was superseded by a newer claim''),
                               (''code'', JStr ''STALE_CLAIM''), (''status'', JStr (status_str currentStatus))])
      else if requestedStatus = Expired then
        PatchExpire jobId currentStatus claimToken (patch_expiry_error job)
      else if requestedStatus = Queued \<and> currentStatus = Claimed then
        (if \<not> List.member AGENT_REQUEUE_REASONS reason then
           PatchReply (error_reply 409 ''Invalid status transition: claimed -> queued requires an explicit pre-execution rejection reason'')
         else PatchReject jobId currentStatus claimToken reason)
      else if currentStatus = Failed \<and> requestedStatus = Success
              \<and> \<not> isLateSuccessAllowed currentStatus (jb_error job) (jb_updated job) nowMs then
        PatchReply (error_reply 409 ''Invalid status transition: failed -> success (late success not allowed for this job)'')
      else
        let lateSuccess = (currentStatus = Failed \<and> requestedStatus = Success) in
        if currentStatus = Expired \<and> requestedStatus = Success then
          (if \<not> isExpiredLateSuccessAllowed currentStatus (jb_expires job) nowMs then
             PatchReply (reply 409 [(''error'', JStr ''Invalid status transition: expired -> success (outside physical grace window)''),
                                    (''status'', JStr (status_str currentStatus))])
           else PatchPostExpiry jobId currentStatus claimToken (post_expiry_error errorMessage))
        else if \<not> canTransition currentStatus requestedStatus lateSuccess then
          PatchReply (error_reply 409 (''Invalid status transition: '' @ status_str currentStatus @ '' -> '' @ status_str requestedStatus))
        else
          PatchReport jobId currentStatus requestedStatus claimToken
            (if lateSuccess
             then Some (''LATE_SUCCESS: '' @ (case jb_error job of Some e \<Rightarrow> e | None \<Rightarrow> ''AGENT_EXECUTION_TIMEOUT''))
             else errorMessage)
            lateSuccess)"

text \<open>
  The request: the validated agent, the Content-Length, the parsed body (\<^const>\<open>None\<close> when
  it is no JSON). \<open>readJob\<close> is the SELECT of the job by id, tenant and agent. Destructuring a
  \<open>null\<close> body throws.
\<close>

definition patch_decide ::
  "time \<Rightarrow> agent option \<Rightarrow> js_number option \<Rightarrow> json option \<Rightarrow> (string \<Rightarrow> print_job option) \<Rightarrow> patch_plan" where
  "patch_decide nowMs auth contentLength body readJob =
     (case auth of
        None \<Rightarrow> PatchReply (error_reply 401 ''Unauthorized'')
      | Some a \<Rightarrow>
      if hasBodyOverLimit contentLength (64 * 1024) then PatchReply (error_reply 413 ''Request body too large'')
      else case body of
        None \<Rightarrow> PatchReply (error_reply 400 ''Invalid JSON body'')
      | Some JNull \<Rightarrow> PatchThrow
      | Some v \<Rightarrow>
      (case as_string (jget v ''jobId'') of
         None \<Rightarrow> PatchReply (error_reply 400 ''jobId is required'')
       | Some jobId \<Rightarrow>
       if jobId = '''' then PatchReply (error_reply 400 ''jobId is required'')
       else case Option.bind (as_string (jget v ''status'')) parseJobStatus of
         None \<Rightarrow> PatchReply (error_reply 400 ''status must be a valid job status'')
       | Some requestedStatus \<Rightarrow>
         (let errorMessage = (case as_string (jget v ''error'') of
                                Some e \<Rightarrow> if length e > 0 then Some (take MAX_ERROR_LENGTH e) else None
                              | None \<Rightarrow> None);
              reason = (case as_string (jget v ''reason'') of Some r \<Rightarrow> js_trim r | None \<Rightarrow> '''');
              claimToken = bounded_token (jget v ''claimToken'')
          in case readJob jobId of
               None \<Rightarrow> PatchReply (error_reply 404 ''Job not found'')
             | Some job \<Rightarrow> patch_decide_job nowMs jobId requestedStatus errorMessage reason claimToken job)))"

subsection \<open>The fenced writes\<close>

definition patch_expire_where :: "time \<Rightarrow> string \<Rightarrow> string \<Rightarrow> JobStatus \<Rightarrow> string option \<Rightarrow> print_job \<Rightarrow> bool" where
  "patch_expire_where now jobId agentId currentStatus claimToken p \<longleftrightarrow>
     fencedJobWrite jobId agentId currentStatus claimToken p \<and> jb_expires p \<le> now"

definition patch_expire_set :: "clocks \<Rightarrow> string option \<Rightarrow> print_job \<Rightarrow> print_job" where
  "patch_expire_set c expiryError p = p\<lparr>
     jb_status := Expired,
     jb_error := expiryError,
     jb_updated := app_now c,
     jb_delivered_at := (if List.member [Claimed, Printing] (jb_status p)
                         then coalesce (jb_delivered_at p) (db_now c) else jb_delivered_at p)\<rparr>"

definition patch_reject_set :: "clocks \<Rightarrow> string \<Rightarrow> print_job \<Rightarrow> print_job" where
  "patch_reject_set c reason p = p\<lparr>
     jb_status := Queued,
     jb_token := None,
     jb_delivered_at := None,
     jb_acked_at := None,
     jb_claimed_at := None,
     jb_error := Some (''Agent returned job before execution ('' @ reason @ '')''),
     jb_updated := app_now c,
     jb_attempts := jb_attempts p - 1,
     jb_retries := jb_retries p + 1\<rparr>"

definition patch_report_set :: "clocks \<Rightarrow> JobStatus \<Rightarrow> string option \<Rightarrow> print_job \<Rightarrow> print_job" where
  "patch_report_set c requestedStatus nextError p = p\<lparr>
     jb_status := requestedStatus,
     jb_error := nextError,
     jb_updated := app_now c,
     jb_delivered_at := coalesce (jb_delivered_at p) (db_now c)\<rparr>"

text \<open>The predicate and the assignment of a plan's UPDATE; a plan without a write has none.\<close>

fun patch_write ::
  "clocks \<Rightarrow> string \<Rightarrow> patch_plan \<Rightarrow> ((print_job \<Rightarrow> bool) \<times> (print_job \<Rightarrow> print_job)) option" where
  "patch_write c agentId (PatchReply r) = None"
| "patch_write c agentId PatchThrow = None"
| "patch_write c agentId (PatchExpire jobId cur token err) =
     Some (patch_expire_where (db_now c) jobId agentId cur token, patch_expire_set c err)"
| "patch_write c agentId (PatchReject jobId cur token reason) =
     Some (fencedJobWrite jobId agentId cur token, patch_reject_set c reason)"
| "patch_write c agentId (PatchPostExpiry jobId cur token err) =
     Some (fencedJobWrite jobId agentId cur token, patch_report_set c Success (Some err))"
| "patch_write c agentId (PatchReport jobId cur req token err late) =
     Some (fencedJobWrite jobId agentId cur token, patch_report_set c req err)"

definition concurrent_reply :: "JobStatus option \<Rightarrow> http" where
  "concurrent_reply winner =
     reply 409 [(''error'', JStr (''Concurrent status transition rejected'' @
                    (case winner of Some s \<Rightarrow> ''; current status is '' @ status_str s | None \<Rightarrow> ''''))),
                (''status'', JStr (case winner of Some s \<Rightarrow> status_str s | None \<Rightarrow> ''unknown''))]"

definition success_reply :: "JobStatus \<Rightarrow> PhysicalOutcome \<Rightarrow> (string \<times> json) list \<Rightarrow> http" where
  "success_reply st po extra =
     reply 200 ([(''success'', JBool True), (''status'', JStr (status_str st)),
                 (''physicalOutcome'', JStr (outcome_str po))] @ extra)"

text \<open>The reply to a write that matched one row, and the metrics it counts.\<close>

fun patch_done :: "patch_plan \<Rightarrow> http \<times> string list" where
  "patch_done (PatchExpire jobId cur token err) =
     (success_reply Expired (derivePhysicalOutcome ''expired'' err) [],
      ''print_jobs_expired_total'' # (if truthy err then [''print_jobs_unknown_total''] else []))"
| "patch_done (PatchReject jobId cur token reason) =
     (success_reply Queued NotPrinted [], [''print_jobs_rejected_total''])"
| "patch_done (PatchPostExpiry jobId cur token err) =
     (success_reply Success (derivePhysicalOutcome ''success'' (Some err))
        [(''physicalDetail'', JStr PRINTED_POST_EXPIRATION_MARKER)],
      [''print_jobs_success_total'', ''print_jobs_late_success_total''])"
| "patch_done (PatchReport jobId cur req token err late) =
     (let po = derivePhysicalOutcome (status_str req) err
      in (success_reply req po [],
          [''print_jobs_'' @ status_str req @ ''_total'']
          @ (if po = UnknownOutcome then [''print_jobs_unknown_total''] else [])
          @ (if late then [''print_jobs_late_success_total''] else [])))"
| "patch_done (PatchReply r) = (r, [])"
| "patch_done PatchThrow = (error_reply 500 '''', [])"

text \<open>The reply to a write that matched no row; \<open>winner\<close> is the job's status read again.\<close>

fun patch_lost :: "patch_plan \<Rightarrow> JobStatus option \<Rightarrow> http" where
  "patch_lost (PatchExpire jobId cur token err) winner =
     reply 409 [(''error'', JStr ''Job has not expired or the worker claim is stale''),
                (''code'', JStr ''JOB_NOT_EXPIRED_OR_STALE'')]"
| "patch_lost plan winner = concurrent_reply winner"

fun plan_job :: "patch_plan \<Rightarrow> string" where
  "plan_job (PatchExpire jobId cur token err) = jobId"
| "plan_job (PatchReject jobId cur token reason) = jobId"
| "plan_job (PatchPostExpiry jobId cur token err) = jobId"
| "plan_job (PatchReport jobId cur req token err late) = jobId"
| "plan_job plan = ''''"

text \<open>\<^const>\<open>None\<close> as the reply stands for the exception that leaves the handler.\<close>

definition patch_commit ::
  "clocks \<Rightarrow> agent \<Rightarrow> patch_plan \<Rightarrow> gateway_db \<Rightarrow> gateway_db \<times> http option \<times> string list" where
  "patch_commit c a plan db =
     (case patch_write c (ag_id a) plan of
        None \<Rightarrow> (case plan of PatchThrow \<Rightarrow> (db, None, []) | _ \<Rightarrow> (db, Some (fst (patch_done plan)), []))
      | Some (guard, upd) \<Rightarrow>
          (let updated = update_returning guard upd (print_jobs db);
               db' = db\<lparr>print_jobs := update_where guard upd (print_jobs db)\<rparr>
           in if length updated \<noteq> 1
              then (db', Some (patch_lost plan
                      (map_option jb_status (find_first (agent_job_where (plan_job plan) a) (print_jobs db')))), [])
              else (db', Some (fst (patch_done plan)), snd (patch_done plan))))"

text \<open>The handler with nobody else committing between its read and its write.\<close>

definition patch_job ::
  "clocks \<Rightarrow> agent option \<Rightarrow> js_number option \<Rightarrow> json option \<Rightarrow> gateway_db
     \<Rightarrow> gateway_db \<times> http option \<times> string list" where
  "patch_job c auth contentLength body db =
     (case auth of
        None \<Rightarrow> (db, Some (error_reply 401 ''Unauthorized''), [])
      | Some a \<Rightarrow>
          patch_commit c a
            (patch_decide (app_now c) auth contentLength body
               (\<lambda>jobId. find_first (agent_job_where jobId a) (print_jobs db))) db)"

end
