(* ===== verification/Job_Insert.thy ===== *)
theory Job_Insert
  imports Schema
begin

text \<open>
  Rows entering and leaving \<open>print_jobs\<close>, and the lease refresh: the INSERT of
  \<open>insertQueuedJobAtomically\<close> (\<open>src/lib/print-job-service.ts\<close>), the keep-alive part of the
  heartbeat (\<open>src/app/api/agent/heartbeat/route.ts\<close>) and the manager's cleanup of finished
  jobs (\<open>src/app/api/jobs/route.ts\<close>, DELETE).
\<close>

section \<open>The new row\<close>

record job_values =
  jv_id :: string
  jv_tenant :: string
  jv_api_key :: "string option"
  jv_destination :: "string option"
  jv_doc_type :: "string option"
  jv_agent :: string
  jv_printer :: string
  jv_payload :: json
  jv_requested_by :: string
  jv_request_id :: "string option"
  jv_idem :: "string option"
  jv_expires :: time

text \<open>Columns the INSERT leaves out take the defaults of the schema; \<open>now\<close> is the database's.\<close>

definition queued_row :: "time \<Rightarrow> job_values \<Rightarrow> print_job" where
  "queued_row now v = \<lparr>
     jb_id = jv_id v,
     jb_tenant = jv_tenant v,
     jb_api_key = jv_api_key v,
     jb_destination = jv_destination v,
     jb_doc_type = jv_doc_type v,
     jb_agent = jv_agent v,
     jb_printer = jv_printer v,
     jb_status = Queued,
     jb_payload = jv_payload v,
     jb_error = None,
     jb_requested_by = Some (jv_requested_by v),
     jb_request_id = jv_request_id v,
     jb_idem = jv_idem v,
     jb_retries = 0,
     jb_claimed_at = None,
     jb_token = None,
     jb_attempts = 0,
     jb_delivered_at = None,
     jb_acked_at = None,
     jb_expires = jv_expires v,
     jb_created = now,
     jb_updated = now\<rparr>"

text \<open>
  The INSERT fails on a primary key or idempotency index that is taken, a foreign key without its
  row, or the CHECK on the payload; the transaction then leaves the table as it was.
\<close>

definition insert_allowed :: "time \<Rightarrow> job_values \<Rightarrow> gateway_db \<Rightarrow> bool" where
  "insert_allowed now v db \<longleftrightarrow>
     row_by jb_id (jv_id v) (print_jobs db) = None
     \<and> idempotency_unique (print_jobs db @ [queued_row now v])
     \<and> agent_exists (jv_tenant v) (jv_agent v) db
     \<and> printer_exists (jv_tenant v) (jv_printer v) db
     \<and> api_key_exists (jv_tenant v) (jv_api_key v) db
     \<and> payload_contract_check (jv_payload v)"

definition insert_job :: "time \<Rightarrow> job_values \<Rightarrow> gateway_db \<Rightarrow> gateway_db option" where
  "insert_job now v db =
     (if insert_allowed now v db
      then Some (db\<lparr>print_jobs := print_jobs db @ [queued_row now v]\<rparr>) else None)"

section \<open>Keep-alive\<close>

definition MAX_KEEP_ALIVE_JOB_IDS :: nat where "MAX_KEEP_ALIVE_JOB_IDS = 64"

text \<open>One entry of \<open>keepAliveJobIds\<close>: a bare job id, or an object with an id and a token.\<close>

definition keep_alive_entry :: "json \<Rightarrow> (string \<times> string option) option" where
  "keep_alive_entry entry =
     (case entry of
        JStr s \<Rightarrow> if length s > 0 \<and> length s \<le> 120 then Some (s, None) else None
      | JObj es \<Rightarrow>
          (let jobId = (case as_string (jprop ''jobId'' es) of
                          Some s \<Rightarrow> s
                        | None \<Rightarrow> (case as_string (jprop ''id'' es) of Some s \<Rightarrow> s | None \<Rightarrow> ''''));
               claimToken = (case as_string (jprop ''claimToken'' es) of
                               Some t \<Rightarrow> if length t > 0 \<and> length t \<le> 120 then Some t else None
                             | None \<Rightarrow> None)
           in if length jobId > 0 \<and> length jobId \<le> 120 then Some (jobId, claimToken) else None)
      | _ \<Rightarrow> None)"

text \<open>
  The loop over the entries; an entry that is an array has neither property and adds nothing.
  It stops once \<open>MAX_KEEP_ALIVE_JOB_IDS\<close> pairs are collected.
\<close>

fun keep_alive_pairs :: "json list \<Rightarrow> (string \<times> string option) list \<Rightarrow> (string \<times> string option) list" where
  "keep_alive_pairs [] pairs = pairs"
| "keep_alive_pairs (entry # rest) pairs =
     (let pairs' = (case keep_alive_entry entry of Some pr \<Rightarrow> pairs @ [pr] | None \<Rightarrow> pairs)
      in if length pairs' \<ge> MAX_KEEP_ALIVE_JOB_IDS then pairs' else keep_alive_pairs rest pairs')"

definition keep_alive_tokened_where :: "agent \<Rightarrow> (string \<times> string option) list \<Rightarrow> print_job \<Rightarrow> bool" where
  "keep_alive_tokened_where a tokened p \<longleftrightarrow>
     jb_agent p = ag_id a
     \<and> List.member [Claimed, Printing] (jb_status p)
     \<and> jb_token p \<noteq> None \<and> List.member tokened (jb_id p, jb_token p)"

definition keep_alive_tokenless_where :: "agent \<Rightarrow> (string \<times> string option) list \<Rightarrow> print_job \<Rightarrow> bool" where
  "keep_alive_tokenless_where a tokenless p \<longleftrightarrow>
     jb_tenant p = ag_tenant a
     \<and> jb_agent p = ag_id a
     \<and> List.member [Claimed, Printing] (jb_status p)
     \<and> List.member (map fst tokenless) (jb_id p)
     \<and> jb_token p = None"

definition touch_set :: "time \<Rightarrow> print_job \<Rightarrow> print_job" where
  "touch_set now p = p\<lparr>jb_updated := now\<rparr>"

definition keep_alive :: "clocks \<Rightarrow> agent \<Rightarrow> json list \<Rightarrow> gateway_db \<Rightarrow> gateway_db" where
  "keep_alive c a rawKeepAlive db =
     (let pairs = keep_alive_pairs rawKeepAlive [];
          tokened = filter (\<lambda>pr. snd pr \<noteq> None) pairs;
          tokenless = filter (\<lambda>pr. snd pr = None) pairs;
          t1 = (if length tokened > 0
                then update_where (keep_alive_tokened_where a tokened) (touch_set (db_now c)) (print_jobs db)
                else print_jobs db);
          t2 = (if length tokenless > 0
                then update_where (keep_alive_tokenless_where a tokenless) (touch_set (app_now c)) t1
                else t1)
      in db\<lparr>print_jobs := t2\<rparr>)"

section \<open>Cleanup\<close>

definition TERMINAL_JOB_STATUSES :: "JobStatus list" where
  "TERMINAL_JOB_STATUSES = [Success, Failed, Expired]"

definition cleanup_candidates :: "string \<Rightarrow> time \<Rightarrow> nat \<Rightarrow> gateway_db \<Rightarrow> string list" where
  "cleanup_candidates tenant before limit db =
     map jb_id (order_limit jb_created limit
       (select_where (\<lambda>p. jb_tenant p = tenant \<and> List.member TERMINAL_JOB_STATUSES (jb_status p)
                          \<and> jb_created p < before) (print_jobs db)))"

definition cleanup_jobs :: "string \<Rightarrow> time \<Rightarrow> nat \<Rightarrow> gateway_db \<Rightarrow> gateway_db \<times> nat" where
  "cleanup_jobs tenant before limit db =
     (let candidates = cleanup_candidates tenant before limit db in
      if length candidates = 0 then (db, 0)
      else
        let guard = (\<lambda>p. jb_tenant p = tenant \<and> List.member candidates (jb_id p))
        in (db\<lparr>print_jobs := delete_where guard (print_jobs db)\<rparr>, count_where guard (print_jobs db)))"

section \<open>Lemmas\<close>

lemma keep_alive_pairs_bound:
  "length ps < MAX_KEEP_ALIVE_JOB_IDS \<Longrightarrow> length (keep_alive_pairs es ps) \<le> MAX_KEEP_ALIVE_JOB_IDS"
proof (induction es ps rule: keep_alive_pairs.induct)
  case (1 pairs)
  then show ?case by simp
next
  case (2 entry rest pairs)
  let ?pairs' = "case keep_alive_entry entry of Some pr \<Rightarrow> pairs @ [pr] | None \<Rightarrow> pairs"
  have "length ?pairs' \<le> MAX_KEEP_ALIVE_JOB_IDS"
    using 2(2) by (simp split: option.splits)
  then show ?case
    using 2(1) [of ?pairs'] by (simp add: Let_def)
qed

end
