(* ===== verification/Job_Spec.thy ===== *)
theory Job_Spec
  imports Job_Status
begin

text \<open>
  What the gateway promises about one print job, without tables, clocks and requests: the
  abstract job, its steps, and what follows from them. A job carries its status, the token of
  its live claim, whether anything shows that the agent held it (delivery evidence), and the
  two budgets. A step is a hand-out (the job leaves the gateway towards an agent) or internal.
\<close>

record ajob =
  a_status :: JobStatus
  a_token :: "string option"
  a_evidence :: bool
  a_attempts :: nat
  a_retries :: nat

datatype label = HandOut | Internal

inductive spec_step :: "label \<Rightarrow> ajob \<Rightarrow> ajob \<Rightarrow> bool" where
  idle: "spec_step Internal s s"
| claim: "a_status s = Queued \<Longrightarrow> a_attempts s < 5 \<Longrightarrow> a_retries s < 5 \<Longrightarrow>
     spec_step HandOut s \<lparr>a_status = Claimed, a_token = Some t, a_evidence = False,
       a_attempts = a_attempts s + 1, a_retries = a_retries s\<rparr>"
| reclaim: "a_status s = Claimed \<Longrightarrow> \<not> a_evidence s \<Longrightarrow> a_attempts s < 5 \<Longrightarrow> a_retries s < 5 \<Longrightarrow>
     spec_step HandOut s \<lparr>a_status = Claimed, a_token = Some t, a_evidence = False,
       a_attempts = a_attempts s + 1, a_retries = a_retries s + 1\<rparr>"
| evidence: "a_status s \<in> {Claimed, Printing} \<Longrightarrow>
     spec_step Internal s (s\<lparr>a_evidence := True\<rparr>)"
| release: "a_status s = Claimed \<Longrightarrow> \<not> a_evidence s \<Longrightarrow> a_attempts s < 5 \<Longrightarrow>
     spec_step Internal s (s\<lparr>a_status := Queued, a_token := None\<rparr>)"
| requeue: "a_status s = Claimed \<Longrightarrow> \<not> a_evidence s \<Longrightarrow> a_retries s < 5 \<Longrightarrow>
     spec_step Internal s (s\<lparr>a_status := Queued, a_token := None, a_retries := a_retries s + 1\<rparr>)"
| reject: "a_status s = Claimed \<Longrightarrow>
     spec_step Internal s \<lparr>a_status = Queued, a_token = None, a_evidence = False,
       a_attempts = a_attempts s - 1, a_retries = a_retries s + 1\<rparr>"
| begin_print: "a_status s = Claimed \<Longrightarrow>
     spec_step Internal s (s\<lparr>a_status := Printing, a_evidence := True\<rparr>)"
| finish: "a_status s = Printing \<Longrightarrow>
     spec_step Internal s (s\<lparr>a_status := Success, a_evidence := True\<rparr>)"
| fail: "a_status s \<in> {Claimed, Printing} \<Longrightarrow> (a_evidence s \<longrightarrow> e) \<Longrightarrow>
     spec_step Internal s (s\<lparr>a_status := Failed, a_evidence := e\<rparr>)"
| expire: "(a_evidence s \<longrightarrow> e) \<Longrightarrow>
     spec_step Internal s (s\<lparr>a_status := Expired, a_evidence := e\<rparr>)"
| late_success: "a_status s \<in> {Failed, Expired} \<Longrightarrow>
     spec_step Internal s (s\<lparr>a_status := Success, a_evidence := True\<rparr>)"

inductive_cases handout_step: "spec_step HandOut s s'"
inductive_cases internal_step: "spec_step Internal s s'"

text \<open>The state of a job just accepted.\<close>

definition fresh_ajob :: ajob where
  "fresh_ajob = \<lparr>a_status = Queued, a_token = None, a_evidence = False, a_attempts = 0, a_retries = 0\<rparr>"

text \<open>
  Well-formedness: a queued job carries no token and no evidence; a live claim has a token and
  at least one charged attempt; what has been printing was delivered; and the budgets bound the
  counters. A hand-back may push the retries one past their budget, never further.
\<close>

definition wf_ajob :: "ajob \<Rightarrow> bool" where
  "wf_ajob s \<longleftrightarrow>
     (a_status s = Queued \<longrightarrow> a_token s = None \<and> \<not> a_evidence s)
     \<and> (a_status s \<in> {Claimed, Printing} \<longrightarrow> a_token s \<noteq> None \<and> 1 \<le> a_attempts s \<and> a_retries s \<le> 5)
     \<and> (a_status s \<in> {Printing, Success} \<longrightarrow> a_evidence s)
     \<and> a_attempts s \<le> 5 \<and> a_retries s \<le> 6"

lemma wf_fresh: "wf_ajob fresh_ajob"
  by (simp add: wf_ajob_def fresh_ajob_def)

lemma spec_step_wf: "spec_step l s s' \<Longrightarrow> wf_ajob s \<Longrightarrow> wf_ajob s'"
  by (induction rule: spec_step.induct) (auto simp: wf_ajob_def)

text \<open>A terminal job never goes back to a live status.\<close>

lemma spec_terminal: "spec_step l s s' \<Longrightarrow> isTerminal (a_status s) \<Longrightarrow> isTerminal (a_status s')"
  by (induction rule: spec_step.induct) (auto simp: isTerminal_def)

text \<open>A hand-out starts from a job without evidence.\<close>

lemma spec_handout_no_evidence:
  "spec_step HandOut s s' \<Longrightarrow> wf_ajob s \<Longrightarrow>
     \<not> a_evidence s \<and> a_status s \<in> {Queued, Claimed} \<and> a_status s' = Claimed
     \<and> a_attempts s < 5 \<and> a_retries s < 5 \<and> a_attempts s' = a_attempts s + 1 \<and> a_retries s \<le> a_retries s'"
  by (auto elim!: handout_step simp: wf_ajob_def)

lemma spec_internal_sum:
  "spec_step Internal s s' \<Longrightarrow> a_attempts s + a_retries s \<le> a_attempts s' + a_retries s'"
  by (auto elim!: internal_step)

section \<open>Runs\<close>

text \<open>A run of one job as the labels of its steps; hand-outs are counted along it.\<close>

inductive spec_run :: "ajob \<Rightarrow> label list \<Rightarrow> ajob \<Rightarrow> bool" where
  run_nil: "spec_run s [] s"
| run_snoc: "spec_run s ls s' \<Longrightarrow> spec_step l s' s'' \<Longrightarrow> spec_run s (ls @ [l]) s''"

definition handouts :: "label list \<Rightarrow> nat" where
  "handouts ls = length (filter (\<lambda>l. l = HandOut) ls)"

lemma handouts_simps [simp]:
  "handouts [] = 0"
  "handouts (ls @ [l]) = handouts ls + (if l = HandOut then 1 else 0)"
  by (simp_all add: handouts_def)

lemma spec_run_wf: "spec_run s ls s' \<Longrightarrow> wf_ajob s \<Longrightarrow> wf_ajob s'"
  by (induction rule: spec_run.induct) (auto dest: spec_step_wf)

text \<open>
  The hand-outs so far never exceed the two counters together, and the last hand-out needs both
  counters below 5, so at most 4 + 4 came before it.
\<close>

lemma spec_run_handouts:
  assumes "spec_run s ls s'" and "s = fresh_ajob"
  shows "handouts ls \<le> a_attempts s' + a_retries s' \<and> handouts ls \<le> 9"
  using assms
proof (induction rule: spec_run.induct)
  case (run_nil s)
  then show ?case by simp
next
  case (run_snoc s ls s' l s'')
  have wf: "wf_ajob s'"
    using run_snoc.hyps(1) run_snoc.prems wf_fresh spec_run_wf by blast
  show ?case
  proof (cases l)
    case HandOut
    then show ?thesis
      using run_snoc spec_handout_no_evidence [OF _ wf] by fastforce
  next
    case Internal
    then show ?thesis
      using run_snoc spec_internal_sum by fastforce
  qed
qed

lemma spec_run_terminal:
  "spec_run s ls s' \<Longrightarrow> isTerminal (a_status s) \<Longrightarrow> isTerminal (a_status s') \<and> handouts ls = 0"
proof (induction rule: spec_run.induct)
  case (run_nil s)
  then show ?case by simp
next
  case (run_snoc s ls s' l s'')
  then have "isTerminal (a_status s')" by simp
  with run_snoc show ?case
    by (cases l) (auto dest: spec_terminal elim!: handout_step)
qed

lemma spec_run_append:
  "spec_run s ls s' \<Longrightarrow> spec_step l s' s'' \<Longrightarrow> spec_run s (ls @ [l]) s''"
  by (rule run_snoc)

end
