(* ===== verification/Job_Rows.thy ===== *)
theory Job_Rows
  imports Agent_Jobs Job_Insert Job_Spec
begin

text \<open>
  Every UPDATE of \<open>print_jobs\<close> the gateway issues, as an instance of one contract: the matched
  row keeps its identity, and its abstraction makes a step of \<^theory_text>\<open>Job_Spec\<close>. The locale
  \<open>job_writer\<close> states the contract and lifts it to the table; the interpretations discharge it
  for the statements of the sweep, the delivery path, the agent routes and the heartbeat.
\<close>

definition abs_job :: "print_job \<Rightarrow> ajob" where
  "abs_job p = \<lparr>a_status = jb_status p, a_token = jb_token p, a_evidence = has_evidence p,
     a_attempts = jb_attempts p, a_retries = jb_retries p\<rparr>"

lemma abs_job_simps [simp]:
  "a_status (abs_job p) = jb_status p" "a_token (abs_job p) = jb_token p"
  "a_evidence (abs_job p) = has_evidence p"
  "a_attempts (abs_job p) = jb_attempts p" "a_retries (abs_job p) = jb_retries p"
  by (simp_all add: abs_job_def)

text \<open>The columns no UPDATE writes.\<close>

definition same_job :: "print_job \<Rightarrow> print_job \<Rightarrow> bool" where
  "same_job p q \<longleftrightarrow>
     jb_id q = jb_id p \<and> jb_tenant q = jb_tenant p \<and> jb_agent q = jb_agent p
     \<and> jb_printer q = jb_printer p \<and> jb_payload q = jb_payload p \<and> jb_api_key q = jb_api_key p
     \<and> jb_idem q = jb_idem p \<and> jb_destination q = jb_destination p \<and> jb_doc_type q = jb_doc_type p
     \<and> jb_expires q = jb_expires p \<and> jb_created q = jb_created p"

lemma same_job_refl [simp]: "same_job p p"
  by (simp add: same_job_def)

lemma same_job_id: "same_job p q \<Longrightarrow> jb_id q = jb_id p"
  by (simp add: same_job_def)

definition wf_job :: "print_job \<Rightarrow> bool" where
  "wf_job p \<longleftrightarrow> wf_ajob (abs_job p)"

text \<open>One row from one version of the table to the next.\<close>

definition row_step :: "label \<Rightarrow> print_job \<Rightarrow> print_job \<Rightarrow> bool" where
  "row_step l p q \<longleftrightarrow> same_job p q \<and> spec_step l (abs_job p) (abs_job q)"

lemma row_step_refl [simp]: "row_step Internal p p"
  by (simp add: row_step_def spec_step.idle)

lemma row_step_wf: "row_step l p q \<Longrightarrow> wf_job p \<Longrightarrow> wf_job q"
  unfolding row_step_def wf_job_def using spec_step_wf by blast

definition jobs_ok :: "print_job list \<Rightarrow> bool" where
  "jobs_ok t \<longleftrightarrow> unique_by jb_id t \<and> (\<forall>p \<in> set t. wf_job p)"

text \<open>The contract of one UPDATE statement.\<close>

locale job_writer =
  fixes guard :: "print_job \<Rightarrow> bool" and upd :: "print_job \<Rightarrow> print_job" and lbl :: label
  assumes frame: "guard p \<Longrightarrow> same_job p (upd p)"
    and sim: "guard p \<Longrightarrow> wf_job p \<Longrightarrow> spec_step lbl (abs_job p) (abs_job (upd p))"
begin

sublocale table_update jb_id guard upd
    "\<lambda>p q. wf_job p \<longrightarrow> row_step lbl p q \<or> q = p"
  by unfold_locales (auto simp: row_step_def sim frame same_job_id)

lemma writer_row: "guard p \<Longrightarrow> wf_job p \<Longrightarrow> row_step lbl p (upd p)"
  by (simp add: row_step_def frame sim)

lemma writer_wf: "guard p \<Longrightarrow> wf_job p \<Longrightarrow> wf_job (upd p)"
  using row_step_wf writer_row by blast

lemma writer_ok: "jobs_ok t \<Longrightarrow> jobs_ok (update_where guard upd t)"
  unfolding jobs_ok_def by (auto simp: set_update_where unique_update writer_wf)

text \<open>Each row of the new table comes from the row of the same key; the label tells which moved.\<close>

lemma writer_origin:
  assumes "jobs_ok t" and "q \<in> set (update_where guard upd t)"
  shows "\<exists>p \<in> set t. if guard p then row_step lbl p q \<and> q = upd p else q = p"
proof -
  obtain p where p: "p \<in> set t" "q = (if guard p then upd p else p)"
    using assms(2) by (auto simp: set_update_where)
  then have "if guard p then row_step lbl p q \<and> q = upd p else q = p"
    using assms(1) by (simp add: jobs_ok_def writer_row)
  with p(1) show ?thesis by blast
qed

lemma writer_internal:
  assumes "lbl = Internal" and "jobs_ok t" and "q \<in> set (update_where guard upd t)"
  shows "\<exists>p \<in> set t. row_step Internal p q"
proof -
  obtain p where p: "p \<in> set t" "if guard p then row_step lbl p q \<and> q = upd p else q = p"
    using writer_origin [OF assms(2,3)] by blast
  have "row_step Internal p q"
    using p(2) assms(1) by (cases "guard p") auto
  with p(1) show ?thesis by blast
qed

end

lemmas job_writer_simps =
  same_job_def abs_job_def has_evidence_def wf_job_def wf_ajob_def

section \<open>The statements of the sweep\<close>

interpretation sweep_expired: job_writer "sweep_expired_where now scope" "sweep_expired_set now" Internal
  for now scope
proof unfold_locales
  fix p assume g: "sweep_expired_where now scope p"
  show "same_job p (sweep_expired_set now p)"
    by (simp add: same_job_def sweep_expired_set_def)
  have "spec_step Internal (abs_job p) ((abs_job p)\<lparr>a_status := Expired, a_evidence := has_evidence p\<rparr>)"
    by (rule spec_step.expire) simp
  then show "spec_step Internal (abs_job p) (abs_job (sweep_expired_set now p))"
    by (simp add: abs_job_def sweep_expired_set_def has_evidence_def)
qed

interpretation sweep_requeued: job_writer "sweep_requeued_where now scope" "sweep_requeued_set now" Internal
  for now scope
proof unfold_locales
  fix p assume g: "sweep_requeued_where now scope p"
  show "same_job p (sweep_requeued_set now p)"
    by (simp add: same_job_def sweep_requeued_set_def)
  have "spec_step Internal (abs_job p)
      ((abs_job p)\<lparr>a_status := Queued, a_token := None, a_retries := a_retries (abs_job p) + 1\<rparr>)"
    using g by (intro spec_step.requeue) (simp_all add: sweep_requeued_where_def has_evidence_def MAX_RETRIES_def)
  then show "spec_step Internal (abs_job p) (abs_job (sweep_requeued_set now p))"
    using g by (simp add: abs_job_def sweep_requeued_set_def sweep_requeued_where_def has_evidence_def)
qed

text \<open>The three statements that fail a job share their shape.\<close>

lemma fail_step:
  assumes "jb_status p \<in> {Claimed, Printing}" and "jb_status q = Failed" and "jb_token q = jb_token p"
    and "has_evidence q = has_evidence p" and "jb_attempts q = jb_attempts p" and "jb_retries q = jb_retries p"
  shows "spec_step Internal (abs_job p) (abs_job q)"
proof -
  have "spec_step Internal (abs_job p) ((abs_job p)\<lparr>a_status := Failed, a_evidence := has_evidence p\<rparr>)"
    using assms(1) by (intro spec_step.fail) simp_all
  then show ?thesis using assms by (simp add: abs_job_def)
qed

interpretation sweep_silent: job_writer "sweep_silent_where now scope" "sweep_silent_set now" Internal
  for now scope
  by unfold_locales
    (auto simp: same_job_def sweep_silent_set_def sweep_silent_where_def has_evidence_def intro!: fail_step)

interpretation sweep_printing: job_writer "sweep_stale_printing_where now scope" "sweep_stale_printing_set now" Internal
  for now scope
  by unfold_locales
    (auto simp: same_job_def sweep_stale_printing_set_def sweep_stale_printing_where_def has_evidence_def intro!: fail_step)

interpretation sweep_exhausted: job_writer "sweep_exhausted_where now scope" "sweep_exhausted_set now" Internal
  for now scope
  by unfold_locales
    (auto simp: same_job_def sweep_exhausted_set_def sweep_exhausted_where_def has_evidence_def intro!: fail_step)

section \<open>The delivery path\<close>

text \<open>The claim's UPDATE, with the budgets its locking SELECT has checked on the row.\<close>

interpretation claim: job_writer
  "\<lambda>p. claim_update_where db now jobId agentId p \<and> jb_attempts p < MAX_DELIVERY_ATTEMPTS \<and> jb_retries p < MAX_RETRIES"
  "claim_set now token" HandOut
  for db now jobId agentId token
proof unfold_locales
  fix p
  assume g: "claim_update_where db now jobId agentId p \<and> jb_attempts p < MAX_DELIVERY_ATTEMPTS \<and> jb_retries p < MAX_RETRIES"
  show "same_job p (claim_set now token p)"
    by (simp add: same_job_def claim_set_def)
  have "spec_step HandOut (abs_job p) \<lparr>a_status = Claimed, a_token = Some token, a_evidence = False,
      a_attempts = a_attempts (abs_job p) + 1, a_retries = a_retries (abs_job p)\<rparr>"
    using g by (intro spec_step.claim) (simp_all add: claim_update_where_def MAX_RETRIES_def MAX_DELIVERY_ATTEMPTS_def)
  then show "spec_step HandOut (abs_job p) (abs_job (claim_set now token p))"
    by (simp add: abs_job_def claim_set_def has_evidence_def)
qed

lemma evidence_step:
  assumes "jb_status p \<in> {Claimed, Printing}" and "jb_status q = jb_status p" and "jb_token q = jb_token p"
    and "has_evidence q" and "jb_attempts q = jb_attempts p" and "jb_retries q = jb_retries p"
  shows "spec_step Internal (abs_job p) (abs_job q)"
proof -
  have "spec_step Internal (abs_job p) ((abs_job p)\<lparr>a_evidence := True\<rparr>)"
    using assms(1) by (intro spec_step.evidence) simp_all
  then show ?thesis using assms by (simp add: abs_job_def)
qed

interpretation delivered: job_writer
  "fencedDeliveryWrite jobId agentId token [Claimed, Printing]" "delivered_set c" Internal
  for jobId agentId token c
  by unfold_locales
    (auto simp: same_job_def delivered_set_def fencedDeliveryWrite_def has_evidence_def List.member_iff intro!: evidence_step)

interpretation ack: job_writer
  "fencedDeliveryWrite jobId agentId token [Claimed, Printing]" "ack_set c" Internal
  for jobId agentId token c
  by unfold_locales
    (auto simp: same_job_def ack_set_def fencedDeliveryWrite_def has_evidence_def List.member_iff intro!: evidence_step)

interpretation release: job_writer "release_where jobId agentId token" "release_set now reason" Internal
  for jobId agentId token now reason
proof unfold_locales
  fix p assume g: "release_where jobId agentId token p"
  show "same_job p (release_set now reason p)"
    by (simp add: same_job_def release_set_def)
  have "spec_step Internal (abs_job p) ((abs_job p)\<lparr>a_status := Queued, a_token := None\<rparr>)"
    using g by (intro spec_step.release) (simp_all add: release_where_def has_evidence_def MAX_DELIVERY_ATTEMPTS_def)
  then show "spec_step Internal (abs_job p) (abs_job (release_set now reason p))"
    by (simp add: abs_job_def release_set_def has_evidence_def)
qed

interpretation give_up: job_writer "give_up_where jobId agentId token" "give_up_set now reason" Internal
  for jobId agentId token now reason
  by unfold_locales
    (auto simp: same_job_def give_up_set_def give_up_where_def has_evidence_def intro!: fail_step)

section \<open>The poll\<close>

text \<open>What the candidates' conditions say of a row, whatever the fleet and the limits.\<close>

definition poll_row_where :: "time \<Rightarrow> print_job \<Rightarrow> bool" where
  "poll_row_where now p \<longleftrightarrow>
     jb_expires p > now \<and> jb_attempts p < MAX_DELIVERY_ATTEMPTS \<and> jb_retries p < MAX_RETRIES
     \<and> (jb_status p = Queued
        \<or> jb_status p = Claimed \<and> jb_delivered_at p = None \<and> jb_acked_at p = None \<and> claim_stale now p)"

interpretation poll: job_writer "\<lambda>p. poll_row_where now p \<and> List.member ids (jb_id p)" "poll_set now uuid" HandOut
  for now ids uuid
proof unfold_locales
  fix p assume g: "poll_row_where now p \<and> List.member ids (jb_id p)"
  show "same_job p (poll_set now uuid p)"
    by (simp add: same_job_def poll_set_def)
  assume wf: "wf_job p"
  show "spec_step HandOut (abs_job p) (abs_job (poll_set now uuid p))"
  proof (cases "jb_status p = Queued")
    case True
    have "spec_step HandOut (abs_job p) \<lparr>a_status = Claimed, a_token = Some (uuid (jb_id p)), a_evidence = False,
        a_attempts = a_attempts (abs_job p) + 1, a_retries = a_retries (abs_job p)\<rparr>"
      using g True by (intro spec_step.claim) (simp_all add: poll_row_where_def MAX_RETRIES_def MAX_DELIVERY_ATTEMPTS_def)
    then show ?thesis
      using True wf by (simp add: abs_job_def poll_set_def has_evidence_def wf_job_def wf_ajob_def)
  next
    case False
    have "spec_step HandOut (abs_job p) \<lparr>a_status = Claimed, a_token = Some (uuid (jb_id p)), a_evidence = False,
        a_attempts = a_attempts (abs_job p) + 1, a_retries = a_retries (abs_job p) + 1\<rparr>"
      using g False by (intro spec_step.reclaim)
        (simp_all add: poll_row_where_def MAX_RETRIES_def MAX_DELIVERY_ATTEMPTS_def has_evidence_def)
    then show ?thesis
      using False g by (simp add: abs_job_def poll_set_def has_evidence_def poll_row_where_def)
  qed
qed

section \<open>The agent's report\<close>

text \<open>What \<open>patch_decide\<close> never plans is excluded here; \<open>patch_decide_legal\<close> below shows it.\<close>

fun legal_plan :: "patch_plan \<Rightarrow> bool" where
  "legal_plan (PatchReject jobId cur token reason) = (cur = Claimed)"
| "legal_plan (PatchPostExpiry jobId cur token err) = (cur = Expired)"
| "legal_plan (PatchReport jobId cur req token err late) =
     (cur = Claimed \<and> req \<in> {Printing, Failed} \<or> cur = Printing \<and> req \<in> {Success, Failed}
      \<or> cur = Failed \<and> req = Success)"
| "legal_plan plan = True"

interpretation patch_expire: job_writer "patch_expire_where now jobId agentId cur token" "patch_expire_set c err" Internal
  for now jobId agentId cur token c err
proof unfold_locales
  fix p assume g: "patch_expire_where now jobId agentId cur token p"
  show "same_job p (patch_expire_set c err p)"
    by (simp add: same_job_def patch_expire_set_def)
  have "spec_step Internal (abs_job p)
      ((abs_job p)\<lparr>a_status := Expired, a_evidence := has_evidence (patch_expire_set c err p)\<rparr>)"
    by (rule spec_step.expire) (auto simp: has_evidence_def patch_expire_set_def)
  then show "spec_step Internal (abs_job p) (abs_job (patch_expire_set c err p))"
    by (simp add: abs_job_def patch_expire_set_def)
qed

interpretation patch_reject: job_writer "fencedJobWrite jobId agentId Claimed token" "patch_reject_set c reason" Internal
  for jobId agentId token c reason
proof unfold_locales
  fix p assume g: "fencedJobWrite jobId agentId Claimed token p"
  show "same_job p (patch_reject_set c reason p)"
    by (simp add: same_job_def patch_reject_set_def)
  have "spec_step Internal (abs_job p) \<lparr>a_status = Queued, a_token = None, a_evidence = False,
      a_attempts = a_attempts (abs_job p) - 1, a_retries = a_retries (abs_job p) + 1\<rparr>"
    using g by (intro spec_step.reject) (simp add: fencedJobWrite_def)
  then show "spec_step Internal (abs_job p) (abs_job (patch_reject_set c reason p))"
    by (simp add: abs_job_def patch_reject_set_def has_evidence_def)
qed

lemma report_step:
  assumes "cur = Claimed \<and> req \<in> {Printing, Failed} \<or> cur = Printing \<and> req \<in> {Success, Failed}
      \<or> cur \<in> {Failed, Expired} \<and> req = Success"
    and "jb_status p = cur"
  shows "spec_step Internal (abs_job p) (abs_job (patch_report_set c req err p))"
proof -
  have abs: "abs_job (patch_report_set c req err p) = (abs_job p)\<lparr>a_status := req, a_evidence := True\<rparr>"
    by (simp add: abs_job_def patch_report_set_def has_evidence_def)
  consider "cur = Claimed" "req = Printing" | "cur \<in> {Claimed, Printing}" "req = Failed"
    | "cur = Printing" "req = Success" | "cur \<in> {Failed, Expired}" "req = Success"
    using assms(1) by auto
  then show ?thesis
    unfolding abs using assms(2)
    by cases (auto intro: spec_step.intros)
qed

interpretation patch_report: job_writer
  "\<lambda>p. (cur = Claimed \<and> req \<in> {Printing, Failed} \<or> cur = Printing \<and> req \<in> {Success, Failed}
      \<or> cur \<in> {Failed, Expired} \<and> req = Success) \<and> fencedJobWrite jobId agentId cur token p"
  "patch_report_set c req err" Internal
  for cur req jobId agentId token c err
proof (unfold_locales, goal_cases)
  case (1 p)
  show ?case by (simp add: same_job_def patch_report_set_def)
next
  case (2 p)
  then show ?case by (intro report_step [of cur]) (auto simp: fencedJobWrite_def)
qed

section \<open>The lease refresh\<close>

lemma touch_step: "spec_step Internal (abs_job p) (abs_job (touch_set now p))"
  by (simp add: abs_job_def touch_set_def has_evidence_def spec_step.idle)

interpretation touch: job_writer "guard" "touch_set now" Internal for guard now
  by unfold_locales (auto simp: same_job_def touch_set_def intro: touch_step [unfolded touch_set_def])

section \<open>The plans of the report handler\<close>

lemma patch_decide_job_legal:
  "legal_plan (patch_decide_job nowMs jobId req errorMessage reason claimToken job)"
  by (cases "jb_status job"; cases req)
    (simp_all add: patch_decide_job_def Let_def canTransition_def)

lemma patch_decide_legal: "legal_plan (patch_decide nowMs auth cl body readJob)"
  by (simp add: patch_decide_def Let_def patch_decide_job_legal split: option.split json.split)

text \<open>A plan's UPDATE keeps the contract.\<close>

lemma patch_write_writer:
  assumes "legal_plan plan" and "patch_write c agentId plan = Some (g, u)"
  shows "job_writer g u Internal"
proof (cases plan)
  case (PatchExpire jobId cur token err)
  then show ?thesis using assms patch_expire.job_writer_axioms by auto
next
  case (PatchReject jobId cur token reason)
  then show ?thesis using assms patch_reject.job_writer_axioms by auto
next
  case (PatchPostExpiry jobId cur token err)
  then show ?thesis using assms patch_report.job_writer_axioms [of Expired Success] by auto
next
  case (PatchReport jobId cur req token err late)
  then show ?thesis using assms patch_report.job_writer_axioms [of cur req] by auto
qed (use assms in auto)

end
