(* ===== verification/Job_Machine.thy ===== *)
theory Job_Machine
  imports Job_Rows
begin

text \<open>
  The database under the gateway's operations in any order. Each operation is one transaction
  (or one statement where the code runs statements on their own), with every choice of the
  environment an argument: clocks, drawn tokens, rows locked elsewhere, and for the agent's
  report the possibly outdated row it read. \<open>exec\<close> runs one; it also returns the jobs it
  handed out. The lemmas show that each row makes one step of \<^theory_text>\<open>Job_Spec\<close>, so
  every fact about abstract runs holds of the rows of a reachable database.
\<close>

datatype sweep_stmt = SwExpired | SwRequeued | SwSilent | SwPrinting | SwExhausted

fun sweep_write :: "sweep_stmt \<Rightarrow> time \<Rightarrow> string option \<Rightarrow> (print_job \<Rightarrow> bool) \<times> (print_job \<Rightarrow> print_job)" where
  "sweep_write SwExpired now scope = (sweep_expired_where now scope, sweep_expired_set now)"
| "sweep_write SwRequeued now scope = (sweep_requeued_where now scope, sweep_requeued_set now)"
| "sweep_write SwSilent now scope = (sweep_silent_where now scope, sweep_silent_set now)"
| "sweep_write SwPrinting now scope = (sweep_stale_printing_where now scope, sweep_stale_printing_set now)"
| "sweep_write SwExhausted now scope = (sweep_exhausted_where now scope, sweep_exhausted_set now)"

datatype db_op =
    Op_Claim time "string \<Rightarrow> bool" string string string
  | Op_Poll time "string \<Rightarrow> bool" "string \<Rightarrow> string" string
  | Op_Delivered clocks string string "string option"
  | Op_Ack clocks string string "string option"
  | Op_Release time string string "string option" string
  | Op_GiveUp time string string "string option" string
  | Op_Sweep sweep_stmt time "string option"
  | Op_Report clocks agent "js_number option" "json option" "string \<Rightarrow> print_job option"
  | Op_KeepAlive clocks agent "json list"
  | Op_Insert time job_values
  | Op_Cleanup string time nat
  | Op_Other gateway_db

definition with_update :: "(print_job \<Rightarrow> bool) \<Rightarrow> (print_job \<Rightarrow> print_job) \<Rightarrow> gateway_db \<Rightarrow> gateway_db" where
  "with_update g u db = db\<lparr>print_jobs := update_where g u (print_jobs db)\<rparr>"

text \<open>
  One operation. The second component lists the ids of the jobs handed to an agent. The last
  operation is any change that leaves the job table alone.
\<close>

fun exec :: "db_op \<Rightarrow> gateway_db \<Rightarrow> gateway_db \<times> string list" where
  "exec (Op_Claim now locked token jobId agentId) db =
     (let (db', row) = claimJobForDelivery now locked token jobId agentId db
      in (db', map cj_id (case row of None \<Rightarrow> [] | Some r \<Rightarrow> [r])))"
| "exec (Op_Poll now locked uuid agentId) db =
     (let (db', rows) = poll_claim now locked uuid agentId db db in (db', map cj_id rows))"
| "exec (Op_Delivered c jobId agentId token) db = (fst (markJobDelivered c jobId agentId token db), [])"
| "exec (Op_Ack c jobId agentId token) db = (fst (recordJobAck c jobId agentId token db), [])"
| "exec (Op_Release now jobId agentId token reason) db =
     (with_update (release_where jobId agentId token) (release_set now reason) db, [])"
| "exec (Op_GiveUp now jobId agentId token reason) db =
     (with_update (give_up_where jobId agentId token) (give_up_set now reason) db, [])"
| "exec (Op_Sweep st now scope) db =
     (with_update (fst (sweep_write st now scope)) (snd (sweep_write st now scope)) db, [])"
| "exec (Op_Report c a contentLength body readJob) db =
     (fst (patch_commit c a (patch_decide (app_now c) (Some a) contentLength body readJob) db), [])"
| "exec (Op_KeepAlive c a entries) db = (keep_alive c a entries db, [])"
| "exec (Op_Insert now v) db = (case insert_job now v db of None \<Rightarrow> (db, []) | Some db' \<Rightarrow> (db', []))"
| "exec (Op_Cleanup tenant before limit) db = (fst (cleanup_jobs tenant before limit db), [])"
| "exec (Op_Other db0) db = (db0\<lparr>print_jobs := print_jobs db\<rparr>, [])"

definition db_ok :: "gateway_db \<Rightarrow> bool" where
  "db_ok db \<longleftrightarrow> jobs_ok (print_jobs db)"

text \<open>How a row of the new table came about.\<close>

definition row_label :: "string list \<Rightarrow> print_job \<Rightarrow> label" where
  "row_label hs q = (if jb_id q \<in> set hs then HandOut else Internal)"

definition row_origin :: "print_job list \<Rightarrow> string list \<Rightarrow> print_job \<Rightarrow> bool" where
  "row_origin t hs q \<longleftrightarrow>
     (\<exists>p \<in> set t. row_step (row_label hs q) p q)
     \<or> (\<exists>now v. q = queued_row now v \<and> jb_id q \<notin> jb_id ` set t \<and> hs = [])"

section \<open>Every operation moves the rows as the specification says\<close>

lemma update_where_cong:
  "(\<And>p. p \<in> set t \<Longrightarrow> g p = g' p) \<Longrightarrow> update_where g f t = update_where g' f t"
  by (simp add: update_where_def)

lemma update_returning_cong:
  "(\<And>p. p \<in> set t \<Longrightarrow> g p = g' p) \<Longrightarrow> update_returning g f t = update_returning g' f t"
  unfolding update_returning_def by (metis filter_cong)

lemma jobs_ok_same: "jobs_ok t \<Longrightarrow> p \<in> set t \<Longrightarrow> q \<in> set t \<Longrightarrow> jb_id p = jb_id q \<Longrightarrow> p = q"
  unfolding jobs_ok_def using unique_by_same by metis

lemma origin_internal:
  assumes "job_writer g u Internal" and "jobs_ok t" and "q \<in> set (update_where g u t)"
  shows "row_origin t [] q"
  using job_writer.writer_internal [OF assms(1) refl assms(2,3)]
  by (simp add: row_origin_def row_label_def)

text \<open>A hand-out statement: the ids it reports are those of the rows it matched.\<close>

lemma origin_handout:
  assumes w: "job_writer g u HandOut" and ok: "jobs_ok t" and q: "q \<in> set (update_where g u t)"
    and hs: "set hs = jb_id ` {p \<in> set t. g p}"
  shows "row_origin t hs q"
proof -
  obtain p where p: "p \<in> set t" and "if g p then row_step HandOut p q \<and> q = u p else q = p"
    using job_writer.writer_origin [OF w ok q] by blast
  moreover have "jb_id p \<in> set hs \<longleftrightarrow> g p"
    unfolding hs using p jobs_ok_same [OF ok] by blast
  ultimately have "row_step (row_label hs q) p q"
    by (cases "g p") (auto simp: row_label_def row_step_def same_job_id spec_step.idle)
  with p show ?thesis unfolding row_origin_def by blast
qed

lemma internal_update:
  assumes "job_writer g u Internal" and "jobs_ok t"
  shows "jobs_ok (update_where g u t) \<and> (\<forall>q \<in> set (update_where g u t). row_origin t [] q)"
  using job_writer.writer_ok [OF assms] origin_internal [OF assms] by blast

lemma handout_update:
  assumes "job_writer g u HandOut" and "jobs_ok t" and "set hs = jb_id ` {p \<in> set t. g p}"
  shows "jobs_ok (update_where g u t) \<and> (\<forall>q \<in> set (update_where g u t). row_origin t hs q)"
  using job_writer.writer_ok [OF assms(1,2)] origin_handout [OF assms(1,2) _ assms(3)] by blast

lemma origin_unchanged: "q \<in> set t \<Longrightarrow> row_origin t [] q"
  unfolding row_origin_def row_label_def by (auto intro: bexI [of _ q])

subsection \<open>Claiming\<close>

lemma cj_id_returning [simp]: "cj_id (CLAIM_RETURNING p) = jb_id p"
  by (simp add: CLAIM_RETURNING_def)

lemma claim_guard_budget:
  assumes ok: "jobs_ok t" and l: "select_where (\<lambda>p. claim_lock_where db now jobId agentId p \<and> \<not> locked (jb_id p)) t \<noteq> []"
    and p: "p \<in> set t" and "claim_update_where db now jobId agentId p"
  shows "jb_attempts p < MAX_DELIVERY_ATTEMPTS \<and> jb_retries p < MAX_RETRIES \<and> joined_ready db p"
proof -
  obtain r where r: "r \<in> set t" "claim_lock_where db now jobId agentId r"
    using l by (auto simp: select_where_def filter_empty_conv)
  moreover have "jb_id p = jb_id r"
    using r(2) assms(4) by (simp add: claim_lock_where_def claim_update_where_def)
  ultimately have "p = r"
    using jobs_ok_same [OF ok p] by blast
  with r(2) show ?thesis by (simp add: claim_lock_where_def)
qed

lemma claim_cases:
  assumes ok: "jobs_ok (print_jobs db)" and e: "claimJobForDelivery now locked token jobId agentId db = (db', row)"
  shows "(db' = db \<and> row = None)
    \<or> (\<exists>g. job_writer g (claim_set now token) HandOut \<and> db' = with_update g (claim_set now token) db
         \<and> row = map_option CLAIM_RETURNING (first_row (update_returning g (claim_set now token) (print_jobs db)))
         \<and> (\<forall>p. g p \<longrightarrow> claim_update_where db now jobId agentId p)
         \<and> (\<forall>p \<in> set (print_jobs db). claim_update_where db now jobId agentId p \<longrightarrow> g p \<and> joined_ready db p)
         \<and> inFlight db now agentId < MAX_AGENT_IN_FLIGHT_JOBS)"
proof (cases "inFlight db now agentId \<ge> MAX_AGENT_IN_FLIGHT_JOBS
    \<or> select_where (\<lambda>p. claim_lock_where db now jobId agentId p \<and> \<not> locked (jb_id p)) (print_jobs db) = []")
  case True
  then have "db' = db \<and> row = None"
    using e by (cases "inFlight db now agentId \<ge> MAX_AGENT_IN_FLIGHT_JOBS") (simp_all add: claimJobForDelivery_def Let_def)
  then show ?thesis by (rule disjI1)
next
  case False
  let ?l = "claim_update_where db now jobId agentId"
  let ?g = "\<lambda>p. ?l p \<and> jb_attempts p < MAX_DELIVERY_ATTEMPTS \<and> jb_retries p < MAX_RETRIES"
  have bud: "\<And>p. p \<in> set (print_jobs db) \<Longrightarrow> ?l p \<Longrightarrow> ?g p \<and> joined_ready db p"
    using claim_guard_budget [OF ok] False by blast
  then have eq: "\<And>p. p \<in> set (print_jobs db) \<Longrightarrow> ?l p = ?g p" by blast
  have u: "update_where ?l (claim_set now token) (print_jobs db) = update_where ?g (claim_set now token) (print_jobs db)"
    by (rule update_where_cong) (rule eq)
  have r: "update_returning ?l (claim_set now token) (print_jobs db) = update_returning ?g (claim_set now token) (print_jobs db)"
    by (rule update_returning_cong) (rule eq)
  have w: "job_writer ?g (claim_set now token) HandOut"
    by (rule claim.job_writer_axioms)
  have "db' = with_update ?g (claim_set now token) db"
    "row = map_option CLAIM_RETURNING (first_row (update_returning ?g (claim_set now token) (print_jobs db)))"
    using e False unfolding claimJobForDelivery_def Let_def with_update_def by (auto simp: u r)
  then show ?thesis
    using w bud False by (intro disjI2 exI [of _ ?g]) auto
qed

lemma first_row_Some: "first_row xs = Some x \<Longrightarrow> x \<in> set xs"
  by (cases xs) auto

lemma claim_handed:
  assumes "\<forall>p. g p \<longrightarrow> jb_id p = i" and "\<And>p. jb_id (u p) = jb_id p"
  shows "set (map cj_id (case map_option CLAIM_RETURNING (first_row (update_returning g u t)) of None \<Rightarrow> [] | Some r \<Rightarrow> [r]))
    = jb_id ` {p \<in> set t. g p}"
proof (cases "filter g t")
  case Nil
  then have "{p \<in> set t. g p} = {}" by (auto simp: filter_empty_conv)
  with Nil show ?thesis by (simp add: update_returning_def)
next
  case (Cons a ys)
  have "set (filter g t) = insert a (set ys)" using Cons by simp
  then have "{p \<in> set t. g p} = insert a (set ys)" by auto
  moreover from this assms(1) have "\<forall>p \<in> insert a (set ys). jb_id p = i" by blast
  ultimately show ?thesis
    using assms(2) Cons by (auto simp: update_returning_def)
qed

subsection \<open>Polling\<close>

lemma candidate_row:
  assumes "c \<in> set (candidate_ids db now agentId)"
  shows "\<exists>p \<in> set (print_jobs db). jb_id p = ca_id c \<and> poll_row_where now p \<and> jb_agent p = agentId"
proof -
  let ?l = "queued_limit db now agentId"
  obtain p where "c = candidate_of 0 p \<or> c = candidate_of 1 p"
    and p: "p \<in> set (select_where (stale_candidate_where db now agentId) (print_jobs db))
       \<or> p \<in> set (select_where (queued_candidate_where db now agentId ?l) (print_jobs db))"
    using assms set_order_limit unfolding candidate_ids_def Let_def by fastforce
  then show ?thesis
    by (intro bexI [of _ p])
      (auto simp: candidate_of_def select_where_def poll_row_where_def stale_candidate_where_def
        queued_candidate_where_def claim_stale_def)
qed

lemma claimable_candidate:
  "i \<in> set (claimable_ids locked cands db) \<Longrightarrow> \<exists>c \<in> set cands. ca_id c = i"
  unfolding claimable_ids_def by (auto dest!: in_set_takeD)

lemma poll_ids_row:
  assumes ok: "jobs_ok (print_jobs db)" and p: "p \<in> set (print_jobs db)"
    and i: "List.member (claimable_ids locked (candidate_ids db now agentId) db) (jb_id p)"
  shows "poll_row_where now p \<and> jb_agent p = agentId"
proof -
  obtain c where "c \<in> set (candidate_ids db now agentId)" "ca_id c = jb_id p"
    using claimable_candidate i by (force simp: List.member_iff)
  then obtain r where "r \<in> set (print_jobs db)" "jb_id r = jb_id p" "poll_row_where now r" "jb_agent r = agentId"
    using candidate_row by fastforce
  then show ?thesis
    using jobs_ok_same [OF ok _ p] by metis
qed

lemma poll_cases:
  assumes ok: "jobs_ok (print_jobs db)" and e: "poll_claim now locked uuid agentId db db = (db', rows)"
  shows "\<exists>g. job_writer g (poll_set now uuid) HandOut \<and> db' = with_update g (poll_set now uuid) db
    \<and> set (map cj_id rows) = jb_id ` {p \<in> set (print_jobs db). g p}
    \<and> rows = map CLAIM_RETURNING (update_returning g (poll_set now uuid) (print_jobs db))
    \<and> (\<forall>p. g p \<longleftrightarrow> poll_row_where now p
         \<and> List.member (claimable_ids locked (candidate_ids db now agentId) db) (jb_id p))"
proof -
  let ?ids = "claimable_ids locked (candidate_ids db now agentId) db"
  let ?g = "\<lambda>p. poll_row_where now p \<and> List.member ?ids (jb_id p)"
  have eq: "\<And>p. p \<in> set (print_jobs db) \<Longrightarrow> List.member ?ids (jb_id p) = ?g p"
    using poll_ids_row [OF ok] by blast
  have w: "job_writer ?g (poll_set now uuid) HandOut"
    by (rule poll.job_writer_axioms)
  have u: "update_where (\<lambda>p. List.member ?ids (jb_id p)) (poll_set now uuid) (print_jobs db)
      = update_where ?g (poll_set now uuid) (print_jobs db)"
    by (rule update_where_cong) (rule eq)
  have r: "update_returning (\<lambda>p. List.member ?ids (jb_id p)) (poll_set now uuid) (print_jobs db)
      = update_returning ?g (poll_set now uuid) (print_jobs db)"
    by (rule update_returning_cong) (rule eq)
  have db': "db' = with_update ?g (poll_set now uuid) db"
    and rows: "rows = map CLAIM_RETURNING (update_returning ?g (poll_set now uuid) (print_jobs db))"
    using e unfolding poll_claim_def Let_def with_update_def u r by simp_all
  have "\<And>p. jb_id (poll_set now uuid p) = jb_id p"
    by (simp add: poll_set_def)
  then have "set (map cj_id rows) = jb_id ` {p \<in> set (print_jobs db). ?g p}"
    unfolding rows by (auto simp: update_returning_def)
  then show ?thesis
    using w db' rows by (intro exI [of _ ?g]) simp
qed

subsection \<open>Summary\<close>

lemma print_jobs_with_update [simp]: "print_jobs (with_update g u db) = update_where g u (print_jobs db)"
  by (simp add: with_update_def)

lemma keep_alive_two:
  "\<exists>g1 g2. print_jobs (keep_alive c a es db)
     = update_where g2 (touch_set (app_now c)) (update_where g1 (touch_set (db_now c)) (print_jobs db))"
proof -
  have none: "\<And>f t. update_where (\<lambda>_. False) f t = t"
    by (simp add: update_where_none)
  show ?thesis
    unfolding keep_alive_def Let_def
    by (cases "0 < length (filter (\<lambda>pr. snd pr \<noteq> None) (keep_alive_pairs es []))";
        cases "0 < length (filter (\<lambda>pr. snd pr = None) (keep_alive_pairs es []))")
      (auto, metis none, metis none, metis none)
qed

lemma touch_twice_origin:
  assumes ok: "jobs_ok t"
    and q: "q \<in> set (update_where g2 (touch_set n2) (update_where g1 (touch_set n1) t))"
  shows "row_origin t [] q"
proof -
  obtain p where p: "p \<in> set t" and "q = p \<or> q = touch_set n1 p \<or> q = touch_set n2 p
      \<or> q = touch_set n2 (touch_set n1 p)"
    using q by (auto simp: set_update_where split: if_splits)
  then have "row_step Internal p q"
    by (auto simp: row_step_def same_job_def touch_set_def abs_job_def has_evidence_def spec_step.idle)
  with p show ?thesis by (auto simp: row_origin_def row_label_def)
qed

lemma cleanup_rows: "set (print_jobs (fst (cleanup_jobs tenant before limit db))) \<subseteq> set (print_jobs db)"
  by (auto simp: cleanup_jobs_def Let_def delete_where_def)

lemma cleanup_ok: "jobs_ok (print_jobs db) \<Longrightarrow> jobs_ok (print_jobs (fst (cleanup_jobs tenant before limit db)))"
  by (auto simp: cleanup_jobs_def Let_def jobs_ok_def unique_by_delete set_delete_where)

lemma queued_row_wf [simp]: "wf_job (queued_row now v)"
  by (simp add: wf_job_def wf_ajob_def queued_row_def has_evidence_def)

lemma abs_queued_row [simp]: "abs_job (queued_row now v) = fresh_ajob"
  by (simp add: abs_job_def queued_row_def fresh_ajob_def has_evidence_def)

lemma insert_new_id:
  "insert_job now v db = Some db' \<Longrightarrow>
     print_jobs db' = print_jobs db @ [queued_row now v] \<and> jv_id v \<notin> jb_id ` set (print_jobs db)"
  by (auto simp: insert_job_def insert_allowed_def row_by_def find_first_None_iff split: if_splits)

lemma jobs_ok_insert:
  "jobs_ok t \<Longrightarrow> jv_id v \<notin> jb_id ` set t \<Longrightarrow> jobs_ok (t @ [queued_row now v])"
  by (auto simp: jobs_ok_def unique_by_def queued_row_def [of now v, THEN arg_cong [of _ _ jb_id]])

lemma sweep_writer: "job_writer (fst (sweep_write st now scope)) (snd (sweep_write st now scope)) Internal"
  by (cases st)
    (simp_all add: sweep_expired.job_writer_axioms sweep_requeued.job_writer_axioms
      sweep_silent.job_writer_axioms sweep_printing.job_writer_axioms sweep_exhausted.job_writer_axioms)

lemma patch_commit_table:
  assumes "legal_plan plan"
  shows "print_jobs (fst (patch_commit c a plan db)) = print_jobs db
    \<or> (\<exists>g u. patch_write c (ag_id a) plan = Some (g, u) \<and> job_writer g u Internal
         \<and> print_jobs (fst (patch_commit c a plan db)) = update_where g u (print_jobs db))"
proof (cases "patch_write c (ag_id a) plan")
  case None
  then show ?thesis by (auto simp: patch_commit_def split: patch_plan.splits)
next
  case (Some gu)
  obtain g u where gu: "gu = (g, u)" by (cases gu)
  have "print_jobs (fst (patch_commit c a plan db)) = update_where g u (print_jobs db)"
    using Some gu by (simp add: patch_commit_def Let_def)
  then show ?thesis
    using Some gu patch_write_writer [OF assms] by blast
qed

lemma internal_ok:
  assumes "job_writer g u Internal" and "db_ok db" and "print_jobs db' = update_where g u (print_jobs db)"
  shows "db_ok db' \<and> (\<forall>q \<in> set (print_jobs db'). row_origin (print_jobs db) [] q)"
  using internal_update [OF assms(1)] assms(2,3) by (simp add: db_ok_def)

lemma unchanged_ok:
  assumes "db_ok db" and "print_jobs db' = print_jobs db"
  shows "db_ok db' \<and> (\<forall>q \<in> set (print_jobs db'). row_origin (print_jobs db) [] q)"
  using assms by (simp add: db_ok_def origin_unchanged)


lemma claim_step_ok:
  assumes ok: "db_ok db" and e: "claimJobForDelivery now locked token jobId agentId db = (db', row)"
    and hs: "hs = map cj_id (case row of None \<Rightarrow> [] | Some r \<Rightarrow> [r])"
  shows "db_ok db' \<and> (\<forall>q \<in> set (print_jobs db'). row_origin (print_jobs db) hs q)
    \<and> set hs \<subseteq> jb_id ` set (print_jobs db)"
proof -
  have ok': "jobs_ok (print_jobs db)" using ok by (simp add: db_ok_def)
  consider "db' = db" "row = None"
    | g where "job_writer g (claim_set now token) HandOut" "db' = with_update g (claim_set now token) db"
        "row = map_option CLAIM_RETURNING (first_row (update_returning g (claim_set now token) (print_jobs db)))"
        "\<forall>p. g p \<longrightarrow> jb_id p = jobId"
    using claim_cases [OF ok' e] by (auto simp: claim_update_where_def)
  then show ?thesis
  proof cases
    case 1
    then show ?thesis using ok hs by (simp add: origin_unchanged)
  next
    case 2
    have h: "set hs = jb_id ` {p \<in> set (print_jobs db). g p}"
      unfolding hs 2(3) by (rule claim_handed [OF 2(4)]) (simp add: claim_set_def)
    show ?thesis
      using handout_update [OF 2(1) ok' h] h 2(2) by (auto simp: db_ok_def)
  qed
qed

lemma poll_step_ok:
  assumes ok: "db_ok db" and e: "poll_claim now locked uuid agentId db db = (db', rows)"
  shows "db_ok db' \<and> (\<forall>q \<in> set (print_jobs db'). row_origin (print_jobs db) (map cj_id rows) q)
    \<and> set (map cj_id rows) \<subseteq> jb_id ` set (print_jobs db)"
proof -
  have ok': "jobs_ok (print_jobs db)" using ok by (simp add: db_ok_def)
  obtain g where g: "job_writer g (poll_set now uuid) HandOut" "db' = with_update g (poll_set now uuid) db"
    "set (map cj_id rows) = jb_id ` {p \<in> set (print_jobs db). g p}"
    using poll_cases [OF ok' e] by blast
  show ?thesis
    using handout_update [OF g(1) ok' g(3)] g(2,3) by (auto simp: db_ok_def)
qed

lemma insert_step_ok:
  assumes ok: "db_ok db" and i: "insert_job now v db = Some db'"
  shows "db_ok db' \<and> (\<forall>q \<in> set (print_jobs db'). row_origin (print_jobs db) [] q)"
proof -
  have t: "print_jobs db' = print_jobs db @ [queued_row now v]"
    and new: "jv_id v \<notin> jb_id ` set (print_jobs db)"
    using insert_new_id [OF i] by auto
  have "row_origin (print_jobs db) [] (queued_row now v)"
    using new unfolding row_origin_def by (auto simp: queued_row_def)
  then show ?thesis
    using ok t jobs_ok_insert [OF _ new] by (auto simp: db_ok_def intro: origin_unchanged)
qed

lemmas plain_update_ok = internal_ok [OF _ _ print_jobs_with_update]

text \<open>
  The rule of the machine: an operation keeps the table well formed, every row of the new table
  is a step of the row it comes from, or a job just inserted, and only present jobs are handed out.
\<close>

lemma exec_rows:
  assumes ok: "db_ok db" and e: "exec op db = (db', hs)"
  shows "db_ok db' \<and> (\<forall>q \<in> set (print_jobs db'). row_origin (print_jobs db) hs q)
    \<and> set hs \<subseteq> jb_id ` set (print_jobs db)"
proof (cases op)
  case (Op_Claim now locked token jobId agentId)
  obtain db1 row where c: "claimJobForDelivery now locked token jobId agentId db = (db1, row)"
    by (cases "claimJobForDelivery now locked token jobId agentId db")
  have "db1 = db'" "hs = map cj_id (case row of None \<Rightarrow> [] | Some r \<Rightarrow> [r])"
    using e Op_Claim c by auto
  then show ?thesis using claim_step_ok [OF ok c refl] by blast
next
  case (Op_Poll now locked uuid agentId)
  obtain db1 rows where c: "poll_claim now locked uuid agentId db db = (db1, rows)"
    by (cases "poll_claim now locked uuid agentId db db")
  have "db1 = db'" "hs = map cj_id rows"
    using e Op_Poll c by auto
  then show ?thesis using poll_step_ok [OF ok c] by blast
next
  case (Op_Delivered c jobId agentId token)
  then have "hs = []" "print_jobs db' = update_where (fencedDeliveryWrite jobId agentId token [Claimed, Printing])
      (delivered_set c) (print_jobs db)"
    using e by (auto simp: markJobDelivered_def Let_def)
  then show ?thesis using internal_ok [OF delivered.job_writer_axioms ok] by simp
next
  case (Op_Ack c jobId agentId token)
  then have "hs = []" "print_jobs db' = update_where (fencedDeliveryWrite jobId agentId token [Claimed, Printing])
      (ack_set c) (print_jobs db)"
    using e by (auto simp: recordJobAck_def Let_def)
  then show ?thesis using internal_ok [OF ack.job_writer_axioms ok] by simp
next
  case (Op_Release now jobId agentId token reason)
  then show ?thesis
    using e plain_update_ok [OF release.job_writer_axioms ok] by auto
next
  case (Op_GiveUp now jobId agentId token reason)
  then show ?thesis
    using e plain_update_ok [OF give_up.job_writer_axioms ok] by auto
next
  case (Op_Sweep st now scope)
  then show ?thesis
    using e plain_update_ok [OF sweep_writer ok] by auto
next
  case (Op_Report c a cl body rd)
  then have hs: "hs = []" and db': "db' = fst (patch_commit c a (patch_decide (app_now c) (Some a) cl body rd) db)"
    using e by auto
  show ?thesis
    using patch_commit_table [OF patch_decide_legal, of c a "app_now c" "Some a" cl body rd db]
      internal_ok [OF _ ok, of _ _ db'] unchanged_ok [OF ok, of db']
    unfolding hs db' by auto
next
  case (Op_KeepAlive c a es)
  then have hs: "hs = []" and db': "db' = keep_alive c a es db" using e by auto
  obtain g1 g2 where t: "print_jobs db' = update_where g2 (touch_set (app_now c))
      (update_where g1 (touch_set (db_now c)) (print_jobs db))"
    using keep_alive_two [of c a es db] db' by auto
  have "jobs_ok (print_jobs db')"
    unfolding t using ok by (simp add: db_ok_def touch.writer_ok)
  then show ?thesis
    using touch_twice_origin ok t hs by (auto simp: db_ok_def)
next
  case (Op_Insert now v)
  then show ?thesis
    using e insert_step_ok [OF ok] unchanged_ok [OF ok refl] by (auto split: option.splits)
next
  case (Op_Cleanup tenant before limit)
  then have hs: "hs = []" and db': "db' = fst (cleanup_jobs tenant before limit db)" using e by auto
  show ?thesis
    using cleanup_rows [of tenant before limit db] cleanup_ok ok
    unfolding hs db' db_ok_def by (auto intro: origin_unchanged)
next
  case (Op_Other db0)
  then show ?thesis
    using e unchanged_ok [OF ok, of db'] by auto
qed

lemmas exec_ok = exec_rows [THEN conjunct1]
lemmas exec_origin = exec_rows [THEN conjunct2, THEN conjunct1, rule_format]
lemmas exec_handed = exec_rows [THEN conjunct2, THEN conjunct2]

end
