(* ===== verification/Job_Runs.thy ===== *)
theory Job_Runs
  imports Job_Machine
begin

text \<open>
  Runs of the machine of \<^theory_text>\<open>Job_Machine\<close>: what holds of a job over any sequence of the
  gateway's operations. \<open>handed\<close> counts the operations of a run that hand the job to an
  agent, \<open>inserted\<close> those that put a row of that id into a table without one.
\<close>

fun run_ops :: "db_op list \<Rightarrow> gateway_db \<Rightarrow> gateway_db" where
  "run_ops [] db = db"
| "run_ops (op # ops) db = run_ops ops (fst (exec op db))"

fun handed :: "string \<Rightarrow> db_op list \<Rightarrow> gateway_db \<Rightarrow> nat" where
  "handed i [] db = 0"
| "handed i (op # ops) db =
     (if List.member (snd (exec op db)) i then 1 else 0) + handed i ops (fst (exec op db))"

definition has_job :: "string \<Rightarrow> gateway_db \<Rightarrow> bool" where
  "has_job i db \<longleftrightarrow> List.member (map jb_id (print_jobs db)) i"

fun inserted :: "string \<Rightarrow> db_op list \<Rightarrow> gateway_db \<Rightarrow> nat" where
  "inserted i [] db = 0"
| "inserted i (op # ops) db =
     (if \<not> has_job i db \<and> has_job i (fst (exec op db)) then 1 else 0)
     + inserted i ops (fst (exec op db))"

lemma has_job_iff: "has_job i db \<longleftrightarrow> (\<exists>p \<in> set (print_jobs db). jb_id p = i)"
  by (auto simp: has_job_def List.member_iff)

text \<open>One operation seen from one job.\<close>

lemma exec_absent:
  assumes ok: "db_ok db" and n: "\<not> has_job i db"
  shows "i \<notin> set (snd (exec op db))
    \<and> (\<forall>q \<in> set (print_jobs (fst (exec op db))). jb_id q = i \<longrightarrow> abs_job q = fresh_ajob)"
proof -
  obtain db' hs where e: "exec op db = (db', hs)" by (cases "exec op db")
  have 1: "i \<notin> set hs" using exec_handed [OF ok e] n by (auto simp: has_job_iff)
  have "abs_job q = fresh_ajob" if "q \<in> set (print_jobs db')" "jb_id q = i" for q
  proof -
    have "\<nexists>p. p \<in> set (print_jobs db) \<and> row_step (row_label hs q) p q"
      using n that(2) by (auto simp: has_job_iff row_step_def same_job_def)
    moreover have "row_origin (print_jobs db) hs q" by (rule exec_origin [OF ok e that(1)])
    ultimately obtain now v where "q = queued_row now v"
      unfolding row_origin_def by blast
    then show ?thesis by simp
  qed
  with 1 e show ?thesis by simp
qed

lemma exec_present:
  assumes ok: "db_ok db" and p: "p \<in> set (print_jobs db)"
    and q: "q \<in> set (print_jobs (fst (exec op db)))" and i: "jb_id q = jb_id p"
  shows "row_step (if jb_id p \<in> set (snd (exec op db)) then HandOut else Internal) p q"
proof -
  obtain db' hs where e: "exec op db = (db', hs)" by (cases "exec op db")
  obtain p' where p': "p' \<in> set (print_jobs db)" "row_step (row_label hs q) p' q"
    using exec_origin [OF ok e, of q] q e i p unfolding row_origin_def by auto
  then have "jb_id p' = jb_id p" using i by (simp add: row_step_def same_job_def)
  then have "p' = p" using jobs_ok_same p p'(1) ok unfolding db_ok_def by blast
  with p'(2) i e show ?thesis by (simp add: row_label_def)
qed

text \<open>A handed-out job is still there afterwards.\<close>

lemma table_keeps_handed:
  assumes ok: "db_ok db" and "i \<in> set (snd (exec op db))"
  shows "has_job i (fst (exec op db))"
proof -
  have keep: "has_job i db" using exec_handed [OF ok, of op "fst (exec op db)" "snd (exec op db)"] assms(2)
    by (auto simp: has_job_iff)
  have w: "\<And>g u. (\<And>p. jb_id (u p) = jb_id p) \<Longrightarrow> has_job i (with_update g u db)"
  proof -
    fix g :: "print_job \<Rightarrow> bool" and u :: "print_job \<Rightarrow> print_job"
    assume k: "\<And>p. jb_id (u p) = jb_id p"
    obtain p where p: "p \<in> set (print_jobs db)" "jb_id p = i" using keep by (auto simp: has_job_iff)
    then have "(if g p then u p else p) \<in> set (update_where g u (print_jobs db))"
      unfolding set_update_where by blast
    moreover have "jb_id (if g p then u p else p) = i" using p(2) k by simp
    ultimately show "has_job i (with_update g u db)" unfolding has_job_iff by auto
  qed
  show ?thesis
  proof (cases op)
    case (Op_Claim now locked token jobId agentId)
    obtain db1 row where c: "claimJobForDelivery now locked token jobId agentId db = (db1, row)"
      by (cases "claimJobForDelivery now locked token jobId agentId db")
    have "\<And>p. jb_id (claim_set now token p) = jb_id p" by (simp add: claim_set_def)
    then show ?thesis
      using claim_cases [OF ok [unfolded db_ok_def] c] w keep c Op_Claim by auto
  next
    case (Op_Poll now locked uuid agentId)
    obtain db1 rows where c: "poll_claim now locked uuid agentId db db = (db1, rows)"
      by (cases "poll_claim now locked uuid agentId db db")
    have "\<And>p. jb_id (poll_set now uuid p) = jb_id p" by (simp add: poll_set_def)
    then show ?thesis
      using poll_cases [OF ok [unfolded db_ok_def] c] w c Op_Poll by auto
  qed (use assms(2) in \<open>auto split: option.splits\<close>)
qed

lemma handed_absent:
  "db_ok db \<Longrightarrow> \<not> has_job i db \<Longrightarrow> inserted i ops db = 0 \<Longrightarrow> handed i ops db = 0"
proof (induction ops arbitrary: db)
  case Nil
  then show ?case by simp
next
  case (Cons op ops)
  have "db_ok (fst (exec op db))" by (rule exec_ok [OF Cons.prems(1) surjective_pairing])
  moreover have "\<not> has_job i (fst (exec op db))"
    using Cons.prems(2,3) by (auto split: if_splits)
  ultimately show ?case
    using Cons.IH Cons.prems exec_absent by (auto split: if_splits)
qed

text \<open>A present job carries the run that led to it.\<close>

lemma handed_present:
  "db_ok db \<Longrightarrow> p \<in> set (print_jobs db) \<Longrightarrow> jb_id p = i \<Longrightarrow> spec_run s ls (abs_job p) \<Longrightarrow>
     inserted i ops db = 0 \<Longrightarrow>
     \<exists>ls' s'. spec_run s ls' s' \<and> handouts ls + handed i ops db = handouts ls'"
proof (induction ops arbitrary: db p ls)
  case Nil
  then show ?case by auto
next
  case (Cons op ops)
  let ?db' = "fst (exec op db)" and ?l = "if i \<in> set (snd (exec op db)) then HandOut else Internal"
  have ok': "db_ok ?db'" by (rule exec_ok [OF Cons.prems(1) surjective_pairing])
  have zero: "inserted i ops ?db' = 0" using Cons.prems(5) by (simp split: if_splits)
  show ?case
  proof (cases "has_job i ?db'")
    case True
    then obtain q where q: "q \<in> set (print_jobs ?db')" "jb_id q = i"
      by (auto simp: has_job_iff)
    have "row_step ?l p q"
      using exec_present [OF Cons.prems(1,2) q(1)] q(2) Cons.prems(3) by simp
    then have "spec_run s (ls @ [?l]) (abs_job q)"
      using spec_run_append Cons.prems(4) by (simp add: row_step_def)
    from Cons.IH [OF ok' q this zero] show ?thesis by (auto simp: List.member_iff split: if_splits)
  next
    case False
    then have "i \<notin> set (snd (exec op db))" using table_keeps_handed [OF Cons.prems(1)] by blast
    with False zero ok' Cons.prems(4) show ?thesis by (auto simp: handed_absent List.member_iff)
  qed
qed

lemma handed_new:
  "db_ok db \<Longrightarrow> \<not> has_job i db \<Longrightarrow> inserted i ops db \<le> 1 \<Longrightarrow> handed i ops db \<le> 9"
proof (induction ops arbitrary: db)
  case Nil
  then show ?case by simp
next
  case (Cons op ops)
  let ?db' = "fst (exec op db)"
  have ok': "db_ok ?db'" by (rule exec_ok [OF Cons.prems(1) surjective_pairing])
  have none: "i \<notin> set (snd (exec op db))" using exec_absent Cons.prems by blast
  show ?case
  proof (cases "has_job i ?db'")
    case True
    then obtain q where q: "q \<in> set (print_jobs ?db')" "jb_id q = i"
      by (auto simp: has_job_iff)
    have "abs_job q = fresh_ajob" using exec_absent [OF Cons.prems(1,2)] q by blast
    then have "spec_run fresh_ajob [] (abs_job q)" by (simp add: run_nil)
    moreover have "inserted i ops ?db' = 0" using Cons.prems(2,3) True by simp
    ultimately obtain ls' s' where "spec_run fresh_ajob ls' s'" "handed i ops ?db' = handouts ls'"
      using handed_present [OF ok' q, of fresh_ajob "[]" ops] by auto
    then show ?thesis using spec_run_handouts none by (simp add: List.member_iff)
  next
    case False
    then show ?thesis using Cons.IH [OF ok'] Cons.prems none by (simp add: List.member_iff)
  qed
qed

lemma run_ops_ok: "db_ok db \<Longrightarrow> db_ok (run_ops ops db)"
  by (induction ops arbitrary: db) (simp_all add: exec_ok [OF _ surjective_pairing])

end
