(* ===== verification/Job_Properties.thy ===== *)
theory Job_Properties
  imports Job_Runs
begin

text \<open>
  What holds of the job table whatever the gateway does with it: the refinement of the job
  specification, the bound on hand-outs, the end of a terminal job, no second print after
  delivery evidence, and the fence of the claim token. The concrete database at the start is
  the input of the instances.
\<close>

definition shop_agent :: agent where
  "shop_agent = \<lparr>ag_id = ''a1'', ag_tenant = ''t1'', ag_name = ''till'', ag_pairing_hash = None,
     ag_pairing_expires = None, ag_secret = Some ''h'', ag_status = Online, ag_lifecycle = Active,
     ag_metadata = None, ag_last_seen = Some 0, ag_created = 0, ag_updated = 0\<rparr>"

definition shop_printer :: printer where
  "shop_printer = \<lparr>pr_id = ''p1'', pr_tenant = ''t1'', pr_agent = ''a1'', pr_name = ''kitchen'',
     pr_type = ''physical'', pr_class = ''thermal'', pr_connection = ''network'', pr_protocol = ''escpos'',
     pr_status = ''online'', pr_lifecycle = Active, pr_config = None, pr_capabilities = None,
     pr_last_seen = None, pr_created = 0, pr_updated = 0\<rparr>"

definition shop_db :: gateway_db where
  "shop_db = empty_db\<lparr>agents := [shop_agent], printers := [shop_printer]\<rparr>"

definition shop_job :: job_values where
  "shop_job = \<lparr>jv_id = ''j1'', jv_tenant = ''t1'', jv_api_key = None, jv_destination = None,
     jv_doc_type = None, jv_agent = ''a1'', jv_printer = ''p1'',
     jv_payload = JObj [(''type'', JStr ''raw''), (''protocol'', JStr ''raw''), (''data'', JStr ''QQ=='')],
     jv_requested_by = ''odoo'', jv_request_id = None, jv_idem = Some ''k1'', jv_expires = 100000\<rparr>"

definition shop_row :: print_job where
  "shop_row = queued_row 0 shop_job"

definition shop_report :: "string \<Rightarrow> string \<Rightarrow> json" where
  "shop_report st tok = JObj [(''jobId'', JStr ''j1''), (''status'', JStr st), (''claimToken'', JStr tok),
     (''reason'', JStr ''pending_full'')]"

lemmas shop_defs = shop_db_def shop_agent_def shop_printer_def shop_job_def shop_row_def empty_db_def

text \<open>The report of the agent on the row as it stands.\<close>

definition shop_patch :: "string \<Rightarrow> string \<Rightarrow> print_job \<Rightarrow> db_op" where
  "shop_patch st tok p = Op_Report \<lparr>db_now = 1, app_now = 1\<rparr> shop_agent None (Some (shop_report st tok))
     (\<lambda>_. Some p)"

definition shop_claim :: "string \<Rightarrow> db_op" where
  "shop_claim tok = Op_Claim 1 (\<lambda>_. False) tok ''j1'' ''a1''"

definition shop_hand_back :: "string \<Rightarrow> db_op" where
  "shop_hand_back tok = shop_patch ''queued'' tok (shop_row\<lparr>jb_status := Claimed, jb_token := Some tok\<rparr>)"

definition shop_release :: "string \<Rightarrow> db_op" where
  "shop_release tok = Op_Release 1 ''j1'' ''a1'' (Some tok) ''send failed''"

lemma shop_ok [simp]: "db_ok shop_db"
  by (simp add: db_ok_def jobs_ok_def unique_by_def shop_defs)

definition nine_handouts :: "db_op list" where
  "nine_handouts = [Op_Insert 0 shop_job,
     shop_claim ''1'', shop_hand_back ''1'', shop_claim ''2'', shop_hand_back ''2'',
     shop_claim ''3'', shop_hand_back ''3'', shop_claim ''4'', shop_hand_back ''4'',
     shop_claim ''5'', shop_release ''5'', shop_claim ''6'', shop_release ''6'',
     shop_claim ''7'', shop_release ''7'', shop_claim ''8'', shop_release ''8'', shop_claim ''9'']"

lemma nine_handouts_run: "inserted ''j1'' nine_handouts shop_db = 1 \<and> handed ''j1'' nine_handouts shop_db = 9"
  by code_simp


section \<open>Runs\<close>

text \<open>C1. Along every run of the gateway's operations in which a row of the job's id is put
  into the table once, at most nine operations hand the job to an agent: the two budgets bound
  each other. The instance runs seventeen operations and reaches the nine.\<close>

theorem handouts_at_most_nine:
  assumes "db_ok db" and "\<not> has_job i db" and "inserted i ops db \<le> 1"
  shows "handed i ops db \<le> 9"
  using assms by (rule handed_new)

theorem handouts_at_most_nine_witness:
  "handed ''j1'' nine_handouts shop_db \<le> 9 \<and> handed ''j1'' nine_handouts shop_db = 9"
proof -
  have "\<not> has_job ''j1'' shop_db" by (simp add: has_job_def shop_defs)
  then have "handed ''j1'' nine_handouts shop_db \<le> 9"
    using handouts_at_most_nine [OF shop_ok] nine_handouts_run by simp
  with nine_handouts_run show ?thesis by blast
qed

lemma terminal_run:
  "db_ok db \<Longrightarrow> (\<forall>p \<in> set (print_jobs db). jb_id p = i \<longrightarrow> isTerminal (jb_status p)) \<Longrightarrow>
     inserted i ops db = 0 \<Longrightarrow> (has_job i db \<or> handed i ops db = 0) \<Longrightarrow>
     handed i ops db = 0
     \<and> (\<forall>q \<in> set (print_jobs (run_ops ops db)). jb_id q = i \<longrightarrow> isTerminal (jb_status q))"
proof (induction ops arbitrary: db)
  case Nil
  then show ?case by simp
next
  case (Cons op ops)
  let ?db' = "fst (exec op db)"
  have ok': "db_ok ?db'" by (rule exec_ok [OF Cons.prems(1) surjective_pairing])
  have ins: "inserted i ops ?db' = 0" "has_job i ?db' \<longrightarrow> has_job i db"
    using Cons.prems(3) by (auto split: if_splits)
  have "isTerminal (jb_status q) \<and> i \<notin> set (snd (exec op db))"
    if q: "q \<in> set (print_jobs ?db')" "jb_id q = i" for q
  proof -
    obtain p where p: "p \<in> set (print_jobs db)" "jb_id p = i"
      using ins(2) q by (auto simp: has_job_iff)
    then have step: "spec_step (if i \<in> set (snd (exec op db)) then HandOut else Internal) (abs_job p) (abs_job q)"
      using exec_present [OF Cons.prems(1) p(1) q(1)] q(2) by (simp add: row_step_def)
    have t: "isTerminal (jb_status p)" using Cons.prems(2) p by simp
    have "isTerminal (a_status (abs_job q))" using spec_terminal [OF step] t by simp
    moreover have "\<not> spec_step HandOut (abs_job p) (abs_job q)" using t by (auto elim!: handout_step)
    ultimately show ?thesis using step by (auto split: if_splits)
  qed
  moreover have "i \<in> set (snd (exec op db)) \<longrightarrow> has_job i ?db'"
    using table_keeps_handed [OF Cons.prems(1)] by blast
  ultimately have none: "i \<notin> set (snd (exec op db))"
    and trm: "\<forall>q \<in> set (print_jobs ?db'). jb_id q = i \<longrightarrow> isTerminal (jb_status q)"
    by (auto simp: has_job_iff)
  have "has_job i ?db' \<or> handed i ops ?db' = 0"
    by (cases "has_job i ?db'") (simp_all add: handed_absent [OF ok' _ ins(1)])
  then show ?case
    using Cons.IH [OF ok' trm ins(1)] none by (simp add: List.member_iff)
qed

text \<open>C5. Once a job has reached success, failed or expired, no run that does not put a new row of
  its id into the table ever hands it out again or shows it in a live status.\<close>

theorem terminal_forever:
  assumes "db_ok db" and "p \<in> set (print_jobs db)" and "isTerminal (jb_status p)"
    and "inserted (jb_id p) ops db = 0"
  shows "handed (jb_id p) ops db = 0
    \<and> (\<forall>q \<in> set (print_jobs (run_ops ops db)). jb_id q = jb_id p \<longrightarrow> isTerminal (jb_status q))"
proof (rule terminal_run [OF assms(1) _ assms(4)])
  show "\<forall>q \<in> set (print_jobs db). jb_id q = jb_id p \<longrightarrow> isTerminal (jb_status q)"
    using assms jobs_ok_same unfolding db_ok_def by metis
  show "has_job (jb_id p) db \<or> handed (jb_id p) ops db = 0"
    using assms(2) by (auto simp: has_job_iff)
qed

definition failed_row :: print_job where
  "failed_row = shop_row\<lparr>jb_status := Failed, jb_error := Some ''AGENT_EXECUTION_TIMEOUT: x'',
     jb_token := Some ''9'', jb_attempts := 1\<rparr>"

definition failed_db :: gateway_db where
  "failed_db = shop_db\<lparr>print_jobs := [failed_row]\<rparr>"

lemma failed_db_ok: "db_ok failed_db"
  by (simp add: db_ok_def jobs_ok_def unique_by_def failed_db_def failed_row_def wf_job_def wf_ajob_def
      abs_job_def has_evidence_def shop_row_def queued_row_def)

theorem terminal_forever_witness:
  "handed ''j1'' [shop_claim ''1'', shop_patch ''success'' ''9'' failed_row] failed_db = 0
    \<and> map jb_status (print_jobs (run_ops [shop_claim ''1'', shop_patch ''success'' ''9'' failed_row] failed_db)) = [Success]"
proof -
  have "inserted ''j1'' [shop_claim ''1'', shop_patch ''success'' ''9'' failed_row] failed_db = 0
    \<and> map jb_status (print_jobs (run_ops [shop_claim ''1'', shop_patch ''success'' ''9'' failed_row] failed_db)) = [Success]"
    by code_simp
  moreover have "jb_id failed_row = ''j1''" "isTerminal (jb_status failed_row)" "failed_row \<in> set (print_jobs failed_db)"
    by (simp_all add: failed_row_def failed_db_def shop_row_def queued_row_def shop_job_def)
  ultimately show ?thesis
    using terminal_forever [OF failed_db_ok, of failed_row "[shop_claim ''1'', shop_patch ''success'' ''9'' failed_row]"]
    by simp
qed

text \<open>C2. Refinement: every operation of the gateway keeps the job table well formed, and every row
  of the new table either makes one step of the abstract job specification from the row it was,
  labelled as a hand-out exactly when the operation hands the job to an agent, or is a job just
  inserted under an id that was free.\<close>

theorem exec_refines_spec:
  assumes "db_ok db" and "q \<in> set (print_jobs (fst (exec op db)))"
  shows "wf_job q \<and> db_ok (fst (exec op db))
    \<and> ((\<exists>p \<in> set (print_jobs db). same_job p q
          \<and> spec_step (if jb_id q \<in> set (snd (exec op db)) then HandOut else Internal) (abs_job p) (abs_job q))
       \<or> (abs_job q = fresh_ajob \<and> \<not> has_job (jb_id q) db))"
proof -
  have ok': "db_ok (fst (exec op db))" by (rule exec_ok [OF assms(1) surjective_pairing])
  moreover from this have "wf_job q" using assms(2) by (simp add: db_ok_def jobs_ok_def)
  moreover have "row_origin (print_jobs db) (snd (exec op db)) q"
    by (rule exec_origin [OF assms(1) surjective_pairing assms(2)])
  then have "(\<exists>p \<in> set (print_jobs db). same_job p q
          \<and> spec_step (if jb_id q \<in> set (snd (exec op db)) then HandOut else Internal) (abs_job p) (abs_job q))
       \<or> (abs_job q = fresh_ajob \<and> \<not> has_job (jb_id q) db)"
    unfolding row_origin_def row_step_def row_label_def
  proof (elim disjE exE conjE)
    fix now v assume "q = queued_row now v" and new: "jb_id q \<notin> jb_id ` set (print_jobs db)"
    then have "abs_job q = fresh_ajob" by simp
    moreover have "\<not> has_job (jb_id q) db" using new unfolding has_job_iff by (metis image_eqI)
    ultimately show ?thesis by blast
  qed (rule disjI1)
  ultimately show ?thesis by blast
qed

theorem exec_refines_spec_witness:
  "db_ok (fst (exec (shop_claim ''1'') failed_db))
    \<and> same_job failed_row failed_row \<and> print_jobs (fst (exec (shop_claim ''1'') failed_db)) = [failed_row]"
proof -
  have e: "print_jobs (fst (exec (shop_claim ''1'') failed_db)) = [failed_row]"
    by code_simp
  then show ?thesis
    using exec_refines_spec [OF failed_db_ok, of failed_row "shop_claim ''1''"] by simp
qed

end
