(* ===== verification/Job_Safety.thy ===== *)
theory Job_Safety
  imports Job_Properties
begin

text \<open>
  Safety of single operations: what has delivery evidence goes back to the queue only by its own
  agent's fenced rejection; a report carrying another token than the row's leaves the row alone,
  however old the row its author read; the sweep leaves no overdue job behind and never declares
  output of a delivered job impossible; a claim keeps the in-flight ceiling.
\<close>

section \<open>The row an UPDATE leaves\<close>

lemma updated_row:
  assumes "jobs_ok t" and "p \<in> set t" and "q \<in> set (update_where g u t)" and "jb_id q = jb_id p"
    and "\<And>r. jb_id (u r) = jb_id r"
  shows "q = (if g p then u p else p)"
proof -
  obtain r where r: "r \<in> set t" "q = (if g r then u r else r)"
    using assms(3) by (auto simp: set_update_where)
  then have "jb_id r = jb_id p" using assms(4,5) by (auto split: if_splits)
  then have "r = p" using jobs_ok_same assms(1,2) r(1) by blast
  with r(2) show ?thesis by simp
qed

lemma patch_decide_job_reject:
  "patch_decide_job nowMs jobId req em reason tok job = PatchReject i cur t r \<Longrightarrow>
     i = jobId \<and> cur = Claimed \<and> t = tok \<and> r \<in> set AGENT_REQUEUE_REASONS"
  by (auto simp: patch_decide_job_def Let_def List.member_iff split: if_splits)

lemma patch_decide_reject:
  "patch_decide nowMs auth cl body rd = PatchReject i cur t r \<Longrightarrow> cur = Claimed \<and> r \<in> set AGENT_REQUEUE_REASONS"
  by (auto simp: patch_decide_def Let_def dest!: patch_decide_job_reject split: if_splits option.splits json.splits)

text \<open>A write of the report handler sets queued only when it hands the job back.\<close>

lemma report_queued:
  assumes l: "legal_plan plan" and w: "patch_write c agentId plan = Some (g, u)" and "g p" and "jb_status (u p) = Queued"
  shows "\<exists>reason. plan = PatchReject (jb_id p) Claimed (jb_token p) reason \<and> jb_agent p = agentId"
  using assms by (cases plan)
    (auto simp: patch_expire_set_def patch_report_set_def fencedJobWrite_def)

lemma patch_write_id: "patch_write c agentId plan = Some (g, u) \<Longrightarrow> jb_id (u p) = jb_id p"
  by (cases plan) (auto simp: patch_expire_set_def patch_report_set_def patch_reject_set_def)

lemma sweep_write_id: "jb_id (snd (sweep_write st now scope) p) = jb_id p"
  by (cases st) (simp_all add: sweep_set_defs)

lemma sweep_write_queued:
  "fst (sweep_write st now scope) p \<Longrightarrow> jb_status (snd (sweep_write st now scope) p) = Queued \<Longrightarrow> \<not> has_evidence p"
  by (cases st) (simp_all add: sweep_set_defs sweep_where_defs has_evidence_def)

lemma evidence_not_handed:
  assumes ok: "db_ok db" and p: "p \<in> set (print_jobs db)" and ev: "has_evidence p"
  shows "jb_id p \<notin> set (snd (exec op db))"
proof
  assume h: "jb_id p \<in> set (snd (exec op db))"
  then obtain q where q: "q \<in> set (print_jobs (fst (exec op db)))" "jb_id q = jb_id p"
    using table_keeps_handed [OF ok] by (auto simp: has_job_iff)
  have "spec_step HandOut (abs_job p) (abs_job q)"
    using exec_present [OF ok p q] h by (simp add: row_step_def)
  moreover have "wf_ajob (abs_job p)" using ok p by (simp add: db_ok_def jobs_ok_def wf_job_def)
  ultimately show False using spec_handout_no_evidence ev by fastforce
qed

lemma evidence_requeue:
  assumes ok: "db_ok db" and p: "p \<in> set (print_jobs db)" and ev: "has_evidence p"
    and q: "q \<in> set (print_jobs (fst (exec op db)))" "jb_id q = jb_id p" and st: "jb_status q = Queued"
  shows "\<exists>c a cl body rd reason. op = Op_Report c a cl body rd \<and> jb_agent p = ag_id a
    \<and> patch_decide (app_now c) (Some a) cl body rd = PatchReject (jb_id p) Claimed (jb_token p) reason
    \<and> reason \<in> set AGENT_REQUEUE_REASONS"
proof -
  have ok': "jobs_ok (print_jobs db)" using ok by (simp add: db_ok_def)
  have wf: "wf_job p" using ok' p by (simp add: jobs_ok_def)
  have npq: "jb_status p \<noteq> Queued" using wf ev by (auto simp: wf_job_def wf_ajob_def)
  note upd = updated_row [OF ok' p _ q(2)]
  have step: "row_step Internal p q"
    using exec_present [OF ok p q] evidence_not_handed [OF ok p ev] by simp
  have no: False if "print_jobs (fst (exec op db)) = update_where g u (print_jobs db)"
    "\<And>r. jb_id (u r) = jb_id r" "g p \<Longrightarrow> jb_status (u p) \<noteq> Queued" for g u
    using upd [of g u] that q(1) st npq by (simp split: if_splits)
  have stay: False if "q \<in> set (print_jobs db)"
    using jobs_ok_same [OF ok' p that] q(2) st npq by simp
  have same: False if "print_jobs (fst (exec op db)) = print_jobs db"
    using stay q(1) that by simp
  show ?thesis
  proof (cases op)
    case (Op_Report c a cl body rd)
    let ?plan = "patch_decide (app_now c) (Some a) cl body rd"
    have "print_jobs (fst (exec op db)) \<noteq> print_jobs db"
      using q p st npq jobs_ok_same [OF ok'] by metis
    then obtain g u where w: "patch_write c (ag_id a) ?plan = Some (g, u)"
      and t: "print_jobs (fst (exec op db)) = update_where g u (print_jobs db)"
      using patch_commit_table [OF patch_decide_legal, of c a "app_now c" "Some a" cl body rd db]
      unfolding Op_Report by auto
    have "q = (if g p then u p else p)"
      using upd [of g u] q(1) patch_write_id [OF w] unfolding t by blast
    with st npq have "g p" "jb_status (u p) = Queued" by (auto split: if_splits)
    then obtain reason where "?plan = PatchReject (jb_id p) Claimed (jb_token p) reason" "jb_agent p = ag_id a"
      using report_queued [OF patch_decide_legal w] by blast
    then show ?thesis using patch_decide_reject Op_Report by blast
  next
    case (Op_Claim now locked token jobId agentId)
    obtain db1 row where c: "claimJobForDelivery now locked token jobId agentId db = (db1, row)"
      by (cases "claimJobForDelivery now locked token jobId agentId db")
    then have d: "fst (exec op db) = db1" using Op_Claim by simp
    have "print_jobs db1 = print_jobs db
        \<or> (\<exists>g. print_jobs db1 = update_where g (claim_set now token) (print_jobs db))"
      using claim_cases [OF ok' c] by auto
    moreover have "jb_id (claim_set now token r) = jb_id r \<and> jb_status (claim_set now token r) \<noteq> Queued" for r
      by (simp add: claim_set_def)
    ultimately show ?thesis using same no unfolding d by blast
  next
    case (Op_Poll now locked uuid agentId)
    obtain db1 rows where c: "poll_claim now locked uuid agentId db db = (db1, rows)"
      by (cases "poll_claim now locked uuid agentId db db")
    then have d: "fst (exec op db) = db1" using Op_Poll by simp
    have "\<exists>g. print_jobs db1 = update_where g (poll_set now uuid) (print_jobs db)"
      using poll_cases [OF ok' c] by auto
    moreover have "jb_id (poll_set now uuid r) = jb_id r \<and> jb_status (poll_set now uuid r) \<noteq> Queued" for r
      by (simp add: poll_set_def)
    ultimately show ?thesis using no unfolding d by blast
  next
    case (Op_Delivered c jobId agentId token)
    then show ?thesis
      using no [of "fencedDeliveryWrite jobId agentId token [Claimed, Printing]" "delivered_set c"] npq by (simp add: markJobDelivered_def Let_def delivered_set_def)
  next
    case (Op_Ack c jobId agentId token)
    then show ?thesis
      using no [of "fencedDeliveryWrite jobId agentId token [Claimed, Printing]" "ack_set c"] npq by (simp add: recordJobAck_def Let_def ack_set_def)
  next
    case (Op_Release now jobId agentId token reason)
    then show ?thesis
      using no [of "release_where jobId agentId token" "release_set now reason"] ev
      by (auto simp: release_set_def release_where_def has_evidence_def)
  next
    case (Op_GiveUp now jobId agentId token reason)
    then show ?thesis
      using no [of "give_up_where jobId agentId token" "give_up_set now reason"]
      by (simp add: give_up_set_def)
  next
    case (Op_Sweep st' now scope)
    have "fst (sweep_write st' now scope) p \<Longrightarrow> jb_status (snd (sweep_write st' now scope) p) \<noteq> Queued"
      using sweep_write_queued ev by blast
    then show ?thesis
      using no [of "fst (sweep_write st' now scope)" "snd (sweep_write st' now scope)"] Op_Sweep
      by (simp add: sweep_write_id)
  next
    case (Op_KeepAlive c a es)
    obtain g1 g2 where t: "print_jobs (fst (exec op db)) = update_where g2 (touch_set (app_now c))
        (update_where g1 (touch_set (db_now c)) (print_jobs db))"
      using keep_alive_two [of c a es db] Op_KeepAlive by auto
    then obtain r where "r \<in> set (print_jobs db)" "jb_id r = jb_id q" "jb_status r = jb_status q"
      using q(1) by (auto simp: set_update_where touch_set_def split: if_splits)
    then show ?thesis using jobs_ok_same [OF ok' _ p] q(2) st npq by metis
  next
    case (Op_Insert now v)
    show ?thesis
    proof (cases "insert_job now v db")
      case None
      then show ?thesis using same Op_Insert by simp
    next
      case (Some db1)
      have "jb_id (queued_row now v) = jv_id v" by (simp add: queued_row_def)
      then have "q \<noteq> queued_row now v"
        using insert_new_id [OF Some] p q(2) by (metis image_eqI)
      then have "q \<in> set (print_jobs db)"
        using insert_new_id [OF Some] q(1) Some Op_Insert by simp
      then show ?thesis using stay by blast
    qed
  next
    case (Op_Cleanup tenant before limit)
    then have "q \<in> set (print_jobs db)" using cleanup_rows q(1) by fastforce
    then show ?thesis using stay by blast
  next
    case (Op_Other db0)
    then show ?thesis using same by simp
  qed
qed


section \<open>Delivery evidence\<close>

text \<open>C3. No second print after delivery evidence: whatever operation runs, a job that carries
  delivery evidence is not handed out, and it turns up queued again only when its own agent, with
  the token of the current claim, returns it before execution for one of the listed reasons.\<close>

theorem evidence_blocks_resend:
  assumes "db_ok db" and "p \<in> set (print_jobs db)" and "has_evidence p"
    and "q \<in> set (print_jobs (fst (exec op db)))" and "jb_id q = jb_id p"
  shows "jb_id p \<notin> set (snd (exec op db))
    \<and> (jb_status q = Queued \<longrightarrow>
        (\<exists>c a cl body rd reason. op = Op_Report c a cl body rd \<and> jb_agent p = ag_id a
          \<and> patch_decide (app_now c) (Some a) cl body rd = PatchReject (jb_id p) Claimed (jb_token p) reason
          \<and> reason \<in> set AGENT_REQUEUE_REASONS))"
  using evidence_not_handed [OF assms(1-3)] evidence_requeue [OF assms] by blast

definition delivered_row :: print_job where
  "delivered_row = shop_row\<lparr>jb_status := Claimed, jb_token := Some ''1'', jb_attempts := 1, jb_delivered_at := Some 5\<rparr>"

definition delivered_db :: gateway_db where
  "delivered_db = shop_db\<lparr>print_jobs := [delivered_row]\<rparr>"

lemma delivered_db_ok: "db_ok delivered_db"
  by (simp add: db_ok_def jobs_ok_def unique_by_def delivered_db_def delivered_row_def wf_job_def wf_ajob_def
      abs_job_def has_evidence_def shop_row_def queued_row_def)

definition shop_poll :: "time \<Rightarrow> db_op" where
  "shop_poll now = Op_Poll now (\<lambda>_. False) (\<lambda>_. ''9'') ''a1''"

theorem evidence_blocks_resend_witness:
  "jb_id delivered_row \<notin> set (snd (exec (shop_poll 99000) delivered_db))
    \<and> print_jobs (fst (exec (shop_poll 99000) delivered_db)) = [delivered_row]"
proof -
  have e: "print_jobs (fst (exec (shop_poll 99000) delivered_db)) = [delivered_row]"
    by code_simp
  have "has_evidence delivered_row" "delivered_row \<in> set (print_jobs delivered_db)"
    by (simp_all add: delivered_row_def has_evidence_def delivered_db_def)
  then show ?thesis
    using evidence_blocks_resend [OF delivered_db_ok, of delivered_row delivered_row "shop_poll 99000"] e by simp
qed

section \<open>The fence\<close>

text \<open>The token of every plan is the one the request carried.\<close>

fun plan_token :: "patch_plan \<Rightarrow> string option option" where
  "plan_token (PatchExpire jobId cur token err) = Some token"
| "plan_token (PatchReject jobId cur token reason) = Some token"
| "plan_token (PatchPostExpiry jobId cur token err) = Some token"
| "plan_token (PatchReport jobId cur req token err late) = Some token"
| "plan_token plan = None"

definition body_token :: "json option \<Rightarrow> string option" where
  "body_token body = bounded_token (Option.bind body (\<lambda>v. jget v ''claimToken''))"

lemma patch_decide_job_token:
  "plan_token (patch_decide_job nowMs jobId req em reason tok job) \<in> {None, Some tok}"
  by (simp add: patch_decide_job_def Let_def)

lemma patch_decide_token: "plan_token (patch_decide nowMs auth cl body rd) \<in> {None, Some (body_token body)}"
proof -
  have "plan_token (patch_decide_job nowMs jobId req em reason (bounded_token (jprop ''claimToken'' es)) job) = None
      \<or> plan_token (patch_decide_job nowMs jobId req em reason (bounded_token (jprop ''claimToken'' es)) job)
        = Some (body_token (Some (JObj es)))" for jobId req em reason es job
    using patch_decide_job_token [of nowMs jobId req em reason "bounded_token (jprop ''claimToken'' es)" job]
    by (simp add: body_token_def)
  then show ?thesis
    by (simp add: patch_decide_def Let_def split: option.split json.split)
qed

lemma patch_write_fenced:
  assumes "patch_write c agentId plan = Some (g, u)" and "g p"
  shows "jb_agent p = agentId \<and> plan_token plan = Some (jb_token p)"
  using assms by (cases plan) (auto simp: fencedJobWrite_def patch_expire_where_def)

text \<open>C4. The claim token fences every report: whatever outdated version of the job its author
  read, a report changes no row that belongs to another agent or whose current claim token differs
  from the one in the request body, so a superseded attempt can neither finish, fail, expire nor
  requeue the attempt that replaced it.\<close>

theorem report_fenced:
  assumes "p \<in> set (print_jobs db)" and "jb_agent p \<noteq> ag_id a \<or> jb_token p \<noteq> body_token body"
  shows "p \<in> set (print_jobs (fst (patch_commit c a (patch_decide nowMs (Some a) cl body readJob) db)))"
proof -
  let ?plan = "patch_decide nowMs (Some a) cl body readJob"
  have "\<not> g p" if "patch_write c (ag_id a) ?plan = Some (g, u)" for g u
    using patch_write_fenced [OF that, of p] patch_decide_token [of nowMs "Some a" cl body readJob] assms(2) by auto
  moreover from patch_commit_table [OF patch_decide_legal, of c a nowMs "Some a" cl body readJob db]
  have "print_jobs (fst (patch_commit c a ?plan db)) = print_jobs db
      \<or> (\<exists>g u. patch_write c (ag_id a) ?plan = Some (g, u)
           \<and> print_jobs (fst (patch_commit c a ?plan db)) = update_where g u (print_jobs db))" by blast
  ultimately show ?thesis
    using assms(1) by (auto simp: set_update_where)
qed

text \<open>The holder of token 0 read the job while it was printing; by now token 1 owns it.\<close>

theorem report_fenced_witness:
  "delivered_row \<in> set (print_jobs (fst (patch_commit \<lparr>db_now = 6, app_now = 6\<rparr> shop_agent
     (patch_decide 6 (Some shop_agent) None (Some (shop_report ''success'' ''0''))
        (\<lambda>_. Some (shop_row\<lparr>jb_status := Printing, jb_token := Some ''0'', jb_attempts := 1\<rparr>))) delivered_db)))
   \<and> patch_decide 6 (Some shop_agent) None (Some (shop_report ''success'' ''0''))
        (\<lambda>_. Some (shop_row\<lparr>jb_status := Printing, jb_token := Some ''0'', jb_attempts := 1\<rparr>))
      = PatchReport ''j1'' Printing Success (Some ''0'') None False"
proof -
  have "patch_decide 6 (Some shop_agent) None (Some (shop_report ''success'' ''0''))
        (\<lambda>_. Some (shop_row\<lparr>jb_status := Printing, jb_token := Some ''0'', jb_attempts := 1\<rparr>))
      = PatchReport ''j1'' Printing Success (Some ''0'') None False"
    by code_simp
  moreover have "body_token (Some (shop_report ''success'' ''0'')) = Some ''0''" by code_simp
  then have "jb_token delivered_row \<noteq> body_token (Some (shop_report ''success'' ''0''))"
    "delivered_row \<in> set (print_jobs delivered_db)"
    by (simp_all add: delivered_row_def delivered_db_def)
  ultimately show ?thesis by (intro conjI report_fenced) simp_all
qed

end
