(* ===== verification/Job_Sweeping.thy ===== *)
theory Job_Sweeping
  imports Job_Properties
begin

text \<open>
  The sweep as a whole: its five statements in a row act on each job by itself, so what it does
  to a job is a case analysis on that job.
\<close>

text \<open>One statement seen from one row, and the five in their order.\<close>

definition touch_row :: "('r \<Rightarrow> bool) \<Rightarrow> ('r \<Rightarrow> 'r) \<Rightarrow> 'r \<Rightarrow> 'r" where
  "touch_row g u r = (if g r then u r else r)"

lemma touch_row_no: "\<not> g r \<Longrightarrow> touch_row g u r = r"
  and touch_row_yes: "g r \<Longrightarrow> touch_row g u r = u r"
  by (simp_all add: touch_row_def)

lemma touch_row_keeps: "(\<And>r. f (u r) = f r) \<Longrightarrow> f (touch_row g u r) = f r"
  by (simp add: touch_row_def)

lemma update_where_touch: "update_where g u t = map (touch_row g u) t"
  by (simp add: update_where_def touch_row_def)

definition sweep_row :: "sweep_clock \<Rightarrow> string option \<Rightarrow> print_job \<Rightarrow> print_job" where
  "sweep_row c scope p =
     touch_row (sweep_exhausted_where (sw_exhausted c) scope) (sweep_exhausted_set (sw_exhausted c))
      (touch_row (sweep_stale_printing_where (sw_printing c) scope) (sweep_stale_printing_set (sw_printing c))
        (touch_row (sweep_silent_where (sw_silent c) scope) (sweep_silent_set (sw_silent c))
          (touch_row (sweep_requeued_where (sw_requeued c) scope) (sweep_requeued_set (sw_requeued c))
            (touch_row (sweep_expired_where (sw_expired c) scope) (sweep_expired_set (sw_expired c)) p))))"

lemma sweep_table_rows: "sweep_table5 c scope t = map (sweep_row c scope) t"
  unfolding sweep_table_defs update_where_touch by (simp add: sweep_row_def)

lemma sweep_jobs: "print_jobs (fst (sweepPrintJobs c scope db)) = map (sweep_row c scope) (print_jobs db)"
  by (simp add: sweepPrintJobs_def Let_def sweep_table_rows)

lemma agentFilter_set [simp]:
  "agentFilter scope (p\<lparr>jb_status := s\<rparr>) = agentFilter scope p"
  "agentFilter scope (p\<lparr>jb_error := e\<rparr>) = agentFilter scope p"
  "agentFilter scope (p\<lparr>jb_updated := u\<rparr>) = agentFilter scope p"
  "agentFilter scope (p\<lparr>jb_claimed_at := ca\<rparr>) = agentFilter scope p"
  "agentFilter scope (p\<lparr>jb_token := tk\<rparr>) = agentFilter scope p"
  "agentFilter scope (p\<lparr>jb_delivered_at := d\<rparr>) = agentFilter scope p"
  "agentFilter scope (p\<lparr>jb_acked_at := a\<rparr>) = agentFilter scope p"
  "agentFilter scope (p\<lparr>jb_retries := r\<rparr>) = agentFilter scope p"
  by (simp_all add: agentFilter_def)

text \<open>A row makes at most one of the five moves; the equations follow the code's order.\<close>

lemma guards_outside:
  assumes "\<not> agentFilter scope p"
  shows "\<not> sweep_expired_where n scope p" "\<not> sweep_requeued_where n scope p" "\<not> sweep_silent_where n scope p"
    "\<not> sweep_stale_printing_where n scope p" "\<not> sweep_exhausted_where n scope p"
  using assms by (auto simp: sweep_where_defs)

lemma guards_terminal:
  assumes "isTerminal (jb_status p)"
  shows "\<not> sweep_expired_where n scope p" "\<not> sweep_requeued_where n scope p" "\<not> sweep_silent_where n scope p"
    "\<not> sweep_stale_printing_where n scope p" "\<not> sweep_exhausted_where n scope p"
  using assms by (auto simp: sweep_where_defs isTerminal_def)

lemma guards_queued:
  assumes "jb_status p = Queued"
  shows "\<not> sweep_requeued_where n scope p" "\<not> sweep_silent_where n scope p"
    "\<not> sweep_stale_printing_where n scope p" "\<not> sweep_exhausted_where n scope p"
  using assms by (auto simp: sweep_where_defs)

lemma guards_printing:
  assumes "jb_status p = Printing"
  shows "\<not> sweep_requeued_where n scope p" "\<not> sweep_silent_where n scope p" "\<not> sweep_exhausted_where n scope p"
    "sweep_stale_printing_where n scope p \<longleftrightarrow> jb_updated p < n - 600000 \<and> agentFilter scope p"
  using assms by (auto simp: sweep_where_defs STALE_PRINTING_SECONDS_def)

lemma guards_claimed:
  assumes "jb_status p = Claimed"
  shows "\<not> sweep_stale_printing_where n scope p"
    "sweep_silent_where n scope p \<longleftrightarrow> has_evidence p \<and> jb_updated p < n - 90000 \<and> agentFilter scope p"
    "sweep_requeued_where n scope p \<longleftrightarrow> \<not> has_evidence p \<and> jb_updated p < n - 90000 \<and> jb_retries p < MAX_RETRIES
       \<and> jb_expires p > n \<and> agentFilter scope p"
    "sweep_exhausted_where n scope p \<longleftrightarrow> \<not> has_evidence p \<and> jb_updated p < n - 90000 \<and> jb_retries p \<ge> MAX_RETRIES
       \<and> agentFilter scope p"
  using assms by (auto simp: sweep_where_defs STALE_CLAIM_SECONDS_def has_evidence_def)

lemma guard_expired: "jb_expires p > n \<Longrightarrow> \<not> sweep_expired_where n scope p"
  by (simp add: sweep_expired_where_def)

lemma set_status [simp]:
  "jb_status (sweep_expired_set n p) = Expired" "jb_status (sweep_requeued_set n p) = Queued"
  "jb_status (sweep_silent_set n p) = Failed" "jb_status (sweep_stale_printing_set n p) = Failed"
  "jb_status (sweep_exhausted_set n p) = Failed"
  by (simp_all add: sweep_set_defs)

lemmas touch_simps = sweep_row_def touch_row_no touch_row_yes guards_terminal guards_queued guard_expired

lemma sweep_row_outside: "\<not> agentFilter scope p \<Longrightarrow> sweep_row c scope p = p"
  by (simp add: sweep_row_def touch_row_no guards_outside)

lemma sweep_row_terminal: "isTerminal (jb_status p) \<Longrightarrow> sweep_row c scope p = p"
  by (simp add: touch_simps)

lemma sweep_row_expired:
  assumes "agentFilter scope p" and "\<not> isTerminal (jb_status p)" and "jb_expires p \<le> sw_expired c"
  shows "sweep_row c scope p = sweep_expired_set (sw_expired c) p"
proof -
  have "sweep_expired_where (sw_expired c) scope p"
    using assms by (simp add: sweep_expired_where_def isTerminal_def)
  then show ?thesis by (simp add: touch_simps)
qed

lemma sweep_row_queued:
  "jb_expires p > sw_expired c \<Longrightarrow> jb_status p = Queued \<Longrightarrow> sweep_row c scope p = p"
  by (simp add: touch_simps)

lemma sweep_row_printing:
  assumes "agentFilter scope p" and "jb_expires p > sw_expired c" and "jb_status p = Printing"
  shows "sweep_row c scope p =
    (if jb_updated p < sw_printing c - 600000 then sweep_stale_printing_set (sw_printing c) p else p)"
  using assms by (cases "jb_updated p < sw_printing c - 600000")
    (simp_all add: touch_simps guards_printing [OF assms(3)])

lemma sweep_row_claimed:
  assumes "agentFilter scope p" and "jb_expires p > sw_expired c" and "jb_status p = Claimed"
  shows "sweep_row c scope p =
       (if has_evidence p
        then (if jb_updated p < sw_silent c - 90000 then sweep_silent_set (sw_silent c) p else p)
        else if jb_retries p < MAX_RETRIES
        then (if jb_updated p < sw_requeued c - 90000 \<and> jb_expires p > sw_requeued c
              then sweep_requeued_set (sw_requeued c) p else p)
        else (if jb_updated p < sw_exhausted c - 90000 then sweep_exhausted_set (sw_exhausted c) p else p))"
proof -
  note g = touch_simps guards_claimed [OF assms(3)]
  consider "has_evidence p" "jb_updated p < sw_silent c - 90000" | "has_evidence p" "\<not> jb_updated p < sw_silent c - 90000"
    | "\<not> has_evidence p" "jb_retries p < MAX_RETRIES" "jb_updated p < sw_requeued c - 90000 \<and> jb_expires p > sw_requeued c"
    | "\<not> has_evidence p" "jb_retries p < MAX_RETRIES" "\<not> jb_updated p < sw_requeued c - 90000"
    | "\<not> has_evidence p" "jb_retries p < MAX_RETRIES" "\<not> jb_expires p > sw_requeued c"
    | "\<not> has_evidence p" "\<not> jb_retries p < MAX_RETRIES" "jb_updated p < sw_exhausted c - 90000"
    | "\<not> has_evidence p" "\<not> jb_retries p < MAX_RETRIES" "\<not> jb_updated p < sw_exhausted c - 90000"
    by blast
  then show ?thesis
    by cases (simp_all add: g assms(1,2))
qed

lemma touch_row_same: "\<forall>r. f (u r) = f r \<Longrightarrow> f (touch_row g u r) = f r"
  by (simp add: touch_row_def)

lemma sweep_row_id [simp]: "jb_id (sweep_row c scope p) = jb_id p"
  unfolding sweep_row_def by (simp add: touch_row_same [of jb_id] sweep_set_defs)

lemma sweep_row_agent: "jb_agent (sweep_row c scope p) = jb_agent p"
  unfolding sweep_row_def by (simp add: touch_row_same [of jb_agent] sweep_set_defs)

lemma sweep_row_filter [simp]: "agentFilter scope (sweep_row c scope p) = agentFilter scope p"
  by (simp add: agentFilter_def sweep_row_agent)


text \<open>The five statements run one after the other.\<close>

definition clock_in_order :: "sweep_clock \<Rightarrow> bool" where
  "clock_in_order c \<longleftrightarrow> sw_expired c \<le> sw_requeued c \<and> sw_requeued c \<le> sw_silent c
     \<and> sw_silent c \<le> sw_printing c \<and> sw_printing c \<le> sw_exhausted c"

definition at_once :: "time \<Rightarrow> sweep_clock" where
  "at_once now = \<lparr>sw_expired = now, sw_requeued = now, sw_silent = now, sw_printing = now, sw_exhausted = now\<rparr>"

text \<open>What the sweep leaves of a row: nothing live past its TTL, no lapsed claim, no lapsed print.\<close>

definition swept :: "sweep_clock \<Rightarrow> print_job \<Rightarrow> bool" where
  "swept c q \<longleftrightarrow>
     (isTerminal (jb_status q) \<or> jb_expires q > sw_expired c)
     \<and> (jb_status q = Claimed \<longrightarrow> jb_updated q \<ge> sw_expired c - 90000 \<or> jb_expires q \<le> sw_requeued c)
     \<and> (jb_status q = Printing \<longrightarrow> jb_updated q \<ge> sw_expired c - 600000)"

lemma set_expires [simp]: "jb_expires (sweep_requeued_set n p) = jb_expires p"
  by (simp add: sweep_set_defs)

lemma sweep_row_swept:
  assumes "clock_in_order c" and "agentFilter scope p"
  shows "swept c (sweep_row c scope p)"
proof -
  note c = assms(1) [unfolded clock_in_order_def]
  consider (t) "isTerminal (jb_status p)" | (x) "\<not> isTerminal (jb_status p)" "jb_expires p \<le> sw_expired c"
    | (q) "jb_status p = Queued" "jb_expires p > sw_expired c"
    | (cl) "jb_status p = Claimed" "jb_expires p > sw_expired c"
    | (pr) "jb_status p = Printing" "jb_expires p > sw_expired c"
    by (cases "jb_status p"; cases "jb_expires p \<le> sw_expired c") auto
  then show ?thesis
  proof cases
    case t
    then show ?thesis by (auto simp: swept_def sweep_row_terminal isTerminal_def)
  next
    case x
    then show ?thesis using assms(2) by (simp add: swept_def sweep_row_expired)
  next
    case q
    then show ?thesis by (simp add: swept_def sweep_row_queued)
  next
    case cl
    then show ?thesis using assms(2) c by (simp add: swept_def sweep_row_claimed split: if_splits) linarith
  next
    case pr
    then show ?thesis using assms(2) c by (simp add: swept_def sweep_row_printing)
  qed
qed

lemma sweep_row_stays:
  assumes "swept (at_once now) q" and "agentFilter scope q"
  shows "sweep_row (at_once now) scope q = q"
proof (cases "isTerminal (jb_status q)")
  case True
  then show ?thesis by (rule sweep_row_terminal)
next
  case False
  then have "jb_expires q > sw_expired (at_once now)" using assms(1) by (simp add: swept_def)
  moreover have "jb_status q = Claimed \<Longrightarrow> \<not> jb_updated q < now - 90000"
    using assms(1) by (auto simp: swept_def at_once_def)
  ultimately show ?thesis
    using assms False
    by (cases "jb_status q") (simp_all add: swept_def sweep_row_queued sweep_row_claimed sweep_row_printing at_once_def)
qed

lemma sweep_row_again: "sweep_row (at_once now) scope (sweep_row (at_once now) scope p) = sweep_row (at_once now) scope p"
proof (cases "agentFilter scope p")
  case True
  have "clock_in_order (at_once now)" by (simp add: clock_in_order_def at_once_def)
  then show ?thesis using sweep_row_stays sweep_row_swept True sweep_row_filter by blast
next
  case False
  then show ?thesis by (simp add: sweep_row_outside)
qed

text \<open>The outcome the sweep records.\<close>

lemma expired_outcome:
  "derivePhysicalOutcome ''expired'' (jb_error (sweep_expired_set now p)) =
     (if jb_status p = Printing \<or> jb_status p = Claimed \<and> has_evidence p then UnknownOutcome else NotPrinted)"
  by (auto simp: derivePhysicalOutcome_def sweep_expired_set_def has_evidence_def or_empty_def
      PHYSICAL_OUTCOME_UNKNOWN_MARKERS_def ERR_EXPIRED_DURING_PRINT_def ERR_EXPIRED_AFTER_DELIVERY_def)

lemma failed_outcomes:
  "derivePhysicalOutcome ''failed'' (jb_error (sweep_silent_set now p)) = UnknownOutcome"
  "derivePhysicalOutcome ''failed'' (jb_error (sweep_stale_printing_set now p)) = UnknownOutcome"
  "derivePhysicalOutcome ''failed'' (jb_error (sweep_exhausted_set now p)) = NotPrinted"
  by (simp_all add: derivePhysicalOutcome_def sweep_set_defs or_empty_def PHYSICAL_OUTCOME_UNKNOWN_MARKERS_def
      ERR_SILENT_DELIVERY_def ERR_EXPIRED_DURING_PRINT_def ERR_EXECUTION_TIMEOUT_def ERR_EXHAUSTED_def)

lemma sweep_row_outcome:
  assumes "wf_job p" and "\<not> isTerminal (jb_status p)" and "isTerminal (jb_status (sweep_row c scope p))"
  shows "derivePhysicalOutcome (status_str (jb_status (sweep_row c scope p))) (jb_error (sweep_row c scope p))
    = (if has_evidence p then UnknownOutcome else NotPrinted)"
proof -
  have f: "agentFilter scope p" using assms(2,3) sweep_row_outside by metis
  have ev: "jb_status p = Printing \<Longrightarrow> has_evidence p" "jb_status p = Queued \<Longrightarrow> \<not> has_evidence p"
    using assms(1) by (auto simp: wf_job_def wf_ajob_def)
  show ?thesis
  proof (cases "jb_expires p \<le> sw_expired c")
    case True
    moreover have "jb_status p = Printing \<or> jb_status p = Claimed \<and> has_evidence p \<longleftrightarrow> has_evidence p"
      using ev assms(2) by (cases "jb_status p") auto
    ultimately show ?thesis using f assms(2) by (simp add: sweep_row_expired expired_outcome)
  next
    case False
    then have x: "jb_expires p > sw_expired c" by simp
    show ?thesis
      using assms(2,3) x f ev
      by (cases "jb_status p")
        (simp_all add: sweep_row_queued sweep_row_claimed sweep_row_printing failed_outcomes split: if_splits)
  qed
qed

section \<open>Properties\<close>

text \<open>C8. After a sweep, with the statements' clocks in order, no job it covers is live past its
  TTL, none is printing past the execution lease, and a claim past its lease is left only when its
  TTL ran out between the first two statements. Jobs outside the scope are untouched.\<close>

theorem sweep_leaves_nothing_overdue:
  assumes "clock_in_order c" and "q \<in> set (print_jobs (fst (sweepPrintJobs c scope db)))"
  shows "(agentFilter scope q \<longrightarrow> swept c q) \<and> (\<not> agentFilter scope q \<longrightarrow> q \<in> set (print_jobs db))"
proof -
  obtain p where "p \<in> set (print_jobs db)" "q = sweep_row c scope p"
    using assms(2) by (auto simp: sweep_jobs)
  then show ?thesis
    using sweep_row_swept [OF assms(1), of scope p] sweep_row_outside [of scope p c] by auto
qed

definition overdue_db :: gateway_db where
  "overdue_db = shop_db\<lparr>print_jobs := [shop_row\<lparr>jb_status := Claimed, jb_token := Some ''1'', jb_attempts := 1\<rparr>]\<rparr>"

definition requeued_row :: print_job where
  "requeued_row = shop_row\<lparr>jb_status := Queued, jb_attempts := 1, jb_retries := 1, jb_updated := 99000\<rparr>"

theorem sweep_leaves_nothing_overdue_witness:
  "print_jobs (fst (sweepPrintJobs (at_once 99000) None overdue_db)) = [requeued_row] \<and> swept (at_once 99000) requeued_row"
proof -
  have "print_jobs (fst (sweepPrintJobs (at_once 99000) None overdue_db)) = [requeued_row]" by code_simp
  moreover from this have "swept (at_once 99000) requeued_row"
    using sweep_leaves_nothing_overdue [of "at_once 99000" requeued_row None overdue_db]
    by (simp add: clock_in_order_def at_once_def agentFilter_def)
  ultimately show ?thesis by simp
qed

text \<open>C10. The sweep is idempotent: run again at the same instant it changes no row.\<close>

theorem sweep_idempotent:
  "print_jobs (fst (sweepPrintJobs (at_once now) scope (fst (sweepPrintJobs (at_once now) scope db))))
     = print_jobs (fst (sweepPrintJobs (at_once now) scope db))"
  by (simp add: sweep_jobs sweep_row_again)

text \<open>C9. The outcome the sweep records is honest: a job it ends is reported as unknown exactly
  when the agent may have held it (it was printing, or delivery evidence exists), and as not printed
  otherwise; a job that ends is never reported printed.\<close>

theorem sweep_outcome_honest:
  assumes "db_ok db" and "p \<in> set (print_jobs db)" and "\<not> isTerminal (jb_status p)"
    and "q \<in> set (print_jobs (fst (sweepPrintJobs c scope db)))" and "jb_id q = jb_id p"
    and "isTerminal (jb_status q)"
  shows "derivePhysicalOutcome (status_str (jb_status q)) (jb_error q)
    = (if has_evidence p then UnknownOutcome else NotPrinted)"
proof -
  obtain r where r: "r \<in> set (print_jobs db)" "q = sweep_row c scope r"
    using assms(4) by (auto simp: sweep_jobs)
  then have "r = p" using jobs_ok_same [of "print_jobs db" r p] assms(1,2,5) unfolding db_ok_def by simp
  then show ?thesis
    using sweep_row_outcome [of p c scope] assms r by (simp add: db_ok_def jobs_ok_def)
qed

definition silent_row :: print_job where
  "silent_row = shop_row\<lparr>jb_status := Claimed, jb_token := Some ''1'', jb_attempts := 1, jb_delivered_at := Some 5\<rparr>"

definition unknown_row :: print_job where
  "unknown_row = silent_row\<lparr>jb_status := Failed, jb_error := Some ERR_SILENT_DELIVERY, jb_updated := 99000\<rparr>"

theorem sweep_outcome_honest_witness:
  "print_jobs (fst (sweepPrintJobs (at_once 99000) None (shop_db\<lparr>print_jobs := [silent_row]\<rparr>))) = [unknown_row]
    \<and> derivePhysicalOutcome (status_str (jb_status unknown_row)) (jb_error unknown_row) = UnknownOutcome"
proof -
  let ?db = "shop_db\<lparr>print_jobs := [silent_row]\<rparr>"
  have e: "print_jobs (fst (sweepPrintJobs (at_once 99000) None ?db)) = [unknown_row]" by code_simp
  have "db_ok ?db"
    by (simp add: db_ok_def jobs_ok_def unique_by_def wf_job_def wf_ajob_def abs_job_def has_evidence_def
        silent_row_def shop_row_def queued_row_def)
  moreover have "has_evidence silent_row" "jb_status silent_row = Claimed" "jb_id unknown_row = jb_id silent_row"
    "jb_status unknown_row = Failed"
    by (simp_all add: has_evidence_def silent_row_def unknown_row_def)
  ultimately show ?thesis
    using sweep_outcome_honest [of ?db silent_row unknown_row "at_once 99000" None] e by simp
qed

end
