(* ===== verification/Job_Capacity.thy ===== *)
theory Job_Capacity
  imports Job_Properties
begin

text \<open>
  The in-flight ceiling of an agent and the size and order of a poll: how the claim and the poll
  move the number of live jobs, and which jobs a poll takes.
\<close>

lemma count_where_update_le:
  assumes "\<And>p. p \<in> set t \<Longrightarrow> l (if g p then u p else p) \<Longrightarrow> l p \<or> n p"
  shows "count_where l (update_where g u t) \<le> count_where l t + count_where n t"
  using assms unfolding count_where_def by (induction t) (auto simp: le_SucI, fastforce+)

lemma count_by_ids:
  assumes "unique_by jb_id t" and "\<And>p. p \<in> set t \<Longrightarrow> n p \<Longrightarrow> jb_id p \<in> set is"
  shows "count_where n t \<le> length is"
proof -
  have "count_where n t = card (jb_id ` set (filter n t))"
    using assms(1) unfolding unique_by_def count_where_def
    by (metis card_image distinct_card distinct_map distinct_filter inj_on_subset filter_is_subset)
  also have "\<dots> \<le> card (set is)"
    using assms(2) by (intro card_mono) auto
  also have "\<dots> \<le> length is" by (rule card_length)
  finally show ?thesis .
qed

lemma inFlight_update:
  "inFlight (with_update g u db) now agentId
     = count_where (live_where db now agentId) (update_where g u (print_jobs db))"
  by (simp add: inFlight_def with_update_def live_where_def [abs_def] joined_ready_def)

lemma claim_inFlight:
  assumes "db_ok db"
  shows "inFlight (fst (claimJobForDelivery now locked token jobId agentId db)) now agentId
    \<le> max MAX_AGENT_IN_FLIGHT_JOBS (inFlight db now agentId)"
proof -
  obtain db' row where e: "claimJobForDelivery now locked token jobId agentId db = (db', row)"
    by (cases "claimJobForDelivery now locked token jobId agentId db")
  consider "db' = db"
    | g where "db' = with_update g (claim_set now token) db" "\<forall>p. g p \<longrightarrow> jb_id p = jobId"
      "inFlight db now agentId < MAX_AGENT_IN_FLIGHT_JOBS"
    using claim_cases [OF assms [unfolded db_ok_def] e] by (auto simp: claim_update_where_def)
  then show ?thesis
  proof cases
    case 1
    then show ?thesis using e by simp
  next
    case 2
    have "count_where (\<lambda>p. jb_id p = jobId) (print_jobs db) \<le> length [jobId]"
      using assms by (intro count_by_ids) (auto simp: db_ok_def jobs_ok_def)
    moreover have "inFlight db' now agentId
        \<le> inFlight db now agentId + count_where (\<lambda>p. jb_id p = jobId) (print_jobs db)"
      unfolding 2(1) inFlight_update unfolding inFlight_def
      using 2(2) by (intro count_where_update_le) (auto split: if_splits)
    ultimately show ?thesis using 2(3) e by simp
  qed
qed


section \<open>The poll\<close>

definition queued_ids :: "gateway_db \<Rightarrow> time \<Rightarrow> string \<Rightarrow> string list" where
  "queued_ids db now agentId =
     map jb_id (order_limit jb_created (queued_limit db now agentId)
       (select_where (queued_candidate_where db now agentId (queued_limit db now agentId)) (print_jobs db)))"

lemma candidate_kinds:
  assumes "c \<in> set (candidate_ids db now agentId)"
  shows "ca_id c \<in> set (queued_ids db now agentId)
    \<or> (\<exists>r \<in> set (print_jobs db). jb_id r = ca_id c \<and> stale_candidate_where db now agentId r)"
proof -
  have "\<And>l. set (order_limit jb_created l (select_where (stale_candidate_where db now agentId) (print_jobs db)))
      \<subseteq> {r \<in> set (print_jobs db). stale_candidate_where db now agentId r}"
    using set_order_limit by (fastforce simp: select_where_def)
  then show ?thesis
    using assms by (fastforce simp: candidate_ids_def Let_def queued_ids_def candidate_of_def)
qed

lemma stale_live: "stale_candidate_where db now agentId p \<Longrightarrow> poll_live_where db now agentId p"
  by (simp add: stale_candidate_where_def poll_live_where_def)

lemma poll_inFlight_update:
  "poll_inFlight (with_update g u db) now agentId
     = count_where (poll_live_where db now agentId) (update_where g u (print_jobs db))"
  by (simp add: poll_inFlight_def with_update_def poll_live_where_def [abs_def] poll_joined_ready_def)

lemma poll_capacity:
  assumes "db_ok db"
  shows "poll_inFlight (fst (poll_claim now locked uuid agentId db db)) now agentId
    \<le> max MAX_AGENT_IN_FLIGHT_JOBS (poll_inFlight db now agentId)"
proof -
  have ok: "jobs_ok (print_jobs db)" using assms by (simp add: db_ok_def)
  obtain db' rows where e: "poll_claim now locked uuid agentId db db = (db', rows)"
    by (cases "poll_claim now locked uuid agentId db db")
  obtain g where g: "db' = with_update g (poll_set now uuid) db"
    "\<And>p. g p \<longleftrightarrow> poll_row_where now p
         \<and> List.member (claimable_ids locked (candidate_ids db now agentId) db) (jb_id p)"
    using poll_cases [OF ok e] by blast
  let ?n = "\<lambda>p. jb_id p \<in> set (queued_ids db now agentId)"
  have live: "poll_live_where db now agentId p \<or> ?n p" if p: "p \<in> set (print_jobs db)" and "g p" for p
  proof -
    obtain c where "c \<in> set (candidate_ids db now agentId)" "ca_id c = jb_id p"
      using claimable_candidate g(2) \<open>g p\<close> by (force simp: List.member_iff)
    then have "?n p \<or> (\<exists>r \<in> set (print_jobs db). jb_id r = jb_id p \<and> stale_candidate_where db now agentId r)"
      using candidate_kinds by metis
    then show ?thesis using jobs_ok_same [OF ok _ p] stale_live by metis
  qed
  have "count_where ?n (print_jobs db) \<le> length (queued_ids db now agentId)"
    using ok by (intro count_by_ids) (auto simp: jobs_ok_def)
  also have "\<dots> \<le> MAX_AGENT_IN_FLIGHT_JOBS - poll_inFlight db now agentId"
  proof -
    have "length (queued_ids db now agentId) \<le> queued_limit db now agentId"
      by (simp add: queued_ids_def length_order_limit)
    then show ?thesis by (simp add: queued_limit_def Let_def)
  qed
  finally have new: "count_where ?n (print_jobs db) \<le> MAX_AGENT_IN_FLIGHT_JOBS - poll_inFlight db now agentId" .
  have "poll_inFlight db' now agentId \<le> poll_inFlight db now agentId + count_where ?n (print_jobs db)"
    unfolding g(1) poll_inFlight_update unfolding poll_inFlight_def
    using live by (intro count_where_update_le) (auto split: if_splits)
  with new e show ?thesis by simp
qed

text \<open>No candidate is overtaken by a younger one of its kind.\<close>

lemma sorted_split_order:
  assumes "sorted (map k (filter P (xs @ ys)))" and "x \<in> set xs" and "y \<in> set ys" and "P x" and "P y"
  shows "k x \<le> k y"
  using assms by (auto simp: sorted_append)

lemma not_overtaken:
  assumes "x \<in> set (take n (filter Q (sort_key f (sort_key h cs))))"
    and "y \<in> set cs" and "Q y" and "f y = f x" and "h y < h x"
  shows "y \<in> set (take n (filter Q (sort_key f (sort_key h cs))))"
proof (rule ccontr)
  let ?L = "filter Q (sort_key f (sort_key h cs))"
  assume "y \<notin> set (take n ?L)"
  moreover have "y \<in> set ?L" using assms(2,3) by simp
  ultimately have y: "y \<in> set (drop n ?L)"
    by (metis Un_iff append_take_drop_id set_append)
  have "filter (\<lambda>c. f c = f x) ?L = filter Q (filter (\<lambda>c. f c = f x) (sort_key f (sort_key h cs)))"
    by (simp add: conj_commute)
  also have "\<dots> = filter Q (filter (\<lambda>c. f c = f x) (sort_key h cs))"
    by (simp only: sort_key_stable)
  finally have "sorted (map h (filter (\<lambda>c. f c = f x) ?L))"
    by (simp add: sorted_filter)
  then have "h x \<le> h y"
    using sorted_split_order [of h "\<lambda>c. f c = f x" "take n ?L" "drop n ?L" x y] assms(1,4) y by simp
  with assms(5) show False by simp
qed

lemma order_limit_closed:
  assumes "x \<in> set (order_limit k n t)" and "y \<in> set t" and "k y < k x"
  shows "y \<in> set (order_limit k n t)"
proof (rule ccontr)
  assume "y \<notin> set (order_limit k n t)"
  moreover have "y \<in> set (sort_key k t)" using assms(2) by simp
  ultimately have "y \<in> set (drop n (sort_key k t))"
    unfolding order_limit_def by (metis Un_iff append_take_drop_id set_append)
  moreover have "sorted (map k (filter (\<lambda>_. True) (take n (sort_key k t) @ drop n (sort_key k t))))"
    by simp
  ultimately have "k x \<le> k y"
    using sorted_split_order [of k "\<lambda>_. True" "take n (sort_key k t)" "drop n (sort_key k t)" x y] assms(1)
    unfolding order_limit_def by simp
  with assms(3) show False by simp
qed

lemma poll_fifo_ids:
  assumes ok: "db_ok db" and p: "p \<in> set (print_jobs db)" "jb_status p = Queued"
    and taken: "jb_id p \<in> set (claimable_ids locked (candidate_ids db now agentId) db)"
    and r: "r \<in> set (print_jobs db)" "queued_candidate_where db now agentId (queued_limit db now agentId) r"
    and older: "jb_created r < jb_created p" and free: "\<not> locked (jb_id r)"
  shows "jb_id r \<in> set (claimable_ids locked (candidate_ids db now agentId) db)"
proof -
  let ?t = "select_where (queued_candidate_where db now agentId (queued_limit db now agentId)) (print_jobs db)"
  let ?s = "select_where (stale_candidate_where db now agentId) (print_jobs db)"
  have okj: "jobs_ok (print_jobs db)" using ok by (simp add: db_ok_def)
  obtain c where c: "c \<in> set (take MAX_CLAIM_BATCH
      (filter (\<lambda>c. list_ex (\<lambda>p. jb_id p = ca_id c \<and> poll_joined_ready db p) (print_jobs db) \<and> \<not> locked (ca_id c))
        (sort_key ca_priority (sort_key ca_created (candidate_ids db now agentId)))))" (is "_ \<in> set (take _ (filter ?Q _))")
    "ca_id c = jb_id p"
    using taken by (auto simp: claimable_ids_def)
  then have "c \<in> set (candidate_ids db now agentId)" by (auto dest!: in_set_takeD)
  then consider x where "x \<in> set ?s" "c = candidate_of 0 x"
    | x where "x \<in> set (order_limit jb_created (queued_limit db now agentId) ?t)" "c = candidate_of 1 x"
    using set_order_limit [of jb_created MAX_CLAIM_BATCH ?s] by (auto simp: candidate_ids_def Let_def)
  then have "p \<in> set (order_limit jb_created (queued_limit db now agentId) ?t) \<and> c = candidate_of 1 p"
  proof cases
    case 1
    then have "x \<in> set (print_jobs db)" "jb_id x = jb_id p" "jb_status x = Claimed"
      using c(2) by (auto simp: select_where_def stale_candidate_where_def candidate_of_def)
    then have "x = p" using jobs_ok_same [OF okj _ p(1)] by blast
    with \<open>jb_status x = Claimed\<close> p(2) show ?thesis by simp
  next
    case 2
    then have "x \<in> set (print_jobs db)" "jb_id x = jb_id p"
      using c(2) set_order_limit [of jb_created "queued_limit db now agentId" ?t]
      by (auto simp: select_where_def candidate_of_def)
    then show ?thesis using jobs_ok_same [OF okj _ p(1)] 2 by auto
  qed
  then have pt: "p \<in> set (order_limit jb_created (queued_limit db now agentId) ?t)" and cp: "c = candidate_of 1 p"
    by auto
  have "r \<in> set ?t" using r by (simp add: select_where_def)
  then have "r \<in> set (order_limit jb_created (queued_limit db now agentId) ?t)"
    using order_limit_closed [OF pt] older by simp
  then have "candidate_of 1 r \<in> set (candidate_ids db now agentId)"
    by (simp add: candidate_ids_def Let_def)
  moreover have "?Q (candidate_of 1 r)"
    using r free by (auto simp: candidate_of_def queued_candidate_where_def list_ex_iff)
  ultimately have "candidate_of 1 r \<in> set (take MAX_CLAIM_BATCH (filter ?Q
      (sort_key ca_priority (sort_key ca_created (candidate_ids db now agentId)))))"
    by (intro not_overtaken [OF c(1)]) (simp_all add: cp candidate_of_def older)
  then have "ca_id (candidate_of 1 r) \<in> set (claimable_ids locked (candidate_ids db now agentId) db)"
    unfolding claimable_ids_def by simp
  then show ?thesis by (simp add: candidate_of_def)
qed


section \<open>Properties\<close>

text \<open>C6. The in-flight ceiling: neither a claim nor a poll lets the number of an agent's live
  jobs on ready printers grow past the ceiling of 500; a count that is already above it (an agent or
  printer came back) does not grow.\<close>

theorem in_flight_ceiling:
  assumes "db_ok db"
  shows "inFlight (fst (claimJobForDelivery now locked token jobId agentId db)) now agentId
      \<le> max 500 (inFlight db now agentId)
    \<and> poll_inFlight (fst (poll_claim now locked uuid agentId db db)) now agentId
      \<le> max 500 (poll_inFlight db now agentId)"
  using claim_inFlight [OF assms, of now locked token jobId agentId]
    poll_capacity [OF assms, of now locked uuid agentId]
  by (simp add: MAX_AGENT_IN_FLIGHT_JOBS_def)

theorem in_flight_ceiling_witness:
  "inFlight (fst (claimJobForDelivery 1 (\<lambda>_. False) ''1'' ''j1'' ''a1'' (shop_db\<lparr>print_jobs := [shop_row]\<rparr>))) 1 ''a1'' = 1
    \<and> inFlight (fst (claimJobForDelivery 1 (\<lambda>_. False) ''1'' ''j1'' ''a1'' (shop_db\<lparr>print_jobs := [shop_row]\<rparr>))) 1 ''a1'' \<le> 500"
proof -
  let ?db = "shop_db\<lparr>print_jobs := [shop_row]\<rparr>"
  have n: "inFlight (fst (claimJobForDelivery 1 (\<lambda>_. False) ''1'' ''j1'' ''a1'' ?db)) 1 ''a1'' = 1
    \<and> inFlight ?db 1 ''a1'' = 0"
    by code_simp
  have "db_ok ?db" by (simp add: db_ok_def jobs_ok_def unique_by_def shop_row_def)
  then show ?thesis
    using in_flight_ceiling [of ?db 1 "\<lambda>_. False" "''1''" "''j1''" "''a1''"] n by simp
qed

lemma poll_size:
  assumes ok: "jobs_ok (print_jobs db)" and "poll_claim now locked uuid agentId db db = (db', rows)"
  shows "length rows \<le> 20"
proof -
  let ?ids = "claimable_ids locked (candidate_ids db now agentId) db"
  obtain g where g: "rows = map CLAIM_RETURNING (update_returning g (poll_set now uuid) (print_jobs db))"
    "\<And>p. g p \<longleftrightarrow> poll_row_where now p \<and> List.member ?ids (jb_id p)"
    using poll_cases [OF assms] by blast
  have "length rows = count_where g (print_jobs db)"
    by (simp add: g(1) update_returning_def count_where_def)
  also have "\<dots> \<le> length ?ids"
    using ok g(2) by (intro count_by_ids) (auto simp: jobs_ok_def List.member_iff)
  also have "\<dots> \<le> 20" by (simp add: claimable_ids_def MAX_CLAIM_BATCH_def)
  finally show ?thesis .
qed

lemma claimable_row:
  assumes ok: "jobs_ok (print_jobs db)" and p: "p \<in> set (print_jobs db)" "jb_id p \<in> set (claimable_ids locked ids db)"
  shows "poll_joined_ready db p \<and> \<not> locked (jb_id p)"
proof -
  obtain r where "r \<in> set (print_jobs db)" "jb_id r = jb_id p" "poll_joined_ready db r" "\<not> locked (jb_id p)"
    using p(2) by (auto simp: claimable_ids_def list_ex_iff dest!: in_set_takeD)
  then show ?thesis using jobs_ok_same [OF ok _ p(1)] by blast
qed

text \<open>C7. A poll returns at most 20 jobs, each of them the polling agent's, unexpired, claimed under
  the token drawn for it, with both budgets left when it was taken and with its agent and printer
  ready; and it is first come first served: an older queued job that meets the conditions and is not
  locked by another transaction is never passed over for a younger one.\<close>

theorem poll_batch:
  assumes "db_ok db" and "poll_claim now locked uuid agentId db db = (db', rows)"
  shows "length rows \<le> 20
    \<and> (\<forall>row \<in> set rows. \<exists>p \<in> set (print_jobs db). row = CLAIM_RETURNING (poll_set now uuid p)
        \<and> poll_row_where now p \<and> jb_agent p = agentId \<and> poll_joined_ready db p \<and> \<not> locked (jb_id p)
        \<and> (jb_status p = Queued \<longrightarrow> (\<forall>r \<in> set (print_jobs db).
             queued_candidate_where db now agentId (queued_limit db now agentId) r
             \<and> jb_created r < jb_created p \<and> \<not> locked (jb_id r)
             \<longrightarrow> jb_id r \<in> set (map cj_id rows))))"
proof -
  let ?ids = "claimable_ids locked (candidate_ids db now agentId) db"
  have ok: "jobs_ok (print_jobs db)" using assms(1) by (simp add: db_ok_def)
  obtain g where g: "rows = map CLAIM_RETURNING (update_returning g (poll_set now uuid) (print_jobs db))"
    "set (map cj_id rows) = jb_id ` {p \<in> set (print_jobs db). g p}"
    "\<And>p. g p \<longleftrightarrow> poll_row_where now p \<and> List.member ?ids (jb_id p)"
    using poll_cases [OF ok assms(2)] by blast
  have idrow: "poll_row_where now p \<and> jb_agent p = agentId" if "p \<in> set (print_jobs db)" "jb_id p \<in> set ?ids" for p
    using poll_ids_row [OF ok that(1)] that(2) by (simp add: List.member_iff)
  have fifo: "jb_id r \<in> set (map cj_id rows)"
    if p: "p \<in> set (print_jobs db)" "jb_id p \<in> set ?ids" "jb_status p = Queued"
      and r: "r \<in> set (print_jobs db)" "queued_candidate_where db now agentId (queued_limit db now agentId) r"
        "jb_created r < jb_created p" "\<not> locked (jb_id r)" for p r
  proof -
    have "jb_id r \<in> set ?ids" by (rule poll_fifo_ids [OF assms(1) p(1,3,2) r])
    then have "g r" using g(3) idrow r(1) by (simp add: List.member_iff)
    then show ?thesis using g(2) r(1) by blast
  qed
  show ?thesis
  proof (intro conjI ballI poll_size [OF ok assms(2)])
    fix x assume "x \<in> set rows"
    then obtain p where p: "p \<in> set (print_jobs db)" "g p" "x = CLAIM_RETURNING (poll_set now uuid p)"
      by (auto simp: g(1) update_returning_def)
    then have "jb_id p \<in> set ?ids" using g(3) by (simp add: List.member_iff)
    then show "\<exists>p \<in> set (print_jobs db). x = CLAIM_RETURNING (poll_set now uuid p)
        \<and> poll_row_where now p \<and> jb_agent p = agentId \<and> poll_joined_ready db p \<and> \<not> locked (jb_id p)
        \<and> (jb_status p = Queued \<longrightarrow> (\<forall>r \<in> set (print_jobs db).
             queued_candidate_where db now agentId (queued_limit db now agentId) r
             \<and> jb_created r < jb_created p \<and> \<not> locked (jb_id r)
             \<longrightarrow> jb_id r \<in> set (map cj_id rows)))"
      using p idrow claimable_row [OF ok] fifo by (intro bexI [of _ p]) blast+
  qed
qed

theorem poll_batch_witness:
  "\<exists>rows. snd (poll_claim 1 (\<lambda>_. False) (\<lambda>_. ''9'') ''a1'' (shop_db\<lparr>print_jobs := [shop_row]\<rparr>) (shop_db\<lparr>print_jobs := [shop_row]\<rparr>)) = rows
    \<and> map cj_id rows = [''j1''] \<and> length rows \<le> 20"
proof -
  let ?db = "shop_db\<lparr>print_jobs := [shop_row]\<rparr>"
  have "map cj_id (snd (poll_claim 1 (\<lambda>_. False) (\<lambda>_. ''9'') ''a1'' ?db ?db)) = [''j1'']"
    by code_simp
  moreover have "db_ok ?db" by (simp add: db_ok_def jobs_ok_def unique_by_def shop_row_def)
  ultimately show ?thesis
    using poll_batch [of ?db 1 "\<lambda>_. False" "\<lambda>_. ''9''" "''a1''"] by (metis surjective_pairing)
qed

end
