(* ===== verification/Ws_Buckets.thy ===== *)
theory Ws_Buckets
  imports Prelude "HOL-Library.AList"
begin

text \<open>
  The message limiter of \<open>src/server/ws.ts\<close>: one token bucket per agent, kept across
  reconnects, refilled from elapsed time, and dropped when idle for an hour. A JavaScript
  \<open>Map\<close> is an association list in insertion order. Token counts are exact rationals where
  the code has doubles.
\<close>

definition WS_MESSAGE_BUCKET_CAPACITY :: rat where "WS_MESSAGE_BUCKET_CAPACITY = 20"
definition WS_MESSAGE_REFILL_PER_SECOND :: rat where "WS_MESSAGE_REFILL_PER_SECOND = 5"
definition WS_BUCKET_IDLE_TTL_MS :: int where "WS_BUCKET_IDLE_TTL_MS = 60 * 60 * 1000"

record TokenBucket =
  tb_tokens :: rat
  tb_lastRefillMs :: time

definition new_bucket :: "time \<Rightarrow> TokenBucket" where
  "new_bucket now = \<lparr>tb_tokens = WS_MESSAGE_BUCKET_CAPACITY, tb_lastRefillMs = now\<rparr>"

definition bucket_consume :: "time \<Rightarrow> rat \<Rightarrow> TokenBucket \<Rightarrow> TokenBucket \<times> bool" where
  "bucket_consume now cost b =
     (let elapsed = of_int (max 0 (now - tb_lastRefillMs b)) / 1000;
          tokens = min WS_MESSAGE_BUCKET_CAPACITY (tb_tokens b + elapsed * WS_MESSAGE_REFILL_PER_SECOND)
      in if tokens < cost then (\<lparr>tb_tokens = tokens, tb_lastRefillMs = now\<rparr>, False)
         else (\<lparr>tb_tokens = tokens - cost, tb_lastRefillMs = now\<rparr>, True))"

record WsBucketEntry =
  be_bucket :: TokenBucket
  be_lastSeenMs :: time

type_synonym ws_buckets = "(string \<times> WsBucketEntry) list"

text \<open>The bucket and the map with its entry seen at \<open>now\<close>.\<close>

definition getBucketForAgent :: "time \<Rightarrow> string \<Rightarrow> ws_buckets \<Rightarrow> ws_buckets \<times> TokenBucket" where
  "getBucketForAgent now agentId m =
     (case map_of m agentId of
        Some existing \<Rightarrow> (AList.update agentId (existing\<lparr>be_lastSeenMs := now\<rparr>) m, be_bucket existing)
      | None \<Rightarrow> (let bucket = new_bucket now
                 in (AList.update agentId \<lparr>be_bucket = bucket, be_lastSeenMs = now\<rparr> m, bucket)))"

definition idle_entry :: "time \<Rightarrow> WsBucketEntry \<Rightarrow> bool" where
  "idle_entry nowMs e \<longleftrightarrow> nowMs - be_lastSeenMs e > WS_BUCKET_IDLE_TTL_MS"

definition pruneIdleWsBuckets :: "time \<Rightarrow> ws_buckets \<Rightarrow> ws_buckets \<times> nat" where
  "pruneIdleWsBuckets nowMs m =
     (filter (\<lambda>(agentId, e). \<not> idle_entry nowMs e) m, length (filter (\<lambda>(agentId, e). idle_entry nowMs e) m))"

text \<open>
  The message handler's admission: \<open>getBucketForAgent(agentId)\<close>, then \<open>consume()\<close> on the
  shared bucket. Both read the clock within one turn of the event loop; \<open>now\<close> is that time.
\<close>

definition admit_message :: "time \<Rightarrow> string \<Rightarrow> ws_buckets \<Rightarrow> ws_buckets \<times> bool" where
  "admit_message now agentId m =
     (let (m1, bucket) = getBucketForAgent now agentId m;
          (bucket', ok) = bucket_consume now 1 bucket
      in (AList.update agentId \<lparr>be_bucket = bucket', be_lastSeenMs = now\<rparr> m1, ok))"

section \<open>The bucket\<close>

definition bucket_ok :: "TokenBucket \<Rightarrow> bool" where
  "bucket_ok b \<longleftrightarrow> 0 \<le> tb_tokens b \<and> tb_tokens b \<le> 20"

lemmas bucket_consts = WS_MESSAGE_BUCKET_CAPACITY_def WS_MESSAGE_REFILL_PER_SECOND_def WS_BUCKET_IDLE_TTL_MS_def

text \<open>The tokens after the refill.\<close>

definition refilled :: "time \<Rightarrow> TokenBucket \<Rightarrow> rat" where
  "refilled now b = min 20 (tb_tokens b + of_int (max 0 (now - tb_lastRefillMs b)) / 200)"

lemma bucket_consume_eq:
  "bucket_consume now 1 b =
     (if refilled now b < 1 then (\<lparr>tb_tokens = refilled now b, tb_lastRefillMs = now\<rparr>, False)
      else (\<lparr>tb_tokens = refilled now b - 1, tb_lastRefillMs = now\<rparr>, True))"
proof -
  have "of_int e / 1000 * 5 = (of_int e / 200 :: rat)" for e by simp
  then show ?thesis
    unfolding bucket_consume_def refilled_def Let_def bucket_consts by presburger
qed

lemma new_bucket_ok [simp]: "bucket_ok (new_bucket now)"
  by (simp add: bucket_ok_def new_bucket_def bucket_consts)

lemma refilled_bounds: "bucket_ok b \<Longrightarrow> 0 \<le> refilled now b \<and> refilled now b \<le> 20"
  by (simp add: refilled_def bucket_ok_def)

lemma consume_ok: "bucket_ok b \<Longrightarrow> bucket_ok (fst (bucket_consume now 1 b))"
  using refilled_bounds [of b now] by (auto simp: bucket_ok_def bucket_consume_eq)

lemma consume_last [simp]: "tb_lastRefillMs (fst (bucket_consume now 1 b)) = now"
  by (simp add: bucket_consume_eq)

lemma consume_tokens:
  "tb_lastRefillMs b \<le> now \<Longrightarrow>
     tb_tokens (fst (bucket_consume now 1 b)) + (if snd (bucket_consume now 1 b) then 1 else 0)
       \<le> tb_tokens b + of_int (now - tb_lastRefillMs b) / 200"
  by (simp add: bucket_consume_eq refilled_def)

lemma refill_bound: "4000 \<le> d \<Longrightarrow> 0 \<le> t \<Longrightarrow> 20 \<le> t + d / (200 :: rat)"
  by (simp add: field_simps)

text \<open>A full bucket answers like a new one.\<close>

lemma consume_full:
  assumes "bucket_ok b" and "now - tb_lastRefillMs b \<ge> 4000"
  shows "bucket_consume now 1 b = bucket_consume now 1 (new_bucket now)"
proof -
  have "(4000 :: rat) \<le> of_int (now - tb_lastRefillMs b)"
    using assms(2) of_int_le_iff [of 4000 "now - tb_lastRefillMs b", where 'a = rat] by simp
  then have "20 \<le> tb_tokens b + of_int (now - tb_lastRefillMs b) / 200"
    using assms(1) by (intro refill_bound) (simp_all add: bucket_ok_def)
  moreover have "max 0 (now - tb_lastRefillMs b) = now - tb_lastRefillMs b"
    using assms(2) by simp
  ultimately have "refilled now b = 20" by (simp only: refilled_def min_absorb1)
  moreover have "refilled now (new_bucket now) = 20"
    by (simp add: refilled_def new_bucket_def bucket_consts)
  ultimately show ?thesis by (simp add: bucket_consume_eq)
qed

section \<open>Messages of one agent\<close>

text \<open>The messages of an agent at the given times; the result counts the admitted ones.\<close>

fun admit_all :: "time list \<Rightarrow> string \<Rightarrow> ws_buckets \<Rightarrow> ws_buckets \<times> nat" where
  "admit_all [] agentId m = (m, 0)"
| "admit_all (t # ts) agentId m =
     (let (m1, ok) = admit_message t agentId m; (m2, n) = admit_all ts agentId m1
      in (m2, (if ok then 1 else 0) + n))"

lemma admit_entry:
  "map_of (fst (admit_message now a m)) b =
     (if b = a then Some \<lparr>be_bucket = fst (bucket_consume now 1 (snd (getBucketForAgent now a m))), be_lastSeenMs = now\<rparr>
      else map_of m b)"
  "snd (admit_message now a m) = snd (bucket_consume now 1 (snd (getBucketForAgent now a m)))"
  by (simp_all add: admit_message_def getBucketForAgent_def update_conv' Let_def split_beta split: option.split)

lemma bucket_of_entry:
  "snd (getBucketForAgent now a m) = (case map_of m a of Some e \<Rightarrow> be_bucket e | None \<Rightarrow> new_bucket now)"
  by (simp add: getBucketForAgent_def Let_def split: option.split)

lemma sum_bound: "n \<le> b1 + x \<Longrightarrow> b1 + k \<le> b0 + y \<Longrightarrow> z = x + y \<Longrightarrow> r = k + n \<Longrightarrow> r \<le> b0 + (z :: rat)"
  by simp

text \<open>From a bucket with some tokens, at most those and the refill are admitted.\<close>

lemma admit_all_from:
  "sorted (s # ts) \<Longrightarrow> map_of m a = Some e \<Longrightarrow> bucket_ok (be_bucket e) \<Longrightarrow> tb_lastRefillMs (be_bucket e) = s \<Longrightarrow>
     of_nat (snd (admit_all ts a m)) \<le> tb_tokens (be_bucket e) + of_int (last (s # ts) - s) / 200"
proof (induction ts arbitrary: s m e)
  case Nil
  then show ?case by (simp add: bucket_ok_def)
next
  case (Cons t ts)
  let ?b = "be_bucket e" and ?m1 = "fst (admit_message t a m)"
  let ?b1 = "fst (bucket_consume t 1 ?b)" and ?ok = "snd (bucket_consume t 1 ?b)"
  have e1: "map_of ?m1 a = Some \<lparr>be_bucket = ?b1, be_lastSeenMs = t\<rparr>" and ok: "snd (admit_message t a m) = ?ok"
    using Cons.prems(2) by (simp_all add: admit_entry bucket_of_entry)
  have "of_nat (snd (admit_all ts a ?m1)) \<le> tb_tokens ?b1 + of_int (last (t # ts) - t) / (200 :: rat)"
    using Cons.IH [OF _ e1] Cons.prems(1,3) by (simp add: consume_ok)
  moreover have "tb_tokens ?b1 + (if ?ok then 1 else 0) \<le> tb_tokens ?b + of_int (t - s) / 200"
    using consume_tokens [of ?b t] Cons.prems(1,4) by simp
  moreover have "of_int (last (s # t # ts) - s) / 200 = of_int (last (t # ts) - t) / 200 + of_int (t - s) / (200 :: rat)"
    by (simp add: diff_divide_distrib)
  moreover have "snd (admit_all (t # ts) a m) = (if ?ok then 1 else 0) + snd (admit_all ts a ?m1)"
    by (simp add: ok [symmetric] split_beta Let_def)
  then have "of_nat (snd (admit_all (t # ts) a m)) = (if ?ok then 1 else 0) + (of_nat (snd (admit_all ts a ?m1)) :: rat)"
    by simp
  ultimately show ?case by (rule sum_bound)
qed

text \<open>Every bucket of the map is well formed and was refilled when it was last seen.\<close>

definition entry_ok :: "WsBucketEntry \<Rightarrow> bool" where
  "entry_ok e \<longleftrightarrow> bucket_ok (be_bucket e) \<and> tb_lastRefillMs (be_bucket e) = be_lastSeenMs e"

definition buckets_ok :: "ws_buckets \<Rightarrow> bool" where
  "buckets_ok m \<longleftrightarrow> (\<forall>a e. map_of m a = Some e \<longrightarrow> entry_ok e)"

lemma bucket_of_ok: "buckets_ok m \<Longrightarrow> bucket_ok (snd (getBucketForAgent now a m))"
  by (auto simp: bucket_of_entry buckets_ok_def entry_ok_def split: option.split)

lemma admit_buckets_ok: "buckets_ok m \<Longrightarrow> buckets_ok (fst (admit_message now a m))"
  using bucket_of_ok [of m now a] by (auto simp: buckets_ok_def admit_entry entry_ok_def consume_ok split: if_splits)

lemma admit_all_new:
  assumes "sorted ts" and "map_of m a = None" and "ts \<noteq> []"
  shows "of_nat (snd (admit_all ts a m)) \<le> 20 + of_int (last ts - hd ts) / (200 :: rat)"
proof -
  obtain t us where ts: "ts = t # us" using assms(3) by (cases ts) auto
  let ?m1 = "fst (admit_message t a m)" and ?b1 = "fst (bucket_consume t 1 (new_bucket t))"
  have n: "map_of ?m1 a = Some \<lparr>be_bucket = ?b1, be_lastSeenMs = t\<rparr>" "snd (admit_message t a m)"
    "tb_tokens ?b1 = 19"
    using assms(2) by (simp_all add: admit_entry bucket_of_entry bucket_consume_eq refilled_def new_bucket_def bucket_consts)
  have "of_nat (snd (admit_all us a ?m1)) \<le> tb_tokens ?b1 + of_int (last (t # us) - t) / (200 :: rat)"
    using admit_all_from [OF _ n(1), of t us] assms(1) ts by (simp add: consume_ok)
  moreover have "snd (admit_all ts a m) = 1 + snd (admit_all us a ?m1)"
    using n(2) by (simp add: ts split_beta Let_def)
  ultimately show ?thesis using n(3) ts by simp
qed

section \<open>Pruning\<close>

datatype ws_event = Message time string | Prune time

fun event_time :: "ws_event \<Rightarrow> time" where
  "event_time (Message t a) = t"
| "event_time (Prune t) = t"

fun is_message :: "ws_event \<Rightarrow> bool" where
  "is_message (Message t a) = True"
| "is_message (Prune t) = False"

text \<open>The answers to the messages of a run.\<close>

fun answers :: "ws_event list \<Rightarrow> ws_buckets \<Rightarrow> bool list" where
  "answers [] m = []"
| "answers (Message t a # evs) m = (let (m1, ok) = admit_message t a m in ok # answers evs m1)"
| "answers (Prune t # evs) m = answers evs (fst (pruneIdleWsBuckets t m))"

lemma prune_entry:
  "distinct (map fst m) \<Longrightarrow> map_of (fst (pruneIdleWsBuckets t m)) a =
     (case map_of m a of Some e \<Rightarrow> if idle_entry t e then None else Some e | None \<Rightarrow> None)"
  by (induction m) (auto simp: pruneIdleWsBuckets_def map_of_eq_None_iff[symmetric] split: option.split
      simp del: map_of_eq_None_iff dest: map_of_SomeD)

text \<open>The pruned map misses only entries that have been idle long enough to be full.\<close>

definition pruned_of :: "time \<Rightarrow> ws_buckets \<Rightarrow> ws_buckets \<Rightarrow> bool" where
  "pruned_of now m m' \<longleftrightarrow> distinct (map fst m) \<and> buckets_ok m'
     \<and> (\<forall>a. map_of m a = map_of m' a
          \<or> map_of m a = None \<and> (\<exists>e. map_of m' a = Some e \<and> now - be_lastSeenMs e > 3600000))"

lemma pruned_later: "pruned_of now m m' \<Longrightarrow> now \<le> later \<Longrightarrow> pruned_of later m m'"
  unfolding pruned_of_def by fastforce

lemma pruned_prune: "pruned_of now m m' \<Longrightarrow> pruned_of now (fst (pruneIdleWsBuckets now m)) m'"
proof -
  assume p: "pruned_of now m m'"
  have "distinct (map fst (fst (pruneIdleWsBuckets now m)))"
    using p by (simp add: pruned_of_def pruneIdleWsBuckets_def distinct_map_filter)
  moreover have "map_of (fst (pruneIdleWsBuckets now m)) a = map_of m' a
      \<or> map_of (fst (pruneIdleWsBuckets now m)) a = None
        \<and> (\<exists>e. map_of m' a = Some e \<and> now - be_lastSeenMs e > 3600000)" for a
  proof -
    have "distinct (map fst m)" using p by (simp add: pruned_of_def)
    note e = prune_entry [OF this, of now a]
    show ?thesis
    proof (cases "map_of m a")
      case None
      moreover have "map_of m a = map_of m' a
          \<or> map_of m a = None \<and> (\<exists>e. map_of m' a = Some e \<and> now - be_lastSeenMs e > 3600000)"
        using p unfolding pruned_of_def by blast
      ultimately show ?thesis using e by auto
    next
      case (Some x)
      then have "map_of m' a = Some x" using p unfolding pruned_of_def by (metis option.distinct(1))
      then show ?thesis using p e Some by (simp add: pruned_of_def idle_entry_def bucket_consts)
    qed
  qed
  ultimately show ?thesis using p by (simp add: pruned_of_def)
qed

lemma pruned_admit:
  assumes "pruned_of now m m'"
  shows "snd (admit_message now a m) = snd (admit_message now a m')"
    and "pruned_of now (fst (admit_message now a m)) (fst (admit_message now a m'))"
proof -
  have c: "bucket_consume now 1 (snd (getBucketForAgent now a m)) = bucket_consume now 1 (snd (getBucketForAgent now a m'))"
  proof (cases "map_of m a = map_of m' a")
    case True
    then show ?thesis by (simp add: bucket_of_entry)
  next
    case False
    then obtain e where e: "map_of m a = None" "map_of m' a = Some e" "now - be_lastSeenMs e > 3600000"
      using assms unfolding pruned_of_def by blast
    then have "entry_ok e" using assms unfolding pruned_of_def buckets_ok_def by blast
    then have "bucket_consume now 1 (be_bucket e) = bucket_consume now 1 (new_bucket now)"
      using e(3) by (intro consume_full) (simp_all add: entry_ok_def)
    then show ?thesis using e by (simp add: bucket_of_entry)
  qed
  then show "snd (admit_message now a m) = snd (admit_message now a m')" by (simp add: admit_entry)
  have "distinct (map fst (fst (admit_message now a m)))"
    using assms by (auto simp: pruned_of_def admit_message_def getBucketForAgent_def Let_def split_beta distinct_update
        split: option.split)
  moreover have "buckets_ok (fst (admit_message now a m'))"
    using assms admit_buckets_ok by (simp add: pruned_of_def)
  ultimately show "pruned_of now (fst (admit_message now a m)) (fst (admit_message now a m'))"
    using assms c by (simp add: pruned_of_def admit_entry)
qed

lemma answers_pruned:
  "sorted (now # map event_time evs) \<Longrightarrow> pruned_of now m m' \<Longrightarrow> answers evs m = answers (filter is_message evs) m'"
proof (induction evs arbitrary: now m m')
  case Nil
  then show ?case by simp
next
  case (Cons ev evs)
  let ?t = "event_time ev"
  have p: "pruned_of ?t m m'" using Cons.prems pruned_later by simp
  have s: "sorted (?t # map event_time evs)" using Cons.prems(1) by simp
  show ?case
  proof (cases ev)
    case (Message t a)
    then show ?thesis
      using Cons.IH [OF s pruned_admit(2) [OF p, of a]] pruned_admit(1) [OF p, of a]
      by (simp add: split_beta Let_def)
  next
    case (Prune t)
    then show ?thesis
      using Cons.IH [OF s pruned_prune [OF p]] by simp
  qed
qed

section \<open>Properties\<close>

text \<open>C14. The message limit holds for an agent and not for a connection: of the messages an agent
  sends at any non-decreasing times, at most 20 plus 5 per second of the time they span are
  admitted, whatever the agent's other connections did.\<close>

theorem ws_message_rate:
  assumes "sorted ts" and "ts \<noteq> []" and "map_of m a = None"
  shows "of_nat (snd (admit_all ts a m)) \<le> 20 + 5 * (of_int (last ts - hd ts) / 1000 :: rat)"
proof -
  have "5 * (x / 1000) = x / (200 :: rat)" for x by simp
  then show ?thesis using admit_all_new [OF assms(1,3,2)] by presburger
qed

theorem ws_message_rate_witness:
  "snd (admit_all (replicate 25 7 @ [207, 208]) ''a1'' []) = 21
    \<and> of_nat (snd (admit_all (replicate 25 7 @ [207, 208]) ''a1'' [])) \<le> 20 + 5 * (of_int (208 - 7) / 1000 :: rat)"
proof -
  have "snd (admit_all (replicate 25 7 @ [207, 208]) ''a1'' []) = 21" by code_simp
  moreover have "of_nat (snd (admit_all (replicate 25 7 @ [207, 208]) ''a1'' [])) \<le> 20 + 5 * (of_int (208 - 7) / 1000 :: rat)"
    using ws_message_rate [of "replicate 25 7 @ [207, 208]" "[]" "''a1''"] by (simp add: sorted_append)
  ultimately show ?thesis by blast
qed

text \<open>C15. Dropping the limiters of agents idle for an hour is unobservable: over any sequence of
  messages and garbage collections with a clock that does not run backwards, every message gets the
  answer it gets when nothing is ever collected.\<close>

theorem bucket_gc_unobservable:
  assumes "sorted (map event_time evs)"
  shows "answers evs [] = answers (filter is_message evs) []"
proof (cases evs)
  case Nil
  then show ?thesis by simp
next
  case (Cons ev evs')
  then show ?thesis
    using answers_pruned [of "event_time ev" evs "[]" "[]"] assms by (simp add: pruned_of_def buckets_ok_def)
qed

theorem bucket_gc_unobservable_witness:
  "answers [Message 0 ''a'', Prune 5000000, Message 5000001 ''a''] [] = answers [Message 0 ''a'', Message 5000001 ''a''] []"
  using bucket_gc_unobservable [of "[Message 0 ''a'', Prune 5000000, Message 5000001 ''a'']"] by simp

end
