(* ===== verification/Ws_Listener.thy ===== *)
theory Ws_Listener
  imports Prelude
begin

text \<open>
  The PostgreSQL notification listener of \<open>src/server/ws.ts\<close>
  (\<open>startJobNotificationListener\<close>) as a state machine. \<open>connect()\<close> awaits twice, the
  pool and the LISTEN statements, so a connect in progress is a phase of its own; events arrive
  between. Clients are numbers; released clients are recorded.
\<close>

definition PG_NOTIFY_RECONNECT_MIN_MS :: int where "PG_NOTIFY_RECONNECT_MIN_MS = 1000"
definition PG_NOTIFY_RECONNECT_MAX_MS :: int where "PG_NOTIFY_RECONNECT_MAX_MS = 30000"

datatype nl_phase = Idle | Acquiring | Setup nat

record listener =
  nl_stopped :: bool
  nl_active :: "nat option"
  nl_timer :: "int option"
  nl_attempt :: nat
  nl_phase :: nl_phase
  nl_acquired :: "nat list"
  nl_released :: "nat list"

definition nl_init :: listener where
  "nl_init = \<lparr>nl_stopped = False, nl_active = None, nl_timer = None, nl_attempt = 0, nl_phase = Idle,
     nl_acquired = [], nl_released = []\<rparr>"

text \<open>\<open>Math.floor(capped / 2 + Math.random() * (capped / 2))\<close>; \<open>r\<close> is the random number.\<close>

definition reconnect_delay :: "nat \<Rightarrow> rat \<Rightarrow> int" where
  "reconnect_delay attempt r =
     (let capped = min (PG_NOTIFY_RECONNECT_MIN_MS * 2 ^ attempt) PG_NOTIFY_RECONNECT_MAX_MS
      in \<lfloor>of_int capped / 2 + r * (of_int capped / 2)\<rfloor>)"

definition scheduleReconnect :: "rat \<Rightarrow> listener \<Rightarrow> listener" where
  "scheduleReconnect r st =
     (if nl_stopped st \<or> nl_timer st \<noteq> None then st
      else st\<lparr>nl_timer := Some (reconnect_delay (nl_attempt st) r), nl_attempt := min (nl_attempt st + 1) 10\<rparr>)"

definition nl_release :: "nat \<Rightarrow> listener \<Rightarrow> listener" where
  "nl_release c st = st\<lparr>nl_released := nl_released st @ [c]\<rparr>"

definition nl_disconnect :: "rat \<Rightarrow> nat \<Rightarrow> listener \<Rightarrow> listener" where
  "nl_disconnect r client st =
     (if nl_active st \<noteq> Some client then st
      else let st1 = nl_release client (st\<lparr>nl_active := None\<rparr>)
           in if \<not> nl_stopped st1 then scheduleReconnect r st1 else st1)"

text \<open>\<open>connect()\<close> up to its first await.\<close>

definition nl_connect :: "listener \<Rightarrow> listener" where
  "nl_connect st = (if nl_stopped st \<or> nl_active st \<noteq> None then st else st\<lparr>nl_phase := Acquiring\<rparr>)"

datatype nl_event =
    NlAcquired nat
  | NlAcquireFailed rat
  | NlListening
  | NlListenFailed rat
  | NlTimer
  | NlClientError nat rat
  | NlStop

text \<open>An event that cannot occur in a phase leaves the state alone.\<close>

fun nl_step :: "nl_event \<Rightarrow> listener \<Rightarrow> listener" where
  "nl_step (NlAcquired c) st =
     (if nl_phase st \<noteq> Acquiring \<or> List.member (nl_acquired st) c then st
      else let st1 = st\<lparr>nl_acquired := nl_acquired st @ [c]\<rparr>
           in if nl_stopped st then nl_release c (st1\<lparr>nl_phase := Idle\<rparr>) else st1\<lparr>nl_phase := Setup c\<rparr>)"
| "nl_step (NlAcquireFailed r) st =
     (if nl_phase st \<noteq> Acquiring then st else scheduleReconnect r (st\<lparr>nl_phase := Idle\<rparr>))"
| "nl_step NlListening st =
     (case nl_phase st of
        Setup c \<Rightarrow> (if nl_stopped st then nl_release c (st\<lparr>nl_phase := Idle\<rparr>)
                    else st\<lparr>nl_phase := Idle, nl_active := Some c, nl_attempt := 0\<rparr>)
      | _ \<Rightarrow> st)"
| "nl_step (NlListenFailed r) st =
     (case nl_phase st of
        Setup c \<Rightarrow> scheduleReconnect r (nl_release c (st\<lparr>nl_phase := Idle\<rparr>))
      | _ \<Rightarrow> st)"
| "nl_step NlTimer st = (if nl_timer st = None then st else nl_connect (st\<lparr>nl_timer := None\<rparr>))"
| "nl_step (NlClientError c r) st = nl_disconnect r c st"
| "nl_step NlStop st =
     (if nl_stopped st then st
      else let st1 = st\<lparr>nl_stopped := True, nl_timer := None, nl_active := None\<rparr>
           in case nl_active st of None \<Rightarrow> st1 | Some c \<Rightarrow> nl_release c st1)"

text \<open>The listener is started by one \<open>connect()\<close>.\<close>

definition nl_run :: "nl_event list \<Rightarrow> listener" where
  "nl_run evs = fold nl_step evs (nl_connect nl_init)"

section \<open>Invariant\<close>

text \<open>The clients the listener holds: the active one, or the one being set up.\<close>

definition nl_held :: "listener \<Rightarrow> nat list" where
  "nl_held st = (case nl_active st of Some c \<Rightarrow> [c] | None \<Rightarrow> []) @ (case nl_phase st of Setup c \<Rightarrow> [c] | _ \<Rightarrow> [])"

text \<open>Exactly one of: connected, waiting for the timer, connecting; or stopped.\<close>

definition nl_alive :: "listener \<Rightarrow> bool" where
  "nl_alive st \<longleftrightarrow>
     (if nl_stopped st then nl_active st = None \<and> nl_timer st = None
      else (nl_active st \<noteq> None \<and> nl_timer st = None \<and> nl_phase st = Idle)
         \<or> (nl_active st = None \<and> nl_timer st \<noteq> None \<and> nl_phase st = Idle)
         \<or> (nl_active st = None \<and> nl_timer st = None \<and> nl_phase st \<noteq> Idle))"

definition nl_balanced :: "listener \<Rightarrow> bool" where
  "nl_balanced st \<longleftrightarrow> distinct (nl_acquired st) \<and> distinct (nl_released st @ nl_held st)
     \<and> set (nl_acquired st) = set (nl_released st @ nl_held st)"

definition nl_inv :: "listener \<Rightarrow> bool" where
  "nl_inv st \<longleftrightarrow> nl_alive st \<and> nl_balanced st \<and> nl_attempt st \<le> 10"

lemmas nl_defs = nl_alive_def nl_balanced_def nl_held_def scheduleReconnect_def nl_release_def
  nl_disconnect_def nl_connect_def Let_def

lemma nl_start: "nl_inv (nl_connect nl_init)"
  by (simp add: nl_inv_def nl_defs nl_init_def)

lemma nl_step_alive: "nl_alive st \<Longrightarrow> nl_alive (nl_step ev st)"
  by (cases ev; cases "nl_phase st"; cases "nl_active st"; cases "nl_timer st"; cases "nl_stopped st")
    (simp_all add: nl_defs)

lemma nl_step_balanced: "nl_alive st \<Longrightarrow> nl_balanced st \<Longrightarrow> nl_balanced (nl_step ev st)"
  by (cases ev; cases "nl_phase st"; cases "nl_active st"; cases "nl_timer st"; cases "nl_stopped st")
    (auto simp: nl_defs List.member_iff)

lemma nl_step_attempt: "nl_attempt st \<le> 10 \<Longrightarrow> nl_attempt (nl_step ev st) \<le> 10"
  by (cases ev) (auto simp: nl_defs split: nl_phase.split option.split)

lemma nl_step_inv: "nl_inv st \<Longrightarrow> nl_inv (nl_step ev st)"
  by (simp add: nl_inv_def nl_step_alive nl_step_balanced nl_step_attempt)

lemma nl_run_inv: "nl_inv (nl_run evs)"
proof -
  have "nl_inv st \<Longrightarrow> nl_inv (fold nl_step evs st)" for st
    by (induction evs arbitrary: st) (simp_all add: nl_step_inv)
  then show ?thesis using nl_start by (simp add: nl_run_def)
qed

text \<open>C16. The listener never dies silently and never leaks a pooled connection: after any sequence
  of connection results, client errors, timers and a stop, as long as it is not stopped exactly one of
  these holds: it is connected, a reconnect timer is pending, or a connect is in progress; every client
  ever acquired is either still held or was released exactly once; once stopped with no connect in
  progress, all of them are released.\<close>

theorem listener_recovers:
  shows "nl_alive (nl_run evs) \<and> nl_balanced (nl_run evs)
    \<and> (nl_stopped (nl_run evs) \<longrightarrow> nl_phase (nl_run evs) = Idle \<longrightarrow>
         set (nl_acquired (nl_run evs)) = set (nl_released (nl_run evs)))"
proof -
  have i: "nl_alive (nl_run evs)" "nl_balanced (nl_run evs)"
    using nl_run_inv [of evs] by (auto simp: nl_inv_def)
  then show ?thesis by (auto simp: nl_alive_def nl_balanced_def nl_held_def)
qed

theorem listener_recovers_witness:
  "nl_stopped (nl_run [NlAcquired 1, NlListening, NlClientError 1 0, NlTimer, NlStop, NlAcquired 2])
   \<and> nl_released (nl_run [NlAcquired 1, NlListening, NlClientError 1 0, NlTimer, NlStop, NlAcquired 2]) = [1, 2]
   \<and> set (nl_acquired (nl_run [NlAcquired 1, NlListening, NlClientError 1 0, NlTimer, NlStop, NlAcquired 2])) = {1, 2}"
proof -
  let ?evs = "[NlAcquired 1, NlListening, NlClientError 1 0, NlTimer, NlStop, NlAcquired 2]"
  have "nl_stopped (nl_run ?evs) \<and> nl_released (nl_run ?evs) = [1, 2] \<and> nl_phase (nl_run ?evs) = Idle"
    by (simp add: nl_run_def nl_init_def nl_defs)
  then show ?thesis using listener_recovers [of ?evs] by simp
qed

lemma reconnect_capped:
  fixes attempt :: nat
  defines "capped \<equiv> min (PG_NOTIFY_RECONNECT_MIN_MS * 2 ^ attempt) PG_NOTIFY_RECONNECT_MAX_MS"
  shows "1000 \<le> capped \<and> capped \<le> 30000"
  by (simp add: capped_def PG_NOTIFY_RECONNECT_MIN_MS_def PG_NOTIFY_RECONNECT_MAX_MS_def)

text \<open>Reconnects back off within bounds: with full jitter every delay lies between half of the
  capped exponential step and that step, so between half a second and thirty seconds.\<close>

theorem reconnect_delay_bounds:
  assumes "0 \<le> r" and "r < 1"
  shows "500 \<le> reconnect_delay attempt r \<and> reconnect_delay attempt r < 30000
    \<and> reconnect_delay attempt r < 1000 * 2 ^ attempt"
proof -
  define capped where "capped = min (PG_NOTIFY_RECONNECT_MIN_MS * 2 ^ attempt) PG_NOTIFY_RECONNECT_MAX_MS"
  have c: "1000 \<le> capped" "capped \<le> 30000" using reconnect_capped [of attempt] by (simp_all add: capped_def)
  have c2: "capped \<le> 1000 * 2 ^ attempt" by (simp add: capped_def PG_NOTIFY_RECONNECT_MIN_MS_def)
  let ?x = "of_int capped / 2 + r * (of_int capped / 2)"
  have "(500 :: rat) \<le> of_int capped / 2"
    using c(1) of_int_le_iff [of 1000 capped, where 'a = rat] by simp
  moreover have "0 \<le> r * (of_int capped / 2)" using assms(1) c(1) by simp
  ultimately have lo: "500 \<le> ?x" by linarith
  have "r * (of_int capped / 2) < 1 * (of_int capped / 2)"
    using assms(2) c(1) by (intro mult_strict_right_mono) simp_all
  then have hi: "?x < of_int capped" by simp
  have "reconnect_delay attempt r = \<lfloor>?x\<rfloor>" by (simp add: reconnect_delay_def capped_def Let_def)
  moreover have "500 \<le> \<lfloor>?x\<rfloor>" using lo by (simp add: le_floor_iff)
  moreover have "\<lfloor>?x\<rfloor> < capped" using hi by (simp add: floor_less_iff)
  ultimately show ?thesis using c(2) c2 by linarith
qed

theorem reconnect_delay_bounds_witness: "500 \<le> reconnect_delay 3 (1 / 2) \<and> reconnect_delay 3 (1 / 2) = 6000"
proof -
  have "reconnect_delay 3 (1 / 2) = 6000"
    by (simp add: reconnect_delay_def PG_NOTIFY_RECONNECT_MIN_MS_def PG_NOTIFY_RECONNECT_MAX_MS_def)
  then show ?thesis using reconnect_delay_bounds [of "1 / 2" 3] by simp
qed

end
