(* ===== verification/Ws_Sockets.thy ===== *)
theory Ws_Sockets
  imports Prelude "HOL-Library.While_Combinator"
begin

text \<open>
  The registry of agent sockets of \<open>src/server/ws.ts\<close>: which sockets an agent has, the cap
  with eviction of the oldest, the close handler, the choice of the socket a message goes to,
  and the ping sweep. Sets are objects the close handlers hold on to, so they live in a store
  under set ids, and \<open>agentSockets\<close> maps an agent to a set id. A socket is a number; what
  the ws library knows of it (open, buffered bytes, whether \<open>send\<close> throws) is an argument.
\<close>

definition MAX_AGENT_SOCKETS :: nat where "MAX_AGENT_SOCKETS = 8"
definition MAX_WS_BUFFERED_BYTES :: int where "MAX_WS_BUFFERED_BYTES = 1 * 1024 * 1024"

text \<open>\<open>ws_home\<close> is what the close handler of a socket captured: its agent and its set.\<close>

record ws_registry =
  ws_sets :: "nat \<Rightarrow> nat list"
  ws_next :: nat
  ws_map :: "string \<Rightarrow> nat option"
  ws_home :: "nat \<Rightarrow> (string \<times> nat) option"

definition empty_registry :: ws_registry where
  "empty_registry = \<lparr>ws_sets = (\<lambda>_. []), ws_next = 0, ws_map = (\<lambda>_. None), ws_home = (\<lambda>_. None)\<rparr>"

definition set_add :: "'a \<Rightarrow> 'a list \<Rightarrow> 'a list" where
  "set_add x xs = (if List.member xs x then xs else xs @ [x])"

text \<open>\<open>while (set.size >= MAX_AGENT_SOCKETS)\<close>: the oldest entries go; also returns them.\<close>

fun evict :: "nat list \<Rightarrow> nat list \<times> nat list" where
  "evict [] = ([], [])"
| "evict (oldest # rest) =
     (if length (oldest # rest) \<ge> MAX_AGENT_SOCKETS
      then (let (gone, kept) = evict rest in (oldest # gone, kept))
      else ([], oldest # rest))"

text \<open>The loop as it is written, with its break: the terminated sockets, oldest first, and the set left. It is
  \<^const>\<open>None\<close> if the loop does not end.\<close>

definition evict_loop :: "nat list \<Rightarrow> (nat list \<times> nat list) option" where
  "evict_loop s =
     while_option (\<lambda>(gone, kept). length kept \<ge> MAX_AGENT_SOCKETS \<and> kept \<noteq> [])
       (\<lambda>(gone, kept). (gone @ [hd kept], tl kept)) ([], s)"

text \<open>The registry and the sockets terminated on the way.\<close>

definition trackAgentSocket :: "string \<Rightarrow> nat \<Rightarrow> ws_registry \<Rightarrow> ws_registry \<times> nat list" where
  "trackAgentSocket agentId ws st =
     (let (sid, st1) = (case ws_map st agentId of
                          Some sid \<Rightarrow> (sid, st)
                        | None \<Rightarrow> (ws_next st, st\<lparr>ws_sets := (ws_sets st)(ws_next st := []),
                                     ws_next := ws_next st + 1,
                                     ws_map := (ws_map st)(agentId := Some (ws_next st))\<rparr>));
          (gone, kept) = evict (ws_sets st1 sid)
      in (st1\<lparr>ws_sets := (ws_sets st1)(sid := set_add ws kept),
              ws_home := (ws_home st1)(ws := Some (agentId, sid))\<rparr>, gone))"

text \<open>The close handler, with the agent and the set it captured.\<close>

definition on_close :: "string \<Rightarrow> nat \<Rightarrow> nat \<Rightarrow> ws_registry \<Rightarrow> ws_registry" where
  "on_close agentId sid ws st =
     (let members = removeAll ws (ws_sets st sid);
          st1 = st\<lparr>ws_sets := (ws_sets st)(sid := members)\<rparr>
      in if length members = 0 \<and> ws_map st1 agentId = Some sid
         then st1\<lparr>ws_map := (ws_map st1)(agentId := None)\<rparr> else st1)"

definition agent_set :: "string \<Rightarrow> ws_registry \<Rightarrow> nat list" where
  "agent_set agentId st = (case ws_map st agentId of Some sid \<Rightarrow> ws_sets st sid | None \<Rightarrow> [])"

definition getAgentWsCount :: "string \<Rightarrow> ws_registry \<Rightarrow> nat" where
  "getAgentWsCount agentId st = length (agent_set agentId st)"

definition hasOpenAgentSocket :: "(nat \<Rightarrow> bool) \<Rightarrow> string \<Rightarrow> ws_registry \<Rightarrow> bool" where
  "hasOpenAgentSocket is_open agentId st = list_ex is_open (agent_set agentId st)"

text \<open>The sockets on which \<open>closeAgentSockets\<close> calls close; their handlers run later.\<close>

definition closeAgentSockets :: "string \<Rightarrow> ws_registry \<Rightarrow> nat list" where
  "closeAgentSockets agentId st = agent_set agentId st"

text \<open>
  The loop over the open sockets, newest first: one with too much buffered is passed over, one
  whose \<open>send\<close> throws is removed. Returns the remaining members and the socket that took
  the message.
\<close>

fun send_loop :: "(nat \<Rightarrow> int) \<Rightarrow> (nat \<Rightarrow> bool) \<Rightarrow> nat list \<Rightarrow> nat list \<Rightarrow> nat list \<times> nat option" where
  "send_loop buffered send_ok [] members = (members, None)"
| "send_loop buffered send_ok (target # rest) members =
     (if buffered target > MAX_WS_BUFFERED_BYTES then send_loop buffered send_ok rest members
      else if send_ok target then (members, Some target)
      else send_loop buffered send_ok rest (removeAll target members))"

definition sendToAgent ::
  "(nat \<Rightarrow> bool) \<Rightarrow> (nat \<Rightarrow> int) \<Rightarrow> (nat \<Rightarrow> bool) \<Rightarrow> string \<Rightarrow> ws_registry \<Rightarrow> ws_registry \<times> nat option" where
  "sendToAgent is_open buffered send_ok agentId st =
     (case ws_map st agentId of
        None \<Rightarrow> (st, None)
      | Some sid \<Rightarrow>
          if length (ws_sets st sid) = 0 then (st, None)
          else
            let opened = rev (filter is_open (ws_sets st sid)) in
            if length opened = 0 then (st, None)
            else
              let (members, taken) = send_loop buffered send_ok opened (ws_sets st sid);
                  st1 = st\<lparr>ws_sets := (ws_sets st)(sid := members)\<rparr>
              in case taken of
                   Some t \<Rightarrow> (st1, Some t)
                 | None \<Rightarrow> (if length members = 0
                            then st1\<lparr>ws_map := (ws_map st1)(agentId := None)\<rparr> else st1, None))"

text \<open>
  The ping interval: a client that has not shown life since the last tick is terminated, the
  others are marked and pinged. \<open>alive\<close> is the list of clients with their flag.
\<close>

definition ping_tick :: "(nat \<times> bool) list \<Rightarrow> (nat \<times> bool) list \<times> nat list" where
  "ping_tick clients =
     (map (\<lambda>(ws, alive). (ws, False)) clients, map fst (filter (\<lambda>(ws, alive). \<not> alive) clients))"

definition ping_alive :: "nat \<Rightarrow> (nat \<times> bool) list \<Rightarrow> (nat \<times> bool) list" where
  "ping_alive ws clients = map (\<lambda>(w, alive). if w = ws then (w, True) else (w, alive)) clients"

section \<open>Events\<close>

text \<open>A socket is tracked once, when its upgrade completes; its handler runs when it closes.\<close>

datatype ws_op =
    Ws_Track string nat
  | Ws_Closed nat
  | Ws_Send "nat \<Rightarrow> bool" "nat \<Rightarrow> int" "nat \<Rightarrow> bool" string

fun ws_exec :: "ws_op \<Rightarrow> ws_registry \<Rightarrow> ws_registry" where
  "ws_exec (Ws_Track agentId ws) st = (if ws_home st ws = None then fst (trackAgentSocket agentId ws st) else st)"
| "ws_exec (Ws_Closed ws) st = (case ws_home st ws of Some (agentId, sid) \<Rightarrow> on_close agentId sid ws st | None \<Rightarrow> st)"
| "ws_exec (Ws_Send is_open buffered send_ok agentId) st = fst (sendToAgent is_open buffered send_ok agentId st)"

text \<open>
  The invariant: what is in any set object is reachable through the map under the agent its
  close handler captured; sets have at most eight members and a mapped set has one at least.
\<close>

definition homes_ok :: "ws_registry \<Rightarrow> bool" where
  "homes_ok st \<longleftrightarrow> (\<forall>sid ws. ws \<in> set (ws_sets st sid) \<longrightarrow>
     (\<exists>a. ws_home st ws = Some (a, sid) \<and> ws_map st a = Some sid))"

definition mapped_ok :: "ws_registry \<Rightarrow> bool" where
  "mapped_ok st \<longleftrightarrow> (\<forall>a sid. ws_map st a = Some sid \<longrightarrow>
     ws_sets st sid \<noteq> [] \<and> sid < ws_next st \<and> (\<forall>b. ws_map st b = Some sid \<longrightarrow> b = a))"

definition members_ok :: "ws_registry \<Rightarrow> bool" where
  "members_ok st \<longleftrightarrow> (\<forall>sid. distinct (ws_sets st sid) \<and> length (ws_sets st sid) \<le> 8
     \<and> (ws_next st \<le> sid \<longrightarrow> ws_sets st sid = []))"

definition handlers_ok :: "ws_registry \<Rightarrow> bool" where
  "handlers_ok st \<longleftrightarrow> (\<forall>ws a sid. ws_home st ws = Some (a, sid) \<longrightarrow>
     sid < ws_next st \<and> (\<forall>b. ws_map st b = Some sid \<longrightarrow> b = a))"

definition ws_inv :: "ws_registry \<Rightarrow> bool" where
  "ws_inv st \<longleftrightarrow> homes_ok st \<and> mapped_ok st \<and> members_ok st \<and> handlers_ok st"

lemmas ws_inv_defs = homes_ok_def mapped_ok_def members_ok_def handlers_ok_def

lemma ws_invD:
  assumes "ws_inv st"
  shows "ws \<in> set (ws_sets st sid) \<Longrightarrow> \<exists>a. ws_home st ws = Some (a, sid) \<and> ws_map st a = Some sid"
    and "ws_map st a = Some sid \<Longrightarrow> ws_sets st sid \<noteq> [] \<and> sid < ws_next st \<and> (\<forall>b. ws_map st b = Some sid \<longrightarrow> b = a)"
    and "distinct (ws_sets st sid)" and "length (ws_sets st sid) \<le> 8"
    and "ws_next st \<le> sid \<Longrightarrow> ws_sets st sid = []"
    and "ws_home st ws = Some (a, sid) \<Longrightarrow> sid < ws_next st \<and> (\<forall>b. ws_map st b = Some sid \<longrightarrow> b = a)"
  using assms unfolding ws_inv_def ws_inv_defs by simp_all

lemma ws_inv_empty: "ws_inv empty_registry"
  by (simp add: ws_inv_def ws_inv_defs empty_registry_def)

lemma evict_split: "fst (evict xs) @ snd (evict xs) = xs"
  by (induction xs) (auto simp: Let_def split_beta)

lemma evict_kept: "length (snd (evict xs)) \<le> 7"
  by (induction xs) (auto simp: Let_def split_beta MAX_AGENT_SOCKETS_def)

lemma evict_few: "length xs < 8 \<Longrightarrow> evict xs = ([], xs)"
  by (cases xs) (auto simp: MAX_AGENT_SOCKETS_def)

lemma evict_full: "length xs = 8 \<Longrightarrow> evict xs = ([hd xs], tl xs)"
  by (cases xs) (auto simp: MAX_AGENT_SOCKETS_def evict_few)

lemma evict_sub: "set (snd (evict xs)) \<subseteq> set xs" "distinct xs \<Longrightarrow> distinct (snd (evict xs))"
  using evict_split [of xs] by (metis Un_upper2 set_append) (metis distinct_append evict_split)

lemma send_loop_members:
  "set (fst (send_loop b ok ts ms)) \<subseteq> set ms \<and> (distinct ms \<longrightarrow> distinct (fst (send_loop b ok ts ms)))
     \<and> length (fst (send_loop b ok ts ms)) \<le> length ms"
proof (induction ts arbitrary: ms)
  case Nil
  then show ?case by simp
next
  case (Cons t ts)
  have "length (removeAll t ms) \<le> length ms" by (rule length_removeAll_less_eq)
  then show ?case using Cons [of ms] Cons [of "removeAll t ms"] by (auto simp: distinct_removeAll intro: le_trans [OF _ length_removeAll_less_eq])
qed



text \<open>Removing members of one set keeps the invariant if an emptied set leaves the map.\<close>

lemma ws_inv_shrink:
  assumes inv: "ws_inv st" and sub: "set ms \<subseteq> set (ws_sets st sid)" and d: "distinct ms"
    and l: "length ms \<le> length (ws_sets st sid)" and ne: "ms \<noteq> [] \<or> (\<forall>a. ws_map st a \<noteq> Some sid)"
  shows "ws_inv (st\<lparr>ws_sets := (ws_sets st)(sid := ms)\<rparr>)"
proof -
  let ?st = "st\<lparr>ws_sets := (ws_sets st)(sid := ms)\<rparr>"
  have "homes_ok ?st" using sub ws_invD(1) [OF inv] by (auto simp: homes_ok_def)
  moreover have "mapped_ok ?st" using ne ws_invD(2) [OF inv] by (auto simp: mapped_ok_def)
  moreover have "length ms \<le> 8" using l ws_invD(4) [OF inv, of sid] by linarith
  then have "members_ok ?st" using d sub ws_invD(3-5) [OF inv] by (auto simp: members_ok_def)
  moreover have "handlers_ok ?st" using ws_invD(6) [OF inv] by (auto simp: handlers_ok_def)
  ultimately show ?thesis by (simp add: ws_inv_def)
qed

lemma ws_inv_unmap:
  assumes inv: "ws_inv st" and m: "ws_map st a = Some sid"
  shows "ws_inv (st\<lparr>ws_sets := (ws_sets st)(sid := []), ws_map := (ws_map st)(a := None)\<rparr>)"
proof -
  let ?st = "st\<lparr>ws_sets := (ws_sets st)(sid := []), ws_map := (ws_map st)(a := None)\<rparr>"
  have other: "ws_map st b = Some sid \<Longrightarrow> b = a" for b
    using ws_invD(2) [OF inv m] by blast
  have "homes_ok ?st"
    unfolding homes_ok_def
  proof (intro allI impI)
    fix s ws assume "ws \<in> set (ws_sets ?st s)"
    then have s: "s \<noteq> sid" "ws \<in> set (ws_sets st s)" by (auto split: if_splits)
    then obtain b where "ws_home st ws = Some (b, s)" "ws_map st b = Some s"
      using ws_invD(1) [OF inv] by blast
    then show "\<exists>b. ws_home ?st ws = Some (b, s) \<and> ws_map ?st b = Some s"
      using s m by (intro exI [of _ b]) auto
  qed
  moreover have "mapped_ok ?st" using other ws_invD(2) [OF inv] by (auto simp: mapped_ok_def)
  moreover have "members_ok ?st" using ws_invD(3-5) [OF inv] by (auto simp: members_ok_def)
  moreover have "handlers_ok ?st" using ws_invD(6) [OF inv] by (auto simp: handlers_ok_def)
  ultimately show ?thesis by (simp add: ws_inv_def)
qed

lemma ws_inv_close:
  assumes inv: "ws_inv st" and h: "ws_home st ws' = Some (a, sid)"
  shows "ws_inv (on_close a sid ws st)"
proof -
  let ?ms = "removeAll ws (ws_sets st sid)"
  have sub: "set ?ms \<subseteq> set (ws_sets st sid)" "distinct ?ms" "length ?ms \<le> length (ws_sets st sid)"
    using ws_invD(3) [OF inv] by (auto simp: distinct_removeAll length_removeAll_less_eq)
  show ?thesis
  proof (cases "length ?ms = 0 \<and> ws_map st a = Some sid")
    case True
    then show ?thesis using ws_inv_unmap [OF inv, of a sid] by (simp add: on_close_def Let_def)
  next
    case False
    have "?ms \<noteq> [] \<or> (\<forall>b. ws_map st b \<noteq> Some sid)"
      using False ws_invD(6) [OF inv h] by auto
    moreover have "on_close a sid ws st = st\<lparr>ws_sets := (ws_sets st)(sid := ?ms)\<rparr>"
      using False by (auto simp: on_close_def Let_def)
    ultimately show ?thesis using ws_inv_shrink [OF inv sub] by simp
  qed
qed

lemma ws_inv_track:
  assumes inv: "ws_inv st" and new: "ws_home st ws = None"
  shows "ws_inv (fst (trackAgentSocket a ws st))"
proof -
  have fresh: "ws \<notin> set (ws_sets st sid)" for sid using ws_invD(1) [OF inv] new by fastforce
  define sid where "sid = (case ws_map st a of Some s \<Rightarrow> s | None \<Rightarrow> ws_next st)"
  define kept where "kept = snd (evict (ws_sets st sid))"
  let ?st = "fst (trackAgentSocket a ws st)"
  have nxt: "ws_sets st (ws_next st) = []" using ws_invD(5) [OF inv] by simp
  have sets: "ws_sets ?st = (ws_sets st)(sid := kept @ [ws])"
    and home: "ws_home ?st = (ws_home st)(ws := Some (a, sid))"
    and map: "ws_map ?st = (ws_map st)(a := Some sid)"
    and nx: "ws_next ?st = (if ws_map st a = None then ws_next st + 1 else ws_next st)"
    using fresh evict_sub(1) [of "ws_sets st sid"] nxt
    by (auto simp: trackAgentSocket_def sid_def kept_def split_beta set_add_def List.member_iff fun_upd_idem
        split: option.splits)
  have k: "set kept \<subseteq> set (ws_sets st sid)" "distinct kept" "length kept \<le> 7"
    using evict_sub [of "ws_sets st sid"] evict_kept [of "ws_sets st sid"] ws_invD(3) [OF inv] by (auto simp: kept_def)
  have own: "ws_map st b = Some sid \<Longrightarrow> b = a" for b
    using ws_invD(2) [OF inv] by (auto simp: sid_def split: option.splits)
  have hown: "ws_home st w = Some (b, sid) \<Longrightarrow> b = a" for w b
    using ws_invD(6) [OF inv] by (fastforce simp: sid_def split: option.splits)
  have lt: "sid < ws_next ?st" using ws_invD(2) [OF inv] by (auto simp: nx sid_def split: option.splits)
  have "homes_ok ?st"
    unfolding homes_ok_def
  proof (intro allI impI)
    fix s w assume w: "w \<in> set (ws_sets ?st s)"
    show "\<exists>b. ws_home ?st w = Some (b, s) \<and> ws_map ?st b = Some s"
    proof (cases "w = ws")
      case True
      then have "s = sid" using w fresh by (auto simp: sets split: if_splits)
      then show ?thesis using True by (simp add: home map)
    next
      case False
      then have "w \<in> set (ws_sets st s)" using w k(1) by (auto simp: sets split: if_splits)
      then obtain b where b: "ws_home st w = Some (b, s)" "ws_map st b = Some s"
        using ws_invD(1) [OF inv] by blast
      have "b = a \<Longrightarrow> s = sid" using b(2) by (simp add: sid_def)
      then show ?thesis using False b by (intro exI [of _ b]) (auto simp: home map)
    qed
  qed
  moreover have "mapped_ok ?st"
    unfolding mapped_ok_def sets map using ws_invD(2) [OF inv] own lt nx by (auto simp: less_SucI)
  moreover have "members_ok ?st"
    unfolding members_ok_def sets using k fresh ws_invD(3-5) [OF inv] lt nx by (auto dest: subsetD)
  moreover have "handlers_ok ?st"
    unfolding handlers_ok_def home map using ws_invD(6) [OF inv] own hown lt nx by (auto simp: less_SucI; metis)
  ultimately show ?thesis by (simp add: ws_inv_def)
qed

text \<open>What the send loop does: the first usable socket whose send succeeds takes the message, the
  usable ones before it have failed and are gone.\<close>

definition takes :: "(nat \<Rightarrow> int) \<Rightarrow> (nat \<Rightarrow> bool) \<Rightarrow> nat \<Rightarrow> bool" where
  "takes buffered send_ok t \<longleftrightarrow> buffered t \<le> MAX_WS_BUFFERED_BYTES \<and> send_ok t"

definition failed_before :: "(nat \<Rightarrow> int) \<Rightarrow> (nat \<Rightarrow> bool) \<Rightarrow> nat list \<Rightarrow> nat list" where
  "failed_before buffered send_ok ts =
     filter (\<lambda>t. buffered t \<le> MAX_WS_BUFFERED_BYTES) (takeWhile (\<lambda>t. \<not> takes buffered send_ok t) ts)"

lemma send_loop_spec:
  "send_loop b ok ts ms = (filter (\<lambda>m. m \<notin> set (failed_before b ok ts)) ms, List.find (takes b ok) ts)"
  by (induction ts arbitrary: ms)
    (auto simp: failed_before_def takes_def filter_empty_conv removeAll_filter_not_eq conj_commute intro: filter_cong)

lemma sendToAgent_eq:
  fixes is_open :: "nat \<Rightarrow> bool" and b :: "nat \<Rightarrow> int" and ok :: "nat \<Rightarrow> bool"
  assumes inv: "ws_inv st" and m: "ws_map st a = Some sid"
  defines "opened \<equiv> rev (filter is_open (ws_sets st sid))"
  defines "ms \<equiv> filter (\<lambda>m. m \<notin> set (failed_before b ok opened)) (ws_sets st sid)"
  shows "sendToAgent is_open b ok a st =
    (if ms = [] then st\<lparr>ws_sets := (ws_sets st)(sid := []), ws_map := (ws_map st)(a := None)\<rparr>
     else st\<lparr>ws_sets := (ws_sets st)(sid := ms)\<rparr>,
     List.find (takes b ok) opened)"
proof -
  have ne: "ws_sets st sid \<noteq> []" using ws_invD(2) [OF inv m] by blast
  show ?thesis
  proof (cases "opened = []")
    case True
    then have "ms = ws_sets st sid" by (simp add: ms_def failed_before_def)
    then show ?thesis using True m ne by (simp add: sendToAgent_def opened_def fun_upd_idem)
  next
    case False
    have "ms \<noteq> []" if t: "List.find (takes b ok) opened = Some t" for t
    proof -
      have "t \<in> set opened \<and> takes b ok t" by (rule find_first_Some_iff [unfolded find_first_def, OF t])
      then have "t \<in> set (ws_sets st sid)" "takes b ok t" by (auto simp: opened_def)
      then have "t \<in> set ms" by (auto simp: ms_def failed_before_def dest: set_takeWhileD)
      then show ?thesis by auto
    qed
    then show ?thesis using False m ne
      by (auto simp: sendToAgent_def opened_def [symmetric] ms_def [symmetric] Let_def send_loop_spec split: option.split)
  qed
qed

lemma ws_inv_send: "ws_inv st \<Longrightarrow> ws_inv (fst (sendToAgent is_open b ok a st))"
proof -
  assume inv: "ws_inv st"
  show ?thesis
  proof (cases "ws_map st a")
    case None
    then show ?thesis using inv by (simp add: sendToAgent_def)
  next
    case (Some sid)
    let ?ms = "filter (\<lambda>m. m \<notin> set (failed_before b ok (rev (filter is_open (ws_sets st sid))))) (ws_sets st sid)"
    have "set ?ms \<subseteq> set (ws_sets st sid)" "distinct ?ms" "length ?ms \<le> length (ws_sets st sid)"
      using ws_invD(3) [OF inv] by auto
    then show ?thesis
      using ws_inv_unmap [OF inv Some] ws_inv_shrink [OF inv, of ?ms sid]
      unfolding sendToAgent_eq [OF inv Some] by (simp split: if_splits)
  qed
qed

lemma ws_exec_inv: "ws_inv st \<Longrightarrow> ws_inv (ws_exec op st)"
  by (cases op) (auto simp: ws_inv_track ws_inv_close ws_inv_send split: option.split)

fun ws_run :: "ws_op list \<Rightarrow> ws_registry \<Rightarrow> ws_registry" where
  "ws_run [] st = st"
| "ws_run (op # ops) st = ws_run ops (ws_exec op st)"

lemma ws_run_inv: "ws_inv st \<Longrightarrow> ws_inv (ws_run ops st)"
  by (induction ops arbitrary: st) (simp_all add: ws_exec_inv)

section \<open>Properties\<close>

text \<open>C13. Whatever connections open, close late, are evicted or fail to send, in any order: an agent
  never holds more than eight registered sockets, each of them was opened by that agent, and every
  socket that any set object still holds is one that a message to its agent can reach, so an evicted
  socket that closes late never unregisters the connection that replaced it.\<close>

theorem ws_registry_safe:
  shows "getAgentWsCount a (ws_run ops empty_registry) \<le> 8
    \<and> (\<forall>ws \<in> set (agent_set a (ws_run ops empty_registry)).
         map_option fst (ws_home (ws_run ops empty_registry) ws) = Some a)
    \<and> (\<forall>sid. \<forall>ws \<in> set (ws_sets (ws_run ops empty_registry) sid).
         \<exists>b. map_option fst (ws_home (ws_run ops empty_registry) ws) = Some b
           \<and> ws \<in> set (agent_set b (ws_run ops empty_registry)))"
proof -
  let ?st = "ws_run ops empty_registry"
  have inv: "ws_inv ?st" by (rule ws_run_inv [OF ws_inv_empty])
  have "map_option fst (ws_home ?st ws) = Some a" if w: "ws \<in> set (agent_set a ?st)" for ws
  proof -
    obtain sid where m: "ws_map ?st a = Some sid" "ws \<in> set (ws_sets ?st sid)"
      using w by (cases "ws_map ?st a") (auto simp: agent_set_def)
    then obtain b where "ws_home ?st ws = Some (b, sid)" "ws_map ?st b = Some sid"
      using ws_invD(1) [OF inv] by blast
    then show ?thesis using ws_invD(2) [OF inv m(1)] by simp
  qed
  moreover have "getAgentWsCount a ?st \<le> 8"
    using ws_invD(4) [OF inv] by (simp add: getAgentWsCount_def agent_set_def split: option.split)
  moreover have "\<exists>b. map_option fst (ws_home ?st ws) = Some b \<and> ws \<in> set (agent_set b ?st)"
    if "ws \<in> set (ws_sets ?st sid)" for sid ws
    using ws_invD(1) [OF inv that] that by (auto simp: agent_set_def)
  ultimately show ?thesis by blast
qed

theorem ws_registry_safe_witness:
  "getAgentWsCount ''a'' (ws_run (map (Ws_Track ''a'') [0..<10] @ [Ws_Closed 0, Ws_Closed 1]) empty_registry) = 8
   \<and> getAgentWsCount ''a'' (ws_run (map (Ws_Track ''a'') [0..<10] @ [Ws_Closed 0, Ws_Closed 1]) empty_registry) \<le> 8"
proof -
  have "getAgentWsCount ''a'' (ws_run (map (Ws_Track ''a'') [0..<10] @ [Ws_Closed 0, Ws_Closed 1]) empty_registry) = 8"
    by code_simp
  then show ?thesis using ws_registry_safe [of "''a''" "map (Ws_Track ''a'') [0..<10] @ [Ws_Closed 0, Ws_Closed 1]"] by blast
qed

text \<open>A new connection is never the victim: once tracked it is the newest socket of its agent,
  and the eviction takes the oldest one and only when eight were registered.\<close>

theorem ws_track_newest:
  assumes "ws_inv st" and "ws_home st ws = None"
  shows "agent_set a (fst (trackAgentSocket a ws st))
      = (if getAgentWsCount a st = 8 then tl (agent_set a st) else agent_set a st) @ [ws]
    \<and> snd (trackAgentSocket a ws st) = (if getAgentWsCount a st = 8 then [hd (agent_set a st)] else [])"
proof -
  have fresh: "ws \<notin> set (ws_sets st sid)" for sid using ws_invD(1) [OF assms(1)] assms(2) by fastforce
  have l: "length (ws_sets st sid) \<le> 8" for sid by (rule ws_invD(4) [OF assms(1)])
  have ev: "evict (ws_sets st sid) = (if length (ws_sets st sid) = 8 then ([hd (ws_sets st sid)], tl (ws_sets st sid))
      else ([], ws_sets st sid))" for sid
    using evict_full [of "ws_sets st sid"] evict_few [of "ws_sets st sid"] l [of sid] by auto
  have "ws \<notin> set (tl (ws_sets st sid))" for sid using fresh [of sid] by (cases "ws_sets st sid") auto
  then show ?thesis
    using fresh by (auto simp: trackAgentSocket_def agent_set_def getAgentWsCount_def set_add_def ev List.member_iff
        evict_few split: option.split)
qed

theorem ws_track_newest_witness:
  "snd (trackAgentSocket ''a'' 9 (ws_run (map (Ws_Track ''a'') [0..<8]) empty_registry)) = [0]"
proof -
  let ?st = "ws_run (map (Ws_Track ''a'') [0..<8]) empty_registry"
  have "getAgentWsCount ''a'' ?st = 8 \<and> hd (agent_set ''a'' ?st) = 0 \<and> ws_home ?st 9 = None" by code_simp
  then show ?thesis using ws_track_newest [OF ws_run_inv [OF ws_inv_empty], of "map (Ws_Track ''a'') [0..<8]" 9] by simp
qed

text \<open>\<open>sendToAgent\<close> succeeds exactly when some open, registered socket of the agent with an
  acceptable backlog takes the message, and then it goes to the newest such socket; nothing is sent
  on the socket of another agent.\<close>

theorem sendToAgent_newest:
  assumes "ws_inv st"
  shows "snd (sendToAgent is_open b ok a st) = List.find (takes b ok) (rev (filter is_open (agent_set a st)))"
proof (cases "ws_map st a")
  case None
  then show ?thesis by (simp add: sendToAgent_def agent_set_def)
next
  case (Some sid)
  then show ?thesis using sendToAgent_eq [OF assms Some] by (simp add: agent_set_def)
qed

theorem sendToAgent_newest_witness:
  "snd (sendToAgent (\<lambda>_. True) (\<lambda>_. 0) (\<lambda>s. s \<noteq> 2) ''a'' (ws_run (map (Ws_Track ''a'') [0..<3]) empty_registry)) = Some 1"
proof -
  let ?st = "ws_run (map (Ws_Track ''a'') [0..<3]) empty_registry"
  have "List.find (takes (\<lambda>_. 0) (\<lambda>s. s \<noteq> 2)) (rev (filter (\<lambda>_. True) (agent_set ''a'' ?st))) = Some 1"
  proof -
    have "agent_set ''a'' ?st = [0, 1, 2]" by code_simp
    then have "rev (filter (\<lambda>_. True) (agent_set ''a'' ?st)) = [2, 1, 0]" by (simp only: filter_True) simp
    then show ?thesis by (simp only: List.find.simps takes_def MAX_WS_BUFFERED_BYTES_def) simp
  qed
  then show ?thesis by (rule trans [OF sendToAgent_newest [OF ws_run_inv [OF ws_inv_empty]]])
qed

lemma evict_loop_from:
  "while_option (\<lambda>(gone, kept). length kept \<ge> MAX_AGENT_SOCKETS \<and> kept \<noteq> [])
       (\<lambda>(gone, kept). (gone @ [hd kept], tl kept)) (g, s) = Some (g @ fst (evict s), snd (evict s))"
proof (induction s arbitrary: g)
  case Nil
  then show ?case by (subst while_option_unfold) simp
next
  case (Cons x s)
  from Cons.IH [of "g @ [x]"] show ?case
    by (subst while_option_unfold) (simp add: Let_def split_beta')
qed

lemma evict_take_drop: "evict s = (take (length s - 7) s, drop (length s - 7) s)"
proof (induction s)
  case (Cons x s)
  have "Suc (length s) - 7 = Suc (length s - 7)" if "7 \<le> length s" using that by simp
  then show ?case using Cons.IH by (auto simp: MAX_AGENT_SOCKETS_def Let_def)
qed simp

text \<open>C38. The eviction loop ends for a set of any size, at the cap or beyond it: it terminates exactly the oldest
  sockets, in their order, leaves the seven newest, and so makes room for one, as the registry's model takes it.\<close>

theorem eviction_ends:
  "evict_loop s = Some (evict s) \<and> evict s = (take (length s - 7) s, drop (length s - 7) s)
     \<and> length (snd (evict s)) < MAX_AGENT_SOCKETS"
  using evict_loop_from [of "[]" s] evict_kept [of s] by (simp add: evict_loop_def evict_take_drop MAX_AGENT_SOCKETS_def)

end
