(* ===== verification/Ws_Push.thy ===== *)
theory Ws_Push
  imports Ws_Sockets Js_Date Job_Safety
begin

text \<open>
  The push path of \<open>src/server/ws.ts\<close>: the envelope an agent receives,
  \<open>claimAndPushJobToAgent\<close> over the database and the socket registry, and the agent's
  acknowledgement. Each \<open>await\<close> lets other work run: \<open>pu_env1\<close> and \<open>pu_env2\<close> are
  whatever other transactions do to the database between the claim and the send, and between the
  evidence write and the release.
\<close>

definition buildJobEnvelope :: "ClaimedJobRow \<Rightarrow> json" where
  "buildJobEnvelope job =
     (let expiresAt = toISOString (cj_expiresAt job)
      in JObj
        [(''type'', JStr ''print_job''),
         (''job'', JObj
            [(''id'', JStr (cj_id job)),
             (''agentId'', JStr (cj_agentId job)),
             (''printerId'', JStr (cj_printerId job)),
             (''documentType'', jopt (cj_documentType job)),
             (''status'', JStr (status_str (cj_status job))),
             (''payload'', cj_payload job),
             (''expiresAt'', JStr expiresAt),
             (''retries'', jint (int (cj_retries job))),
             (''claimToken'', jopt (cj_claimToken job)),
             (''requestId'', jopt (cj_requestId job))]),
         (''id'', JStr (cj_id job)),
         (''printerId'', JStr (cj_printerId job)),
         (''payload'', cj_payload job),
         (''expiresAt'', JStr expiresAt),
         (''requestId'', jopt (cj_requestId job))])"

datatype PushOutcome = PushDelivered | PushNoSocket | PushNotClaimable | PushRequeued | PushFailed

text \<open>What the environment supplies to one push.\<close>

record push_input =
  pu_open0 :: "nat \<Rightarrow> bool"
  pu_now :: time
  pu_locked :: "string \<Rightarrow> bool"
  pu_uuid :: string
  pu_env1 :: "gateway_db \<Rightarrow> gateway_db"
  pu_open :: "nat \<Rightarrow> bool"
  pu_buffered :: "nat \<Rightarrow> int"
  pu_send_ok :: "nat \<Rightarrow> bool"
  pu_clocks :: clocks
  pu_env2 :: "gateway_db \<Rightarrow> gateway_db"
  pu_now1 :: time
  pu_now2 :: time

definition ERR_SEND_FAILED :: string where
  "ERR_SEND_FAILED = ''websocket delivery failed after claim; job requeued for redelivery''"
definition ERR_EVIDENCE_LOST :: string where
  "ERR_EVIDENCE_LOST = ''websocket delivery evidence did not persist; job requeued for redelivery''"

text \<open>The database and registry afterwards, the outcome, and the message with the socket that took it.\<close>

definition claimAndPushJobToAgent ::
  "push_input \<Rightarrow> string \<Rightarrow> string \<Rightarrow> ws_registry \<Rightarrow> gateway_db
     \<Rightarrow> gateway_db \<times> ws_registry \<times> PushOutcome \<times> (nat \<times> json) option" where
  "claimAndPushJobToAgent u jobId agentId reg db =
     (if \<not> hasOpenAgentSocket (pu_open0 u) agentId reg then (db, reg, PushNoSocket, None)
      else
        let (db1, row) = claimJobForDelivery (pu_now u) (pu_locked u) (pu_uuid u) jobId agentId db
        in case row of
             None \<Rightarrow> (db1, reg, PushNotClaimable, None)
           | Some claimed \<Rightarrow>
               let db2 = pu_env1 u db1;
                   (reg2, taken) = sendToAgent (pu_open u) (pu_buffered u) (pu_send_ok u) agentId reg
               in case taken of
                    None \<Rightarrow>
                      (let (db3, outcome) = releaseUndeliveredClaim (pu_now1 u) (pu_now2 u) jobId agentId
                             (cj_claimToken claimed) ERR_SEND_FAILED db2
                       in (db3, reg2, if outcome = ReleaseFailed then PushFailed else PushRequeued, None))
                  | Some ws \<Rightarrow>
                      (let sent = Some (ws, buildJobEnvelope claimed);
                           (db3, evidenced) = markJobDelivered (pu_clocks u) jobId agentId (cj_claimToken claimed) db2
                       in if \<not> evidenced then
                            (let (db4, outcome) = releaseUndeliveredClaim (pu_now1 u) (pu_now2 u) jobId agentId
                                   (cj_claimToken claimed) ERR_EVIDENCE_LOST (pu_env2 u db3)
                             in (db4, reg2, if outcome = Noop then PushNotClaimable
                                            else if outcome = ReleaseFailed then PushFailed else PushRequeued, sent))
                          else (db3, reg2, PushDelivered, sent)))"

text \<open>
  The acknowledgement; \<open>parsed\<close> is \<open>JSON.parse(raw)\<close>, \<^const>\<open>None\<close> when it throws. An array
  has no \<open>type\<close>. The result tells whether a live claim matched.
\<close>

definition handleAgentMessage ::
  "clocks \<Rightarrow> string \<Rightarrow> json option \<Rightarrow> gateway_db \<Rightarrow> gateway_db \<times> bool option" where
  "handleAgentMessage c agentId parsed db =
     (case parsed of
        Some msg \<Rightarrow>
          (if as_string (jget msg ''type'') \<noteq> Some ''job_ack'' then (db, None)
           else case as_string (jget msg ''jobId'') of
                  None \<Rightarrow> (db, None)
                | Some jobId \<Rightarrow>
                    if jobId = '''' then (db, None)
                    else
                      let token = (case as_string (jget msg ''claimToken'') of
                                     Some t \<Rightarrow> if t \<noteq> '''' then Some t else None | None \<Rightarrow> None);
                          (db', known) = recordJobAck c jobId agentId token db
                      in (db', Some known))
      | None \<Rightarrow> (db, None))"

section \<open>Lemmas\<close>

lemma mark_delivered_row:
  assumes "markJobDelivered c jobId agentId token db = (db', True)"
  shows "\<exists>p \<in> set (print_jobs db'). jb_id p = jobId \<and> jb_agent p = agentId \<and> jb_status p \<in> {Claimed, Printing}
    \<and> (truthy token \<longrightarrow> jb_token p = token) \<and> jb_delivered_at p = Some (app_now c)"
proof -
  let ?g = "fencedDeliveryWrite jobId agentId token [Claimed, Printing]"
  have "update_returning ?g (delivered_set c) (print_jobs db) \<noteq> []"
    and db': "print_jobs db' = update_where ?g (delivered_set c) (print_jobs db)"
    using assms by (auto simp: markJobDelivered_def Let_def)
  then obtain p where p: "p \<in> set (print_jobs db)" "?g p"
    by (auto simp: update_returning_def filter_empty_conv)
  then have "delivered_set c p \<in> set (print_jobs db')"
    unfolding db' set_update_where by (metis (full_types))
  then show ?thesis
    using p(2) by (intro bexI [of _ "delivered_set c p"])
      (auto simp: delivered_set_def fencedDeliveryWrite_def List.member_iff split: if_splits)
qed

text \<open>The row a claim reports carries the token it drew.\<close>

lemma claim_token:
  assumes "claimJobForDelivery now locked token jobId agentId db = (db', Some row)"
  shows "cj_claimToken row = Some token \<and> cj_id row = jobId \<and> cj_agentId row = agentId"
proof -
  let ?g = "claim_update_where db now jobId agentId"
  have "first_row (update_returning ?g (claim_set now token) (print_jobs db)) = Some p \<Longrightarrow>
      \<exists>q. p = claim_set now token q \<and> ?g q" for p
    by (auto simp: update_returning_def dest!: first_row_Some)
  then show ?thesis
    using assms by (auto simp: claimJobForDelivery_def Let_def CLAIM_RETURNING_def claim_set_def
        claim_update_where_def split: if_splits)
qed

text \<open>A claim leaves exactly its row claimed under its token, without evidence.\<close>

definition fresh_claim :: "string \<Rightarrow> string \<Rightarrow> string \<Rightarrow> print_job \<Rightarrow> bool" where
  "fresh_claim jobId agentId token p \<longleftrightarrow> jb_id p = jobId \<and> jb_agent p = agentId \<and> jb_status p = Claimed
     \<and> jb_token p = Some token \<and> jb_delivered_at p = None \<and> jb_acked_at p = None"

lemma claim_leaves:
  assumes ok: "db_ok db" and e: "claimJobForDelivery now locked token jobId agentId db = (db', Some row)"
  shows "db_ok db' \<and> (\<exists>p \<in> set (print_jobs db'). fresh_claim jobId agentId token p)"
proof -
  have ok': "db_ok db'" using claim_step_ok [OF ok e refl] by blast
  obtain g where "db' = with_update g (claim_set now token) db"
    "Some row = map_option CLAIM_RETURNING (first_row (update_returning g (claim_set now token) (print_jobs db)))"
    "\<forall>p. g p \<longrightarrow> claim_update_where db now jobId agentId p"
    using claim_cases [OF ok [unfolded db_ok_def] e] by auto
  then have "update_returning g (claim_set now token) (print_jobs db) \<noteq> []"
    by (cases "update_returning g (claim_set now token) (print_jobs db)") auto
  then obtain q where "q \<in> set (print_jobs db)" "g q" "claim_update_where db now jobId agentId q"
    using \<open>\<forall>p. g p \<longrightarrow> _ p\<close> by (auto simp: update_returning_Nil_iff)
  then have "claim_set now token q \<in> set (print_jobs db')"
    using \<open>db' = _\<close> by (auto simp: set_update_where intro!: bexI [of _ q])
  then show ?thesis
    using ok' \<open>claim_update_where db now jobId agentId q\<close>
    by (intro conjI bexI [of _ "claim_set now token q"])
      (auto simp: fresh_claim_def claim_set_def claim_update_where_def)
qed

lemma claim_none:
  assumes ok: "db_ok db" and e: "claimJobForDelivery now locked token jobId agentId db = (db', None)"
  shows "db' = db"
proof -
  consider "db' = db" | g where "db' = with_update g (claim_set now token) db"
      "None = map_option CLAIM_RETURNING (first_row (update_returning g (claim_set now token) (print_jobs db)))"
    using claim_cases [OF ok [unfolded db_ok_def] e] by auto
  then show ?thesis
  proof cases
    case 2
    then have "update_returning g (claim_set now token) (print_jobs db) = []"
      by (cases "update_returning g (claim_set now token) (print_jobs db)") auto
    then show ?thesis using 2(1) by (simp add: update_returning_Nil_iff with_update_def update_where_none)
  qed
qed

lemma moved_row:
  assumes "jobs_ok t" and "p \<in> set t" and "fresh_claim jobId agentId token p"
    and "q \<in> set (update_where g u t)" and "jb_id q = jobId" and "\<And>r. jb_id (u r) = jb_id r" and "g p"
  shows "q = u p"
proof -
  have "jb_id q = jb_id p" using assms(3,5) by (simp add: fresh_claim_def)
  then have "q = (if g p then u p else p)" by (rule updated_row [OF assms(1,2,4) _ assms(6)])
  then show ?thesis using assms(7) by simp
qed

text \<open>Releasing it: the row is queued without a token, or failed; never left claimed.\<close>

lemma release_row:
  assumes ok: "db_ok db" and p: "p \<in> set (print_jobs db)" "fresh_claim jobId agentId token p"
    and e: "releaseUndeliveredClaim n1 n2 jobId agentId (Some token) reason db = (db', out)"
  shows "out \<noteq> Noop \<and> (\<forall>q \<in> set (print_jobs db'). jb_id q = jobId \<longrightarrow>
     (if out = Requeued then jb_status q = Queued \<and> jb_token q = None else jb_status q = Failed))"
proof -
  have only: "r = p" if "r \<in> set (print_jobs db)" "jb_id r = jobId" for r
    using jobs_ok_same ok p that unfolding db_ok_def fresh_claim_def by metis
  show ?thesis
  proof (cases "jb_attempts p < MAX_DELIVERY_ATTEMPTS")
    case True
    then have g: "release_where jobId agentId (Some token) p"
      using p(2) by (simp add: release_where_def fresh_claim_def)
    then have "update_returning (release_where jobId agentId (Some token)) (release_set n1 reason) (print_jobs db) \<noteq> []"
      using p(1) by (auto simp: update_returning_Nil_iff)
    then have "out = Requeued" and db'2: "print_jobs db'
        = update_where (release_where jobId agentId (Some token)) (release_set n1 reason) (print_jobs db)"
      using e by (auto simp: releaseUndeliveredClaim_def Let_def)
    have "q = release_set n1 reason p" if "q \<in> set (print_jobs db')" "jb_id q = jobId" for q
      using that(1) unfolding db'2
      by (rule moved_row [where g = "release_where jobId agentId (Some token)" and u = "release_set n1 reason", OF ok [unfolded db_ok_def] p _ that(2) _ g])
        (simp add: release_set_def)
    moreover have "jb_status (release_set n1 reason p) = Queued \<and> jb_token (release_set n1 reason p) = None"
      by (simp add: release_set_def)
    ultimately show ?thesis using \<open>out = Requeued\<close> by (metis ReleaseOutcome.distinct(3))
  next
    case False
    have n: "\<not> release_where jobId agentId (Some token) r" if "r \<in> set (print_jobs db)" for r
      using only [OF that] False by (auto simp: release_where_def)
    have g: "give_up_where jobId agentId (Some token) p"
      using p(2) False by (simp add: give_up_where_def fresh_claim_def)
    have u: "update_where (release_where jobId agentId (Some token)) (release_set n1 reason) (print_jobs db) = print_jobs db"
      using n by (simp add: update_where_none)
    have "update_returning (release_where jobId agentId (Some token)) (release_set n1 reason) (print_jobs db) = []"
      using n by (simp add: update_returning_Nil_iff)
    moreover have "update_returning (give_up_where jobId agentId (Some token)) (give_up_set n2 reason) (print_jobs db) \<noteq> []"
      using p(1) g by (auto simp: update_returning_Nil_iff)
    ultimately have "out = ReleaseFailed" and db'2: "print_jobs db'
        = update_where (give_up_where jobId agentId (Some token)) (give_up_set n2 reason) (print_jobs db)"
      using e u by (auto simp: releaseUndeliveredClaim_def Let_def)
    have "q = give_up_set n2 reason p" if "q \<in> set (print_jobs db')" "jb_id q = jobId" for q
      using that(1) unfolding db'2
      by (rule moved_row [where g = "give_up_where jobId agentId (Some token)" and u = "give_up_set n2 reason", OF ok [unfolded db_ok_def] p _ that(2) _ g])
        (simp add: give_up_set_def)
    moreover have "jb_status (give_up_set n2 reason p) = Failed" by (simp add: give_up_set_def)
    ultimately show ?thesis using \<open>out = ReleaseFailed\<close> by (metis ReleaseOutcome.distinct(1,5))
  qed
qed

lemma sendToAgent_taken_open:
  assumes "ws_inv st" and "snd (sendToAgent is_open b ok a st) = Some ws"
  shows "ws \<in> set (rev (filter is_open (agent_set a st)))"
proof (cases "ws_map st a")
  case None
  then show ?thesis using assms by (simp add: sendToAgent_def)
next
  case (Some sid)
  then have "List.find (takes b ok) (rev (filter is_open (ws_sets st sid))) = Some ws"
    using sendToAgent_eq [OF assms(1) Some] assms(2) by simp
  then show ?thesis
    using find_first_Some_iff [unfolded find_first_def] Some by (fastforce simp: agent_set_def)
qed

text \<open>Without interference the evidence write finds the row just claimed.\<close>

lemma mark_fresh:
  assumes "p \<in> set (print_jobs db)" and "fresh_claim jobId agentId token p" and "token \<noteq> ''''"
  shows "snd (markJobDelivered c jobId agentId (Some token) db)"
  using assms by (auto simp: markJobDelivered_def Let_def update_returning_Nil_iff fencedDeliveryWrite_def fresh_claim_def)

section \<open>Properties\<close>

text \<open>C11. Delivered is a database fact: whatever other transactions run while a push awaits, the
  outcome is "delivered" only if an open socket of the agent took the message carrying this claim's
  token and the job's row, still live under that same token, carries delivery evidence.\<close>

theorem push_delivered_evidence:
  assumes "ws_inv reg" and "claimAndPushJobToAgent u jobId agentId reg db = (db', reg', PushDelivered, sent)"
    and "pu_uuid u \<noteq> ''''"
  shows "\<exists>ws row p. sent = Some (ws, buildJobEnvelope row) \<and> ws \<in> set (agent_set agentId reg) \<and> pu_open u ws
    \<and> cj_id row = jobId \<and> cj_claimToken row = Some (pu_uuid u)
    \<and> p \<in> set (print_jobs db') \<and> jb_id p = jobId \<and> jb_agent p = agentId \<and> jb_token p = Some (pu_uuid u)
    \<and> jb_status p \<in> {Claimed, Printing} \<and> jb_delivered_at p = Some (app_now (pu_clocks u))"
proof -
  obtain db1 row where c: "claimJobForDelivery (pu_now u) (pu_locked u) (pu_uuid u) jobId agentId db = (db1, Some row)"
    using assms(2) by (auto simp: claimAndPushJobToAgent_def Let_def split: if_splits prod.splits option.splits)
  obtain reg2 taken where s: "sendToAgent (pu_open u) (pu_buffered u) (pu_send_ok u) agentId reg = (reg2, taken)"
    by fastforce
  obtain ws where t: "taken = Some ws"
    using assms(2) c s by (cases taken)
      (auto simp: claimAndPushJobToAgent_def Let_def split: if_splits prod.splits)
  obtain db3 ev where m: "markJobDelivered (pu_clocks u) jobId agentId (cj_claimToken row) (pu_env1 u db1) = (db3, ev)"
    by fastforce
  have "ev" and "db' = db3" and sent: "sent = Some (ws, buildJobEnvelope row)"
    using assms(2) c s t m by (auto simp: claimAndPushJobToAgent_def Let_def split: if_splits prod.splits)
  then have m': "markJobDelivered (pu_clocks u) jobId agentId (Some (pu_uuid u)) (pu_env1 u db1) = (db', True)"
    using m claim_token [OF c] by simp
  have "ws \<in> set (rev (filter (pu_open u) (agent_set agentId reg)))"
    using sendToAgent_taken_open [OF assms(1), of "pu_open u" "pu_buffered u" "pu_send_ok u" agentId ws] s t by simp
  then show ?thesis
    using mark_delivered_row [OF m'] claim_token [OF c] sent assms(3) by fastforce
qed

definition shop_push :: "(nat \<Rightarrow> bool) \<Rightarrow> push_input" where
  "shop_push send_ok = \<lparr>pu_open0 = (\<lambda>_. True), pu_now = 1, pu_locked = (\<lambda>_. False), pu_uuid = ''7'', pu_env1 = id,
     pu_open = (\<lambda>_. True), pu_buffered = (\<lambda>_. 0), pu_send_ok = send_ok,
     pu_clocks = \<lparr>db_now = 2, app_now = 2\<rparr>, pu_env2 = id, pu_now1 = 3, pu_now2 = 3\<rparr>"

definition shop_sockets :: ws_registry where
  "shop_sockets = ws_run [Ws_Track ''a1'' 0] empty_registry"

definition queued_db :: gateway_db where
  "queued_db = shop_db\<lparr>print_jobs := [shop_row]\<rparr>"

lemma queued_db_ok [simp]: "db_ok queued_db"
  by (simp add: db_ok_def jobs_ok_def unique_by_def shop_row_def queued_db_def)

lemma push_steps:
  assumes ok: "db_ok db" and e: "pu_env1 u = id" and uu: "pu_uuid u \<noteq> ''''"
    and r: "claimAndPushJobToAgent u jobId agentId reg db = (db', reg', out, sent)"
  shows "(out \<in> {PushNoSocket, PushNotClaimable} \<and> db' = db \<and> sent = None)
    \<or> (\<exists>db1 p. db_ok db1 \<and> p \<in> set (print_jobs db1) \<and> fresh_claim jobId agentId (pu_uuid u) p
         \<and> (out = PushDelivered \<and> db' = fst (markJobDelivered (pu_clocks u) jobId agentId (Some (pu_uuid u)) db1)
              \<and> sent \<noteq> None
            \<or> sent = None \<and> (\<exists>o'. releaseUndeliveredClaim (pu_now1 u) (pu_now2 u) jobId agentId (Some (pu_uuid u))
                   ERR_SEND_FAILED db1 = (db', o') \<and> out = (if o' = ReleaseFailed then PushFailed else PushRequeued))))"
proof (cases "hasOpenAgentSocket (pu_open0 u) agentId reg")
  case False
  then show ?thesis using r by (simp add: claimAndPushJobToAgent_def)
next
  case True
  obtain db1 row where c: "claimJobForDelivery (pu_now u) (pu_locked u) (pu_uuid u) jobId agentId db = (db1, row)"
    by fastforce
  show ?thesis
  proof (cases row)
    case None
    then have "db1 = db" using claim_none [OF ok] c by blast
    then show ?thesis using r c True None by (simp add: claimAndPushJobToAgent_def)
  next
    case (Some claimed)
    have l: "db_ok db1" "\<exists>p \<in> set (print_jobs db1). fresh_claim jobId agentId (pu_uuid u) p"
      using claim_leaves [OF ok] c Some by blast+
    have t: "cj_claimToken claimed = Some (pu_uuid u)" using claim_token c Some by blast
    then obtain p where p: "p \<in> set (print_jobs db1)" "fresh_claim jobId agentId (pu_uuid u) p" using l(2) by blast
    have ev: "snd (markJobDelivered (pu_clocks u) jobId agentId (Some (pu_uuid u)) db1)"
      by (rule mark_fresh [OF p uu])
    obtain reg2 taken where sd: "sendToAgent (pu_open u) (pu_buffered u) (pu_send_ok u) agentId reg = (reg2, taken)"
      by fastforce
    have "out = PushDelivered \<and> db' = fst (markJobDelivered (pu_clocks u) jobId agentId (Some (pu_uuid u)) db1) \<and> sent \<noteq> None
      \<or> sent = None \<and> (\<exists>o'. releaseUndeliveredClaim (pu_now1 u) (pu_now2 u) jobId agentId (Some (pu_uuid u))
             ERR_SEND_FAILED db1 = (db', o') \<and> out = (if o' = ReleaseFailed then PushFailed else PushRequeued))"
    proof (cases taken)
      case None
      obtain db3 o' where rel: "releaseUndeliveredClaim (pu_now1 u) (pu_now2 u) jobId agentId (Some (pu_uuid u))
          ERR_SEND_FAILED db1 = (db3, o')" by fastforce
      show ?thesis
        using r True \<open>row = Some claimed\<close> None by (auto simp: claimAndPushJobToAgent_def c t e sd rel)
    next
      case (Some ws)
      obtain db3 where m: "markJobDelivered (pu_clocks u) jobId agentId (Some (pu_uuid u)) db1 = (db3, True)"
        using ev by (metis (full_types) prod.collapse)
      show ?thesis
        using r True \<open>row = Some claimed\<close> Some by (auto simp: claimAndPushJobToAgent_def c t e sd m)
    qed
    with l(1) p show ?thesis by blast
  qed
qed

lemma shop_sockets_inv [simp]: "ws_inv shop_sockets"
  unfolding shop_sockets_def by (rule ws_run_inv [OF ws_inv_empty])

lemma shop_has_socket: "hasOpenAgentSocket (\<lambda>_. True) ''a1'' shop_sockets"
  by code_simp

lemma shop_claims: "snd (claimJobForDelivery 1 (\<lambda>_. False) ''7'' ''j1'' ''a1'' queued_db) \<noteq> None"
  by code_simp

lemma shop_sends: "snd (sendToAgent (\<lambda>_. True) (\<lambda>_. 0) (\<lambda>_. True) ''a1'' shop_sockets) = Some 0"
  by code_simp

lemma shop_push_outcome:
  "fst (snd (snd (claimAndPushJobToAgent (shop_push (\<lambda>_. True)) ''j1'' ''a1'' shop_sockets queued_db))) = PushDelivered"
proof -
  obtain db1 row where c: "claimJobForDelivery 1 (\<lambda>_. False) ''7'' ''j1'' ''a1'' queued_db = (db1, Some row)"
    using shop_claims by (metis option.exhaust prod.collapse)
  obtain reg2 where sd: "sendToAgent (\<lambda>_. True) (\<lambda>_. 0) (\<lambda>_. True) ''a1'' shop_sockets = (reg2, Some 0)"
    using shop_sends by (metis prod.collapse)
  obtain p where "p \<in> set (print_jobs db1)" "fresh_claim ''j1'' ''a1'' ''7'' p"
    using claim_leaves [OF queued_db_ok c] by blast
  then have "snd (markJobDelivered \<lparr>db_now = 2, app_now = 2\<rparr> ''j1'' ''a1'' (Some ''7'') db1)"
    by (rule mark_fresh) simp
  then obtain db3 where m: "markJobDelivered \<lparr>db_now = 2, app_now = 2\<rparr> ''j1'' ''a1'' (Some ''7'') db1 = (db3, True)"
    by (metis (full_types) prod.collapse)
  have t: "cj_claimToken row = Some ''7''" using claim_token [OF c] by blast
  show ?thesis
    by (simp add: claimAndPushJobToAgent_def shop_push_def shop_has_socket c sd m t)
qed

theorem push_delivered_evidence_witness:
  "\<exists>p \<in> set (print_jobs (fst (claimAndPushJobToAgent (shop_push (\<lambda>_. True)) ''j1'' ''a1'' shop_sockets queued_db))).
     jb_id p = ''j1'' \<and> jb_token p = Some ''7'' \<and> jb_delivered_at p = Some 2"
proof -
  let ?r = "claimAndPushJobToAgent (shop_push (\<lambda>_. True)) ''j1'' ''a1'' shop_sockets queued_db"
  have r: "?r = (fst ?r, fst (snd ?r), PushDelivered, snd (snd (snd ?r)))"
    using shop_push_outcome by (metis surjective_pairing)
  have "pu_uuid (shop_push (\<lambda>_. True)) = ''7''" "app_now (pu_clocks (shop_push (\<lambda>_. True))) = 2"
    by (simp_all add: shop_push_def)
  then show ?thesis
    using push_delivered_evidence [OF shop_sockets_inv r] by auto
qed

text \<open>C12. A push strands no claim: when nothing else interferes, a push that claimed the job ends
  with the job delivered (live, with evidence, under the pushed token), back in the queue without a
  token, or failed; it never leaves the job claimed without evidence of delivery.\<close>

theorem push_strands_no_claim:
  assumes "db_ok db" and "pu_env1 u = id" and "pu_uuid u \<noteq> ''''"
    and "claimAndPushJobToAgent u jobId agentId reg db = (db', reg', out, sent)"
  shows "(out \<in> {PushNoSocket, PushNotClaimable} \<and> db' = db)
    \<or> (out = PushDelivered \<and> (\<exists>q \<in> set (print_jobs db'). jb_id q = jobId \<and> jb_token q = Some (pu_uuid u) \<and> has_evidence q))
    \<or> (out = PushRequeued \<and> (\<forall>q \<in> set (print_jobs db'). jb_id q = jobId \<longrightarrow> jb_status q = Queued \<and> jb_token q = None))
    \<or> (out = PushFailed \<and> (\<forall>q \<in> set (print_jobs db'). jb_id q = jobId \<longrightarrow> jb_status q = Failed))"
proof -
  from push_steps [OF assms] consider "out \<in> {PushNoSocket, PushNotClaimable}" "db' = db"
    | db1 p where "p \<in> set (print_jobs db1)" "fresh_claim jobId agentId (pu_uuid u) p" "out = PushDelivered"
        "db' = fst (markJobDelivered (pu_clocks u) jobId agentId (Some (pu_uuid u)) db1)"
    | db1 p o' where "db_ok db1" "p \<in> set (print_jobs db1)" "fresh_claim jobId agentId (pu_uuid u) p"
        "releaseUndeliveredClaim (pu_now1 u) (pu_now2 u) jobId agentId (Some (pu_uuid u)) ERR_SEND_FAILED db1 = (db', o')"
        "out = (if o' = ReleaseFailed then PushFailed else PushRequeued)"
    by blast
  then show ?thesis
  proof cases
    case 1
    then show ?thesis by blast
  next
    case 2
    have "markJobDelivered (pu_clocks u) jobId agentId (Some (pu_uuid u)) db1 = (db', True)"
      using mark_fresh [OF 2(1,2) assms(3)] 2(4) by (metis (full_types) prod.collapse)
    from mark_delivered_row [OF this] show ?thesis
      using 2(3) assms(3) by (auto simp: has_evidence_def)
  next
    case 3
    then show ?thesis
      using release_row [OF 3(1,2,3,4)] by (cases o') auto
  qed
qed

theorem push_strands_no_claim_witness:
  "\<exists>q \<in> set (print_jobs (fst (claimAndPushJobToAgent (shop_push (\<lambda>_. True)) ''j1'' ''a1'' shop_sockets queued_db))).
     jb_id q = ''j1'' \<and> has_evidence q"
proof -
  let ?r = "claimAndPushJobToAgent (shop_push (\<lambda>_. True)) ''j1'' ''a1'' shop_sockets queued_db"
  have r: "?r = (fst ?r, fst (snd ?r), PushDelivered, snd (snd (snd ?r)))"
    using shop_push_outcome by (metis surjective_pairing)
  have "pu_env1 (shop_push (\<lambda>_. True)) = id" "pu_uuid (shop_push (\<lambda>_. True)) \<noteq> ''''"
    by (simp_all add: shop_push_def)
  from push_strands_no_claim [OF queued_db_ok this r] show ?thesis by auto
qed

end
