(* ===== verification/Json_Text.thy ===== *)
theory Json_Text
  imports Json
begin

text \<open>
  \<open>JSON.stringify\<close>: quoting of strings and the text of a value. How a number prints is an
  argument (\<open>Number::toString\<close> of a double); every property shown of the text holds for any.
\<close>

definition hex_digit :: "nat \<Rightarrow> char" where
  "hex_digit d = (if d < 10 then char_of (48 + d) else char_of (87 + d))"

definition quote_char :: "char \<Rightarrow> string" where
  "quote_char c =
     (if c = CHR 0x22 then [CHR 0x5C, CHR 0x22]
      else if c = CHR 0x5C then [CHR 0x5C, CHR 0x5C]
      else if c = CHR 0x08 then [CHR 0x5C, CHR ''b'']
      else if c = CHR 0x0C then [CHR 0x5C, CHR ''f'']
      else if c = CHR 0x0A then [CHR 0x5C, CHR ''n'']
      else if c = CHR 0x0D then [CHR 0x5C, CHR ''r'']
      else if c = CHR 0x09 then [CHR 0x5C, CHR ''t'']
      else let n = (of_char c :: nat)
           in if n < 32 then [CHR 0x5C, CHR ''u'', CHR ''0'', CHR ''0'', hex_digit (n div 16), hex_digit (n mod 16)]
              else [c])"

definition json_quote :: "string \<Rightarrow> string" where
  "json_quote s = [CHR 0x22] @ concat (map quote_char s) @ [CHR 0x22]"

fun stringify :: "(rat \<Rightarrow> string) \<Rightarrow> json \<Rightarrow> string" where
  "stringify num JNull = ''null''"
| "stringify num (JBool b) = (if b then ''true'' else ''false'')"
| "stringify num (JNum q) = num q"
| "stringify num (JStr s) = json_quote s"
| "stringify num (JArr xs) = ''['' @ join_with '','' (map (stringify num) xs) @ '']''"
| "stringify num (JObj es) = ''{'' @ join_with '','' (map (\<lambda>(k, v). json_quote k @ '':'' @ stringify num v) es) @ ''}''"

text \<open>No quoted text contains a raw quote, backslash or control character of the input.\<close>

lemma quote_char_plain:
  "of_char c \<ge> (32 :: nat) \<Longrightarrow> c \<noteq> CHR 0x22 \<Longrightarrow> c \<noteq> CHR 0x5C \<Longrightarrow> quote_char c = [c]"
  by (auto simp: quote_char_def Let_def)

lemma quote_char_nonempty: "quote_char c \<noteq> []"
  by (simp add: quote_char_def Let_def)

lemma json_quote_length: "length s + 2 \<le> length (json_quote s)"
proof -
  have "length s \<le> length (concat (map quote_char s))"
  proof (induction s)
    case (Cons c s)
    have "1 \<le> length (quote_char c)" using quote_char_nonempty [of c] by (cases "quote_char c") auto
    then show ?case using Cons by simp
  qed simp
  then show ?thesis by (simp add: json_quote_def)
qed

section \<open>Unambiguity\<close>

text \<open>
  The text of a value without numbers determines the value, also as the beginning of a longer
  text. For numbers this would rest on how the engine prints a double.
\<close>

fun number_free :: "json \<Rightarrow> bool" where
  "number_free (JNum q) = False"
| "number_free (JArr xs) = list_all number_free xs"
| "number_free (JObj es) = list_all (\<lambda>(k, v). number_free v) es"
| "number_free v = True"

lemma hex_digit_code: "d < 16 \<Longrightarrow> of_char (hex_digit d) = (if d < 10 then 48 + d else 87 + d :: nat)"
  by (auto simp: hex_digit_def of_char_of)

lemma hex_digit_inj:
  assumes "d < 16" and "e < 16" and "hex_digit d = hex_digit e"
  shows "d = e"
proof -
  have "(if d < 10 then 48 + d else 87 + d) = (if e < 10 then 48 + e else 87 + e :: nat)"
    using hex_digit_code [OF assms(1)] hex_digit_code [OF assms(2)] assms(3) by simp
  then show ?thesis using assms(1,2) by (simp split: if_splits)
qed

lemma quote_char_head: "quote_char c @ x \<noteq> CHR 0x22 # y"
  by (auto simp: quote_char_def Let_def split: if_splits)

lemma control_code_inj:
  assumes "(of_char c :: nat) < 32" and "(of_char d :: nat) < 32"
    and "hex_digit (of_char c div 16) = hex_digit (of_char d div 16)"
    and "hex_digit (of_char c mod 16) = hex_digit (of_char d mod 16)"
  shows "c = d"
proof -
  have "(of_char c :: nat) div 16 = of_char d div 16" "(of_char c :: nat) mod 16 = of_char d mod 16"
    using assms by (auto intro!: hex_digit_inj)
  then have "(of_char c :: nat) = of_char d" by (metis div_mult_mod_eq)
  then show ?thesis by simp
qed

definition short_escapes :: "(char \<times> char) list" where
  "short_escapes = [(CHR 0x22, CHR 0x22), (CHR 0x5C, CHR 0x5C), (CHR 0x08, CHR ''b''), (CHR 0x0C, CHR ''f''),
     (CHR 0x0A, CHR ''n''), (CHR 0x0D, CHR ''r''), (CHR 0x09, CHR ''t'')]"

lemma quote_char_cases:
  obtains (short) k where "(c, k) \<in> set short_escapes" and "quote_char c = [CHR 0x5C, k]"
  | (control) "(of_char c :: nat) < 32"
      and "quote_char c = [CHR 0x5C, CHR ''u'', CHR ''0'', CHR ''0'', hex_digit (of_char c div 16), hex_digit (of_char c mod 16)]"
  | (plain) "quote_char c = [c]" and "c \<noteq> CHR 0x5C"
proof (cases "c \<in> fst ` set short_escapes")
  case True
  then obtain k where "(c, k) \<in> set short_escapes" by force
  moreover from this have "quote_char c = [CHR 0x5C, k]" by (auto simp: quote_char_def short_escapes_def)
  ultimately show ?thesis by (rule short)
next
  case False
  then have "c \<noteq> CHR 0x22" "c \<noteq> CHR 0x5C" "c \<noteq> CHR 0x08" "c \<noteq> CHR 0x0C" "c \<noteq> CHR 0x0A" "c \<noteq> CHR 0x0D"
    "c \<noteq> CHR 0x09"
    unfolding short_escapes_def by (simp_all del: char.inject)
  then show ?thesis using control plain
    by (cases "(of_char c :: nat) < 32") (simp_all add: quote_char_def Let_def)
qed

lemma short_escapes_inj:
  "(c, k) \<in> set short_escapes \<Longrightarrow> (d, k) \<in> set short_escapes \<Longrightarrow> c = d"
  "(c, k) \<in> set short_escapes \<Longrightarrow> k \<noteq> CHR ''u''"
  by (auto simp: short_escapes_def)

lemma quote_char_prefix_free: "quote_char c @ x = quote_char d @ y \<Longrightarrow> c = d \<and> x = y"
  by (cases c rule: quote_char_cases; cases d rule: quote_char_cases)
    (auto dest: control_code_inj short_escapes_inj)

lemma quote_body_prefix_free:
  "concat (map quote_char s) @ CHR 0x22 # x = concat (map quote_char t) @ CHR 0x22 # y \<Longrightarrow> s = t \<and> x = y"
proof (induction s arbitrary: t)
  case Nil
  then show ?case by (cases t) (auto dest: sym simp: quote_char_head quote_char_head [symmetric])
next
  case (Cons c s)
  then show ?case
  proof (cases t)
    case Nil
    then show ?thesis using Cons.prems by (simp add: quote_char_head)
  next
    case (Cons d t')
    then have "quote_char c @ (concat (map quote_char s) @ CHR 0x22 # x)
        = quote_char d @ (concat (map quote_char t') @ CHR 0x22 # y)"
      using Cons.prems by simp
    then show ?thesis using Cons.IH [of t'] Cons quote_char_prefix_free by fastforce
  qed
qed

lemma json_quote_prefix_free: "json_quote s @ x = json_quote t @ y \<Longrightarrow> s = t \<and> x = y"
  unfolding json_quote_def by (auto dest: quote_body_prefix_free)

text \<open>Texts of a list of items, each prefix-free, joined by commas and closed by a bracket.\<close>

lemma join_prefix_free:
  assumes items: "\<And>x y r u. x \<in> set xs \<Longrightarrow> y \<in> set ys \<Longrightarrow> f x @ r = f y @ u \<Longrightarrow> x = y \<and> r = u"
    and start: "\<And>x r u. x \<in> set xs \<union> set ys \<Longrightarrow> f x @ r \<noteq> c # u"
    and "join_with '','' (map f xs) @ c # r = join_with '','' (map f ys) @ c # u" and "c \<noteq> CHR '',''"
  shows "xs = ys \<and> r = u"
  using items start assms(3)
proof (induction xs arbitrary: ys)
  case Nil
  show ?case
  proof (cases ys)
    case (Cons y ys')
    then obtain t where "join_with '','' (map f ys) = f y @ t" by (cases ys') auto
    then show ?thesis using Nil(2) [of y] Nil(3) Cons by (metis Un_iff append_assoc join_with.simps(1) list.set_intros(1) list.simps(8) self_append_conv2)
  qed (use Nil in simp)
next
  case (Cons x xs)
  show ?case
  proof (cases ys)
    case Nil
    obtain t where "join_with '','' (map f (x # xs)) = f x @ t" by (cases xs) auto
    then show ?thesis using Cons.prems(2) [of x] Cons.prems(3) Nil
      by (metis Un_iff append_assoc join_with.simps(1) list.set_intros(1) list.simps(8) self_append_conv2)
  next
    case ys: (Cons y ys')
    define tx where "tx = (if xs = [] then c # r else '','' @ join_with '','' (map f xs) @ c # r)"
    define ty where "ty = (if ys' = [] then c # u else '','' @ join_with '','' (map f ys') @ c # u)"
    have "f x @ tx = f y @ ty"
      using Cons.prems(3) ys by (cases xs; cases ys') (simp_all add: tx_def ty_def)
    then have xy: "x = y" and t: "tx = ty" using Cons.prems(1) [of x y] ys by auto
    have "xs = [] \<longleftrightarrow> ys' = []"
      using t assms(4) by (auto simp: tx_def ty_def split: if_splits)
    moreover have "xs = ys' \<and> r = u" if "xs \<noteq> []" "ys' \<noteq> []"
      using Cons.IH [of ys'] Cons.prems(1,2) t that ys by (auto simp: tx_def ty_def)
    ultimately show ?thesis using xy t ys by (auto simp: tx_def ty_def split: if_splits)
  qed
qed

definition entry_text :: "(rat \<Rightarrow> string) \<Rightarrow> string \<times> json \<Rightarrow> string" where
  "entry_text num e = json_quote (fst e) @ '':'' @ stringify num (snd e)"

lemma stringify_object: "stringify num (JObj es) = ''{'' @ join_with '','' (map (entry_text num) es) @ ''}''"
proof -
  have "(\<lambda>(k, v). json_quote k @ '':'' @ stringify num v) = entry_text num"
    by (auto simp: entry_text_def)
  then show ?thesis by (simp only: stringify.simps)
qed

text \<open>The first character tells the kind of a value.\<close>

lemma stringify_first:
  "number_free v \<Longrightarrow> \<exists>t. stringify num v = (case v of JNull \<Rightarrow> CHR ''n'' | JBool b \<Rightarrow> if b then CHR ''t'' else CHR ''f''
     | JNum q \<Rightarrow> CHR ''0'' | JStr s \<Rightarrow> CHR 0x22 | JArr xs \<Rightarrow> CHR ''['' | JObj es \<Rightarrow> CHR ''{'') # t"
  by (cases v) (auto simp: json_quote_def)

lemma stringify_start: "number_free v \<Longrightarrow> stringify num v @ r \<noteq> CHR '']'' # u"
  using stringify_first [of v num] by (cases v) auto

lemma stringify_prefix_free:
  "number_free a \<Longrightarrow> number_free b \<Longrightarrow> stringify num a @ r = stringify num b @ u \<Longrightarrow> a = b \<and> r = u"
proof (induction a arbitrary: b r u)
  case JNull
  then show ?case using stringify_first [of b num] by (cases b) (auto split: if_splits)
next
  case (JBool x)
  then show ?case using stringify_first [of b num] by (cases b) (auto split: if_splits)
next
  case (JNum x)
  then show ?case by simp
next
  case (JStr x)
  obtain t where "stringify num b @ u = CHR 0x22 # t"
    by (rule that) (rule trans [OF JStr.prems(3) [symmetric]], simp add: json_quote_def)
  then obtain s where b: "b = JStr s"
    using JStr.prems(2) stringify_first [of b num] by (cases b) (auto split: if_splits)
  show ?case using json_quote_prefix_free [of x r s u] JStr.prems(3) by (simp add: b)
next
  case (JArr xs)
  obtain ys where b: "b = JArr ys"
    using JArr.prems stringify_first [of b num] by (cases b) (auto split: if_splits)
  have "join_with '','' (map (stringify num) xs) @ CHR '']'' # r = join_with '','' (map (stringify num) ys) @ CHR '']'' # u"
    using JArr.prems(3) by (simp add: b)
  moreover have "x = y \<and> r' = u'" if "x \<in> set xs" "y \<in> set ys" "stringify num x @ r' = stringify num y @ u'" for x y r' u'
    using JArr.IH [of x y r' u'] JArr.prems(1,2) that by (auto simp: b list_all_iff)
  moreover have "stringify num x @ r' \<noteq> CHR '']'' # u'" if "x \<in> set xs \<union> set ys" for x r' u'
    by (rule stringify_start) (use that JArr.prems(1,2) in \<open>auto simp: b list_all_iff\<close>)
  ultimately have "xs = ys \<and> r = u"
    by (intro join_prefix_free) auto
  then show ?case by (simp add: b)
next
  case (JObj es)
  obtain fs where b: "b = JObj fs"
    using JObj.prems stringify_first [of b num] by (cases b) (auto split: if_splits)
  have nf: "\<And>e. e \<in> set es \<union> set fs \<Longrightarrow> number_free (snd e)"
    using JObj.prems(1,2) by (auto simp: b list_all_iff)
  have "join_with '','' (map (entry_text num) es) @ CHR ''}'' # r = join_with '','' (map (entry_text num) fs) @ CHR ''}'' # u"
    using JObj.prems(3) unfolding b stringify_object by simp
  moreover have "e = f \<and> r' = u'" if ef: "e \<in> set es" "f \<in> set fs" "entry_text num e @ r' = entry_text num f @ u'" for e f r' u'
  proof -
    have "fst e = fst f \<and> stringify num (snd e) @ r' = stringify num (snd f) @ u'"
      using ef(3) json_quote_prefix_free [of "fst e" _ "fst f"] by (fastforce simp: entry_text_def)
    moreover have "snd e \<in> Basic_BNFs.snds e" by (cases e) auto
    ultimately have "fst e = fst f \<and> snd e = snd f \<and> r' = u'"
      using JObj.IH [OF ef(1)] nf ef(1,2) by blast
    then show ?thesis by (simp add: prod_eq_iff)
  qed
  moreover have "entry_text num e @ r' \<noteq> CHR ''}'' # u'" for e r' u'
    by (simp add: entry_text_def json_quote_def)
  ultimately have "es = fs \<and> r = u"
    by (intro join_prefix_free) auto
  then show ?case by (simp add: b)
qed

end
