(* ===== verification/Server_Edge.thy ===== *)
theory Server_Edge
  imports Json_Text
begin

text \<open>
  The edge of the custom server: \<open>src/server/cors.ts\<close>, \<open>src/server/trusted-proxy.ts\<close>,
  \<open>src/server/request-guard.ts\<close>, the upgrade handler of \<open>src/server/ws.ts\<close> and the
  request handler and startup checks of \<open>server.ts\<close>. Process environment and secrets are
  arguments; so is \<open>Number(..)\<close> of the Content-Length header and \<open>isIP\<close>.
\<close>

datatype header_value = HStr string | HArr "string list"

type_synonym headers = "(string \<times> header_value) list"

text \<open>Header names are lower case, as Node hands them out.\<close>

definition header :: "headers \<Rightarrow> string \<Rightarrow> header_value option" where
  "header hs k = map_of hs k"

record edge_request =
  rq_method :: "string option"
  rq_url :: "string option"
  rq_headers :: headers
  rq_length :: "js_number option"

text \<open>What is written to the response: status, headers and JSON body; and whether the stream is destroyed.\<close>

definition url_is_api :: "edge_request \<Rightarrow> bool" where
  "url_is_api rq \<longleftrightarrow> (case rq_url rq of Some u \<Rightarrow> starts_with u ''/api/'' | None \<Rightarrow> False)"

section \<open>CORS\<close>

definition DEFAULT_DESKTOP_ORIGINS :: "string list" where
  "DEFAULT_DESKTOP_ORIGINS = [''tauri://localhost'', ''http://tauri.localhost'']"
definition ALLOWED_METHODS :: string where "ALLOWED_METHODS = ''GET,POST,PUT,PATCH,DELETE,OPTIONS''"
definition ALLOWED_HEADERS :: string where "ALLOWED_HEADERS = ''Content-Type,Authorization,X-Odoo-Print-Desktop''"

definition configuredOrigins :: "string option \<Rightarrow> string list" where
  "configuredOrigins raw =
     (if truthy raw then filter (\<lambda>v. v \<noteq> []) (map js_trim (split_on (CHR '','') (the raw)))
      else DEFAULT_DESKTOP_ORIGINS)"

text \<open>The headers set on the response, \<^const>\<open>None\<close> when the function returns false.\<close>

definition applyApiCors :: "string option \<Rightarrow> edge_request \<Rightarrow> (string \<times> string) list option" where
  "applyApiCors env rq =
     (if \<not> url_is_api rq then None
      else case header (rq_headers rq) ''origin'' of
             Some (HStr origin) \<Rightarrow>
               (if origin = [] then None
                else if \<not> List.member (configuredOrigins env) origin then None
                else Some [(''Access-Control-Allow-Origin'', origin),
                           (''Access-Control-Allow-Credentials'', ''false''),
                           (''Access-Control-Allow-Methods'', ALLOWED_METHODS),
                           (''Access-Control-Allow-Headers'', ALLOWED_HEADERS),
                           (''Access-Control-Max-Age'', ''600''),
                           (''Vary'', ''Origin, Access-Control-Request-Method, Access-Control-Request-Headers'')])
           | _ \<Rightarrow> None)"

text \<open>\<^const>\<open>None\<close> when the request is no preflight of the API; else the finished response.\<close>

definition handleApiCorsPreflight :: "string option \<Rightarrow> edge_request \<Rightarrow> http option" where
  "handleApiCorsPreflight env rq =
     (if rq_method rq \<noteq> Some ''OPTIONS'' \<or> \<not> url_is_api rq then None
      else case applyApiCors env rq of
             None \<Rightarrow> Some \<lparr>http_status = 403, http_headers = [(''content-type'', ''application/json; charset=utf-8'')],
                           http_body = JObj [(''error'', JStr ''CORS_ORIGIN_FORBIDDEN'')]\<rparr>
           | Some hs \<Rightarrow> Some \<lparr>http_status = 204, http_headers = hs, http_body = JNull\<rparr>)"

section \<open>Trusted proxy\<close>

text \<open>\<open>secret\<close> is \<open>runtimeSecret("TRUST_PROXY_SECRET")\<close>.\<close>

definition configuredProxySecret :: "string option \<Rightarrow> string option" where
  "configuredProxySecret secret =
     (case map_option js_trim secret of
        Some v \<Rightarrow> if v \<noteq> [] \<and> length v \<ge> 32 then Some v else None
      | None \<Rightarrow> None)"

text \<open>Equality of the UTF-8 encodings, which is equality of the strings.\<close>

definition safeEqual :: "string \<Rightarrow> string \<Rightarrow> bool" where
  "safeEqual l r \<longleftrightarrow> l = r"

definition trustProxyEnabled :: "string option \<Rightarrow> bool" where
  "trustProxyEnabled env \<longleftrightarrow> env = Some ''1'' \<or> env = Some ''true''"

text \<open>\<open>token\<close> is the header \<open>x-gateway-proxy-token\<close> of the Web request.\<close>

definition isTrustedProxyRequest :: "string option \<Rightarrow> string option \<Rightarrow> string option \<Rightarrow> bool" where
  "isTrustedProxyRequest env secret token =
     (if \<not> trustProxyEnabled env then True
      else case configuredProxySecret secret of
             None \<Rightarrow> False
           | Some s \<Rightarrow> (let supplied = (case token of Some t \<Rightarrow> js_trim t | None \<Rightarrow> '''')
                       in length supplied > 0 \<and> safeEqual supplied s))"

fun first_text :: "header_value \<Rightarrow> string" where
  "first_text (HStr v) = v"
| "first_text (HArr []) = ''''"
| "first_text (HArr (v # _)) = v"

definition isTrustedProxyUpgrade :: "string option \<Rightarrow> string option \<Rightarrow> headers \<Rightarrow> bool" where
  "isTrustedProxyUpgrade env secret hs =
     (if \<not> trustProxyEnabled env then True
      else case configuredProxySecret secret of
             None \<Rightarrow> False
           | Some s \<Rightarrow>
               (let supplied = (case header hs ''x-gateway-proxy-token'' of Some v \<Rightarrow> first_text v | None \<Rightarrow> '''')
                in length (js_trim supplied) > 0 \<and> safeEqual (js_trim supplied) s))"

section \<open>The body budget\<close>

definition MAX_API_BODY_BYTES :: int where "MAX_API_BODY_BYTES = 8 * 1024 * 1024"
definition MAX_CONCURRENT_CHUNKED_BYTES :: int where "MAX_CONCURRENT_CHUNKED_BYTES = 32 * 1024 * 1024"
definition MAX_SAFE_INTEGER :: int where "MAX_SAFE_INTEGER = 2 ^ 53 - 1"
definition MUTATING_METHODS :: "string list" where "MUTATING_METHODS = [''POST'', ''PUT'', ''PATCH'', ''DELETE'']"

text \<open>\<open>reserve\<close>: the new total, or \<^const>\<open>None\<close> when it returns false.\<close>

definition reserve_bytes :: "int \<Rightarrow> int \<Rightarrow> int option" where
  "reserve_bytes bytes reserved =
     (if bytes < 0 \<or> \<bar>bytes\<bar> > MAX_SAFE_INTEGER then None
      else if reserved + bytes > MAX_CONCURRENT_CHUNKED_BYTES then None
      else Some (reserved + bytes))"

definition release_bytes :: "int \<Rightarrow> int \<Rightarrow> int" where
  "release_bytes bytes reserved = max 0 (reserved - bytes)"

definition isPayloadBearingEndpoint :: "string option \<Rightarrow> bool" where
  "isPayloadBearingEndpoint url =
     (case url of
        None \<Rightarrow> False
      | Some u \<Rightarrow> if u = [] then False else starts_with u ''/api/agent/'' \<or> starts_with u ''/api/print/'')"

fun header_present :: "header_value option \<Rightarrow> bool" where
  "header_present None = False"
| "header_present (Some (HStr v)) = (js_trim v \<noteq> [])"
| "header_present (Some (HArr vs)) = list_ex (\<lambda>v. js_trim v \<noteq> []) vs"

definition hasAuthHeaders :: "headers \<Rightarrow> bool" where
  "hasAuthHeaders hs \<longleftrightarrow>
     header_present (header hs ''authorization'') \<or> header_present (header hs ''x-api-key'')
     \<or> header_present (header hs ''cookie'')"

text \<open>A request passes, with the bytes reserved for it if any, or is rejected and its stream destroyed.\<close>

datatype guard_result = GuardPass "int option" | GuardReject nat string

definition js_integer :: "js_number \<Rightarrow> int option" where
  "js_integer n = (case n of Fin q \<Rightarrow> if of_int \<lfloor>q\<rfloor> = q then Some \<lfloor>q\<rfloor> else None | NotFinite \<Rightarrow> None)"

definition guardApiRequest :: "int \<Rightarrow> edge_request \<Rightarrow> int \<Rightarrow> int \<times> guard_result" where
  "guardApiRequest maxBytes rq reserved =
     (if \<not> url_is_api rq then (reserved, GuardPass None)
      else if \<not> List.member MUTATING_METHODS (case rq_method rq of Some m \<Rightarrow> m | None \<Rightarrow> '''') then (reserved, GuardPass None)
      else
        let payloadBearing = isPayloadBearingEndpoint (rq_url rq)
        in case rq_length rq of
             None \<Rightarrow>
               (if payloadBearing \<and> \<not> hasAuthHeaders (rq_headers rq) then (reserved, GuardReject 401 ''UNAUTHORIZED'')
                else (reserved, GuardReject 411 ''CONTENT_LENGTH_REQUIRED''))
           | Some n \<Rightarrow>
               (case js_integer n of
                  None \<Rightarrow> (reserved, GuardReject 413 ''REQUEST_BODY_TOO_LARGE'')
                | Some l \<Rightarrow>
                    if l < 0 \<or> l > maxBytes then (reserved, GuardReject 413 ''REQUEST_BODY_TOO_LARGE'')
                    else if \<not> payloadBearing then (reserved, GuardPass None)
                    else if \<not> hasAuthHeaders (rq_headers rq) then (reserved, GuardPass None)
                    else case reserve_bytes l reserved of
                           None \<Rightarrow> (reserved, GuardReject 503 ''REQUEST_BODY_CAPACITY_EXCEEDED'')
                         | Some reserved' \<Rightarrow> (reserved', GuardPass (Some l))))"

text \<open>
  The guard over time: the total, and for each admitted request the bytes it still holds.
  \<open>releaseOnce\<close> hangs on four events, so an ending may be signalled several times.
\<close>

record guard_state =
  gs_reserved :: int
  gs_open :: "(nat \<times> int) list"

datatype guard_event = GuardRequest nat edge_request | GuardEnded nat

fun guard_step :: "guard_event \<Rightarrow> guard_state \<Rightarrow> guard_state" where
  "guard_step (GuardRequest i rq) st =
     (case guardApiRequest MAX_API_BODY_BYTES rq (gs_reserved st) of
        (r, GuardPass (Some l)) \<Rightarrow> st\<lparr>gs_reserved := r, gs_open := (i, l) # gs_open st\<rparr>
      | (r, _) \<Rightarrow> st\<lparr>gs_reserved := r\<rparr>)"
| "guard_step (GuardEnded i) st =
     (case map_of (gs_open st) i of
        None \<Rightarrow> st
      | Some l \<Rightarrow> st\<lparr>gs_reserved := release_bytes l (gs_reserved st),
                    gs_open := filter (\<lambda>(j, _). j \<noteq> i) (gs_open st)\<rparr>)"

definition guard_run :: "guard_event list \<Rightarrow> guard_state" where
  "guard_run evs = fold guard_step evs \<lparr>gs_reserved = 0, gs_open = []\<rparr>"

definition request_ids :: "guard_event list \<Rightarrow> nat list" where
  "request_ids evs = concat (map (\<lambda>e. case e of GuardRequest i _ \<Rightarrow> [i] | _ \<Rightarrow> []) evs)"

section \<open>The upgrade handler\<close>

definition ws_status_text :: "nat \<Rightarrow> string" where
  "ws_status_text status =
     (if status = 429 then ''Too Many Requests'' else if status = 503 then ''Service Unavailable''
      else if status = 404 then ''Not Found'' else if status = 401 then ''Unauthorized'' else ''Bad Request'')"

definition crlf :: string where "crlf = [CHR 0x0D, CHR 0x0A]"

text \<open>The bytes of the reply; the bodies the handler passes are ASCII, one byte per character.\<close>

definition writeWsHttpError :: "nat \<Rightarrow> string \<Rightarrow> nat option \<Rightarrow> string" where
  "writeWsHttpError status body retryAfterSec =
     (let retry = (case retryAfterSec of Some n \<Rightarrow> ''Retry-After: '' @ nat_str n @ crlf | None \<Rightarrow> '''');
          payload = stringify (\<lambda>_. '''') (JObj [(''error'', JStr body)])
      in ''HTTP/1.1 '' @ nat_str status @ '' '' @ ws_status_text status @ crlf
         @ ''Content-Type: application/json; charset=utf-8'' @ crlf
         @ ''Content-Length: '' @ nat_str (length payload) @ crlf
         @ retry
         @ ''Connection: close'' @ crlf @ crlf
         @ payload)"

definition strip_mapped :: "string \<Rightarrow> string" where
  "strip_mapped s = (if starts_with s ''::ffff:'' then drop 7 s else s)"

definition websocketClientKey :: "(string \<Rightarrow> bool) \<Rightarrow> string option \<Rightarrow> headers \<Rightarrow> string option \<Rightarrow> string" where
  "websocketClientKey isIP env hs remote =
     (let direct = (let k = take 128 (strip_mapped (case remote of Some r \<Rightarrow> r | None \<Rightarrow> ''unknown''))
                    in if k = [] then ''unknown'' else k)
      in if trustProxyEnabled env then
           (let candidates = (case header hs ''x-forwarded-for'' of Some (HStr f) \<Rightarrow> split_on (CHR '','') f | _ \<Rightarrow> [])
            in case List.find (\<lambda>ip. ip \<noteq> [] \<and> isIP ip) (map js_trim candidates) of
                 Some ip \<Rightarrow> take 128 ip
               | None \<Rightarrow>
                   (let real = (case header hs ''x-real-ip'' of Some (HStr r) \<Rightarrow> js_trim r | _ \<Rightarrow> '''')
                    in if real \<noteq> [] \<and> isIP real then take 128 real else direct))
         else direct)"

text \<open>
  \<open>decision\<close> is what \<open>inspectWsUpgradeRateLimit\<close> answers (\<^const>\<open>None\<close> when it throws),
  \<open>auth\<close> the agent \<open>validateAgent\<close> finds (nothing when it throws). The second component
  tells whether a failure is recorded for the client key.
\<close>

datatype upgrade_result = UpgradeError nat string "nat option" | UpgradeAccept string

definition ws_upgrade ::
  "string option \<Rightarrow> string option \<Rightarrow> edge_request \<Rightarrow> (bool \<times> nat) option \<Rightarrow> string option \<Rightarrow> upgrade_result \<times> bool" where
  "ws_upgrade env secret rq decision auth =
     (if \<not> starts_with (case rq_url rq of Some u \<Rightarrow> u | None \<Rightarrow> '''') ''/api/agent/ws'' then
        (UpgradeError 404 ''Not Found'' None, False)
      else if trustProxyEnabled env \<and> \<not> isTrustedProxyUpgrade env secret (rq_headers rq) then
        (UpgradeError 400 ''TRUSTED_PROXY_REQUIRED'' None, False)
      else case decision of
        None \<Rightarrow> (UpgradeError 503 ''WebSocket authentication temporarily unavailable'' (Some 5), False)
      | Some (allowed, retry) \<Rightarrow>
          if \<not> allowed then (UpgradeError 429 ''Too many failed WebSocket authentication attempts'' (Some retry), False)
          else case auth of
                 None \<Rightarrow> (UpgradeError 401 ''Unauthorized'' None, True)
               | Some agentId \<Rightarrow> (UpgradeAccept agentId, False))"

section \<open>server.ts\<close>

definition KNOWN_PLACEHOLDER_SECRETS :: "string list" where
  "KNOWN_PLACEHOLDER_SECRETS =
     [''changeme-to-at-least-32-chars-random-string'',
      ''changeme-proxy-secret-at-least-32-chars-long'',
      ''replace-with-at-least-32-random-characters'',
      ''replace-with-another-at-least-32-random-secret'']"

text \<open>Whether \<open>assertRealSecret\<close> returns (it returns its argument) or throws.\<close>

definition assertRealSecret :: "string option \<Rightarrow> nat \<Rightarrow> bool" where
  "assertRealSecret value minLength =
     (if \<not> truthy value \<or> length (the value) < minLength then True
      else \<not> List.member KNOWN_PLACEHOLDER_SECRETS (js_trim (the value)))"

text \<open>Whether the module starts: environment and the two secrets.\<close>

definition startup_ok ::
  "string option \<Rightarrow> string option \<Rightarrow> string option \<Rightarrow> string option \<Rightarrow> string option \<Rightarrow> bool" where
  "startup_ok nodeEnv plaintextPassword trustProxy jwtSecret proxySecret =
     (if nodeEnv = Some ''production'' \<and> plaintextPassword = Some ''1'' then False
      else if nodeEnv = Some ''production'' then
        assertRealSecret jwtSecret 32
        \<and> (trustProxyEnabled trustProxy \<longrightarrow>
             assertRealSecret proxySecret 32 \<and> truthy proxySecret \<and> length (the proxySecret) \<ge> 32)
      else True)"

fun header_text :: "header_value \<Rightarrow> string" where
  "header_text (HStr v) = v"
| "header_text (HArr vs) = join_with '', '' vs"

text \<open>
  The request listener up to the hand-over to Next: a finished reply, the CORS headers set on a
  request handed on with the bytes reserved for it, or a rejection by the guard.
\<close>

datatype edge_result = EdgeReply http | EdgeGuarded "(string \<times> string) list" guard_result

definition handle_request ::
  "string option \<Rightarrow> string option \<Rightarrow> string option \<Rightarrow> edge_request \<Rightarrow> int \<Rightarrow> int \<times> edge_result" where
  "handle_request trustProxy proxySecret corsEnv rq reserved =
     (if trustProxyEnabled trustProxy \<and> rq_url rq \<noteq> Some ''/api/health''
         \<and> \<not> isTrustedProxyRequest trustProxy proxySecret
               (map_option header_text (header (rq_headers rq) ''x-gateway-proxy-token''))
      then (reserved, EdgeReply \<lparr>http_status = 400, http_headers = [(''content-type'', ''application/json; charset=utf-8'')],
                                 http_body = JObj [(''error'', JStr ''TRUSTED_PROXY_REQUIRED'')]\<rparr>)
      else case handleApiCorsPreflight corsEnv rq of
             Some r \<Rightarrow> (reserved, EdgeReply r)
           | None \<Rightarrow>
               (let hs = (case applyApiCors corsEnv rq of Some hs \<Rightarrow> hs | None \<Rightarrow> []);
                    (reserved', g) = guardApiRequest MAX_API_BODY_BYTES rq reserved
                in (reserved', EdgeGuarded hs g)))"

section \<open>Lemmas\<close>

lemma guard_reserves:
  assumes "guardApiRequest m rq r = (r', GuardPass (Some l))"
  shows "r' = r + l \<and> 0 \<le> l \<and> l \<le> m \<and> r' \<le> MAX_CONCURRENT_CHUNKED_BYTES
    \<and> hasAuthHeaders (rq_headers rq) \<and> isPayloadBearingEndpoint (rq_url rq)"
  using assms by (auto simp: guardApiRequest_def reserve_bytes_def Let_def
      split: if_splits option.splits js_number.splits)

lemma guard_unreserved:
  "guardApiRequest m rq r = (r', g) \<Longrightarrow> (\<And>l. g \<noteq> GuardPass (Some l)) \<Longrightarrow> r' = r"
  by (auto simp: guardApiRequest_def Let_def split: if_splits option.splits js_number.splits)

definition guard_inv :: "guard_state \<Rightarrow> bool" where
  "guard_inv st \<longleftrightarrow> gs_reserved st = sum_list (map snd (gs_open st)) \<and> gs_reserved st \<le> MAX_CONCURRENT_CHUNKED_BYTES
     \<and> distinct (map fst (gs_open st)) \<and> (\<forall>x \<in> set (gs_open st). 0 \<le> snd x)"

lemma sum_remove:
  "distinct (map fst xs) \<Longrightarrow> map_of xs i = Some l \<Longrightarrow>
     sum_list (map snd xs) = l + sum_list (map snd (filter (\<lambda>(j, _). j \<noteq> i) xs)) " for xs :: "(nat \<times> int) list"
proof (induction xs)
  case Nil
  then show ?case by simp
next
  case (Cons x xs)
  obtain j k where x: "x = (j, k)" by (cases x)
  show ?case
  proof (cases "j = i")
    case True
    then have "i \<notin> fst ` set xs" using Cons.prems(1) x by simp
    then have "filter (\<lambda>(j, _). j \<noteq> i) xs = xs" by (intro filter_True) force
    then show ?thesis using True Cons.prems(2) x by simp
  next
    case False
    then show ?thesis using Cons x by simp
  qed
qed

lemma guard_step_inv:
  assumes inv: "guard_inv st" and fresh: "\<And>i rq. ev = GuardRequest i rq \<Longrightarrow> i \<notin> fst ` set (gs_open st)"
  shows "guard_inv (guard_step ev st)"
proof (cases ev)
  case (GuardRequest i rq)
  obtain r g where e: "guardApiRequest MAX_API_BODY_BYTES rq (gs_reserved st) = (r, g)" by fastforce
  show ?thesis
  proof (cases "\<exists>l. g = GuardPass (Some l)")
    case True
    then obtain l where g: "g = GuardPass (Some l)" by blast
    then show ?thesis
      using guard_reserves [OF e [unfolded g]] fresh [OF GuardRequest] inv e GuardRequest
      by (simp add: guard_inv_def)
  next
    case False
    then have "r = gs_reserved st" using guard_unreserved [OF e] by blast
    moreover have "guard_step ev st = st\<lparr>gs_reserved := r\<rparr>"
      using False e GuardRequest by (cases g) (auto split: option.split)
    ultimately show ?thesis using inv by simp
  qed
next
  case (GuardEnded i)
  show ?thesis
  proof (cases "map_of (gs_open st) i")
    case None
    then show ?thesis using inv GuardEnded by simp
  next
    case (Some l)
    let ?rest = "filter (\<lambda>(j, _). j \<noteq> i) (gs_open st)"
    have s: "gs_reserved st = l + sum_list (map snd ?rest)"
      using sum_remove [OF _ Some] inv by (simp add: guard_inv_def)
    have n: "0 \<le> l" "0 \<le> sum_list (map snd ?rest)"
      using inv Some by (force simp: guard_inv_def dest!: map_of_SomeD intro!: sum_list_nonneg)+
    have "distinct (map fst ?rest)" using inv by (simp add: guard_inv_def distinct_map_filter)
    then show ?thesis
      using s n inv GuardEnded Some by (auto simp: guard_inv_def release_bytes_def)
  qed
qed

lemma guard_run_inv:
  "distinct (request_ids evs) \<Longrightarrow> guard_inv (guard_run evs) \<and> fst ` set (gs_open (guard_run evs)) \<subseteq> set (request_ids evs)"
proof (induction evs rule: rev_induct)
  case Nil
  then show ?case by (simp add: guard_run_def guard_inv_def MAX_CONCURRENT_CHUNKED_BYTES_def)
next
  case (snoc ev evs)
  have ids: "request_ids (evs @ [ev]) = request_ids evs @ (case ev of GuardRequest i _ \<Rightarrow> [i] | _ \<Rightarrow> [])"
    by (simp add: request_ids_def)
  have IH: "guard_inv (guard_run evs)" "fst ` set (gs_open (guard_run evs)) \<subseteq> set (request_ids evs)"
    using snoc unfolding ids by auto
  have run: "guard_run (evs @ [ev]) = guard_step ev (guard_run evs)" by (simp add: guard_run_def)
  have "guard_inv (guard_step ev (guard_run evs))"
    using snoc.prems IH unfolding ids by (intro guard_step_inv) (auto split: guard_event.splits)
  moreover have "fst ` set (gs_open (guard_step ev (guard_run evs))) \<subseteq> set (request_ids (evs @ [ev]))"
    using IH(2) unfolding ids by (cases ev) (auto split: prod.splits guard_result.splits option.splits)
  ultimately show ?case unfolding run by blast
qed

section \<open>Properties\<close>

text \<open>C17. The body budget is exact: over any requests and endings, however often an ending is
  signalled, the bytes reserved are those of the admitted requests still running, at most 32 MiB;
  when all have ended nothing stays reserved. Only authenticated requests to payload endpoints reserve.\<close>

theorem body_budget_exact:
  assumes "distinct (request_ids evs)"
  shows "gs_reserved (guard_run evs) = sum_list (map snd (gs_open (guard_run evs)))
    \<and> gs_reserved (guard_run evs) \<le> 32 * 1024 * 1024
    \<and> (gs_open (guard_run evs) = [] \<longrightarrow> gs_reserved (guard_run evs) = 0)
    \<and> (\<forall>rq r' l. guardApiRequest MAX_API_BODY_BYTES rq (gs_reserved (guard_run evs)) = (r', GuardPass (Some l)) \<longrightarrow>
         hasAuthHeaders (rq_headers rq) \<and> isPayloadBearingEndpoint (rq_url rq) \<and> l \<le> 8 * 1024 * 1024)"
  using guard_run_inv [OF assms] guard_reserves [of MAX_API_BODY_BYTES]
  by (auto simp: guard_inv_def MAX_CONCURRENT_CHUNKED_BYTES_def MAX_API_BODY_BYTES_def)

definition upload :: edge_request where
  "upload = \<lparr>rq_method = Some ''POST'', rq_url = Some ''/api/print/jobs'',
     rq_headers = [(''x-api-key'', HStr ''k'')], rq_length = Some (Fin 1000)\<rparr>"

theorem body_budget_exact_witness:
  "gs_reserved (guard_run [GuardRequest 0 upload, GuardRequest 1 upload, GuardEnded 0, GuardEnded 0]) = 1000"
proof -
  let ?evs = "[GuardRequest 0 upload, GuardRequest 1 upload, GuardEnded 0, GuardEnded 0]"
  have o: "gs_open (guard_run ?evs) = [(1, 1000)]" by code_simp
  have "distinct (request_ids ?evs)" by (simp add: request_ids_def)
  from body_budget_exact [OF this] o show ?thesis by simp
qed

definition proxy_secret_matches :: "string option \<Rightarrow> string \<Rightarrow> bool" where
  "proxy_secret_matches secret token \<longleftrightarrow>
     (\<exists>s. secret = Some s \<and> js_trim token = js_trim s \<and> length (js_trim s) \<ge> 32)"

lemma trusted_request:
  assumes "isTrustedProxyRequest env secret token" and "trustProxyEnabled env"
  shows "\<exists>t. token = Some t \<and> proxy_secret_matches secret t"
  using assms by (auto simp: isTrustedProxyRequest_def configuredProxySecret_def safeEqual_def proxy_secret_matches_def Let_def
      split: option.splits if_splits)

lemma js_trim_Nil [simp]: "js_trim [] = []"
  by (simp add: js_trim_def)

lemma trusted_upgrade:
  assumes "isTrustedProxyUpgrade env secret hs" and "trustProxyEnabled env"
  shows "\<exists>v. header hs ''x-gateway-proxy-token'' = Some v \<and> proxy_secret_matches secret (first_text v)"
  using assms by (auto simp: isTrustedProxyUpgrade_def configuredProxySecret_def safeEqual_def proxy_secret_matches_def Let_def
      split: option.splits if_splits)

text \<open>C18. With a trusted proxy required, no request reaches the guard or Next, and no upgrade is
  accepted, unless it carries the proxy's token; only the health probe passes without. The configured
  secret then has at least 32 characters, so an unset or short secret admits nobody.\<close>

theorem proxy_token_required:
  assumes "trustProxyEnabled env" and "rq_url rq \<noteq> Some ''/api/health''"
  shows "(snd (handle_request env secret cors rq reserved) = EdgeGuarded hs g \<longrightarrow>
      (\<exists>v. header (rq_headers rq) ''x-gateway-proxy-token'' = Some v \<and> proxy_secret_matches secret (header_text v)))
    \<and> (fst (ws_upgrade env secret rq decision auth) = UpgradeAccept a \<longrightarrow>
      (\<exists>v. header (rq_headers rq) ''x-gateway-proxy-token'' = Some v \<and> proxy_secret_matches secret (first_text v))
      \<and> auth = Some a)"
proof (intro conjI impI)
  assume "snd (handle_request env secret cors rq reserved) = EdgeGuarded hs g"
  then have "isTrustedProxyRequest env secret (map_option header_text (header (rq_headers rq) ''x-gateway-proxy-token''))"
    using assms by (auto simp: handle_request_def split: if_splits)
  from trusted_request [OF this assms(1)]
  show "\<exists>v. header (rq_headers rq) ''x-gateway-proxy-token'' = Some v \<and> proxy_secret_matches secret (header_text v)"
    by auto
next
  assume u: "fst (ws_upgrade env secret rq decision auth) = UpgradeAccept a"
  then have "isTrustedProxyUpgrade env secret (rq_headers rq)"
    using assms by (auto simp: ws_upgrade_def split: if_splits)
  from trusted_upgrade [OF this assms(1)]
  show "\<exists>v. header (rq_headers rq) ''x-gateway-proxy-token'' = Some v \<and> proxy_secret_matches secret (first_text v)" .
  show "auth = Some a" using u by (auto simp: ws_upgrade_def split: if_splits option.splits)
qed

theorem proxy_token_required_witness:
  "snd (handle_request (Some ''1'') (Some (replicate 40 (CHR ''s''))) None
     (upload\<lparr>rq_headers := [(''x-gateway-proxy-token'', HStr (replicate 40 (CHR ''s'')))]\<rparr>) 0) = EdgeGuarded [] (GuardPass None)
   \<and> proxy_secret_matches (Some (replicate 40 (CHR ''s''))) (replicate 40 (CHR ''s''))"
proof -
  let ?rq = "upload\<lparr>rq_headers := [(''x-gateway-proxy-token'', HStr (replicate 40 (CHR ''s'')))]\<rparr>"
  have h: "snd (handle_request (Some ''1'') (Some (replicate 40 (CHR ''s''))) None ?rq 0) = EdgeGuarded [] (GuardPass None)"
    by code_simp
  have "trustProxyEnabled (Some ''1'')" "rq_url ?rq \<noteq> Some ''/api/health''"
    by (simp_all add: trustProxyEnabled_def upload_def)
  from proxy_token_required [OF this, of "Some (replicate 40 (CHR ''s''))" None 0 "[]" "GuardPass None"] h
  have "\<exists>v. header (rq_headers ?rq) ''x-gateway-proxy-token'' = Some v
      \<and> proxy_secret_matches (Some (replicate 40 (CHR ''s''))) (header_text v)" by blast
  then have "proxy_secret_matches (Some (replicate 40 (CHR ''s''))) (replicate 40 (CHR ''s''))"
    by (simp add: header_def)
  with h show ?thesis by blast
qed

end
