(* ===== verification/Printer_Virtual.thy ===== *)
theory Printer_Virtual
  imports Schema
begin

text \<open>
  \<open>src/lib/printer-virtual.ts\<close>: the guard that keeps virtual, software and redirected queues
  from being used as production printers. A value of type \<open>unknown\<close> is a JSON value, missing
  ones are \<^const>\<open>None\<close>.
\<close>

record PrinterLike =
  pk_name :: "string option"
  pk_type :: "string option"
  pk_connection :: "string option"
  pk_protocol :: "string option"
  pk_port :: "string option"
  pk_driver :: "string option"
  pk_capabilities :: "json option"

definition VIRTUAL_CAPABILITY_KEYS :: "string list" where
  "VIRTUAL_CAPABILITY_KEYS = [''virtual'', ''is_virtual'']"

definition VIRTUAL_CLASSES :: "string list" where
  "VIRTUAL_CLASSES = [''virtual'', ''redirected'']"

definition VIRTUAL_PORT_MONITORS :: "string list" where
  "VIRTUAL_PORT_MONITORS =
     [''portprompt:'', ''xpsport:'', ''file:'', ''nul:'', ''null:'', ''shrfax:'', ''fax:'']"

text \<open>\<open>lower\<close>; for the string columns and for unknown values.\<close>

definition trim_lower :: "string \<Rightarrow> string" where
  "trim_lower s = js_lower (js_trim s)"

definition lower_str :: "string option \<Rightarrow> string" where
  "lower_str v = (case v of Some s \<Rightarrow> trim_lower s | None \<Rightarrow> '''')"

definition lower_value :: "json option \<Rightarrow> string" where
  "lower_value v = lower_str (as_string v)"

definition isVirtualPortMonitor :: "string \<Rightarrow> bool" where
  "isVirtualPortMonitor raw =
     (if raw = [] then False
      else let head = js_trim (hd (split_on (CHR '','') raw))
           in list_ex (\<lambda>monitor. head = monitor \<or> starts_with head monitor) VIRTUAL_PORT_MONITORS)"

definition SOFTWARE_WRITER_TOKENS :: "string list" where
  "SOFTWARE_WRITER_TOKENS =
     [''microsoft print to pdf'', ''microsoft xps document writer'', ''microsoft shared fax'',
      ''microsoft enhanced point and print compatibility driver'', ''send to onenote'', ''onenote'',
      ''document writer'', ''documentwriter'', ''print to pdf'', ''topdf'', ''pdf writer'', ''pdfwriter'',
      ''pdf printer'', ''pdf creator'', ''pdf converter'', ''pdf architect'', ''virtual printer'',
      ''software printer'', ''image printer'',
      ''foxit'', ''anydesk'', ''cutepdf'', ''pdf995'', ''novapdf'', ''bullzip'', ''pdfcreator'', ''pdfforge'',
      ''doro pdf'', ''biopdf'', ''nitro pdf'', ''adobe pdf'', ''bluebeam'', ''tinypdf'', ''7-pdf'',
      ''icecream pdf'', ''pdf24'']"

definition SESSION_REDIRECT_TOKENS :: "string list" where
  "SESSION_REDIRECT_TOKENS =
     [''remote desktop easy print'', ''terminal services easy print'', ''ts easy print'', ''easy print'',
      ''citrix'', ''vmware virtual print'', ''vmware universal printer'', ''thinprint'', ''safeguard print'']"

definition nonempty :: "string list \<Rightarrow> string list" where
  "nonempty parts = filter (\<lambda>t. t \<noteq> []) parts"

definition identityHaystack :: "(string \<times> json) list option \<Rightarrow> PrinterLike \<Rightarrow> string" where
  "identityHaystack caps printer =
     (let parts = nonempty [lower_str (pk_driver printer), lower_str (pk_port printer)]
      in case caps of
           None \<Rightarrow> join_with '' '' parts
         | Some c \<Rightarrow>
             join_with '' ''
               (parts
                @ nonempty (map (\<lambda>key. lower_value (jprop key c))
                    [''driver_name'', ''driverName'', ''comment'', ''device_id'', ''deviceId''])
                @ nonempty (concat (map (\<lambda>key. map (\<lambda>entry. lower_value (Some entry)) (as_array (jprop key c)))
                    [''hardware_ids'', ''hardwareIds'', ''compatible_ids'', ''compatibleIds'']))))"

definition capabilitiesRecord :: "json option \<Rightarrow> (string \<times> json) list option" where
  "capabilitiesRecord capabilities = as_object capabilities"

text \<open>\<open>a ?? b\<close>\<close>

definition nullish :: "json option \<Rightarrow> json option \<Rightarrow> json option" where
  "nullish a b = (if a = None \<or> a = Some JNull then b else a)"

definition virtual_caps :: "(string \<times> json) list \<Rightarrow> bool" where
  "virtual_caps caps \<longleftrightarrow>
     list_ex (\<lambda>key. jprop key caps = Some (JBool True) \<or> lower_value (jprop key caps) = ''true'')
       VIRTUAL_CAPABILITY_KEYS
     \<or> List.member VIRTUAL_CLASSES (lower_value (nullish (jprop ''printer_class'' caps) (jprop ''printerClass'' caps)))
     \<or> isVirtualPortMonitor (lower_value (nullish (jprop ''port_name'' caps) (jprop ''portName'' caps)))"

definition isVirtualPrinterRecord :: "PrinterLike \<Rightarrow> bool" where
  "isVirtualPrinterRecord printer =
     (if lower_str (pk_type printer) = ''virtual'' \<or> lower_str (pk_connection printer) = ''virtual''
         \<or> lower_str (pk_protocol printer) = ''virtual'' then True
      else
        let caps = capabilitiesRecord (pk_capabilities printer);
            name = lower_str (pk_name printer)
        in if (case caps of Some c \<Rightarrow> virtual_caps c | None \<Rightarrow> False) then True
           else if js_includes name ''(redirected'' \<or> js_includes name '' in session '' \<or> ends_with name '' in session'' then True
           else if isVirtualPortMonitor (lower_str (pk_port printer)) then True
           else
             let hay = identityHaystack caps printer
             in if hay \<noteq> [] \<and> (list_ex (js_includes hay) SOFTWARE_WRITER_TOKENS
                              \<or> list_ex (js_includes hay) SESSION_REDIRECT_TOKENS) then True
                else if name = [] then False
                else list_ex (js_includes name) SOFTWARE_WRITER_TOKENS)"

text \<open>A row of the printers table, which has no port and driver columns.\<close>

definition printer_like :: "printer \<Rightarrow> PrinterLike" where
  "printer_like p = \<lparr>pk_name = Some (pr_name p), pk_type = Some (pr_type p), pk_connection = Some (pr_connection p),
     pk_protocol = Some (pr_protocol p), pk_port = None, pk_driver = None, pk_capabilities = pr_capabilities p\<rparr>"

section \<open>Lemmas\<close>

lemma js_includes_append: "js_includes s t \<Longrightarrow> js_includes (s @ u) t"
proof (induction s)
  case Nil
  then show ?case by (cases u) auto
next
  case (Cons c s)
  have "starts_with (c # s) t \<Longrightarrow> starts_with (c # (s @ u)) t"
    by (metis append_Cons prefix_prefix starts_with_prefix)
  then show ?case using Cons by auto
qed

lemma join_with_append:
  "ps \<noteq> [] \<Longrightarrow> \<exists>u. join_with sep (ps @ qs) = join_with sep ps @ u"
  by (induction sep ps rule: join_with.induct) (cases qs; auto)+

text \<open>More parts only extend the haystack.\<close>

lemma haystack_extends:
  assumes "identityHaystack None printer \<noteq> []"
  shows "\<exists>u. identityHaystack caps printer = identityHaystack None printer @ u"
proof (cases caps)
  case (Some c)
  have "nonempty [lower_str (pk_driver printer), lower_str (pk_port printer)] \<noteq> []"
    using assms by (auto simp: identityHaystack_def Let_def)
  then show ?thesis
    using join_with_append by (simp add: identityHaystack_def Let_def Some)
qed simp

lemma tokens_found:
  "list_ex (js_includes hay) tokens \<Longrightarrow> list_ex (js_includes (hay @ u)) tokens"
  by (auto simp: list_ex_iff intro: js_includes_append)

text \<open>Metadata only adds evidence: a printer that is recognised as virtual without its capability
  record is recognised whatever capabilities are reported for it.\<close>

theorem virtual_evidence_monotone:
  assumes "isVirtualPrinterRecord (printer\<lparr>pk_capabilities := None\<rparr>)"
  shows "isVirtualPrinterRecord (printer\<lparr>pk_capabilities := caps\<rparr>)"
proof -
  define base where "base = printer\<lparr>pk_capabilities := None\<rparr>"
  define full where "full = printer\<lparr>pk_capabilities := caps\<rparr>"
  have same: "pk_type full = pk_type base" "pk_connection full = pk_connection base" "pk_name full = pk_name base"
    "pk_protocol full = pk_protocol base" "pk_port full = pk_port base"
    by (simp_all add: base_def full_def)
  have hay: "identityHaystack c full = identityHaystack c base" for c
    by (simp add: base_def full_def identityHaystack_def Let_def)
  have none: "capabilitiesRecord (pk_capabilities base) = None"
    by (simp add: base_def capabilitiesRecord_def)
  have more: "identityHaystack (capabilitiesRecord (pk_capabilities full)) full \<noteq> []
      \<and> (list_ex (js_includes (identityHaystack (capabilitiesRecord (pk_capabilities full)) full)) SOFTWARE_WRITER_TOKENS
       \<or> list_ex (js_includes (identityHaystack (capabilitiesRecord (pk_capabilities full)) full)) SESSION_REDIRECT_TOKENS)"
    if "identityHaystack None base \<noteq> []"
      "list_ex (js_includes (identityHaystack None base)) SOFTWARE_WRITER_TOKENS
       \<or> list_ex (js_includes (identityHaystack None base)) SESSION_REDIRECT_TOKENS"
  proof -
    obtain u where "identityHaystack (capabilitiesRecord (pk_capabilities full)) base = identityHaystack None base @ u"
      using haystack_extends that(1) by blast
    then show ?thesis using that by (auto simp: hay dest: tokens_found)
  qed
  have "isVirtualPrinterRecord full"
    using assms more unfolding base_def [symmetric]
    by (auto simp: isVirtualPrinterRecord_def Let_def none same split: if_splits)
  then show ?thesis by (simp add: full_def)
qed

definition front_desk :: PrinterLike where
  "front_desk = \<lparr>pk_name = Some ''Front desk'', pk_type = Some ''physical'', pk_connection = Some ''spooler'',
     pk_protocol = Some ''unknown'', pk_port = None, pk_driver = Some ''  Citrix PDF Printer '', pk_capabilities = None\<rparr>"

theorem virtual_evidence_monotone_witness:
  "isVirtualPrinterRecord (front_desk\<lparr>pk_capabilities := Some (JObj [(''virtual'', JBool False), (''comment'', JStr ''lobby'')])\<rparr>)"
proof -
  have "isVirtualPrinterRecord (front_desk\<lparr>pk_capabilities := None\<rparr>)" by code_simp
  then show ?thesis by (rule virtual_evidence_monotone)
qed

end
