(* ===== verification/Base64.thy ===== *)
theory Base64
  imports Prelude
begin

text \<open>
  Node's \<open>Buffer\<close> conversions the payload code uses: base64 both ways, the utf-8 and latin1
  encodings. Bytes are numbers below 256. Decoding skips the characters outside the two base64
  alphabets, as Node does; padding is outside them.
\<close>

definition b64_alphabet :: string where
  "b64_alphabet = ''ABCDEFGHIJKLMNOPQRSTUVWXYZabcdefghijklmnopqrstuvwxyz0123456789+/''"

definition b64_char :: "nat \<Rightarrow> char" where
  "b64_char n = b64_alphabet ! n"

definition b64_val :: "char \<Rightarrow> nat option" where
  "b64_val c =
     (let n = (of_char c :: nat)
      in if 65 \<le> n \<and> n \<le> 90 then Some (n - 65)
         else if 97 \<le> n \<and> n \<le> 122 then Some (n - 71)
         else if 48 \<le> n \<and> n \<le> 57 then Some (n + 4)
         else if n = 43 \<or> n = 45 then Some 62
         else if n = 47 \<or> n = 95 then Some 63
         else None)"

fun b64_encode :: "nat list \<Rightarrow> string" where
  "b64_encode (a # b # c # r) =
     b64_char (a div 4) # b64_char (a mod 4 * 16 + b div 16) # b64_char (b mod 16 * 4 + c div 64)
     # b64_char (c mod 64) # b64_encode r"
| "b64_encode [a, b] = [b64_char (a div 4), b64_char (a mod 4 * 16 + b div 16), b64_char (b mod 16 * 4), CHR ''='']"
| "b64_encode [a] = [b64_char (a div 4), b64_char (a mod 4 * 16), CHR ''='', CHR ''='']"
| "b64_encode [] = []"

fun sextets_bytes :: "nat list \<Rightarrow> nat list" where
  "sextets_bytes (w # x # y # z # r) =
     (w * 4 + x div 16) # (x mod 16 * 16 + y div 4) # (y mod 4 * 64 + z) # sextets_bytes r"
| "sextets_bytes [w, x, y] = [w * 4 + x div 16, x mod 16 * 16 + y div 4]"
| "sextets_bytes [w, x] = [w * 4 + x div 16]"
| "sextets_bytes _ = []"

definition b64_decode :: "string \<Rightarrow> nat list" where
  "b64_decode s = sextets_bytes (List.map_filter b64_val s)"

definition latin1 :: "string \<Rightarrow> nat list" where
  "latin1 s = map of_char s"

definition utf8_char :: "char \<Rightarrow> nat list" where
  "utf8_char c = (let n = (of_char c :: nat) in if n < 128 then [n] else [192 + n div 64, 128 + n mod 64])"

definition utf8 :: "string \<Rightarrow> nat list" where
  "utf8 s = concat (map utf8_char s)"

definition byteLength :: "string \<Rightarrow> nat" where
  "byteLength s = length (utf8 s)"

lemma b64_alphabet_vals: "map b64_val b64_alphabet = map Some [0..<64]"
  by code_simp

lemma b64_alphabet_length: "length b64_alphabet = 64"
  by code_simp

lemma b64_val_char: "n < 64 \<Longrightarrow> b64_val (b64_char n) = Some n"
  using arg_cong [OF b64_alphabet_vals, of "\<lambda>l. l ! n"] by (simp add: b64_char_def b64_alphabet_length)

lemma b64_val_pad: "b64_val (CHR ''='') = None"
  by code_simp

lemma digit_pair:
  fixes x y k :: nat
  assumes "x < k"
  shows "(y * k + x) div k = y" "(y * k + x) mod k = x"
  using assms by simp_all

lemma sextet_bounds:
  fixes a b :: nat
  shows "a < 256 \<Longrightarrow> a div 4 < 64" and "b < 256 \<Longrightarrow> b div 16 < 16" and "b < 256 \<Longrightarrow> b div 64 < 4"
  by simp_all

lemma sextet_joins:
  fixes a b :: nat
  shows "b < 256 \<Longrightarrow> a mod 4 * 16 + b div 16 < 64" and "b < 256 \<Longrightarrow> a mod 16 * 4 + b div 64 < 64"
    and "a mod 16 * 4 < 64" and "a mod 4 * 16 < 64"
proof -
  have m: "a mod 4 < 4" "a mod 16 < 16" by simp_all
  show "b < 256 \<Longrightarrow> a mod 4 * 16 + b div 16 < 64" using sextet_bounds(2) [of b] m(1) by linarith
  show "b < 256 \<Longrightarrow> a mod 16 * 4 + b div 64 < 64" using sextet_bounds(3) [of b] m(2) by linarith
  show "a mod 16 * 4 < 64" "a mod 4 * 16 < 64" using m by linarith+
qed

lemma sextet_bytes:
  fixes a b :: nat
  shows "b < 256 \<Longrightarrow> a div 4 * 4 + (a mod 4 * 16 + b div 16) div 16 = a"
    and "b < 256 \<Longrightarrow> a < 256 \<Longrightarrow> (c * 16 + a div 16) mod 16 * 16 + (a mod 16 * 4 + b div 64) div 4 = a"
    and "b < 256 \<Longrightarrow> (c * 4 + b div 64) mod 4 * 64 + b mod 64 = b"
    and "a div 4 * 4 + (a mod 4 * 16) div 16 = a"
    and "a < 256 \<Longrightarrow> (c * 16 + a div 16) mod 16 * 16 + (a mod 16 * 4) div 4 = a"
proof -
  show "b < 256 \<Longrightarrow> a div 4 * 4 + (a mod 4 * 16 + b div 16) div 16 = a"
    using digit_pair(1) [OF sextet_bounds(2) [of b], of "a mod 4"] by simp
  show "b < 256 \<Longrightarrow> a < 256 \<Longrightarrow> (c * 16 + a div 16) mod 16 * 16 + (a mod 16 * 4 + b div 64) div 4 = a"
    using digit_pair(1) [OF sextet_bounds(3) [of b], of "a mod 16"] digit_pair(2) [OF sextet_bounds(2) [of a], of c]
    by simp
  show "b < 256 \<Longrightarrow> (c * 4 + b div 64) mod 4 * 64 + b mod 64 = b"
    using digit_pair(2) [OF sextet_bounds(3) [of b], of c] by simp
  show "a div 4 * 4 + (a mod 4 * 16) div 16 = a" by simp
  show "a < 256 \<Longrightarrow> (c * 16 + a div 16) mod 16 * 16 + (a mod 16 * 4) div 4 = a"
    using digit_pair(2) [OF sextet_bounds(2) [of a], of c] by simp
qed

lemma b64_roundtrip: "\<forall>b \<in> set bs. b < 256 \<Longrightarrow> b64_decode (b64_encode bs) = bs"
proof (induction bs rule: b64_encode.induct)
  case (1 a b c r)
  then have "a < 256" "b < 256" "c < 256" "b64_decode (b64_encode r) = r" by auto
  then show ?case
    by (simp add: b64_decode_def map_filter_simps b64_val_char sextet_bounds sextet_joins sextet_bytes)
next
  case (2 a b)
  then have "a < 256" "b < 256" by auto
  then show ?case
    by (simp add: b64_decode_def map_filter_simps b64_val_char b64_val_pad sextet_bounds sextet_joins sextet_bytes)
next
  case (3 a)
  then have "a < 256" by auto
  then show ?case
    by (simp add: b64_decode_def map_filter_simps b64_val_char b64_val_pad sextet_bounds sextet_joins sextet_bytes)
next
  case 4
  then show ?case by (simp add: b64_decode_def map_filter_simps)
qed

lemma b64_length: "length (b64_encode bs) = 4 * ((length bs + 2) div 3)"
proof (induction bs rule: b64_encode.induct)
  case (1 a b c r)
  have "(length (a # b # c # r) + 2) div 3 = Suc ((length r + 2) div 3)" by simp
  then show ?case using 1 by (simp only: b64_encode.simps list.size) simp
qed simp_all

lemma latin1_bytes: "b \<in> set (latin1 s) \<Longrightarrow> b < 256"
  by (auto simp: latin1_def)

lemma latin1_length [simp]: "length (latin1 s) = length s"
  by (simp add: latin1_def)

definition ascii :: "string \<Rightarrow> bool" where
  "ascii s \<longleftrightarrow> list_all (\<lambda>c. (of_char c :: nat) < 128) s"

lemma utf8_ascii: "ascii s \<Longrightarrow> utf8 s = latin1 s"
  by (induction s) (auto simp: ascii_def utf8_def latin1_def utf8_char_def Let_def)

lemma ascii_append [simp]: "ascii (s @ t) \<longleftrightarrow> ascii s \<and> ascii t"
  by (auto simp: ascii_def)

lemma utf8_char_bytes: "b \<in> set (utf8_char c) \<Longrightarrow> b < 256"
proof -
  have "(of_char c :: nat) div 64 < 4" using nat_of_char_less_256 [of c] by (rule sextet_bounds(3))
  moreover have "(of_char c :: nat) mod 64 < 64" by simp
  ultimately show "b \<in> set (utf8_char c) \<Longrightarrow> b < 256"
    unfolding utf8_char_def Let_def by (simp split: if_splits) linarith+
qed

lemma utf8_bytes: "b \<in> set (utf8 s) \<Longrightarrow> b < 256"
  by (auto simp: utf8_def dest: utf8_char_bytes)


lemma utf8_append [simp]: "utf8 (s @ t) = utf8 s @ utf8 t"
  by (simp add: utf8_def)

lemma utf8_Nil [simp]: "utf8 [] = []"
  by (simp add: utf8_def)

lemma utf8_Cons_ascii: "(of_char c :: nat) < 128 \<Longrightarrow> utf8 (c # s) = of_char c # utf8 s"
  by (simp add: utf8_def utf8_char_def)

lemma utf8_length: "length s \<le> length (utf8 s)" "length (utf8 s) \<le> 2 * length s"
proof -
  have "1 \<le> length (utf8_char c) \<and> length (utf8_char c) \<le> 2" for c by (simp add: utf8_char_def Let_def)
  then have "length s \<le> length (utf8 s) \<and> length (utf8 s) \<le> 2 * length s"
  proof (induction s)
    case (Cons c s)
    show ?case using Cons.IH [OF Cons.prems] Cons.prems [of c] by (simp add: utf8_def)
  qed (simp add: utf8_def)
  then show "length s \<le> length (utf8 s)" "length (utf8 s) \<le> 2 * length s" by simp_all
qed

lemma byteLength_append [simp]: "byteLength (s @ t) = byteLength s + byteLength t"
  by (simp add: byteLength_def)

section \<open>base64url and text\<close>

definition url_char :: "char \<Rightarrow> char" where
  "url_char c = (if c = CHR ''+'' then CHR ''-'' else if c = CHR ''/'' then CHR ''_'' else c)"

text \<open>\<open>toString("base64url")\<close>: the other alphabet, and no padding.\<close>

definition b64url_encode :: "nat list \<Rightarrow> string" where
  "b64url_encode bs = map url_char (filter (\<lambda>c. c \<noteq> CHR ''='') (b64_encode bs))"

lemma b64_val_url: "b64_val (url_char c) = b64_val c"
  by (auto simp: url_char_def b64_val_def)

lemma map_filter_url:
  "List.map_filter b64_val (map url_char (filter (\<lambda>c. c \<noteq> CHR ''='') s)) = List.map_filter b64_val s"
  by (induction s) (auto simp: map_filter_simps b64_val_url b64_val_pad split: option.splits)

lemma b64url_roundtrip: "\<forall>b \<in> set bs. b < 256 \<Longrightarrow> b64_decode (b64url_encode bs) = bs"
  using b64_roundtrip [of bs] by (simp add: b64url_encode_def b64_decode_def map_filter_url)

lemma b64_encode_chars:
  "\<forall>b \<in> set bs. b < 256 \<Longrightarrow> set (b64_encode bs) \<subseteq> insert (CHR ''='') (b64_char ` {..<64})"
proof (induction bs rule: b64_encode.induct)
  case (1 x y z r)
  then have "x < 256" "y < 256" "z < 256" by auto
  then show ?case
    using 1 sextet_bounds(1) [of x] sextet_joins(1) [of y x] sextet_joins(2) [of z y] by (auto intro: imageI)
next
  case (2 x y)
  then have "x < 256" "y < 256" by auto
  then show ?case using 2 sextet_bounds(1) [of x] sextet_joins(1) [of y x] sextet_joins(3) [of y]
    by (auto intro: imageI)
next
  case (3 x)
  then have "x < 256" by auto
  then show ?case using 3 sextet_bounds(1) [of x] sextet_joins(4) [of x] by (auto intro: imageI)
qed simp

text \<open>What holds of the characters of the alphabet holds of the text.\<close>

lemma b64url_all:
  assumes alphabet: "list_all (\<lambda>c. P (url_char c)) b64_alphabet" and bytes: "\<forall>b \<in> set bs. b < 256"
  shows "list_all P (b64url_encode bs)"
proof -
  have "P c" if c: "c \<in> set (b64url_encode bs)" for c
  proof -
    obtain d where d: "d \<in> set (b64_encode bs)" "d \<noteq> CHR ''=''" "c = url_char d"
      using c unfolding b64url_encode_def by auto
    then obtain n where "n < 64" "d = b64_char n" using b64_encode_chars [OF bytes] by blast
    then show ?thesis using alphabet d(3) by (simp add: b64_char_def b64_alphabet_length list_all_length)
  qed
  then show ?thesis by (simp add: list_all_iff)
qed

lemma sextets_length: "length (sextets_bytes xs) \<le> length xs"
  by (induction xs rule: sextets_bytes.induct) simp_all

lemma b64url_length:
  assumes "\<forall>b \<in> set bs. b < 256"
  shows "length bs \<le> length (b64url_encode bs)" and "length (b64url_encode bs) \<le> 4 * ((length bs + 2) div 3)"
proof -
  have "length (List.map_filter b64_val s) \<le> length s" for s
    by (induction s) (auto simp: map_filter_simps split: option.splits)
  then have "length (b64_decode s) \<le> length s" for s
    unfolding b64_decode_def using sextets_length le_trans by blast
  then show "length bs \<le> length (b64url_encode bs)" using b64url_roundtrip [OF assms] by metis
  show "length (b64url_encode bs) \<le> 4 * ((length bs + 2) div 3)"
    using b64_length [of bs] by (simp add: b64url_encode_def) (metis length_filter_le)
qed

text \<open>
  \<open>toString("utf8")\<close>. A byte that begins or continues no character up to U+00FF becomes a
  question mark: texts beyond that range are outside the model.
\<close>

fun utf8_text :: "nat list \<Rightarrow> string" where
  "utf8_text [] = []"
| "utf8_text [b] = (if b < 128 then [char_of b] else [CHR ''?''])"
| "utf8_text (b # c # bs) =
     (if b < 128 then char_of b # utf8_text (c # bs)
      else if (b = 194 \<or> b = 195) \<and> 128 \<le> c \<and> c < 192
      then char_of ((b - 192) * 64 + (c - 128)) # utf8_text bs
      else CHR ''?'' # utf8_text (c # bs))"

lemma utf8_text_char: "utf8_text (utf8_char c @ bs) = c # utf8_text bs"
proof -
  let ?n = "of_char c :: nat"
  have n: "?n < 256" by (rule nat_of_char_less_256)
  show ?thesis
  proof (cases "?n < 128")
    case True
    then show ?thesis by (cases bs) (simp_all add: utf8_char_def)
  next
    case False
    then have d: "?n div 64 = 2 \<or> ?n div 64 = 3" using n by linarith
    have "?n div 64 * 64 + ?n mod 64 = ?n" by simp
    then have "char_of (?n div 64 * 64 + ?n mod 64) = c" by simp
    moreover have "?n mod 64 < 64" by simp
    ultimately show ?thesis using False d by (auto simp: utf8_char_def Let_def)
  qed
qed

lemma utf8_text_utf8: "utf8_text (utf8 s) = s"
  by (induction s) (simp_all add: utf8_def utf8_text_char)

lemma utf8_inj: "utf8 s = utf8 t \<longleftrightarrow> s = t"
  using utf8_text_utf8 by metis

end
