(* ===== verification/Payload.thy ===== *)
theory Payload
  imports Schema Base64 Js_Date
begin

text \<open>
  \<open>src/lib/payload.ts\<close>: the schema every print payload passes, and the test tickets. A zod
  schema is a function from a JSON value to the parsed value, \<^const>\<open>None\<close> where it throws
  \<open>ZodError\<close>; unknown keys are stripped. String unions are strings, as in the source.
\<close>

definition MAX_PAYLOAD_BYTES :: nat where "MAX_PAYLOAD_BYTES = 5 * 1024 * 1024"

record peripherals =
  ph_drawer :: "string option"
  ph_cutter :: "string option"
  ph_buzzer :: "string option"

record PrintJobPayload =
  pp_type :: string
  pp_protocol :: "string option"
  pp_peripherals :: "peripherals option"
  pp_data :: string

text \<open>\<open>z.enum(..)\<close> and \<open>z.enum(..).optional()\<close>: only a missing key is optional, \<open>null\<close> is not.\<close>

fun zod_enum :: "string list \<Rightarrow> json option \<Rightarrow> string option" where
  "zod_enum vals (Some (JStr s)) = (if List.member vals s then Some s else None)"
| "zod_enum vals v = None"

fun zod_enum_optional :: "string list \<Rightarrow> json option \<Rightarrow> string option option" where
  "zod_enum_optional vals None = Some None"
| "zod_enum_optional vals (Some v) = map_option Some (zod_enum vals (Some v))"

definition DRAWER_MODES :: "string list" where "DRAWER_MODES = [''pin2'', ''pin5'', ''none'']"
definition CUTTER_MODES :: "string list" where "CUTTER_MODES = [''partial'', ''full'', ''none'']"
definition BUZZER_MODES :: "string list" where "BUZZER_MODES = [''epson_pulse'', ''star_bel'', ''none'']"
definition PAYLOAD_TYPES :: "string list" where "PAYLOAD_TYPES = [''raw'', ''escpos'', ''pdf'', ''image'']"
definition PAYLOAD_PROTOCOLS :: "string list" where "PAYLOAD_PROTOCOLS = [''escpos'', ''zpl'', ''tspl'', ''raw'']"

fun parse_peripherals :: "json option \<Rightarrow> peripherals option option" where
  "parse_peripherals None = Some None"
| "parse_peripherals (Some (JObj es)) =
     (case (zod_enum_optional DRAWER_MODES (jprop ''drawer'' es),
            zod_enum_optional CUTTER_MODES (jprop ''cutter'' es),
            zod_enum_optional BUZZER_MODES (jprop ''buzzer'' es)) of
        (Some d, Some c, Some b) \<Rightarrow> Some (Some \<lparr>ph_drawer = d, ph_cutter = c, ph_buzzer = b\<rparr>)
      | _ \<Rightarrow> None)"
| "parse_peripherals (Some v) = None"

text \<open>The refinement of \<open>data\<close>. \<open>(MAX_PAYLOAD_BYTES / 3) * 4 + 8\<close> is no integer.\<close>

definition data_refine :: "string \<Rightarrow> bool" where
  "data_refine value =
     (if (of_nat (length value) :: rat) > of_nat MAX_PAYLOAD_BYTES / 3 * 4 + 8 then False
      else let decoded = b64_decode value
           in if length decoded = 0 \<or> length decoded > MAX_PAYLOAD_BYTES then False
              else b64_encode decoded = value)"

definition pdfSignature :: "nat list" where "pdfSignature = utf8 ''%PDF-''"

definition jpegSignature :: "nat list \<Rightarrow> bool" where
  "jpegSignature decoded \<longleftrightarrow>
     length decoded \<ge> 3 \<and> decoded ! 0 = 0xff \<and> decoded ! 1 = 0xd8 \<and> decoded ! 2 = 0xff"

definition looksLikePdf :: "nat list \<Rightarrow> bool" where
  "looksLikePdf decoded \<longleftrightarrow>
     length decoded \<ge> length pdfSignature \<and> take (length pdfSignature) decoded = pdfSignature"

text \<open>\<open>superRefine\<close>: the issues it adds, each with its path.\<close>

definition superRefine :: "PrintJobPayload \<Rightarrow> (string \<times> string) list" where
  "superRefine payload =
     (let decoded = b64_decode (pp_data payload) in
      (if pp_type payload = ''pdf'' \<and> \<not> looksLikePdf decoded
       then [(''data'', ''PDF payload must start with the %PDF- signature'')] else [])
      @ (if pp_type payload = ''image'' \<and> \<not> jpegSignature decoded
         then [(''data'', ''Image payload must be a JPEG'')] else [])
      @ (if (pp_type payload = ''raw'' \<or> pp_type payload = ''escpos'') \<and> looksLikePdf decoded
         then [(''data'', ''PDF bytes cannot be labeled as raw/escpos; provide a real byte-stream payload or convert explicitly'')]
         else [])
      @ (if pp_type payload = ''raw'' \<and> \<not> truthy (pp_protocol payload)
         then [(''protocol'', ''protocol is required for raw payloads'')] else [])
      @ (if pp_type payload = ''escpos'' \<and> (\<not> truthy (pp_protocol payload) \<or> pp_protocol payload \<noteq> Some ''escpos'')
         then [(''protocol'', ''protocol 'escpos' is required for escpos payloads'')] else [])
      @ (if (pp_type payload = ''pdf'' \<or> pp_type payload = ''image'') \<and> truthy (pp_protocol payload)
         then [(''protocol'', ''protocol is not applicable for pdf/image payloads'')] else [])
      @ (case pp_peripherals payload of
           None \<Rightarrow> []
         | Some ph \<Rightarrow>
             (let hasPeripherals = list_ex (\<lambda>mode. truthy mode \<and> mode \<noteq> Some ''none'')
                                     [ph_drawer ph, ph_cutter ph, ph_buzzer ph]
              in if hasPeripherals \<and> pp_protocol payload \<noteq> Some ''escpos''
                 then [(''peripherals'', ''peripherals are only supported for escpos protocol'')] else [])))"

definition validatePrintJobPayload :: "json \<Rightarrow> PrintJobPayload option" where
  "validatePrintJobPayload v =
     (case v of
        JObj es \<Rightarrow>
          (case (zod_enum PAYLOAD_TYPES (jprop ''type'' es),
                 zod_enum [''base64''] (jprop ''encoding'' es),
                 zod_enum_optional PAYLOAD_PROTOCOLS (jprop ''protocol'' es),
                 parse_peripherals (jprop ''peripherals'' es),
                 as_string (jprop ''data'' es)) of
             (Some t, Some _, Some pr, Some ph, Some d) \<Rightarrow>
               (let p = \<lparr>pp_type = t, pp_protocol = pr, pp_peripherals = ph, pp_data = d\<rparr>
                in if length d \<ge> 1 \<and> data_refine d \<and> superRefine p = [] then Some p else None)
           | _ \<Rightarrow> None)
      | _ \<Rightarrow> None)"

text \<open>The parsed value as the object zod returns: the keys of the schema in its order.\<close>

definition opt_entry :: "string \<Rightarrow> string option \<Rightarrow> (string \<times> json) list" where
  "opt_entry k v = (case v of Some s \<Rightarrow> [(k, JStr s)] | None \<Rightarrow> [])"

definition peripherals_json :: "peripherals \<Rightarrow> json" where
  "peripherals_json ph =
     JObj (opt_entry ''drawer'' (ph_drawer ph) @ opt_entry ''cutter'' (ph_cutter ph) @ opt_entry ''buzzer'' (ph_buzzer ph))"

definition payload_json :: "PrintJobPayload \<Rightarrow> json" where
  "payload_json p =
     JObj ([(''type'', JStr (pp_type p)), (''encoding'', JStr ''base64'')]
           @ opt_entry ''protocol'' (pp_protocol p)
           @ (case pp_peripherals p of Some ph \<Rightarrow> [(''peripherals'', peripherals_json ph)] | None \<Rightarrow> [])
           @ [(''data'', JStr (pp_data p))])"

section \<open>Test tickets\<close>

definition printable :: "char \<Rightarrow> bool" where
  "printable c \<longleftrightarrow> (let n = (of_char c :: nat) in 0x20 \<le> n \<and> n \<le> 0x7e)"

definition safeTestText :: "string \<Rightarrow> string" where
  "safeTestText value = take 60 (filter printable value)"

definition nl :: string where "nl = [CHR 0x0A]"

definition buildTestPrintPayload :: "string \<Rightarrow> string \<Rightarrow> PrintJobPayload" where
  "buildTestPrintPayload printerName agentName =
     (let safeName = take 60 (filter printable printerName);
          safeAgent = take 60 (filter printable agentName);
          ticket = concat
            [[CHR 0x1B, CHR 0x40],
             ''Odoo Print Agent'' @ nl,
             ''Test Print'' @ nl,
             ''Printer: '' @ safeName @ nl,
             ''Agent: '' @ safeAgent @ nl,
             ''------------------------'' @ nl,
             ''Connection OK'' @ nl,
             ''------------------------'' @ nl @ nl @ nl,
             [CHR 0x1D, CHR 0x56, CHR 0x01]]
      in \<lparr>pp_type = ''escpos'', pp_protocol = Some ''escpos'', pp_peripherals = None,
           pp_data = b64_encode (latin1 ticket)\<rparr>)"

definition TEST_PAGE_BYTES :: nat where "TEST_PAGE_BYTES = 4096"

text \<open>\<open>new Date().toISOString().replace("T", " ").slice(0, 19)\<close>\<close>

fun replace_first :: "char \<Rightarrow> char \<Rightarrow> string \<Rightarrow> string" where
  "replace_first a b [] = []"
| "replace_first a b (c # s) = (if c = a then b # s else c # replace_first a b s)"

definition test_stamp :: "time \<Rightarrow> string" where
  "test_stamp now = take 19 (replace_first (CHR ''T'') (CHR '' '') (toISOString now))"

definition pdf_stream :: "string \<Rightarrow> string \<Rightarrow> string \<Rightarrow> string" where
  "pdf_stream safeName safeAgent stamp = join_with nl
     [''BT'',
      ''/F1 18 Tf'',
      ''50 720 Td'',
      ''(ODOO PRINT GATEWAY TEST PAGE) Tj'',
      ''/F1 12 Tf'',
      ''0 -30 Td'',
      ''(Printer: '' @ safeName @ '') Tj'',
      ''0 -20 Td'',
      ''(Agent: '' @ safeAgent @ '') Tj'',
      ''0 -20 Td'',
      ''(Status: OK | '' @ stamp @ '') Tj'',
      ''ET'']"

definition pdf_header :: string where "pdf_header = ''%PDF-1.4'' @ nl"
definition pdf_obj1 :: string where
  "pdf_obj1 = ''1 0 obj'' @ nl @ ''<< /Type /Catalog /Pages 2 0 R >>'' @ nl @ ''endobj'' @ nl"
definition pdf_obj2 :: string where
  "pdf_obj2 = ''2 0 obj'' @ nl @ ''<< /Type /Pages /Kids [3 0 R] /Count 1 >>'' @ nl @ ''endobj'' @ nl"
definition pdf_obj3 :: string where
  "pdf_obj3 = ''3 0 obj'' @ nl
     @ ''<< /Type /Page /Parent 2 0 R /MediaBox [0 0 612 792] /Resources << /Font << /F1 4 0 R >> >> /Contents 5 0 R >>''
     @ nl @ ''endobj'' @ nl"
definition pdf_obj4 :: string where
  "pdf_obj4 = ''4 0 obj'' @ nl @ ''<< /Type /Font /Subtype /Type1 /BaseFont /Helvetica >>'' @ nl @ ''endobj'' @ nl"
definition pdf_obj5 :: "string \<Rightarrow> string" where
  "pdf_obj5 streamContent =
     ''5 0 obj'' @ nl @ ''<< /Length '' @ nat_str (byteLength streamContent) @ '' >>'' @ nl
     @ ''stream'' @ nl @ streamContent @ nl @ ''endstream'' @ nl @ ''endobj'' @ nl"

text \<open>\<open>off1\<close> to \<open>off5\<close>, and the table with \<open>startxref\<close> behind it.\<close>

definition pdf_offsets :: "nat list" where
  "pdf_offsets =
     (let off1 = byteLength pdf_header;
          off2 = off1 + byteLength pdf_obj1;
          off3 = off2 + byteLength pdf_obj2;
          off4 = off3 + byteLength pdf_obj3;
          off5 = off4 + byteLength pdf_obj4
      in [off1, off2, off3, off4, off5])"

definition pdf_xref :: "nat list \<Rightarrow> nat \<Rightarrow> string" where
  "pdf_xref offsets startxref = join_with nl
     ([''xref'', ''0 6'', ''0000000000 65535 f '']
      @ map (\<lambda>off. pad 10 (nat_str off) @ '' 00000 n '') offsets
      @ [''trailer'', ''<< /Size 6 /Root 1 0 R >>'', ''startxref'', nat_str startxref, ''%%EOF'' @ nl])"

definition buildTestPdfPayload :: "string \<Rightarrow> string \<Rightarrow> time \<Rightarrow> string" where
  "buildTestPdfPayload printerName agentName now =
     (let streamContent = pdf_stream (safeTestText printerName) (safeTestText agentName) (test_stamp now);
          obj5 = pdf_obj5 streamContent;
          startxref = pdf_offsets ! 4 + byteLength obj5
      in pdf_header @ pdf_obj1 @ pdf_obj2 @ pdf_obj3 @ pdf_obj4 @ obj5 @ pdf_xref pdf_offsets startxref)"

definition zpl_ticket :: "string \<Rightarrow> string \<Rightarrow> string \<Rightarrow> string" where
  "zpl_ticket name agent stamp = join_with nl
     [''^XA'',
      ''^FO50,50^A0N,36,36^FDODOO PRINT GATEWAY TEST PAGE^FS'',
      ''^FO50,100^GB700,2,2^FS'',
      ''^FO50,120^A0N,28,28^FDPrinter : '' @ name @ ''^FS'',
      ''^FO50,160^A0N,28,28^FDAgent   : '' @ agent @ ''^FS'',
      ''^FO50,200^A0N,28,28^FDStatus  : OK | '' @ stamp @ ''^FS'',
      ''^XZ'']"

definition tspl_ticket :: "string \<Rightarrow> string \<Rightarrow> string \<Rightarrow> string" where
  "tspl_ticket name agent stamp =
     (let q = [CHR 0x22] in join_with nl
     [''SIZE 75 mm, 50 mm'',
      ''GAP 2 mm, 0 mm'',
      ''DIRECTION 1'',
      ''CLS'',
      ''TEXT 50,40,'' @ q @ ''3'' @ q @ '',0,1,1,'' @ q @ ''ODOO PRINT GATEWAY TEST PAGE'' @ q,
      ''TEXT 50,80,'' @ q @ ''2'' @ q @ '',0,1,1,'' @ q @ ''Printer : '' @ name @ q,
      ''TEXT 50,110,'' @ q @ ''2'' @ q @ '',0,1,1,'' @ q @ ''Agent   : '' @ agent @ q,
      ''TEXT 50,140,'' @ q @ ''2'' @ q @ '',0,1,1,'' @ q @ ''Status  : OK | '' @ stamp @ q,
      ''PRINT 1,1''])"

definition raw_ticket :: "string \<Rightarrow> string \<Rightarrow> string \<Rightarrow> string" where
  "raw_ticket name agent stamp = join_with nl
     [''================================'',
      ''  ODOO PRINT GATEWAY TEST PAGE '',
      ''================================'',
      ''Printer : '' @ name,
      ''Agent   : '' @ agent,
      ''Protocol: RAW'',
      ''--------------------------------'',
      ''Status  : OK | '' @ stamp,
      ''================================'' @ nl @ nl @ nl]"

text \<open>
  The ticket in the printer's language, \<^const>\<open>None\<close> where the function throws. The last
  argument but one is \<open>capabilities.supported_protocols\<close>: anything but an array has no
  \<open>map\<close>, which throws as well.
\<close>

definition ticket_payload :: "string \<Rightarrow> string option \<Rightarrow> string \<Rightarrow> PrintJobPayload" where
  "ticket_payload type protocol text =
     \<lparr>pp_type = type, pp_protocol = protocol, pp_peripherals = None, pp_data = b64_encode (utf8 text)\<rparr>"

definition buildTestPrintPayloadForPrinter ::
  "string \<Rightarrow> string \<Rightarrow> string option \<Rightarrow> string option \<Rightarrow> json option \<Rightarrow> time \<Rightarrow> PrintJobPayload option" where
  "buildTestPrintPayloadForPrinter printerName agentName protocol connectionType supportedProtocols now =
     (case (case supportedProtocols of
              None \<Rightarrow> Some []
            | Some JNull \<Rightarrow> Some []
            | Some (JArr xs) \<Rightarrow> Some (map (\<lambda>p. js_lower (js_String p)) xs)
            | Some _ \<Rightarrow> None) of
        None \<Rightarrow> None
      | Some supported \<Rightarrow>
          let declared = js_lower (or_empty protocol);
              conn = js_lower (or_empty connectionType);
              byteProto = (if List.member [''escpos'', ''zpl'', ''tspl'', ''raw''] declared then declared
                           else or_empty (List.find (List.member supported) [''escpos'', ''zpl'', ''tspl'', ''raw'']));
              name = safeTestText printerName;
              agent = safeTestText agentName;
              stamp = test_stamp now
          in if byteProto = ''escpos'' then Some (buildTestPrintPayload printerName agentName)
             else if byteProto = ''zpl'' then
               (let zpl = zpl_ticket name agent stamp
                in if byteLength zpl > TEST_PAGE_BYTES then None else Some (ticket_payload ''raw'' (Some ''zpl'') zpl))
             else if byteProto = ''tspl'' then
               (let tspl = tspl_ticket name agent stamp
                in if byteLength tspl > TEST_PAGE_BYTES then None else Some (ticket_payload ''raw'' (Some ''tspl'') tspl))
             else if byteProto = ''raw'' then
               Some (ticket_payload ''raw'' (Some ''raw'') (raw_ticket name agent stamp))
             else
               let docs = [''spooler'', ''ipp'', ''ipps''];
                   isDocumentTransport = List.member docs conn \<or> List.member docs declared
                     \<or> list_ex (List.member [''pdf'', ''spooler'', ''ipp'', ''ipps'']) supported
               in if isDocumentTransport
                  then Some (ticket_payload ''pdf'' None (buildTestPdfPayload name agent now))
                  else None)"

section \<open>Lemmas\<close>

definition mode_ok :: "string list \<Rightarrow> string option \<Rightarrow> bool" where
  "mode_ok vals m \<longleftrightarrow> (case m of None \<Rightarrow> True | Some s \<Rightarrow> List.member vals s)"

definition wf_peripherals :: "peripherals \<Rightarrow> bool" where
  "wf_peripherals ph \<longleftrightarrow> mode_ok DRAWER_MODES (ph_drawer ph) \<and> mode_ok CUTTER_MODES (ph_cutter ph)
     \<and> mode_ok BUZZER_MODES (ph_buzzer ph)"

text \<open>What the schema promises of a value it returns.\<close>

definition wf_payload :: "PrintJobPayload \<Rightarrow> bool" where
  "wf_payload p \<longleftrightarrow> List.member PAYLOAD_TYPES (pp_type p) \<and> mode_ok PAYLOAD_PROTOCOLS (pp_protocol p)
     \<and> (case pp_peripherals p of None \<Rightarrow> True | Some ph \<Rightarrow> wf_peripherals ph)
     \<and> length (pp_data p) \<ge> 1 \<and> data_refine (pp_data p) \<and> superRefine p = []"

lemma zod_enum_Some: "zod_enum vals v = Some s \<longleftrightarrow> v = Some (JStr s) \<and> List.member vals s"
  by (cases "(vals, v)" rule: zod_enum.cases) auto

lemma zod_enum_optional_Some:
  "zod_enum_optional vals v = Some m \<longleftrightarrow>
     (case m of None \<Rightarrow> v = None | Some s \<Rightarrow> v = Some (JStr s)) \<and> mode_ok vals m"
  by (cases v) (auto simp: zod_enum_Some mode_ok_def split: option.splits)

lemma parse_peripherals_wf: "parse_peripherals v = Some (Some ph) \<Longrightarrow> wf_peripherals ph"
  by (cases v rule: parse_peripherals.cases)
    (auto simp: wf_peripherals_def zod_enum_optional_Some split: option.splits prod.splits)

lemma jprop_opt_entry [simp]:
  "jprop k (opt_entry k' m @ es) = (if k = k' \<and> m \<noteq> None then map_option JStr m else jprop k es)"
  "jprop k (opt_entry k' m) = (if k = k' then map_option JStr m else None)"
  by (auto simp: opt_entry_def jprop_def split: option.splits)

lemma zod_optional_entry: "mode_ok vals m \<Longrightarrow> zod_enum_optional vals (map_option JStr m) = Some m"
  by (simp add: zod_enum_optional_Some split: option.splits)

lemma parse_peripherals_json:
  "wf_peripherals ph \<Longrightarrow> parse_peripherals (Some (peripherals_json ph)) = Some (Some ph)"
  by (cases "ph_drawer ph = None"; cases "ph_cutter ph = None"; cases "ph_buzzer ph = None")
    (auto simp: wf_peripherals_def peripherals_json_def zod_optional_entry)

lemma validate_wf: "validatePrintJobPayload v = Some p \<Longrightarrow> wf_payload p"
  by (cases v)
    (auto simp: validatePrintJobPayload_def wf_payload_def zod_enum_Some zod_enum_optional_Some Let_def
      split: option.splits prod.splits if_splits dest!: parse_peripherals_wf)

lemma jprop_Cons [simp]: "jprop k ((k', v) # es) = (if k = k' then Some v else jprop k es)"
  by (simp add: jprop_def)

lemma jprop_Nil [simp]: "jprop k [] = None"
  by (simp add: jprop_def)

lemma payload_entries:
  assumes "wf_payload p"
  shows "\<exists>es. payload_json p = JObj es \<and> jprop ''type'' es = Some (JStr (pp_type p))
     \<and> jprop ''encoding'' es = Some (JStr ''base64'') \<and> jprop ''protocol'' es = map_option JStr (pp_protocol p)
     \<and> jprop ''peripherals'' es = map_option peripherals_json (pp_peripherals p)
     \<and> jprop ''data'' es = Some (JStr (pp_data p))"
  by (cases "pp_protocol p = None"; cases "pp_peripherals p") (auto simp: payload_json_def)

lemma validate_payload_json:
  assumes w: "wf_payload p"
  shows "validatePrintJobPayload (payload_json p) = Some p"
proof -
  obtain es where es: "payload_json p = JObj es" "jprop ''type'' es = Some (JStr (pp_type p))"
     "jprop ''encoding'' es = Some (JStr ''base64'')" "jprop ''protocol'' es = map_option JStr (pp_protocol p)"
     "jprop ''peripherals'' es = map_option peripherals_json (pp_peripherals p)"
     "jprop ''data'' es = Some (JStr (pp_data p))"
    using payload_entries [OF w] by blast
  have ph: "parse_peripherals (map_option peripherals_json (pp_peripherals p)) = Some (pp_peripherals p)"
    using w by (cases "pp_peripherals p") (auto simp: wf_payload_def parse_peripherals_json)
  have record_eta: "\<lparr>pp_type = pp_type p, pp_protocol = pp_protocol p, pp_peripherals = pp_peripherals p,
      pp_data = pp_data p\<rparr> = p"
    by simp
  have "zod_enum_optional PAYLOAD_PROTOCOLS (map_option JStr (pp_protocol p)) = Some (pp_protocol p)"
    using w by (simp add: wf_payload_def zod_optional_entry)
  then show ?thesis
    using w by (simp add: validatePrintJobPayload_def es ph wf_payload_def Let_def record_eta)
qed

text \<open>The length limit on the text admits every encoding of at most the byte limit.\<close>

lemma encoded_length_limit:
  assumes "n \<le> MAX_PAYLOAD_BYTES"
  shows "\<not> (of_nat (4 * ((n + 2) div 3)) :: rat) > of_nat MAX_PAYLOAD_BYTES / 3 * 4 + 8"
proof -
  have "3 * (4 * ((n + 2) div 3)) \<le> 4 * (n + 2)"
    by (metis mult.left_commute mult_le_mono2 times_div_less_eq_dividend)
  then have "(of_nat (3 * (4 * ((n + 2) div 3))) :: rat) \<le> of_nat (4 * (n + 2))"
    by (rule of_nat_mono)
  moreover have "(of_nat n :: rat) \<le> of_nat MAX_PAYLOAD_BYTES"
    using assms by (rule of_nat_mono)
  ultimately show ?thesis by (simp add: field_simps)
qed

lemma encoded_data:
  assumes "\<forall>b \<in> set bs. b < 256" and "0 < length bs" and "length bs \<le> MAX_PAYLOAD_BYTES"
  shows "data_refine (b64_encode bs)" and "length (b64_encode bs) \<ge> 1"
proof -
  have "1 \<le> (length bs + 2) div 3" using assms(2) by linarith
  then show "length (b64_encode bs) \<ge> 1" by (simp add: b64_length)
  have limit: "\<not> (of_nat (length (b64_encode bs)) :: rat) > of_nat MAX_PAYLOAD_BYTES / 3 * 4 + 8"
    unfolding b64_length by (rule encoded_length_limit [OF assms(3)])
  show "data_refine (b64_encode bs)"
    unfolding data_refine_def Let_def b64_roundtrip [OF assms(1)] if_not_P [OF limit] using assms by auto
qed

subsection \<open>Tickets\<close>

lemma pdfSignature_bytes: "pdfSignature = [37, 80, 68, 70, 45]"
  by code_simp

lemma first_byte_not_pdf: "b \<noteq> 37 \<Longrightarrow> \<not> looksLikePdf (b # bs)"
  by (simp add: looksLikePdf_def pdfSignature_bytes)

lemma utf8_pdf: "looksLikePdf (utf8 (''%PDF-'' @ s))"
  unfolding looksLikePdf_def utf8_append pdfSignature_def by simp

lemma safeTestText_length: "length (safeTestText s) \<le> 60"
  by (simp add: safeTestText_def)

lemma safeTestText_printable: "c \<in> set (safeTestText s) \<Longrightarrow> printable c"
  by (auto simp: safeTestText_def dest: in_set_takeD)

lemma safeTestText_again [simp]: "safeTestText (safeTestText s) = safeTestText s"
proof -
  have "filter printable (safeTestText s) = safeTestText s"
    by (simp add: filter_id_conv safeTestText_printable)
  then show ?thesis by (simp add: safeTestText_def)
qed

lemma test_stamp_length: "length (test_stamp now) \<le> 19"
  by (simp add: test_stamp_def)

lemma byteLength_le: "length s \<le> k \<Longrightarrow> byteLength s \<le> 2 * k"
  unfolding byteLength_def using utf8_length(2) [of s] by linarith

lemma ticket_lengths:
  "length (zpl_ticket (safeTestText n) (safeTestText a) (test_stamp t)) \<le> 400"
  "length (tspl_ticket (safeTestText n) (safeTestText a) (test_stamp t)) \<le> 400"
  "length (raw_ticket (safeTestText n) (safeTestText a) (test_stamp t)) \<le> 500"
  unfolding zpl_ticket_def tspl_ticket_def raw_ticket_def nl_def
  using safeTestText_length [of n] safeTestText_length [of a] test_stamp_length [of t] by simp_all

lemma ticket_bytes:
  "byteLength (zpl_ticket (safeTestText n) (safeTestText a) (test_stamp t)) \<le> 800"
  "byteLength (tspl_ticket (safeTestText n) (safeTestText a) (test_stamp t)) \<le> 800"
  "byteLength (raw_ticket (safeTestText n) (safeTestText a) (test_stamp t)) \<le> 1000"
  using ticket_lengths [of n a t, THEN byteLength_le] by simp_all

lemma pdf_offsets_values: "pdf_offsets = [9, 58, 115, 241, 311]"
  by code_simp

lemma nat_str_length: "length (nat_str n) \<le> Suc n"
proof (induction n rule: nat_str.induct)
  case (1 n)
  show ?case
  proof (cases "n < 10")
    case False
    then have "length (nat_str n) \<le> Suc (n div 10) + 1" using 1 by (simp add: nat_str_step)
    then show ?thesis using False by linarith
  qed (simp add: nat_str_digit)
qed

lemma pdf_stream_length:
  "length (pdf_stream (safeTestText n) (safeTestText a) (test_stamp t)) \<le> 400"
  unfolding pdf_stream_def nl_def
  using safeTestText_length [of n] safeTestText_length [of a] test_stamp_length [of t] by simp

lemma pdf_stream_bytes:
  "byteLength (pdf_stream (safeTestText n) (safeTestText a) (test_stamp t)) \<le> 800"
  using byteLength_le [OF pdf_stream_length] by simp

lemma pdf_obj5_length:
  "length (pdf_obj5 (pdf_stream (safeTestText n) (safeTestText a) (test_stamp t))) \<le> 1300"
  unfolding pdf_obj5_def nl_def
  using pdf_stream_length [of n a t] pdf_stream_bytes [of n a t]
    nat_str_length [of "byteLength (pdf_stream (safeTestText n) (safeTestText a) (test_stamp t))"] by simp

lemma pdf_length: "length (buildTestPdfPayload n a t) \<le> 10000"
proof -
  define c where "c = pdf_stream (safeTestText n) (safeTestText a) (test_stamp t)"
  have c: "length (pdf_obj5 c) \<le> 1300" "byteLength (pdf_obj5 c) \<le> 2600"
    using pdf_obj5_length [of n a t] byteLength_le [OF pdf_obj5_length [of n a t]] by (simp_all add: c_def)
  have "length (nat_str (311 + byteLength (pdf_obj5 c))) \<le> 3000"
    using nat_str_length [of "311 + byteLength (pdf_obj5 c)"] c(2) by simp
  moreover have "length (pdf_header @ pdf_obj1 @ pdf_obj2 @ pdf_obj3 @ pdf_obj4) = 311" by code_simp
  moreover have "length (pdf_xref pdf_offsets k) = length (nat_str k) + 180" for k
    unfolding pdf_xref_def pdf_offsets_values by (simp add: nat_str_step nat_str_digit nl_def)
  ultimately show ?thesis
    using c(1) by (simp add: buildTestPdfPayload_def Let_def c_def [symmetric] pdf_offsets_values)
qed

text \<open>A ticket of bytes that fit the limit passes the schema when the refinement finds no issue.\<close>

lemma ticket_wf:
  assumes "\<forall>b \<in> set bs. b < 256" and "0 < length bs" and "length bs \<le> 20000"
    and "type = ''raw'' \<and> mode_ok PAYLOAD_PROTOCOLS pr \<and> truthy pr \<and> \<not> looksLikePdf bs
       \<or> type = ''escpos'' \<and> pr = Some ''escpos'' \<and> \<not> looksLikePdf bs
       \<or> type = ''pdf'' \<and> pr = None \<and> looksLikePdf bs"
  shows "wf_payload \<lparr>pp_type = type, pp_protocol = pr, pp_peripherals = None, pp_data = b64_encode bs\<rparr>"
proof -
  have "length bs \<le> MAX_PAYLOAD_BYTES" using assms(3) by (simp add: MAX_PAYLOAD_BYTES_def)
  note enc = encoded_data [OF assms(1,2) this]
  note simps = wf_payload_def superRefine_def b64_roundtrip [OF assms(1)] PAYLOAD_TYPES_def enc enc(2) [unfolded One_nat_def]
  consider (raw) "type = ''raw''" "mode_ok PAYLOAD_PROTOCOLS pr" "truthy pr" "\<not> looksLikePdf bs"
    | (escpos) "type = ''escpos''" "pr = Some ''escpos''" "\<not> looksLikePdf bs"
    | (pdf) "type = ''pdf''" "pr = None" "looksLikePdf bs"
    using assms(4) by blast
  then show ?thesis
    by cases (simp_all add: simps mode_ok_def PAYLOAD_PROTOCOLS_def)
qed

lemma utf8_ticket:
  assumes "text = c # r" and "(of_char c :: nat) < 128" and "of_char c \<noteq> (37 :: nat)" and "byteLength text \<le> 20000"
    and "List.member PAYLOAD_PROTOCOLS pr" and "pr \<noteq> ''''"
  shows "wf_payload (ticket_payload ''raw'' (Some pr) text)"
  unfolding ticket_payload_def
  using assms by (intro ticket_wf) (auto simp: utf8_Cons_ascii first_byte_not_pdf byteLength_def mode_ok_def dest: utf8_bytes)

lemma test_tickets:
  "wf_payload (buildTestPrintPayload n a)"
  "wf_payload (ticket_payload ''raw'' (Some ''zpl'') (zpl_ticket (safeTestText n) (safeTestText a) (test_stamp t)))"
  "wf_payload (ticket_payload ''raw'' (Some ''tspl'') (tspl_ticket (safeTestText n) (safeTestText a) (test_stamp t)))"
  "wf_payload (ticket_payload ''raw'' (Some ''raw'') (raw_ticket (safeTestText n) (safeTestText a) (test_stamp t)))"
  "wf_payload (ticket_payload ''pdf'' None (buildTestPdfPayload n a t))"
proof -
  show "wf_payload (buildTestPrintPayload n a)"
    unfolding buildTestPrintPayload_def Let_def
    using safeTestText_length [of n] safeTestText_length [of a]
    by (intro ticket_wf) (auto simp: latin1_bytes safeTestText_def latin1_def first_byte_not_pdf nl_def)
  show "wf_payload (ticket_payload ''raw'' (Some ''zpl'') (zpl_ticket (safeTestText n) (safeTestText a) (test_stamp t)))"
    using ticket_bytes(1) [of n a t] by (intro utf8_ticket) (auto simp: zpl_ticket_def PAYLOAD_PROTOCOLS_def)
  show "wf_payload (ticket_payload ''raw'' (Some ''tspl'') (tspl_ticket (safeTestText n) (safeTestText a) (test_stamp t)))"
    using ticket_bytes(2) [of n a t] by (intro utf8_ticket) (auto simp: tspl_ticket_def PAYLOAD_PROTOCOLS_def)
  show "wf_payload (ticket_payload ''raw'' (Some ''raw'') (raw_ticket (safeTestText n) (safeTestText a) (test_stamp t)))"
    using ticket_bytes(3) [of n a t] by (intro utf8_ticket) (auto simp: raw_ticket_def PAYLOAD_PROTOCOLS_def)
  have pdf: "buildTestPdfPayload n a t = ''%PDF-'' @ drop 5 (buildTestPdfPayload n a t)"
    by (simp add: buildTestPdfPayload_def Let_def pdf_header_def)
  have "length (utf8 (buildTestPdfPayload n a t)) \<le> 20000"
    using byteLength_le [OF pdf_length [of n a t]] by (simp add: byteLength_def)
  moreover have "looksLikePdf (utf8 (buildTestPdfPayload n a t))"
    by (subst pdf) (rule utf8_pdf)
  ultimately show "wf_payload (ticket_payload ''pdf'' None (buildTestPdfPayload n a t))"
    unfolding ticket_payload_def
    by (intro ticket_wf) (auto simp: looksLikePdf_def pdfSignature_bytes dest: utf8_bytes)
qed

section \<open>Properties\<close>

lemma contract_check:
  assumes w: "wf_payload p"
  shows "payload_contract_check (payload_json p)"
proof -
  obtain es where es: "payload_json p = JObj es" "jprop ''type'' es = Some (JStr (pp_type p))"
     "jprop ''protocol'' es = map_option JStr (pp_protocol p)"
    using payload_entries [OF w] by blast
  consider "pp_type p = ''raw''" | "pp_type p = ''escpos''" | "pp_type p = ''pdf''" | "pp_type p = ''image''"
    using w by (auto simp: wf_payload_def PAYLOAD_TYPES_def)
  then show ?thesis
    using w by cases (auto simp: payload_contract_check_def json_text_def es wf_payload_def superRefine_def Let_def
      mode_ok_def PAYLOAD_PROTOCOLS_def or_empty_def split: option.splits if_splits)
qed

lemma jpeg_not_pdf: "jpegSignature bs \<Longrightarrow> \<not> looksLikePdf bs"
  by (cases bs) (simp_all add: jpegSignature_def first_byte_not_pdf)

lemma accepted_data:
  assumes w: "wf_payload p"
  shows "pp_type p = ''pdf'' \<longleftrightarrow> looksLikePdf (b64_decode (pp_data p))"
proof -
  consider "pp_type p = ''raw''" | "pp_type p = ''escpos''" | "pp_type p = ''pdf''" | "pp_type p = ''image''"
    using w by (auto simp: wf_payload_def PAYLOAD_TYPES_def)
  then show ?thesis
    using w by cases (auto simp: wf_payload_def superRefine_def Let_def dest: jpeg_not_pdf split: if_splits)
qed

text \<open>C25. A payload the schema accepts satisfies the CHECK constraint of the jobs table, so the INSERT
  never fails on it; its data is canonical base64 of 1 byte to 5 MiB; it is a PDF by its signature
  exactly when it is labelled one; and what is stored parses to the same payload again.\<close>

theorem payload_accepted:
  assumes "validatePrintJobPayload v = Some p"
  shows "payload_contract_check (payload_json p)
    \<and> (let bytes = b64_decode (pp_data p)
       in 1 \<le> length bytes \<and> length bytes \<le> 5242880 \<and> b64_encode bytes = pp_data p
          \<and> (pp_type p = ''pdf'' \<longleftrightarrow> looksLikePdf bytes))
    \<and> validatePrintJobPayload (payload_json p) = Some p"
proof -
  have w: "wf_payload p" by (rule validate_wf [OF assms])
  then have "data_refine (pp_data p)" by (simp add: wf_payload_def)
  then have "1 \<le> length (b64_decode (pp_data p)) \<and> length (b64_decode (pp_data p)) \<le> 5242880
      \<and> b64_encode (b64_decode (pp_data p)) = pp_data p"
    unfolding data_refine_def MAX_PAYLOAD_BYTES_def Let_def
    by (simp split: if_splits) (metis Suc_le_eq length_greater_0_conv)
  then show ?thesis
    using contract_check [OF w] accepted_data [OF w] validate_payload_json [OF w] by (simp add: Let_def)
qed

definition receipt :: json where
  "receipt = JObj [(''type'', JStr ''escpos''), (''extra'', JNull), (''encoding'', JStr ''base64''),
     (''protocol'', JStr ''escpos''), (''peripherals'', JObj [(''drawer'', JStr ''pin2'')]), (''data'', JStr ''G0BIaQ=='')]"

definition receipt_payload :: PrintJobPayload where
  "receipt_payload = \<lparr>pp_type = ''escpos'', pp_protocol = Some ''escpos'',
     pp_peripherals = Some \<lparr>ph_drawer = Some ''pin2'', ph_cutter = None, ph_buzzer = None\<rparr>, pp_data = ''G0BIaQ==''\<rparr>"

lemma receipt_accepted: "validatePrintJobPayload receipt = Some receipt_payload"
proof -
  have bytes: "''G0BIaQ=='' = b64_encode [27, 64, 72, 105]" by code_simp
  have "data_refine ''G0BIaQ==''"
    unfolding bytes by (rule encoded_data) (simp_all add: MAX_PAYLOAD_BYTES_def)
  moreover have "superRefine receipt_payload = []" by code_simp
  ultimately show ?thesis
    by (simp add: validatePrintJobPayload_def receipt_def receipt_payload_def PAYLOAD_TYPES_def PAYLOAD_PROTOCOLS_def
      DRAWER_MODES_def)
qed

theorem payload_accepted_witness:
  "validatePrintJobPayload receipt = Some receipt_payload \<and> payload_contract_check (payload_json receipt_payload)
    \<and> b64_decode (pp_data receipt_payload) = [27, 64, 72, 105]"
proof (intro conjI)
  show "validatePrintJobPayload receipt = Some receipt_payload" by (rule receipt_accepted)
  show "payload_contract_check (payload_json receipt_payload)"
    using payload_accepted [OF receipt_accepted] by simp
  show "b64_decode (pp_data receipt_payload) = [27, 64, 72, 105]" by code_simp
qed

text \<open>Whatever the printer and the agent are called, and whatever the printer declares, a test
  ticket that is built is one the payload schema accepts as it is.\<close>

theorem test_ticket_accepted:
  assumes "buildTestPrintPayloadForPrinter printerName agentName protocol connectionType supportedProtocols now = Some p"
  shows "validatePrintJobPayload (payload_json p) = Some p"
proof -
  have "wf_payload p"
    using assms test_tickets by (auto simp: buildTestPrintPayloadForPrinter_def Let_def split: option.splits if_splits)
  then show ?thesis by (rule validate_payload_json)
qed

definition kitchen_ticket :: PrintJobPayload where
  "kitchen_ticket = the (buildTestPrintPayloadForPrinter ''Kitchen (1)'' ''till'' (Some ''ZPL'') (Some ''network'') None 0)"

theorem test_ticket_accepted_witness:
  "pp_protocol kitchen_ticket = Some ''zpl'' \<and> validatePrintJobPayload (payload_json kitchen_ticket) = Some kitchen_ticket"
proof -
  have some: "buildTestPrintPayloadForPrinter ''Kitchen (1)'' ''till'' (Some ''ZPL'') (Some ''network'') None 0
      = Some kitchen_ticket"
    unfolding kitchen_ticket_def by code_simp
  have "pp_protocol kitchen_ticket = Some ''zpl''" by code_simp
  then show ?thesis using test_ticket_accepted [OF some] by simp
qed

lemma utf8_drop_append: "drop (byteLength s) (utf8 (s @ t)) = utf8 t"
  by (simp add: byteLength_def)

lemma pdf_parts:
  assumes "text = pdf_header @ pdf_obj1 @ pdf_obj2 @ pdf_obj3 @ pdf_obj4 @ tl5"
  shows "drop (pdf_offsets ! 0) (utf8 text) = utf8 (pdf_obj1 @ pdf_obj2 @ pdf_obj3 @ pdf_obj4 @ tl5)"
    and "drop (pdf_offsets ! 1) (utf8 text) = utf8 (pdf_obj2 @ pdf_obj3 @ pdf_obj4 @ tl5)"
    and "drop (pdf_offsets ! 2) (utf8 text) = utf8 (pdf_obj3 @ pdf_obj4 @ tl5)"
    and "drop (pdf_offsets ! 3) (utf8 text) = utf8 (pdf_obj4 @ tl5)"
    and "drop (pdf_offsets ! 4) (utf8 text) = utf8 tl5"
  using utf8_drop_append [of pdf_header "pdf_obj1 @ pdf_obj2 @ pdf_obj3 @ pdf_obj4 @ tl5"]
    utf8_drop_append [of "pdf_header @ pdf_obj1" "pdf_obj2 @ pdf_obj3 @ pdf_obj4 @ tl5"]
    utf8_drop_append [of "pdf_header @ pdf_obj1 @ pdf_obj2" "pdf_obj3 @ pdf_obj4 @ tl5"]
    utf8_drop_append [of "pdf_header @ pdf_obj1 @ pdf_obj2 @ pdf_obj3" "pdf_obj4 @ tl5"]
    utf8_drop_append [of "pdf_header @ pdf_obj1 @ pdf_obj2 @ pdf_obj3 @ pdf_obj4" tl5]
  by (simp_all add: assms pdf_offsets_def Let_def add.assoc)

lemma utf8_starts: "take (length (utf8 p)) (utf8 (p @ s)) = utf8 p"
  by simp

text \<open>The byte string at an offset begins with the text.\<close>

definition at_offset :: "nat list \<Rightarrow> nat \<Rightarrow> string \<Rightarrow> bool" where
  "at_offset bytes off text \<longleftrightarrow> take (length (utf8 text)) (drop off bytes) = utf8 text"

lemma at_offsetI: "drop off bytes = utf8 (text @ s) \<Longrightarrow> at_offset bytes off text"
  by (simp add: at_offset_def)

text \<open>C26. The cross-reference table of the test page is right for any names and any time: in the
  bytes that are sent, object i begins at the i-th offset, the table begins at \<open>startxref\<close>, every
  table entry takes exactly the 20 bytes the format asks for, and the declared stream length is the
  number of bytes of the stream.\<close>

theorem pdf_xref_exact:
  "\<exists>startxref content.
     let pdf = utf8 (buildTestPdfPayload printerName agentName now) in
     at_offset pdf (pdf_offsets ! 0) ''1 0 obj'' \<and> at_offset pdf (pdf_offsets ! 1) ''2 0 obj''
     \<and> at_offset pdf (pdf_offsets ! 2) ''3 0 obj'' \<and> at_offset pdf (pdf_offsets ! 3) ''4 0 obj''
     \<and> at_offset pdf (pdf_offsets ! 4)
         (''5 0 obj'' @ nl @ ''<< /Length '' @ nat_str (length (utf8 content)) @ '' >>'' @ nl @ ''stream'' @ nl
          @ content @ nl @ ''endstream'')
     \<and> drop startxref pdf = utf8 (pdf_xref pdf_offsets startxref)
     \<and> list_all (\<lambda>off. length (utf8 (pad 10 (nat_str off) @ '' 00000 n '' @ nl)) = 20) pdf_offsets"
proof -
  define content where "content = pdf_stream (safeTestText printerName) (safeTestText agentName) (test_stamp now)"
  define startxref where "startxref = pdf_offsets ! 4 + byteLength (pdf_obj5 content)"
  define tl5 where "tl5 = pdf_obj5 content @ pdf_xref pdf_offsets startxref"
  define pdf where "pdf = utf8 (buildTestPdfPayload printerName agentName now)"
  have whole: "buildTestPdfPayload printerName agentName now
      = pdf_header @ pdf_obj1 @ pdf_obj2 @ pdf_obj3 @ pdf_obj4 @ tl5"
    by (simp add: buildTestPdfPayload_def Let_def content_def startxref_def tl5_def)
  note parts = pdf_parts [OF whole, folded pdf_def]
  have objs: "at_offset pdf (pdf_offsets ! 0) ''1 0 obj''" "at_offset pdf (pdf_offsets ! 1) ''2 0 obj''"
    "at_offset pdf (pdf_offsets ! 2) ''3 0 obj''" "at_offset pdf (pdf_offsets ! 3) ''4 0 obj''"
    by (rule at_offsetI, rule trans [OF parts(1)], simp only: pdf_obj1_def append_assoc)
       (rule at_offsetI, rule trans [OF parts(2)], simp only: pdf_obj2_def append_assoc,
        rule at_offsetI, rule trans [OF parts(3)], simp only: pdf_obj3_def append_assoc,
        rule at_offsetI, rule trans [OF parts(4)], simp only: pdf_obj4_def append_assoc)
  have "tl5 = (''5 0 obj'' @ nl @ ''<< /Length '' @ nat_str (length (utf8 content)) @ '' >>'' @ nl @ ''stream'' @ nl
          @ content @ nl @ ''endstream'') @ nl @ ''endobj'' @ nl @ pdf_xref pdf_offsets startxref"
    by (simp add: tl5_def pdf_obj5_def byteLength_def)
  then have obj5: "at_offset pdf (pdf_offsets ! 4)
         (''5 0 obj'' @ nl @ ''<< /Length '' @ nat_str (length (utf8 content)) @ '' >>'' @ nl @ ''stream'' @ nl
          @ content @ nl @ ''endstream'')"
    using parts(5) by (intro at_offsetI) (simp only:)
  have "drop startxref pdf = drop (byteLength (pdf_obj5 content)) (drop (pdf_offsets ! 4) pdf)"
    by (simp add: startxref_def add.commute)
  also have "\<dots> = utf8 (pdf_xref pdf_offsets startxref)"
    unfolding parts(5) tl5_def by (rule utf8_drop_append)
  finally have xref: "drop startxref pdf = utf8 (pdf_xref pdf_offsets startxref)" .
  have "list_all (\<lambda>off. length (utf8 (pad 10 (nat_str off) @ '' 00000 n '' @ nl)) = 20) pdf_offsets"
    by code_simp
  then show ?thesis
    using objs obj5 xref by (intro exI [of _ startxref] exI [of _ content]) (simp only: Let_def pdf_def simp_thms)
qed

end
