(* ===== verification/Routing.thy ===== *)
theory Routing
  imports Printer_Virtual Payload
begin

text \<open>
  \<open>src/lib/agent-availability.ts\<close> and \<open>src/lib/routing.ts\<close>: whether an agent can be
  reached, and whether a printer can take a payload.
\<close>

section \<open>Agent availability\<close>

definition DEFAULT_AGENT_STALE_THRESHOLD_SECONDS :: int where
  "DEFAULT_AGENT_STALE_THRESHOLD_SECONDS = 90"

text \<open>\<open>env\<close> is \<open>Number(process.env.STALE_AGENT_THRESHOLD_SECONDS)\<close>, \<^const>\<open>None\<close> when it is unset.\<close>

definition agentStaleThresholdSeconds :: "js_number option \<Rightarrow> int" where
  "agentStaleThresholdSeconds env =
     (case (case env of None \<Rightarrow> Fin (of_int DEFAULT_AGENT_STALE_THRESHOLD_SECONDS) | Some n \<Rightarrow> n) of
        NotFinite \<Rightarrow> DEFAULT_AGENT_STALE_THRESHOLD_SECONDS
      | Fin raw \<Rightarrow> if raw < 10 \<or> raw > 3600 then DEFAULT_AGENT_STALE_THRESHOLD_SECONDS else \<lfloor>raw\<rfloor>)"

datatype AvailabilityReason = ActiveOnlineFresh | InactiveLifecycle | ReasonOffline | Stale | MissingHeartbeat

definition getAgentAvailability :: "js_number option \<Rightarrow> agent \<Rightarrow> time \<Rightarrow> bool \<times> AvailabilityReason" where
  "getAgentAvailability env a now =
     (if ag_lifecycle a \<noteq> Active then (False, InactiveLifecycle)
      else if ag_status a \<noteq> Online then (False, ReasonOffline)
      else case ag_last_seen a of
             None \<Rightarrow> (False, MissingHeartbeat)
           | Some lastSeen \<Rightarrow>
               (let ageSeconds = (of_int (now - lastSeen) :: rat) / 1000
                in if ageSeconds < 0 \<or> ageSeconds > of_int (agentStaleThresholdSeconds env)
                   then (False, Stale) else (True, ActiveOnlineFresh)))"

definition isAgentAvailableForJob :: "js_number option \<Rightarrow> agent \<Rightarrow> time \<Rightarrow> bool" where
  "isAgentAvailableForJob env a now = fst (getAgentAvailability env a now)"

text \<open>The agent argument is \<open>null\<close> or missing as \<^const>\<open>None\<close>.\<close>

definition getEffectivePrinterStatus :: "js_number option \<Rightarrow> printer \<Rightarrow> agent option \<Rightarrow> time \<Rightarrow> string" where
  "getEffectivePrinterStatus env p agent now =
     (if pr_lifecycle p = Disabled then ''disabled''
      else if pr_lifecycle p = Retired then ''retired''
      else if pr_lifecycle p \<noteq> Active then ''offline''
      else case agent of
             None \<Rightarrow> ''offline''
           | Some a \<Rightarrow>
               if \<not> isAgentAvailableForJob env a now then ''offline''
               else let rawStatus = js_trim (js_lower (pr_status p))
                    in if rawStatus = ''online'' then ''online''
                       else if rawStatus = ''offline'' then ''offline''
                       else if rawStatus \<noteq> [] then rawStatus else ''unknown'')"

section \<open>Capabilities\<close>

datatype CapabilityCheckResult = CapOk | CapFail string

record PayloadSpec =
  ps_type :: string
  ps_protocol :: "string option"

record capable_printer =
  cp_protocol :: "string option"
  cp_connection :: "string option"
  cp_capabilities :: "json option"

definition BYTE_PROTOCOLS :: "string list" where
  "BYTE_PROTOCOLS = [''raw'', ''escpos'', ''zpl'', ''tspl'']"

text \<open>\<open>rawSupported\<close>, lower-cased when it is an array.\<close>

definition supported_names :: "json option \<Rightarrow> string list option" where
  "supported_names capabilities =
     (case capabilities of
        Some c \<Rightarrow>
          (case jget c ''supported_protocols'' of
             Some (JArr xs) \<Rightarrow> Some (map (\<lambda>v. js_lower (js_String v)) xs)
           | _ \<Rightarrow> None)
      | None \<Rightarrow> None)"

definition hasExplicitCaps :: "capable_printer \<Rightarrow> bool" where
  "hasExplicitCaps pr \<longleftrightarrow> (case supported_names (cp_capabilities pr) of Some xs \<Rightarrow> length xs > 0 | None \<Rightarrow> False)"

definition family :: "capable_printer \<Rightarrow> string" where
  "family pr =
     (let proto = js_lower (or_empty (cp_protocol pr));
          conn = js_lower (or_empty (cp_connection pr))
      in if proto \<noteq> [] \<and> proto \<noteq> ''unknown'' then proto else conn)"

definition anyCap :: "capable_printer \<Rightarrow> string list \<Rightarrow> bool" where
  "anyCap pr names =
     (if hasExplicitCaps pr
      then (case supported_names (cp_capabilities pr) of Some xs \<Rightarrow> list_ex (List.member xs) names | None \<Rightarrow> False)
      else False)"

definition transport :: "capable_printer \<Rightarrow> string list \<Rightarrow> bool" where
  "transport pr names \<longleftrightarrow> \<not> hasExplicitCaps pr \<and> List.member names (family pr)"

definition CAP_MISMATCH :: string where "CAP_MISMATCH = ''CAPABILITY_MISMATCH: ''"

definition shown_protocol :: "capable_printer \<Rightarrow> string" where
  "shown_protocol pr =
     (let proto = js_lower (or_empty (cp_protocol pr)) in if proto = [] then ''unknown'' else proto)"

definition validatePayloadForPrinter :: "PayloadSpec option \<Rightarrow> capable_printer \<Rightarrow> CapabilityCheckResult" where
  "validatePayloadForPrinter payloadInput pr =
     (case payloadInput of
        None \<Rightarrow> CapOk
      | Some inp \<Rightarrow>
          let pt = js_lower (ps_type inp);
              payloadProto = (if truthy (ps_protocol inp) then Some (js_lower (the (ps_protocol inp))) else None)
          in if pt = ''pdf'' then
               (if truthy payloadProto then CapFail (CAP_MISMATCH @ ''pdf payloads cannot specify a printer protocol'')
                else if anyCap pr [''pdf'', ''spooler'', ''ipp'', ''ipps''] \<or> transport pr [''spooler'', ''ipp'', ''ipps'']
                     then CapOk
                else CapFail (CAP_MISMATCH @ ''pdf requires spooler or IPP transport''))
             else if pt = ''image'' then
               (if truthy payloadProto then CapFail (CAP_MISMATCH @ ''image payloads cannot specify a printer protocol'')
                else if anyCap pr [''image'', ''jpeg'', ''spooler'', ''ipp'', ''ipps'', ''escpos'']
                        \<or> transport pr [''spooler'', ''escpos'']
                     then CapOk
                else CapFail (CAP_MISMATCH @ ''image payload not supported by printer''))
             else if pt = ''escpos'' then
               (if truthy payloadProto \<and> payloadProto \<noteq> Some ''escpos''
                then CapFail (CAP_MISMATCH @ ''escpos payload cannot use protocol '' @ the payloadProto)
                else if anyCap pr [''escpos''] \<or> transport pr [''escpos''] then CapOk
                else CapFail (CAP_MISMATCH @ ''printer does not explicitly support ESC/POS (protocol='' @ shown_protocol pr @ '')''))
             else if pt = ''raw'' then
               (case payloadProto of
                  None \<Rightarrow> CapFail (CAP_MISMATCH @ ''raw payloads must declare an explicit protocol (raw, escpos, zpl, or tspl)'')
                | Some proto \<Rightarrow>
                    if proto = [] then CapFail (CAP_MISMATCH @ ''raw payloads must declare an explicit protocol (raw, escpos, zpl, or tspl)'')
                    else if \<not> List.member BYTE_PROTOCOLS proto
                    then CapFail (CAP_MISMATCH @ ''unsupported raw protocol '' @ proto)
                    else if anyCap pr [proto] \<or> transport pr [proto] then CapOk
                    else CapFail (CAP_MISMATCH @ ''printer does not explicitly support '' @ js_upper proto
                           @ '' (protocol='' @ shown_protocol pr @ '')''))
             else CapFail (CAP_MISMATCH @ ''unsupported payload type '' @ pt))"

definition isAgentAvailableForPrinter :: "js_number option \<Rightarrow> agent option \<Rightarrow> time \<Rightarrow> bool" where
  "isAgentAvailableForPrinter env agent now =
     (case agent of
        None \<Rightarrow> False
      | Some a \<Rightarrow> if ag_lifecycle a \<noteq> Active then False else fst (getAgentAvailability env a now))"

text \<open>The agent argument is left out as \<^const>\<open>None\<close>, and may be \<open>null\<close>.\<close>

definition isPrinterAvailableForJob :: "js_number option \<Rightarrow> printer \<Rightarrow> agent option option \<Rightarrow> time \<Rightarrow> bool" where
  "isPrinterAvailableForJob env p agent now =
     (if pr_lifecycle p \<noteq> Active then False
      else if isVirtualPrinterRecord (printer_like p) then False
      else if (case agent of Some a \<Rightarrow> \<not> isAgentAvailableForPrinter env a now | None \<Rightarrow> False) then False
      else pr_status p = ''online'')"

section \<open>Lemmas\<close>

lemma threshold_bounds: "10 \<le> agentStaleThresholdSeconds env \<and> agentStaleThresholdSeconds env \<le> 3600"
  by (auto simp: agentStaleThresholdSeconds_def DEFAULT_AGENT_STALE_THRESHOLD_SECONDS_def le_floor_iff floor_le_iff
    split: option.splits js_number.splits)

lemma available_iff:
  "isAgentAvailableForJob env a now \<longleftrightarrow> ag_lifecycle a = Active \<and> ag_status a = Online
     \<and> (\<exists>t. ag_last_seen a = Some t \<and> t \<le> now \<and> now - t \<le> agentStaleThresholdSeconds env * 1000)"
proof -
  have age: "(of_int d :: rat) / 1000 \<le> of_int k \<longleftrightarrow> d \<le> k * 1000" for d k :: int
  proof -
    have "(of_int d :: rat) / 1000 \<le> of_int k \<longleftrightarrow> (of_int d :: rat) \<le> of_int (k * 1000)"
      by (simp add: divide_le_eq)
    then show ?thesis by (simp only: of_int_le_iff)
  qed
  have pos: "(of_int d :: rat) / 1000 < 0 \<longleftrightarrow> d < 0" for d :: int
    by (simp add: divide_less_0_iff)
  show ?thesis
    by (auto simp: isAgentAvailableForJob_def getAgentAvailability_def Let_def not_less not_le age pos
      split: option.splits if_splits)
qed

text \<open>The names that let a printer take a payload, per the table of the file's comment.\<close>

definition serving_names :: "PayloadSpec \<Rightarrow> string list" where
  "serving_names inp =
     (let pt = js_lower (ps_type inp) in
      if pt = ''pdf'' then [''pdf'', ''spooler'', ''ipp'', ''ipps'']
      else if pt = ''image'' then [''image'', ''jpeg'', ''spooler'', ''ipp'', ''ipps'', ''escpos'']
      else if pt = ''escpos'' then [''escpos'']
      else [js_lower (or_empty (ps_protocol inp))])"

text \<open>C27. No wildcard: a payload is accepted for a printer only if the printer names something that
  serves it: in its explicit capability list when it has one, and otherwise as its declared protocol, or
  as its connection type when no protocol is declared. So a network or USB printer that declares
  neither gets no job at all.\<close>

theorem capability_explicit:
  assumes "validatePayloadForPrinter (Some inp) pr = CapOk"
  shows "(case supported_names (cp_capabilities pr) of
            Some (x # xs) \<Rightarrow> \<exists>name \<in> set (x # xs). name \<in> set (serving_names inp)
          | _ \<Rightarrow> family pr \<in> set (serving_names inp))
    \<and> (hasExplicitCaps pr \<or> family pr \<notin> {''network'', ''usb'', ''unknown'', ''''})"
proof -
  let ?names = "serving_names inp"
  have split: "anyCap pr ns \<or> transport pr ms \<Longrightarrow> set ns \<subseteq> set ?names \<Longrightarrow> set ms \<subseteq> set ?names \<Longrightarrow>
      (case supported_names (cp_capabilities pr) of
            Some (x # xs) \<Rightarrow> \<exists>name \<in> set (x # xs). name \<in> set ?names
          | _ \<Rightarrow> family pr \<in> set ?names)
      \<and> (hasExplicitCaps pr \<or> family pr \<in> set ms)" for ns ms
    by (cases "supported_names (cp_capabilities pr)"; cases "the (supported_names (cp_capabilities pr))")
      (auto simp: anyCap_def transport_def hasExplicitCaps_def list_ex_iff)
  have names: "js_lower (ps_type inp) = ''pdf'' \<Longrightarrow> ?names = [''pdf'', ''spooler'', ''ipp'', ''ipps'']"
    "js_lower (ps_type inp) = ''image'' \<Longrightarrow> ?names = [''image'', ''jpeg'', ''spooler'', ''ipp'', ''ipps'', ''escpos'']"
    "js_lower (ps_type inp) = ''escpos'' \<Longrightarrow> ?names = [''escpos'']"
    "js_lower (ps_type inp) = ''raw'' \<Longrightarrow> ?names = [js_lower (or_empty (ps_protocol inp))]"
    by (simp_all add: serving_names_def)
  consider (pdf) "js_lower (ps_type inp) = ''pdf''"
      "anyCap pr [''pdf'', ''spooler'', ''ipp'', ''ipps''] \<or> transport pr [''spooler'', ''ipp'', ''ipps'']"
    | (image) "js_lower (ps_type inp) = ''image''"
      "anyCap pr [''image'', ''jpeg'', ''spooler'', ''ipp'', ''ipps'', ''escpos''] \<or> transport pr [''spooler'', ''escpos'']"
    | (escpos) "js_lower (ps_type inp) = ''escpos''" "anyCap pr [''escpos''] \<or> transport pr [''escpos'']"
    | (raw) proto where "js_lower (ps_type inp) = ''raw''" "js_lower (or_empty (ps_protocol inp)) = proto"
      "List.member BYTE_PROTOCOLS proto" "anyCap pr [proto] \<or> transport pr [proto]"
    using assms by (cases "ps_protocol inp")
      (auto simp: validatePayloadForPrinter_def Let_def or_empty_def split: if_splits)
  then show ?thesis
  proof cases
    case pdf
    then show ?thesis using split [OF pdf(2)] by (auto simp: names(1))
  next
    case image
    then show ?thesis using split [OF image(2)] by (auto simp: names(2))
  next
    case escpos
    then show ?thesis using split [OF escpos(2)] by (auto simp: names(3))
  next
    case (raw proto)
    then show ?thesis using split [OF raw(4)] by (auto simp: names(4) BYTE_PROTOCOLS_def)
  qed
qed

theorem capability_explicit_witness:
  "validatePayloadForPrinter (Some \<lparr>ps_type = ''raw'', ps_protocol = Some ''ZPL''\<rparr>)
      \<lparr>cp_protocol = Some ''escpos'', cp_connection = Some ''network'',
       cp_capabilities = Some (JObj [(''supported_protocols'', JArr [JStr ''escpos'', JStr ''zpl''])])\<rparr> = CapOk
   \<and> (\<exists>name \<in> {''escpos'', ''zpl''}. name \<in> set (serving_names \<lparr>ps_type = ''raw'', ps_protocol = Some ''ZPL''\<rparr>))"
proof -
  let ?pr = "\<lparr>cp_protocol = Some ''escpos'', cp_connection = Some ''network'',
       cp_capabilities = Some (JObj [(''supported_protocols'', JArr [JStr ''escpos'', JStr ''zpl''])])\<rparr>"
  have ok: "validatePayloadForPrinter (Some \<lparr>ps_type = ''raw'', ps_protocol = Some ''ZPL''\<rparr>) ?pr = CapOk"
    by code_simp
  moreover have "supported_names (cp_capabilities ?pr) = Some [''escpos'', ''zpl'']" by code_simp
  ultimately show ?thesis using capability_explicit [OF ok] by simp
qed

lemma no_wildcard_for_silent_network_printer:
  "validatePayloadForPrinter (Some inp) \<lparr>cp_protocol = Some ''unknown'', cp_connection = Some ''network'', cp_capabilities = None\<rparr>
     \<noteq> CapOk"
  by (auto simp: validatePayloadForPrinter_def Let_def anyCap_def transport_def hasExplicitCaps_def supported_names_def
    family_def or_empty_def js_lower_def lower_char_def BYTE_PROTOCOLS_def split: option.splits)

end
