(* ===== verification/Canonical.thy ===== *)
theory Canonical
  imports Json_Text "HOL-Library.Multiset" "HOL-Library.List_Lexorder" "HOL-Library.Char_ord"
begin

text \<open>
  \<open>src/lib/canonicalize.ts\<close> and the fingerprint of \<open>src/lib/print-job-service.ts\<close>. Object
  entries are listed in the order of the keys' code units. Keys that look like array indices,
  which JavaScript lists first, are not part of the payload contract and are left out of the model.
\<close>

function canonicalize :: "json \<Rightarrow> json" where
  "canonicalize (JArr xs) = JArr (map canonicalize xs)"
| "canonicalize (JObj es) = JObj (map (\<lambda>(k, child). (k, canonicalize child)) (sort_key fst es))"
| "canonicalize JNull = JNull"
| "canonicalize (JBool b) = JBool b"
| "canonicalize (JNum q) = JNum q"
| "canonicalize (JStr s) = JStr s"
  by pat_completeness auto
termination
proof (relation "measure size")
  fix es :: "(string \<times> json) list" and z k child
  assume "z \<in> set (sort_key fst es)" and "(k, child) = z"
  then have "(k, child) \<in> set es" by simp
  then have "size child < Suc (size_list (size_prod (\<lambda>_. 0) size) es)"
    by (induction es) auto
  then show "(child, JObj es) \<in> measure size" by simp
qed (auto simp: less_Suc_eq_le elem_le_sum_list size_list_estimation')

text \<open>\<open>documentType?.trim().toLowerCase() || null\<close> and \<open>destination?.trim() || null\<close>\<close>

definition fingerprint_type :: "string option \<Rightarrow> string option" where
  "fingerprint_type documentType =
     (case map_option (\<lambda>d. js_lower (js_trim d)) documentType of
        Some d \<Rightarrow> if d \<noteq> [] then Some d else None | None \<Rightarrow> None)"

definition fingerprint_destination :: "string option \<Rightarrow> string option" where
  "fingerprint_destination destination =
     (case map_option js_trim destination of
        Some d \<Rightarrow> if d \<noteq> [] then Some d else None | None \<Rightarrow> None)"

definition idempotencyFingerprint ::
  "(rat \<Rightarrow> string) \<Rightarrow> string \<Rightarrow> string option \<Rightarrow> string option \<Rightarrow> json \<Rightarrow> string" where
  "idempotencyFingerprint num printerId documentType destination payload =
     stringify num (JObj
       [(''printerId'', JStr printerId),
        (''documentType'', jopt (fingerprint_type documentType)),
        (''destination'', jopt (fingerprint_destination destination)),
        (''payload'', canonicalize payload)])"

section \<open>Key order\<close>

text \<open>Equal up to the order of object entries at any depth, as \<open>jsonb\<close> gives a value back.\<close>

inductive json_eqv :: "json \<Rightarrow> json \<Rightarrow> bool" where
  eqv_refl: "json_eqv v v"
| eqv_arr: "list_all2 json_eqv xs ys \<Longrightarrow> json_eqv (JArr xs) (JArr ys)"
| eqv_obj: "list_all2 (\<lambda>e f. fst e = fst f \<and> json_eqv (snd e) (snd f)) es fs \<Longrightarrow> mset fs = mset gs
    \<Longrightarrow> json_eqv (JObj es) (JObj gs)"

text \<open>Every object has distinct keys.\<close>

fun keys_distinct :: "json \<Rightarrow> bool" where
  "keys_distinct (JArr xs) = list_all keys_distinct xs"
| "keys_distinct (JObj es) = (distinct (map fst es) \<and> list_all (\<lambda>(k, v). keys_distinct v) es)"
| "keys_distinct v = True"

lemma sort_entries_map: "sort_key fst (map (\<lambda>(k, v). (k, f v)) es) = map (\<lambda>(k, v). (k, f v)) (sort_key fst es)"
proof (induction es)
  case (Cons e es)
  have "insort_key fst (case e of (k, v) \<Rightarrow> (k, f v)) (map (\<lambda>(k, v). (k, f v)) ts)
      = map (\<lambda>(k, v). (k, f v)) (insort_key fst e ts)" for ts
    by (induction ts) (auto split: prod.splits)
  then show ?case using Cons by simp
qed simp

lemma sort_distinct_keys:
  assumes "mset es = mset fs" and "distinct (map fst es)"
  shows "sort_key fst es = sort_key fst fs"
proof -
  have "mset es = mset (sort_key fst fs)" using assms(1) by simp
  moreover have "inj_on fst (set es)" using assms(2) by (simp add: distinct_map)
  ultimately show ?thesis by (rule sort_key_inj_key_eq) simp
qed

text \<open>The entries with canonical values, in the order they come in.\<close>

definition canonical_entries :: "(string \<times> json) list \<Rightarrow> (string \<times> json) list" where
  "canonical_entries es = map (\<lambda>(k, v). (k, canonicalize v)) es"

lemma canonical_object: "canonicalize (JObj es) = JObj (sort_key fst (canonical_entries es))"
  unfolding canonical_entries_def sort_entries_map by simp

lemma canonical_eqv: "json_eqv a b \<Longrightarrow> keys_distinct a \<Longrightarrow> canonicalize a = canonicalize b"
proof (induction rule: json_eqv.induct)
  case (eqv_refl v)
  then show ?case by simp
next
  case (eqv_arr xs ys)
  then have "list_all2 (\<lambda>x y. canonicalize x = canonicalize y) xs ys"
    by (auto simp: list_all2_conv_all_nth list_all_length)
  then have "map canonicalize xs = map canonicalize ys"
    by (induction rule: list_all2_induct) auto
  then show ?case by simp
next
  case (eqv_obj es fs gs)
  then have d: "distinct (map fst es)" and wf: "list_all (\<lambda>(k, v). keys_distinct v) es" by auto
  have "list_all2 (\<lambda>e f. fst e = fst f \<and> canonicalize (snd e) = canonicalize (snd f)) es fs"
    using eqv_obj.IH(1) wf by (auto simp: list_all2_conv_all_nth list_all_length split_beta)
  then have same: "canonical_entries es = canonical_entries fs"
    unfolding canonical_entries_def by (induction rule: list_all2_induct) auto
  have "mset (canonical_entries fs) = mset (canonical_entries gs)"
    using eqv_obj.hyps by (simp add: canonical_entries_def)
  moreover have "map fst (canonical_entries es) = map fst es"
    by (auto simp: canonical_entries_def)
  ultimately have "sort_key fst (canonical_entries es) = sort_key fst (canonical_entries gs)"
    using d by (intro sort_distinct_keys) (simp_all add: same)
  then show ?case by (simp only: canonical_object)
qed

text \<open>Conversely, only payloads equal up to key order have the same canonical form.\<close>

lemma canonical_entries_rel: "list_all2 (\<lambda>e f. fst e = fst f \<and> snd e = canonicalize (snd f)) (canonical_entries es) es"
  by (auto simp: canonical_entries_def list_all2_conv_all_nth split: prod.splits)

lemma canonical_kind:
  "canonicalize w = JObj ds \<Longrightarrow> \<exists>gs. w = JObj gs" "canonicalize w = JArr xs \<Longrightarrow> \<exists>ys. w = JArr ys"
  "canonicalize w = JNull \<Longrightarrow> w = JNull" "canonicalize w = JBool b \<Longrightarrow> w = JBool b"
  "canonicalize w = JNum q \<Longrightarrow> w = JNum q" "canonicalize w = JStr s \<Longrightarrow> w = JStr s"
  by (cases w; simp)+

lemma canonical_reflects: "canonicalize v = canonicalize w \<Longrightarrow> json_eqv v w"
proof (induction v arbitrary: w rule: canonicalize.induct)
  case (1 xs)
  then obtain ys where w: "w = JArr ys" using canonical_kind(2) by (metis canonicalize.simps(1))
  have same: "map canonicalize xs = map canonicalize ys" using "1.prems" w by simp
  then have len: "length xs = length ys" by (rule map_eq_imp_length_eq)
  have "json_eqv (xs ! i) (ys ! i)" if "i < length xs" for i
    using "1.IH" [of "xs ! i" "ys ! i"] that same len by (metis nth_map nth_mem)
  then show ?case unfolding w by (intro eqv_arr) (simp add: list_all2_conv_all_nth len)
next
  case (2 es)
  then obtain gs where w: "w = JObj gs" using canonical_kind(1) by (metis canonicalize.simps(2))
  have "sort_key fst (canonical_entries es) = sort_key fst (canonical_entries gs)"
    using "2.prems" unfolding w canonical_object by simp
  then have "mset (canonical_entries es) = mset (canonical_entries gs)" by (metis mset_sort)
  then obtain fs where rel: "list_all2 (\<lambda>e f. fst e = fst f \<and> snd e = canonicalize (snd f)) (canonical_entries es) fs"
      and perm: "mset fs = mset gs"
    using list_all2_reorder_left_invariance [OF canonical_entries_rel] by blast
  have len: "length es = length fs" using list_all2_lengthD [OF rel] by (simp add: canonical_entries_def)
  have "fst (es ! i) = fst (fs ! i) \<and> json_eqv (snd (es ! i)) (snd (fs ! i))" if i: "i < length es" for i
  proof -
    have "canonical_entries es ! i = (fst (es ! i), canonicalize (snd (es ! i)))"
      using i by (simp add: canonical_entries_def split_beta)
    then have "fst (es ! i) = fst (fs ! i)" and can: "canonicalize (snd (es ! i)) = canonicalize (snd (fs ! i))"
      using list_all2_nthD [OF rel, of i] i by (simp_all add: canonical_entries_def)
    moreover have "es ! i \<in> set (sort_key fst es)" using i by simp
    ultimately show ?thesis using "2.IH" [OF _ prod.collapse can] by blast
  qed
  then have "list_all2 (\<lambda>e f. fst e = fst f \<and> json_eqv (snd e) (snd f)) es fs"
    by (simp add: list_all2_conv_all_nth len)
  then show ?case unfolding w using perm by (rule eqv_obj)
qed (auto dest!: sym [of _ "canonicalize _"] canonical_kind intro: eqv_refl)

section \<open>The fingerprint\<close>

lemma canonical_number_free: "number_free v \<Longrightarrow> number_free (canonicalize v)"
proof (induction v rule: canonicalize.induct)
  case (1 xs)
  then show ?case by (auto simp: list_all_iff)
next
  case (2 es)
  have "number_free (canonicalize v)" if "(k, v) \<in> set es" for k v
    using 2 that by (fastforce simp: list_all_iff)
  then show ?case by (auto simp: list_all_iff)
qed simp_all

lemma jopt_inj: "jopt a = jopt b \<longleftrightarrow> a = b"
  by (cases a; cases b) auto

lemma number_free_jopt: "number_free (jopt a)"
  by (cases a) auto

lemma fingerprint_eq_iff:
  assumes "number_free v" and "number_free w"
  shows "idempotencyFingerprint num p d t v = idempotencyFingerprint num q e u w \<longleftrightarrow>
     p = q \<and> fingerprint_type d = fingerprint_type e \<and> fingerprint_destination t = fingerprint_destination u
     \<and> canonicalize v = canonicalize w"
proof
  let ?obj = "\<lambda>p d t v. JObj [(''printerId'', JStr p), (''documentType'', jopt (fingerprint_type d)),
     (''destination'', jopt (fingerprint_destination t)), (''payload'', canonicalize v)]"
  assume "idempotencyFingerprint num p d t v = idempotencyFingerprint num q e u w"
  then have "stringify num (?obj p d t v) @ [] = stringify num (?obj q e u w) @ []"
    by (simp only: idempotencyFingerprint_def)
  moreover have "number_free (?obj p d t v)" "number_free (?obj q e u w)"
    using assms by (simp_all add: canonical_number_free number_free_jopt)
  ultimately have "?obj p d t v = ?obj q e u w"
    using stringify_prefix_free by blast
  then show "p = q \<and> fingerprint_type d = fingerprint_type e \<and> fingerprint_destination t = fingerprint_destination u
     \<and> canonicalize v = canonicalize w"
    by (simp add: jopt_inj)
qed (simp add: idempotencyFingerprint_def)

text \<open>A missing optional text counts as the empty one.\<close>

definition text_or_empty :: "string option \<Rightarrow> string" where
  "text_or_empty s = (case s of Some x \<Rightarrow> x | None \<Rightarrow> [])"

lemma fingerprint_type_eq:
  "fingerprint_type d = fingerprint_type e
     \<longleftrightarrow> js_lower (js_trim (text_or_empty d)) = js_lower (js_trim (text_or_empty e))"
proof -
  have "fingerprint_type x =
      (if js_lower (js_trim (text_or_empty x)) = [] then None else Some (js_lower (js_trim (text_or_empty x))))" for x
    by (cases x) (simp_all add: fingerprint_type_def text_or_empty_def js_lower_def js_trim_def)
  then show ?thesis by simp
qed

lemma fingerprint_destination_eq:
  "fingerprint_destination t = fingerprint_destination u \<longleftrightarrow> js_trim (text_or_empty t) = js_trim (text_or_empty u)"
proof -
  have "fingerprint_destination x =
      (if js_trim (text_or_empty x) = [] then None else Some (js_trim (text_or_empty x)))" for x
    by (cases x) (simp_all add: fingerprint_destination_def text_or_empty_def js_trim_def)
  then show ?thesis by simp
qed

text \<open>C20. The idempotency fingerprint is exact. Two requests whose payloads contain no numbers (no
  accepted payload does) have equal fingerprints if and only if they name the same printer, the same
  document type up to case and surrounding blanks (a missing one counting as empty), the same
  destination up to surrounding blanks, and payloads that are equal up to the order in which the
  entries of their objects are listed, at every depth; whatever quotes, commas or braces the strings
  contain. In particular a payload read back from the database with its keys in another order has
  the fingerprint it had.\<close>

theorem fingerprint_exact:
  assumes "number_free v" and "number_free w" and "keys_distinct v" and "json_eqv v v'"
  shows "idempotencyFingerprint num p d t v' = idempotencyFingerprint num p d t v
    \<and> (idempotencyFingerprint num p d t v = idempotencyFingerprint num q e u w \<longleftrightarrow>
       p = q
       \<and> js_lower (js_trim (text_or_empty d)) = js_lower (js_trim (text_or_empty e))
       \<and> js_trim (text_or_empty t) = js_trim (text_or_empty u)
       \<and> json_eqv v w)"
proof -
  have "canonicalize v = canonicalize w \<longleftrightarrow> json_eqv v w"
    using canonical_reflects canonical_eqv [OF _ assms(3)] by blast
  then show ?thesis
    using canonical_eqv [OF assms(4,3)] fingerprint_eq_iff [OF assms(1,2)]
    by (simp add: idempotencyFingerprint_def fingerprint_type_eq fingerprint_destination_eq)
qed

definition order_a :: json where
  "order_a = JObj [(''type'', JStr ''raw''), (''data'', JStr ''QQ=='')]"
definition order_b :: json where
  "order_b = JObj [(''data'', JStr ''QQ==''), (''type'', JStr ''raw'')]"

theorem fingerprint_exact_witness:
  "idempotencyFingerprint (\<lambda>_. '''') ''p'' (Some '' Label '') None order_b
      = idempotencyFingerprint (\<lambda>_. '''') ''p'' (Some '' Label '') None order_a
   \<and> idempotencyFingerprint (\<lambda>_. '''') ''p'' (Some '' Label '') None order_a
      \<noteq> idempotencyFingerprint (\<lambda>_. '''') ''p'' (Some ''label'') None (JObj [(''type'', JStr ''raw'')])"
proof -
  have nf: "number_free order_a" "number_free (JObj [(''type'', JStr ''raw'')])" "keys_distinct order_a"
    by (simp_all add: order_a_def)
  have eqv: "json_eqv order_a order_b"
    unfolding order_a_def order_b_def
    by (rule eqv_obj [of _ "[(''type'', JStr ''raw''), (''data'', JStr ''QQ=='')]"]) (simp_all add: eqv_refl add_mset_commute)
  have "\<not> json_eqv order_a (JObj [(''type'', JStr ''raw'')])"
  proof
    assume "json_eqv order_a (JObj [(''type'', JStr ''raw'')])"
    then show False
      by (cases rule: json_eqv.cases) (auto simp: order_a_def dest!: list_all2_lengthD mset_eq_length)
  qed
  then show ?thesis
    using fingerprint_exact [OF nf eqv] by blast
qed

end
