(* ===== verification/Print_Service.thy ===== *)
theory Print_Service
  imports Routing Canonical Job_Runs Ws_Push
begin

text \<open>
  \<open>src/lib/entitlements.ts\<close> and \<open>src/lib/print-job-service.ts\<close>: admission of a print job.
  A thrown error is the left side of a sum; the transaction it is thrown from changes nothing.
\<close>

section \<open>Entitlements\<close>

definition live_subscription :: "string list" where
  "live_subscription = [''trialing'', ''active'', ''past_due'']"

definition getTenantEntitlementLimit :: "gateway_db \<Rightarrow> string \<Rightarrow> string \<Rightarrow> int option" where
  "getTenantEntitlementLimit db tenantId key =
     (let joined = concat (map (\<lambda>ts. map (\<lambda>p. pn_entitlements p)
                      (select_where (\<lambda>p. pn_id p = ts_plan ts) (plans db)))
                    (select_where (\<lambda>ts. ts_tenant ts = tenantId \<and> List.member live_subscription (ts_status ts))
                      (tenant_subscriptions db)));
          entitlements = (case joined of [] \<Rightarrow> [] | e # _ \<Rightarrow> e)
      in case jprop key entitlements of
           Some (JNum q) \<Rightarrow>
             (if of_int \<lfloor>q\<rfloor> = q \<and> \<bar>\<lfloor>q\<rfloor>\<bar> \<le> 2 ^ 53 - 1 \<and> q > 0 then Some \<lfloor>q\<rfloor> else None)
         | _ \<Rightarrow> None)"

text \<open>\<open>TenantEntitlementError\<close>: the entitlement and its limit.\<close>

definition enforceTenantResourceEntitlement :: "gateway_db \<Rightarrow> string \<Rightarrow> string \<Rightarrow> nat \<Rightarrow> (string \<times> int) option" where
  "enforceTenantResourceEntitlement db tenantId key currentCount =
     (case getTenantEntitlementLimit db tenantId key of
        None \<Rightarrow> None
      | Some limit \<Rightarrow> if int currentCount \<ge> limit then Some (key, limit) else None)"

definition recent_jobs :: "time \<Rightarrow> string \<Rightarrow> gateway_db \<Rightarrow> nat" where
  "recent_jobs now tenantId db =
     count_where (\<lambda>j. jb_tenant j = tenantId \<and> jb_created j \<ge> now - 60000) (print_jobs db)"

definition concurrent_jobs :: "time \<Rightarrow> string \<Rightarrow> gateway_db \<Rightarrow> nat" where
  "concurrent_jobs now tenantId db =
     count_where (\<lambda>j. jb_tenant j = tenantId \<and> List.member [Queued, Claimed, Printing] (jb_status j) \<and> jb_expires j > now)
       (print_jobs db)"

definition enforceTenantJobEntitlements :: "time \<Rightarrow> gateway_db \<Rightarrow> string \<Rightarrow> (string \<times> int) option" where
  "enforceTenantJobEntitlements now db tenantId =
     (case (case getTenantEntitlementLimit db tenantId ''max_jobs_per_minute'' of
              None \<Rightarrow> None
            | Some minuteLimit \<Rightarrow>
                if int (recent_jobs now tenantId db) \<ge> minuteLimit then Some (''max_jobs_per_minute'', minuteLimit) else None) of
        Some e \<Rightarrow> Some e
      | None \<Rightarrow>
          (case getTenantEntitlementLimit db tenantId ''max_concurrent_jobs'' of
             None \<Rightarrow> None
           | Some concurrentLimit \<Rightarrow>
               if int (concurrent_jobs now tenantId db) \<ge> concurrentLimit
               then Some (''max_concurrent_jobs'', concurrentLimit) else None))"

section \<open>Errors and limits\<close>

definition MAX_AGENT_QUEUED_JOBS :: nat where "MAX_AGENT_QUEUED_JOBS = 1000"
definition PRINT_JOB_RATE_LIMIT_PER_MINUTE :: nat where "PRINT_JOB_RATE_LIMIT_PER_MINUTE = 60"
definition PRINT_JOB_RATE_LIMIT_PER_HOUR :: nat where "PRINT_JOB_RATE_LIMIT_PER_HOUR = 1000"

text \<open>\<open>DatabaseError\<close> is what the INSERT throws when a unique index refuses the row.\<close>

datatype service_error =
    AgentQueueFull string nat
  | AgentQueuedJobsFull string nat
  | PrintJobRateLimited int
  | CapabilityMismatch string
  | InputError string string nat
  | InvalidPayload
  | IdempotencyConflict
  | EntitlementExceeded string int
  | DatabaseError

definition normalizeRequestedBy :: "string \<Rightarrow> service_error + string" where
  "normalizeRequestedBy v =
     (let normalized = js_trim v
      in if normalized = [] \<or> length normalized > 100
         then Inl (InputError ''requestedBy is invalid'' ''INVALID_REQUEST'' 400) else Inr normalized)"

section \<open>The rate limit of an API key\<close>

definition retry_seconds :: "int \<Rightarrow> int \<Rightarrow> int" where
  "retry_seconds window elapsed = (if elapsed \<ge> window then 0 else \<lceil>(of_int (window - elapsed) :: rat) / 1000\<rceil>)"

text \<open>The row read FOR UPDATE to the row written, or the seconds until a retry.\<close>

definition charge_rate_limit ::
  "string \<Rightarrow> time \<Rightarrow> print_job_rate_limit option \<Rightarrow> int + print_job_rate_limit" where
  "charge_rate_limit keyId now existingLimit =
     (case existingLimit of
        None \<Rightarrow> Inr \<lparr>pl_key = keyId, pl_minute_started = now, pl_minute_count = 1,
                      pl_hour_started = now, pl_hour_count = 1, pl_updated = now\<rparr>
      | Some l \<Rightarrow>
          let minuteElapsed = max 0 (now - pl_minute_started l);
              hourElapsed = max 0 (now - pl_hour_started l);
              nextMinuteCount = (if minuteElapsed \<ge> 60000 then 1 else pl_minute_count l + 1);
              nextHourCount = (if hourElapsed \<ge> 3600000 then 1 else pl_hour_count l + 1)
          in if nextMinuteCount > PRINT_JOB_RATE_LIMIT_PER_MINUTE \<or> nextHourCount > PRINT_JOB_RATE_LIMIT_PER_HOUR
             then Inl (max 1 (max (retry_seconds 60000 minuteElapsed) (retry_seconds 3600000 hourElapsed)))
             else Inr (l\<lparr>pl_minute_started := (if minuteElapsed \<ge> 60000 then now else pl_minute_started l),
                         pl_minute_count := nextMinuteCount,
                         pl_hour_started := (if hourElapsed \<ge> 3600000 then now else pl_hour_started l),
                         pl_hour_count := nextHourCount,
                         pl_updated := now\<rparr>))"

definition store_rate_limit :: "print_job_rate_limit \<Rightarrow> print_job_rate_limit list \<Rightarrow> print_job_rate_limit list" where
  "store_rate_limit l t =
     (if row_by pl_key (pl_key l) t = None then t @ [l]
      else update_where (\<lambda>r. pl_key r = pl_key l) (\<lambda>_. l) t)"

section \<open>Insertion\<close>

record insert_result =
  ir_jobId :: string
  ir_status :: string
  ir_agentId :: string
  ir_printerId :: string
  ir_isReused :: bool

text \<open>The row a request with this idempotency key finds.\<close>

definition idempotent_where :: "job_values \<Rightarrow> print_job \<Rightarrow> bool" where
  "idempotent_where v j \<longleftrightarrow>
     jb_tenant j = jv_tenant v
     \<and> (if truthy (jv_api_key v) then jb_api_key j = jv_api_key v else jb_api_key j = None)
     \<and> jb_idem j = jv_idem v"

definition stored_fingerprint :: "(rat \<Rightarrow> string) \<Rightarrow> print_job \<Rightarrow> string" where
  "stored_fingerprint num j =
     idempotencyFingerprint num (jb_printer j) (jb_doc_type j) (jb_destination j) (jb_payload j)"

definition request_fingerprint :: "(rat \<Rightarrow> string) \<Rightarrow> job_values \<Rightarrow> string" where
  "request_fingerprint num v =
     idempotencyFingerprint num (jv_printer v) (jv_doc_type v) (jv_destination v) (jv_payload v)"

definition agent_queued :: "time \<Rightarrow> job_values \<Rightarrow> gateway_db \<Rightarrow> nat" where
  "agent_queued now v db =
     count_where (\<lambda>j. jb_tenant j = jv_tenant v \<and> jb_agent j = jv_agent v \<and> jb_status j = Queued \<and> jb_expires j > now)
       (print_jobs db)"

definition agent_in_flight :: "time \<Rightarrow> job_values \<Rightarrow> gateway_db \<Rightarrow> nat" where
  "agent_in_flight now v db =
     count_where (\<lambda>j. jb_tenant j = jv_tenant v \<and> jb_agent j = jv_agent v
                      \<and> List.member [Claimed, Printing] (jb_status j) \<and> jb_expires j > now)
       (print_jobs db)"

text \<open>
  The rest of the transaction once no job has the key: entitlements, the two queue limits, the
  rate limit of the API key, the INSERT. \<open>jsonb\<close> is what the payload column gives back for a
  value written to it.
\<close>

definition admit_and_insert ::
  "clocks \<Rightarrow> (json \<Rightarrow> json) \<Rightarrow> job_values \<Rightarrow> gateway_db \<Rightarrow> gateway_db \<times> (service_error + insert_result)" where
  "admit_and_insert c jsonb v db =
     (case enforceTenantJobEntitlements (db_now c) db (jv_tenant v) of
        Some (key, limit) \<Rightarrow> (db, Inl (EntitlementExceeded key limit))
      | None \<Rightarrow>
          let agentQueued = agent_queued (db_now c) v db; inFlightJobs = agent_in_flight (db_now c) v db in
          if agentQueued \<ge> MAX_AGENT_QUEUED_JOBS then (db, Inl (AgentQueuedJobsFull (jv_agent v) agentQueued))
          else if inFlightJobs \<ge> MAX_AGENT_IN_FLIGHT_JOBS then (db, Inl (AgentQueueFull (jv_agent v) inFlightJobs))
          else
            case (if truthy (jv_api_key v)
                  then (case charge_rate_limit (the (jv_api_key v)) (app_now c)
                               (row_by pl_key (the (jv_api_key v)) (print_job_rate_limits db)) of
                          Inl retry \<Rightarrow> Inl (PrintJobRateLimited retry)
                        | Inr l \<Rightarrow> Inr (db\<lparr>print_job_rate_limits := store_rate_limit l (print_job_rate_limits db)\<rparr>))
                  else Inr db) of
              Inl e \<Rightarrow> (db, Inl e)
            | Inr db1 \<Rightarrow>
                (case insert_job (db_now c) (v\<lparr>jv_payload := jsonb (jv_payload v)\<rparr>) db1 of
                   None \<Rightarrow> (db, Inl DatabaseError)
                 | Some db2 \<Rightarrow>
                     (db2, Inr \<lparr>ir_jobId = jv_id v, ir_status = ''queued'', ir_agentId = jv_agent v,
                                ir_printerId = jv_printer v, ir_isReused = False\<rparr>)))"

definition insertQueuedJobAtomically ::
  "(rat \<Rightarrow> string) \<Rightarrow> clocks \<Rightarrow> (json \<Rightarrow> json) \<Rightarrow> job_values \<Rightarrow> gateway_db
     \<Rightarrow> gateway_db \<times> (service_error + insert_result)" where
  "insertQueuedJobAtomically num c jsonb v db =
     (if jv_tenant v = [] \<or> length (jv_tenant v) > 128
      then (db, Inl (InputError ''tenantId is invalid'' ''INVALID_TENANT'' 400))
      else
        case (if truthy (jv_idem v) then find_first (idempotent_where v) (print_jobs db) else None) of
          Some row \<Rightarrow>
            (if stored_fingerprint num row = request_fingerprint num v
             then (db, Inr \<lparr>ir_jobId = jb_id row, ir_status = status_str (jb_status row), ir_agentId = jb_agent row,
                            ir_printerId = jb_printer row, ir_isReused = True\<rparr>)
             else (db, Inl IdempotencyConflict))
        | None \<Rightarrow> admit_and_insert c jsonb v db)"

section \<open>Creating a job\<close>

text \<open>An \<open>expiresAt\<close> option is a Date, \<^const>\<open>None\<close> inside for an invalid one.\<close>

record create_options =
  co_requestedBy :: string
  co_idempotencyKey :: "string option"
  co_tenantId :: string
  co_destination :: "string option"
  co_documentType :: "string option"
  co_expiresAt :: "time option option"
  co_rateLimitKeyId :: "string option"
  co_requestId :: "string option"

text \<open>
  What the environment supplies: clock readings in the order they are taken, what other
  transactions do to the database between the reads and the transaction, the id drawn.
\<close>

record create_env =
  ce_stale :: "js_number option"
  ce_env1 :: "gateway_db \<Rightarrow> gateway_db"
  ce_now1 :: time
  ce_now2 :: time
  ce_now3 :: time
  ce_nanoid :: string
  ce_env2 :: "gateway_db \<Rightarrow> gateway_db"
  ce_clocks :: clocks
  ce_num :: "rat \<Rightarrow> string"
  ce_jsonb :: "json \<Rightarrow> json"
  ce_env3 :: "gateway_db \<Rightarrow> gateway_db"
  ce_push :: push_input

record create_result =
  cr_id :: string
  cr_printerId :: string
  cr_agentId :: string
  cr_status :: string
  cr_isReused :: bool

definition payload_spec :: "PrintJobPayload \<Rightarrow> PayloadSpec" where
  "payload_spec p = \<lparr>ps_type = pp_type p, ps_protocol = pp_protocol p\<rparr>"

definition capable :: "printer \<Rightarrow> capable_printer" where
  "capable p = \<lparr>cp_protocol = Some (pr_protocol p), cp_connection = Some (pr_connection p), cp_capabilities = pr_capabilities p\<rparr>"

text \<open>The checks before the transaction: the values of the row to insert, or the error thrown.\<close>

definition check_printer :: "string \<Rightarrow> string \<Rightarrow> gateway_db \<Rightarrow> service_error + printer" where
  "check_printer printerId tenantId db =
     (case find_first (\<lambda>p. pr_id p = printerId \<and> pr_tenant p = tenantId) (printers db) of
        None \<Rightarrow> Inl (InputError ''Printer not found'' ''PRINTER_NOT_FOUND'' 404)
      | Some p \<Rightarrow>
          if pr_lifecycle p \<noteq> Active
          then Inl (InputError (''Printer is '' @ lifecycle_str (pr_lifecycle p)) ''PRINTER_UNAVAILABLE'' 409)
          else if isVirtualPrinterRecord (printer_like p)
          then Inl (InputError ''Printer is virtual or redirected'' ''PRINTER_VIRTUAL'' 409)
          else if pr_status p \<noteq> ''online'' then Inl (InputError ''Printer is not online'' ''PRINTER_OFFLINE'' 503)
          else Inr p)"

definition check_payload :: "json \<Rightarrow> printer \<Rightarrow> service_error + PrintJobPayload" where
  "check_payload payload p =
     (case validatePrintJobPayload payload of
        None \<Rightarrow> Inl InvalidPayload
      | Some pl \<Rightarrow>
          (case validatePayloadForPrinter (Some (payload_spec pl)) (capable p) of
             CapFail reason \<Rightarrow> Inl (CapabilityMismatch reason)
           | CapOk \<Rightarrow> Inr pl))"

definition check_agent :: "js_number option \<Rightarrow> time \<Rightarrow> printer \<Rightarrow> string \<Rightarrow> gateway_db \<Rightarrow> service_error + agent" where
  "check_agent env now p tenantId db =
     (case find_first (\<lambda>a. ag_id a = pr_agent p \<and> ag_tenant a = tenantId) (agents db) of
        None \<Rightarrow> Inl (InputError ''Printer owner agent not found'' ''AGENT_NOT_FOUND'' 404)
      | Some a \<Rightarrow>
          if ag_lifecycle a \<noteq> Active
          then Inl (InputError (''Agent is '' @ lifecycle_str (ag_lifecycle a)) ''AGENT_UNAVAILABLE'' 409)
          else if \<not> isAgentAvailableForJob env a now
          then Inl (InputError ''Printer owner agent is offline or stale'' ''AGENT_UNAVAILABLE'' 503)
          else Inr a)"

definition check_expiry :: "create_env \<Rightarrow> create_options \<Rightarrow> service_error + time" where
  "check_expiry e opts =
     (let expiresAt = (case co_expiresAt opts of Some d \<Rightarrow> d | None \<Rightarrow> Some (ce_now2 e + 60 * 60 * 1000))
      in case expiresAt of
           None \<Rightarrow> Inl (InputError ''expiresAt must be in the future'' ''INVALID_REQUEST'' 400)
         | Some t \<Rightarrow> if t \<le> ce_now3 e
                     then Inl (InputError ''expiresAt must be in the future'' ''INVALID_REQUEST'' 400) else Inr t)"

definition bind_result :: "'e + 'a \<Rightarrow> ('a \<Rightarrow> 'e + 'b) \<Rightarrow> 'e + 'b" where
  "bind_result r f = (case r of Inl e \<Rightarrow> Inl e | Inr v \<Rightarrow> f v)"

definition prepare_job ::
  "create_env \<Rightarrow> string \<Rightarrow> json \<Rightarrow> create_options \<Rightarrow> gateway_db \<Rightarrow> service_error + job_values" where
  "prepare_job e printerId payload opts db =
     (let normalizedPrinterId = js_trim printerId in
      if normalizedPrinterId = [] then Inl (InputError ''printer id is required'' ''INVALID_REQUEST'' 400)
      else
        bind_result (normalizeRequestedBy (co_requestedBy opts)) (\<lambda>requestedBy.
        bind_result (check_printer normalizedPrinterId (co_tenantId opts) db) (\<lambda>p.
        bind_result (check_payload payload p) (\<lambda>validatedPayload.
        bind_result (check_agent (ce_stale e) (ce_now1 e) p (co_tenantId opts) (ce_env1 e db)) (\<lambda>ownerAgent.
        if js_trim (co_tenantId opts) = []
        then Inl (InputError ''tenant context is required'' ''TENANT_CONTEXT_REQUIRED'' 500)
        else
          bind_result (check_expiry e opts) (\<lambda>expiresAt.
          Inr \<lparr>jv_id = ''job_'' @ ce_nanoid e, jv_tenant = co_tenantId opts, jv_api_key = co_rateLimitKeyId opts,
               jv_destination = co_destination opts, jv_doc_type = co_documentType opts,
               jv_agent = ag_id ownerAgent, jv_printer = pr_id p, jv_payload = payload_json validatedPayload,
               jv_requested_by = requestedBy, jv_request_id = co_requestId opts, jv_idem = co_idempotencyKey opts,
               jv_expires = expiresAt\<rparr>))))))"

definition createPrintJobForPrinter ::
  "create_env \<Rightarrow> string \<Rightarrow> json \<Rightarrow> create_options \<Rightarrow> ws_registry \<Rightarrow> gateway_db
     \<Rightarrow> gateway_db \<times> ws_registry \<times> (service_error + create_result)" where
  "createPrintJobForPrinter e printerId payload opts reg db =
     (let db1 = ce_env1 e db in
      case prepare_job e printerId payload opts db of
        Inl err \<Rightarrow> (db1, reg, Inl err)
      | Inr v \<Rightarrow>
          (case insertQueuedJobAtomically (ce_num e) (ce_clocks e) (ce_jsonb e) v (ce_env2 e db1) of
             (db2, Inl err) \<Rightarrow> (db2, reg, Inl err)
           | (db2, Inr r) \<Rightarrow>
               if ir_isReused r
               then (db2, reg, Inr \<lparr>cr_id = ir_jobId r, cr_printerId = ir_printerId r, cr_agentId = ir_agentId r,
                                   cr_status = ir_status r, cr_isReused = True\<rparr>)
               else
                 (case claimAndPushJobToAgent (ce_push e) (ir_jobId r) (jv_agent v) reg (ce_env3 e db2) of
                    (db3, reg3, _) \<Rightarrow>
                      (db3, reg3, Inr \<lparr>cr_id = ir_jobId r, cr_printerId = jv_printer v, cr_agentId = jv_agent v,
                                      cr_status = ''queued'', cr_isReused = False\<rparr>))))"

end
