(* ===== verification/Admission.thy ===== *)
theory Admission
  imports Print_Service
begin

text \<open>
  What the admission of \<^theory_text>\<open>Print_Service\<close> guarantees: replays of an idempotency key,
  the limits an admitted job leaves behind, the rate of one API key, and what is known of the
  printer, agent and payload of a created job.
\<close>

section \<open>One job over a run\<close>

lemma run_same_job:
  assumes "db_ok db" and "p \<in> set (print_jobs db)" and "inserted (jb_id p) ops db = 0"
    and "q \<in> set (print_jobs (run_ops ops db))" and "jb_id q = jb_id p"
  shows "same_job p q"
  using assms
proof (induction ops arbitrary: db p)
  case Nil
  then show ?case using jobs_ok_same [of "print_jobs db" p q] by (simp add: db_ok_def)
next
  case (Cons op ops)
  let ?db1 = "fst (exec op db)"
  have ok: "db_ok ?db1" using exec_ok [OF Cons.prems(1) surjective_pairing] by simp
  show ?case
  proof (cases "has_job (jb_id p) ?db1")
    case True
    then obtain p1 where p1: "p1 \<in> set (print_jobs ?db1)" "jb_id p1 = jb_id p" by (auto simp: has_job_iff)
    have "same_job p p1"
      using exec_present [OF Cons.prems(1,2) p1] by (simp add: row_step_def split: if_splits)
    moreover have "same_job p1 q"
      using Cons.IH [OF ok p1(1)] Cons.prems(3,4,5) p1(2) by simp
    ultimately show ?thesis by (simp add: same_job_def)
  next
    case False
    have gone: "\<not> has_job (jb_id p) (run_ops os d)" if "\<not> has_job (jb_id p) d" "inserted (jb_id p) os d = 0" for os d
      using that by (induction os arbitrary: d) (auto split: if_splits)
    have "\<not> has_job (jb_id p) (run_ops ops ?db1)"
      using gone [OF False] Cons.prems(3) by simp
    then show ?thesis using Cons.prems(4,5) by (auto simp: has_job_iff)
  qed
qed

section \<open>Idempotency\<close>

lemma payload_json_plain: "number_free (payload_json p)" "keys_distinct (payload_json p)"
proof -
  have ph: "number_free (peripherals_json ph) \<and> keys_distinct (peripherals_json ph)" for ph
    by (cases "ph_drawer ph"; cases "ph_cutter ph"; cases "ph_buzzer ph")
      (simp_all add: peripherals_json_def opt_entry_def)
  show "number_free (payload_json p)" "keys_distinct (payload_json p)"
    by (cases "pp_protocol p"; cases "pp_peripherals p"; simp add: payload_json_def opt_entry_def ph)+
qed

text \<open>Where the idempotency index holds, the row with a key is the only one.\<close>

lemma idempotent_row:
  assumes u: "idempotency_unique t" and q: "q \<in> set t" "idempotent_where v q" and k: "truthy (jv_idem v)"
  shows "find_first (idempotent_where v) t = Some q"
proof -
  obtain r where r: "find_first (idempotent_where v) t = Some r"
    using q by (cases "find_first (idempotent_where v) t") (auto simp: find_first_None_iff)
  then have rt: "r \<in> set t" "idempotent_where v r" by (auto dest: find_first_Some_iff)
  have "jb_idem r \<noteq> None" "jb_idem q \<noteq> None" "(jb_api_key r, jb_idem r) = (jb_api_key q, jb_idem q)"
    using rt(2) q(2) k by (cases "jv_idem v"; auto simp: idempotent_where_def split: if_splits)+
  then have "r = q"
    using u rt(1) q(1) unfolding idempotency_unique_def distinct_map by (auto dest: inj_onD)
  then show ?thesis using r by simp
qed

text \<open>What a successful insertion did. The counters of the rate limit are no part of the constraints.\<close>

lemma insert_allowed_counters [simp]:
  "insert_allowed now v (db\<lparr>print_job_rate_limits := ls\<rparr>) = insert_allowed now v db"
  by (simp add: insert_allowed_def agent_exists_def printer_exists_def api_key_exists_def split: option.splits)

lemma admitted_db:
  assumes "admit_and_insert c jsonb v db = (db', Inr r)"
  shows "print_jobs db' = print_jobs db @ [queued_row (db_now c) (v\<lparr>jv_payload := jsonb (jv_payload v)\<rparr>)]
    \<and> insert_allowed (db_now c) (v\<lparr>jv_payload := jsonb (jv_payload v)\<rparr>) db
    \<and> r = \<lparr>ir_jobId = jv_id v, ir_status = ''queued'', ir_agentId = jv_agent v, ir_printerId = jv_printer v, ir_isReused = False\<rparr>
    \<and> agent_queued (db_now c) v db < 1000 \<and> agent_in_flight (db_now c) v db < 500
    \<and> enforceTenantJobEntitlements (db_now c) db (jv_tenant v) = None
    \<and> (if truthy (jv_api_key v)
       then \<exists>l. charge_rate_limit (the (jv_api_key v)) (app_now c) (row_by pl_key (the (jv_api_key v)) (print_job_rate_limits db)) = Inr l
              \<and> print_job_rate_limits db' = store_rate_limit l (print_job_rate_limits db)
       else print_job_rate_limits db' = print_job_rate_limits db)"
  using assms
  by (auto simp: admit_and_insert_def insert_job_def Let_def MAX_AGENT_QUEUED_JOBS_def MAX_AGENT_IN_FLIGHT_JOBS_def
    split: option.splits sum.splits if_splits prod.splits)

lemma fresh_insert:
  assumes "insertQueuedJobAtomically num c jsonb v db = (db', Inr r)" and "\<not> ir_isReused r"
  shows "admit_and_insert c jsonb v db = (db', Inr r)"
    and "truthy (jv_idem v) \<Longrightarrow> find_first (idempotent_where v) (print_jobs db) = None"
    and "jv_tenant v \<noteq> []" and "length (jv_tenant v) \<le> 128"
  using assms by (auto simp: insertQueuedJobAtomically_def split: if_splits option.splits)

lemma queued_row_simps [simp]:
  "jb_id (queued_row now v) = jv_id v" "jb_tenant (queued_row now v) = jv_tenant v"
  "jb_api_key (queued_row now v) = jv_api_key v" "jb_idem (queued_row now v) = jv_idem v"
  "jb_printer (queued_row now v) = jv_printer v" "jb_agent (queued_row now v) = jv_agent v"
  "jb_destination (queued_row now v) = jv_destination v" "jb_doc_type (queued_row now v) = jv_doc_type v"
  "jb_payload (queued_row now v) = jv_payload v" "jb_status (queued_row now v) = Queued"
  "jb_expires (queued_row now v) = jv_expires v" "jb_created (queued_row now v) = now"
  by (simp_all add: queued_row_def)

text \<open>After any run the row of an admitted job is the one its key finds, and it still carries the request's fingerprint.\<close>

lemma replay_row:
  assumes jsonb: "\<And>w. json_eqv w (jsonb w)"
    and first: "insertQueuedJobAtomically num c jsonb v db = (db1, Inr r)" "\<not> ir_isReused r"
    and payload: "jv_payload v = payload_json p"
    and run: "db_ok db1" "inserted (jv_id v) ops db1 = 0" "has_job (jv_id v) (run_ops ops db1)"
      "idempotency_unique (print_jobs (run_ops ops db1))"
    and key: "truthy (jv_idem v)" "jv_idem v' = jv_idem v" "jv_tenant v' = jv_tenant v" "jv_api_key v' = jv_api_key v"
      "jv_api_key v \<noteq> Some []"
  obtains q where "q \<in> set (print_jobs (run_ops ops db1))" and "jb_id q = jv_id v"
    and "same_job (queued_row (db_now c) (v\<lparr>jv_payload := jsonb (jv_payload v)\<rparr>)) q"
    and "find_first (idempotent_where v') (print_jobs (run_ops ops db1)) = Some q"
    and "\<forall>printerId documentType destination pl.
      stored_fingerprint num q = idempotencyFingerprint num printerId documentType destination (payload_json pl)
      \<longleftrightarrow> printerId = jv_printer v \<and> fingerprint_type documentType = fingerprint_type (jv_doc_type v)
          \<and> fingerprint_destination destination = fingerprint_destination (jv_destination v)
          \<and> canonicalize (payload_json pl) = canonicalize (jv_payload v)"
proof -
  note fresh = fresh_insert [OF first]
  let ?row = "queued_row (db_now c) (v\<lparr>jv_payload := jsonb (jv_payload v)\<rparr>)"
  have row: "?row \<in> set (print_jobs db1)" using admitted_db [OF fresh(1)] by simp
  obtain q where q: "q \<in> set (print_jobs (run_ops ops db1))" "jb_id q = jv_id v"
    using run(3) by (auto simp: has_job_iff)
  have same: "same_job ?row q"
    using run_same_job [OF run(1) row _ q(1)] run(2) q(2) by simp
  then have w: "idempotent_where v' q"
    using key by (auto simp: idempotent_where_def same_job_def split: if_splits elim: truthy.elims)
  have found: "find_first (idempotent_where v') (print_jobs (run_ops ops db1)) = Some q"
    by (rule idempotent_row [OF run(4) q(1) w]) (simp add: key)
  have "stored_fingerprint num q
      = idempotencyFingerprint num (jv_printer v) (jv_doc_type v) (jv_destination v) (jsonb (jv_payload v))"
    using same by (simp add: stored_fingerprint_def same_job_def)
  also have "\<dots> = idempotencyFingerprint num (jv_printer v) (jv_doc_type v) (jv_destination v) (jv_payload v)"
    using canonical_eqv [OF jsonb [of "jv_payload v"]] payload payload_json_plain
    by (simp add: idempotencyFingerprint_def)
  finally have fp: "stored_fingerprint num q
      = idempotencyFingerprint num (jv_printer v) (jv_doc_type v) (jv_destination v) (jv_payload v)" .
  have "stored_fingerprint num q = idempotencyFingerprint num printerId documentType destination (payload_json pl)
      \<longleftrightarrow> printerId = jv_printer v \<and> fingerprint_type documentType = fingerprint_type (jv_doc_type v)
          \<and> fingerprint_destination destination = fingerprint_destination (jv_destination v)
          \<and> canonicalize (payload_json pl) = canonicalize (jv_payload v)" for printerId documentType destination pl
    unfolding fp using fingerprint_eq_iff [of "jv_payload v" "payload_json pl"] payload payload_json_plain by auto
  then show ?thesis using that [OF q same found] by blast
qed

text \<open>C19. An idempotency key names one job for as long as it exists. After a job was admitted under a
  key, and whatever operations ran since on the table, a request of the same tenant with the same key
  is answered with that job, unchanged in identity and in its current status, if it asks for the same
  printer, document type, destination and payload (up to case and blanks, and the key order the
  database chose), and with a conflict otherwise; neither writes anything.\<close>

theorem idempotent_replay:
  assumes jsonb: "\<And>w. json_eqv w (jsonb w)"
    and first: "insertQueuedJobAtomically num c jsonb v db = (db1, Inr r)" "\<not> ir_isReused r"
    and payload: "jv_payload v = payload_json p" "jv_payload v' = payload_json p'"
    and run: "db_ok db1" "inserted (jv_id v) ops db1 = 0" "has_job (jv_id v) (run_ops ops db1)"
      "idempotency_unique (print_jobs (run_ops ops db1))"
    and key: "truthy (jv_idem v)" "jv_idem v' = jv_idem v" "jv_tenant v' = jv_tenant v" "jv_api_key v' = jv_api_key v"
      "jv_api_key v \<noteq> Some []"
  shows "\<exists>q \<in> set (print_jobs (run_ops ops db1)). jb_id q = jv_id v
    \<and> insertQueuedJobAtomically num c' jsonb v' (run_ops ops db1)
      = (run_ops ops db1,
         if jv_printer v' = jv_printer v \<and> fingerprint_type (jv_doc_type v') = fingerprint_type (jv_doc_type v)
            \<and> fingerprint_destination (jv_destination v') = fingerprint_destination (jv_destination v)
            \<and> canonicalize (jv_payload v') = canonicalize (jv_payload v)
         then Inr \<lparr>ir_jobId = jv_id v, ir_status = status_str (jb_status q), ir_agentId = jv_agent v,
                   ir_printerId = jv_printer v, ir_isReused = True\<rparr>
         else Inl IdempotencyConflict)"
proof -
  note fresh = fresh_insert [OF first]
  obtain q where q: "q \<in> set (print_jobs (run_ops ops db1))" "jb_id q = jv_id v"
    and same: "same_job (queued_row (db_now c) (v\<lparr>jv_payload := jsonb (jv_payload v)\<rparr>)) q"
    and found: "find_first (idempotent_where v') (print_jobs (run_ops ops db1)) = Some q"
    and fp: "\<forall>printerId documentType destination pl.
      stored_fingerprint num q = idempotencyFingerprint num printerId documentType destination (payload_json pl)
      \<longleftrightarrow> printerId = jv_printer v \<and> fingerprint_type documentType = fingerprint_type (jv_doc_type v)
          \<and> fingerprint_destination destination = fingerprint_destination (jv_destination v)
          \<and> canonicalize (payload_json pl) = canonicalize (jv_payload v)"
    by (rule replay_row [OF jsonb first payload(1) run key])
  show ?thesis
    using found fresh(3,4) same q key payload(2)
    by (intro bexI [of _ q]) (simp_all add: insertQueuedJobAtomically_def request_fingerprint_def fp [rule_format] same_job_def)
qed

definition till_request :: job_values where
  "till_request = shop_job\<lparr>jv_payload := payload_json receipt_payload\<rparr>"

definition till_clocks :: clocks where "till_clocks = \<lparr>db_now = 0, app_now = 0\<rparr>"

definition till_insert :: "gateway_db \<times> (service_error + insert_result)" where
  "till_insert = insertQueuedJobAtomically (\<lambda>_. '''') till_clocks id till_request shop_db"

lemma till_inserted:
  "till_insert = (fst till_insert, Inr \<lparr>ir_jobId = ''j1'', ir_status = ''queued'', ir_agentId = ''a1'', ir_printerId = ''p1'', ir_isReused = False\<rparr>)"
  by code_simp

lemma till_first:
  "insertQueuedJobAtomically (\<lambda>_. '''') till_clocks id till_request shop_db
     = (fst till_insert, Inr \<lparr>ir_jobId = ''j1'', ir_status = ''queued'', ir_agentId = ''a1'', ir_printerId = ''p1'', ir_isReused = False\<rparr>)"
  using till_inserted unfolding till_insert_def .

lemma till_table: "print_jobs (fst till_insert) = [queued_row 0 till_request]"
  using admitted_db [OF fresh_insert(1) [OF till_first]]
  by (simp add: till_clocks_def shop_db_def empty_db_def till_request_def)

definition till_ops :: "db_op list" where
  "till_ops = [shop_claim ''x'', Op_Delivered \<lparr>db_now = 2, app_now = 2\<rparr> ''j1'' ''a1'' (Some ''x'')]"

theorem idempotent_replay_witness:
  "\<exists>q \<in> set (print_jobs (run_ops till_ops (fst till_insert))). jb_status q = Claimed
     \<and> insertQueuedJobAtomically (\<lambda>_. '''') till_clocks id (till_request\<lparr>jv_id := ''j2'', jv_doc_type := Some '' ''\<rparr>)
         (run_ops till_ops (fst till_insert))
       = (run_ops till_ops (fst till_insert),
          Inr \<lparr>ir_jobId = ''j1'', ir_status = ''claimed'', ir_agentId = ''a1'', ir_printerId = ''p1'', ir_isReused = True\<rparr>)"
proof -
  have ok: "db_ok (fst till_insert)"
    by (simp add: db_ok_def jobs_ok_def unique_by_def till_table)
  have facts: "inserted ''j1'' till_ops (fst till_insert) = 0" "has_job ''j1'' (run_ops till_ops (fst till_insert))"
    "idempotency_unique (print_jobs (run_ops till_ops (fst till_insert)))"
    "map jb_status (print_jobs (run_ops till_ops (fst till_insert))) = [Claimed]"
    by code_simp+
  obtain q where q: "print_jobs (run_ops till_ops (fst till_insert)) = [q]" "jb_status q = Claimed"
    using facts(4) by auto
  have same: "fingerprint_type (Some '' '') = fingerprint_type None" by code_simp
  let ?v' = "till_request\<lparr>jv_id := ''j2'', jv_doc_type := Some '' ''\<rparr>"
  have "\<exists>q \<in> set (print_jobs (run_ops till_ops (fst till_insert))). jb_id q = jv_id till_request
    \<and> insertQueuedJobAtomically (\<lambda>_. '''') till_clocks id ?v' (run_ops till_ops (fst till_insert))
      = (run_ops till_ops (fst till_insert),
         if jv_printer ?v' = jv_printer till_request
            \<and> fingerprint_type (jv_doc_type ?v') = fingerprint_type (jv_doc_type till_request)
            \<and> fingerprint_destination (jv_destination ?v') = fingerprint_destination (jv_destination till_request)
            \<and> canonicalize (jv_payload ?v') = canonicalize (jv_payload till_request)
         then Inr \<lparr>ir_jobId = jv_id till_request, ir_status = status_str (jb_status q), ir_agentId = jv_agent till_request,
                   ir_printerId = jv_printer till_request, ir_isReused = True\<rparr>
         else Inl IdempotencyConflict)"
    by (rule idempotent_replay [OF _ till_first, of receipt_payload ?v' receipt_payload till_ops])
      (use ok facts in \<open>simp_all add: till_request_def shop_job_def eqv_refl\<close>)
  then show ?thesis
    using q by (simp add: till_request_def shop_job_def same)
qed

section \<open>Limits\<close>

lemma count_append_one: "count_where P (t @ [r]) \<le> count_where P t + 1"
  by (simp add: count_where_def)

lemma count_append_not: "\<not> P r \<Longrightarrow> count_where P (t @ [r]) = count_where P t"
  by (simp add: count_where_def)

lemma charged_counts:
  "charge_rate_limit k now (row_by pl_key k t) = Inr l
     \<Longrightarrow> pl_key l = k \<and> pl_minute_count l \<le> 60 \<and> pl_hour_count l \<le> 1000"
  by (auto simp: charge_rate_limit_def Let_def PRINT_JOB_RATE_LIMIT_PER_MINUTE_def PRINT_JOB_RATE_LIMIT_PER_HOUR_def
    split: option.splits if_splits dest!: row_by_Some)

lemma stored_row: "l \<in> set (store_rate_limit l t)"
proof (cases "row_by pl_key (pl_key l) t")
  case (Some r)
  then have "r \<in> set t \<and> pl_key r = pl_key l" by (rule row_by_Some)
  then show ?thesis by (auto simp: store_rate_limit_def Some set_update_where)
qed (simp add: store_rate_limit_def)

lemma job_entitlements_hold:
  "enforceTenantJobEntitlements now db t = None \<Longrightarrow>
     (\<forall>k. getTenantEntitlementLimit db t ''max_jobs_per_minute'' = Some k \<longrightarrow> int (recent_jobs now t db) < k)
     \<and> (\<forall>k. getTenantEntitlementLimit db t ''max_concurrent_jobs'' = Some k \<longrightarrow> int (concurrent_jobs now t db) < k)"
  by (auto simp: enforceTenantJobEntitlements_def split: option.splits if_splits)

text \<open>C21. Admission holds every limit: when a job is admitted, afterwards its agent has at most 1000
  queued and fewer than 500 jobs in flight, the tenant is within its plan's jobs per minute and
  concurrent jobs, and the API key's counters stand at 60 per minute and 1000 per hour at most.\<close>

theorem admission_limits:
  assumes "insertQueuedJobAtomically num c jsonb v db = (db', Inr r)" and "\<not> ir_isReused r"
  shows "agent_queued (db_now c) v db' \<le> 1000 \<and> agent_in_flight (db_now c) v db' < 500
    \<and> (\<forall>k. getTenantEntitlementLimit db (jv_tenant v) ''max_jobs_per_minute'' = Some k
           \<longrightarrow> int (recent_jobs (db_now c) (jv_tenant v) db') \<le> k)
    \<and> (\<forall>k. getTenantEntitlementLimit db (jv_tenant v) ''max_concurrent_jobs'' = Some k
           \<longrightarrow> int (concurrent_jobs (db_now c) (jv_tenant v) db') \<le> k)
    \<and> (truthy (jv_api_key v) \<longrightarrow> (\<exists>l \<in> set (print_job_rate_limits db').
           Some (pl_key l) = jv_api_key v \<and> pl_minute_count l \<le> 60 \<and> pl_hour_count l \<le> 1000))"
proof -
  note adm = admitted_db [OF fresh_insert(1) [OF assms]]
  let ?row = "queued_row (db_now c) (v\<lparr>jv_payload := jsonb (jv_payload v)\<rparr>)"
  have t: "print_jobs db' = print_jobs db @ [?row]" using adm by blast
  have "agent_queued (db_now c) v db' \<le> agent_queued (db_now c) v db + 1"
    unfolding agent_queued_def t by (rule count_append_one)
  moreover have "agent_in_flight (db_now c) v db' = agent_in_flight (db_now c) v db"
    unfolding agent_in_flight_def t by (rule count_append_not) simp
  moreover have "recent_jobs (db_now c) (jv_tenant v) db' \<le> recent_jobs (db_now c) (jv_tenant v) db + 1"
    unfolding recent_jobs_def t by (rule count_append_one)
  moreover have "concurrent_jobs (db_now c) (jv_tenant v) db' \<le> concurrent_jobs (db_now c) (jv_tenant v) db + 1"
    unfolding concurrent_jobs_def t by (rule count_append_one)
  moreover have "\<exists>l \<in> set (print_job_rate_limits db'). Some (pl_key l) = jv_api_key v \<and> pl_minute_count l \<le> 60 \<and> pl_hour_count l \<le> 1000"
    if k: "truthy (jv_api_key v)"
  proof -
    obtain l where l: "charge_rate_limit (the (jv_api_key v)) (app_now c) (row_by pl_key (the (jv_api_key v)) (print_job_rate_limits db)) = Inr l"
      "print_job_rate_limits db' = store_rate_limit l (print_job_rate_limits db)"
      using adm k by auto
    show ?thesis using charged_counts [OF l(1)] k stored_row [of l "print_job_rate_limits db"]
      by (cases "jv_api_key v") (auto simp: l(2))
  qed
  ultimately show ?thesis
    using adm job_entitlements_hold [of "db_now c" db "jv_tenant v"] by fastforce
qed

definition till_key :: api_key where
  "till_key = \<lparr>ak_id = ''key'', ak_tenant = ''t1'', ak_scope = ''standard'', ak_name = ''till'', ak_description = None,
     ak_hash = ''hash'', ak_doc_types = None, ak_created = 0, ak_last_used = None, ak_revoked = None\<rparr>"

definition starter_plan :: gateway_db where
  "starter_plan = shop_db\<lparr>plans := [\<lparr>pn_id = ''starter'', pn_entitlements = [(''max_concurrent_jobs'', jint 1)]\<rparr>],
     tenant_subscriptions := [\<lparr>ts_tenant = ''t1'', ts_plan = ''starter'', ts_status = ''active''\<rparr>],
     api_keys := [till_key]\<rparr>"

definition keyed_request :: job_values where
  "keyed_request = till_request\<lparr>jv_api_key := Some ''key''\<rparr>"

definition starter_insert :: "gateway_db \<times> (service_error + insert_result)" where
  "starter_insert = insertQueuedJobAtomically (\<lambda>_. '''') till_clocks id keyed_request starter_plan"

theorem admission_limits_witness:
  "int (concurrent_jobs 0 ''t1'' (fst starter_insert)) \<le> 1
   \<and> (\<exists>l \<in> set (print_job_rate_limits (fst starter_insert)). pl_key l = ''key'' \<and> pl_minute_count l \<le> 60)
   \<and> snd (insertQueuedJobAtomically (\<lambda>_. '''') till_clocks id (keyed_request\<lparr>jv_id := ''j2'', jv_idem := None\<rparr>) (fst starter_insert))
      = Inl (EntitlementExceeded ''max_concurrent_jobs'' 1)"
proof -
  have i: "insertQueuedJobAtomically (\<lambda>_. '''') till_clocks id keyed_request starter_plan
      = (fst starter_insert, Inr \<lparr>ir_jobId = ''j1'', ir_status = ''queued'', ir_agentId = ''a1'', ir_printerId = ''p1'', ir_isReused = False\<rparr>)"
    unfolding starter_insert_def by code_simp
  have p: "getTenantEntitlementLimit starter_plan ''t1'' ''max_concurrent_jobs'' = Some 1" by code_simp
  have k: "jv_api_key keyed_request = Some ''key''" "jv_tenant keyed_request = ''t1''" "db_now till_clocks = 0"
    by code_simp+
  have "snd (insertQueuedJobAtomically (\<lambda>_. '''') till_clocks id (keyed_request\<lparr>jv_id := ''j2'', jv_idem := None\<rparr>) (fst starter_insert))
      = Inl (EntitlementExceeded ''max_concurrent_jobs'' 1)"
    by code_simp
  then show ?thesis
    using admission_limits [OF i] p k by auto
qed

section \<open>Errors\<close>

lemma refused_unchanged:
  "insertQueuedJobAtomically num c jsonb v db = (db', Inl err) \<Longrightarrow> db' = db"
  by (auto simp: insertQueuedJobAtomically_def admit_and_insert_def Let_def split: if_splits option.splits sum.splits)

lemma database_error_cause:
  assumes "admit_and_insert c jsonb v db = (db', Inl DatabaseError)"
  shows "\<not> insert_allowed (db_now c) (v\<lparr>jv_payload := jsonb (jv_payload v)\<rparr>) db"
  using assms
  by (auto simp: admit_and_insert_def insert_job_def Let_def split: if_splits option.splits sum.splits)

text \<open>The CHECK does not see the order in which \<open>jsonb\<close> lists the keys.\<close>

lemma rel_json_text: "rel_option json_eqv (jget v k) (jget w k) \<Longrightarrow> json_text v k = json_text w k"
  by (cases "jget v k"; cases "jget w k") (auto simp: json_text_def elim: json_eqv.cases)

lemma map_of_rel: "list_all2 (\<lambda>e f. fst e = fst f \<and> R (snd e) (snd f)) es fs \<Longrightarrow> rel_option R (map_of es k) (map_of fs k)"
  by (induction rule: list_all2_induct) auto

lemma object_entries_eqv:
  assumes "json_eqv (JObj es) w" and "distinct (map fst es)"
  shows "\<exists>gs. w = JObj gs \<and> rel_option json_eqv (map_of es k) (map_of gs k)"
  using assms(1)
proof (cases rule: json_eqv.cases)
  case eqv_refl
  then show ?thesis by (auto intro: option.rel_refl json_eqv.eqv_refl)
next
  case (eqv_obj fs gs)
  have "map fst es = map fst fs"
    using eqv_obj(2) by (induction rule: list_all2_induct) auto
  then have "distinct (map fst fs)" using assms(2) by simp
  moreover have "mset (map fst fs) = mset (map fst gs)" using eqv_obj(3) by simp
  ultimately have "distinct (map fst fs) \<and> distinct (map fst gs)" by (metis mset_eq_imp_distinct_iff)
  then have "map_of fs = map_of gs"
    using mset_eq_setD [OF eqv_obj(3)] map_of_inject_set by blast
  then show ?thesis using map_of_rel [of json_eqv es fs k] eqv_obj(1,2) by auto
qed

lemma contract_check_eqv:
  assumes "json_eqv v w" and "keys_distinct v" and "payload_contract_check v"
  shows "payload_contract_check w"
proof -
  obtain es where v: "v = JObj es" using assms(3) by (cases v) (simp_all add: payload_contract_check_def)
  have rel: "\<exists>gs. w = JObj gs \<and> rel_option json_eqv (map_of es k) (map_of gs k)" for k
    using object_entries_eqv [of es w k] assms(1,2) by (simp add: v)
  then obtain gs where w: "w = JObj gs" by blast
  have "json_text v k = json_text w k" for k
    using rel [of k] by (intro rel_json_text) (auto simp: v w jprop_def)
  then show ?thesis using assms(3) by (simp add: payload_contract_check_def v w)
qed

lemma idempotency_extend:
  assumes "idempotency_unique t" and "\<not> idempotency_unique (t @ [r])"
  shows "jb_idem r \<noteq> None \<and> (\<exists>j \<in> set t. jb_idem j = jb_idem r \<and> jb_api_key j = jb_api_key r)"
  using assms by (auto simp: idempotency_unique_def split: if_splits)

text \<open>The reason of each refusal, read from the state the transaction ran on.\<close>

definition refusal_reason :: "clocks \<Rightarrow> job_values \<Rightarrow> gateway_db \<Rightarrow> service_error \<Rightarrow> bool" where
  "refusal_reason c v db err \<longleftrightarrow>
     (case err of
        InputError _ _ _ \<Rightarrow> jv_tenant v = [] \<or> length (jv_tenant v) > 128
      | IdempotencyConflict \<Rightarrow>
          (\<exists>j \<in> set (print_jobs db). jb_tenant j = jv_tenant v \<and> jb_idem j = jv_idem v \<and> jb_api_key j = jv_api_key v
            \<and> \<not> (jb_printer j = jv_printer v \<and> jb_doc_type j = jv_doc_type v \<and> jb_destination j = jv_destination v
                 \<and> json_eqv (jv_payload v) (jb_payload j)))
      | EntitlementExceeded key limit \<Rightarrow>
          getTenantEntitlementLimit db (jv_tenant v) key = Some limit
          \<and> (key = ''max_jobs_per_minute'' \<and> int (recent_jobs (db_now c) (jv_tenant v) db) \<ge> limit
             \<or> key = ''max_concurrent_jobs'' \<and> int (concurrent_jobs (db_now c) (jv_tenant v) db) \<ge> limit)
      | AgentQueuedJobsFull a n \<Rightarrow> a = jv_agent v \<and> n = agent_queued (db_now c) v db \<and> n \<ge> 1000
      | AgentQueueFull a n \<Rightarrow> a = jv_agent v \<and> n = agent_in_flight (db_now c) v db \<and> n \<ge> 500
      | PrintJobRateLimited s \<Rightarrow>
          (\<exists>l \<in> set (print_job_rate_limits db). jv_api_key v = Some (pl_key l)
            \<and> (pl_minute_count l \<ge> 60 \<and> app_now c - pl_minute_started l < 60000
               \<or> pl_hour_count l \<ge> 1000 \<and> app_now c - pl_hour_started l < 3600000)
            \<and> (pl_minute_started l \<le> app_now c \<and> pl_hour_started l \<le> app_now c
               \<longrightarrow> (\<exists>l'. charge_rate_limit (pl_key l) (app_now c + 1000 * s) (Some l) = Inr l')))
      | DatabaseError \<Rightarrow>
          has_job (jv_id v) db
          \<or> (\<exists>j \<in> set (print_jobs db). jv_idem v \<noteq> None \<and> jb_idem j = jv_idem v \<and> jb_api_key j = jv_api_key v
               \<and> (jv_idem v = Some [] \<or> jv_api_key v = None \<and> jb_tenant j \<noteq> jv_tenant v))
          \<or> \<not> agent_exists (jv_tenant v) (jv_agent v) db
          \<or> \<not> printer_exists (jv_tenant v) (jv_printer v) db
          \<or> \<not> api_key_exists (jv_tenant v) (jv_api_key v) db
      | _ \<Rightarrow> False)"

lemma retry_after_suffices:
  assumes "charge_rate_limit k now (Some l) = Inl s"
  shows "(pl_minute_count l \<ge> 60 \<and> now - pl_minute_started l < 60000
          \<or> pl_hour_count l \<ge> 1000 \<and> now - pl_hour_started l < 3600000)
    \<and> (pl_minute_started l \<le> now \<and> pl_hour_started l \<le> now
       \<longrightarrow> (\<exists>l'. charge_rate_limit k (now + 1000 * s) (Some l) = Inr l'))"
proof -
  have wait: "window \<le> elapsed + 1000 * s" if "retry_seconds window elapsed \<le> s" "0 \<le> s" "0 \<le> elapsed" for window elapsed
  proof (cases "elapsed \<ge> window")
    case False
    then have "(of_int (window - elapsed) :: rat) / 1000 \<le> of_int s"
      using that(1) by (simp add: retry_seconds_def ceiling_le_iff)
    then have "(of_int (window - elapsed) :: rat) \<le> of_int (1000 * s)" by simp
    then show ?thesis by (simp only: of_int_le_iff)
  qed (use that in simp)
  obtain m h where m: "m = max 0 (now - pl_minute_started l)" and h: "h = max 0 (now - pl_hour_started l)" by simp
  obtain mc hc where mc: "mc = (if m \<ge> 60000 then 1 else pl_minute_count l + 1)"
    and hc: "hc = (if h \<ge> 3600000 then 1 else pl_hour_count l + 1)" by simp
  have "mc > 60 \<or> hc > 1000" and s: "s = max 1 (max (retry_seconds 60000 m) (retry_seconds 3600000 h))"
    using assms unfolding charge_rate_limit_def option.case Let_def m [symmetric] h [symmetric] mc [symmetric] hc [symmetric]
      PRINT_JOB_RATE_LIMIT_PER_MINUTE_def PRINT_JOB_RATE_LIMIT_PER_HOUR_def
    by (simp_all split: if_split_asm)
  then have "pl_minute_count l \<ge> 60 \<and> m < 60000 \<or> pl_hour_count l \<ge> 1000 \<and> h < 3600000"
    unfolding mc hc by (simp split: if_split_asm) linarith
  moreover have "\<exists>l'. charge_rate_limit k (now + 1000 * s) (Some l) = Inr l'"
    if "pl_minute_started l \<le> now" "pl_hour_started l \<le> now"
  proof -
    have "retry_seconds 60000 m \<le> s" "retry_seconds 3600000 h \<le> s" "0 \<le> s" "0 \<le> m" "0 \<le> h"
      by (simp_all add: s m h)
    then have "60000 \<le> m + 1000 * s" "3600000 \<le> h + 1000 * s" using wait by blast+
    moreover have "m = now - pl_minute_started l" "h = now - pl_hour_started l" using that by (simp_all add: m h)
    ultimately have "60000 \<le> max 0 (now + 1000 * s - pl_minute_started l)" "3600000 \<le> max 0 (now + 1000 * s - pl_hour_started l)"
      by simp_all
    then show ?thesis
      unfolding charge_rate_limit_def option.case Let_def
      by (simp only: if_True PRINT_JOB_RATE_LIMIT_PER_MINUTE_def PRINT_JOB_RATE_LIMIT_PER_HOUR_def) simp
  qed
  ultimately show ?thesis using m h by simp
qed

lemma admission_reason:
  assumes "admit_and_insert c jsonb v db = (db', Inl err)"
  shows "err = DatabaseError \<or> refusal_reason c v db err"
proof (cases "enforceTenantJobEntitlements (db_now c) db (jv_tenant v)")
  case (Some e)
  then obtain key limit where e: "e = (key, limit)" "err = EntitlementExceeded key limit"
    using assms by (cases e) (simp add: admit_and_insert_def)
  then show ?thesis
    using Some by (auto simp: refusal_reason_def enforceTenantJobEntitlements_def split: option.splits if_splits)
next
  case None
  show ?thesis
  proof (cases "agent_queued (db_now c) v db \<ge> 1000 \<or> agent_in_flight (db_now c) v db \<ge> 500")
    case True
    then show ?thesis
      using assms None by (auto simp: admit_and_insert_def refusal_reason_def Let_def MAX_AGENT_QUEUED_JOBS_def
          MAX_AGENT_IN_FLIGHT_JOBS_def split: if_splits)
  next
    case False
    show ?thesis
    proof (cases "err = DatabaseError")
      case err: False
      then obtain s where s: "truthy (jv_api_key v)" "err = PrintJobRateLimited s"
          "charge_rate_limit (the (jv_api_key v)) (app_now c)
             (row_by pl_key (the (jv_api_key v)) (print_job_rate_limits db)) = Inl s"
        using assms None False by (auto simp: admit_and_insert_def Let_def MAX_AGENT_QUEUED_JOBS_def
            MAX_AGENT_IN_FLIGHT_JOBS_def split: if_splits option.splits sum.splits)
      obtain k where k: "jv_api_key v = Some k" using s(1) by (cases "jv_api_key v") auto
      obtain l where l: "row_by pl_key k (print_job_rate_limits db) = Some l"
        using s(3) k by (cases "row_by pl_key k (print_job_rate_limits db)") (simp_all add: charge_rate_limit_def)
      have "l \<in> set (print_job_rate_limits db) \<and> pl_key l = k" by (rule row_by_Some [OF l])
      then show ?thesis
        using retry_after_suffices [of k "app_now c" l s] s k l by (auto simp: refusal_reason_def)
    qed simp
  qed
qed

lemma conflict_reason:
  assumes "find_first (idempotent_where v) (print_jobs db) = Some j"
    and "stored_fingerprint num j \<noteq> request_fingerprint num v" and "err = IdempotencyConflict"
    and "jv_payload v = payload_json p" and "jv_api_key v \<noteq> Some []"
  shows "refusal_reason c v db err"
proof -
  have j: "j \<in> set (print_jobs db)" "idempotent_where v j" using assms(1) by (auto dest: find_first_Some_iff)
  have "\<not> (jb_printer j = jv_printer v \<and> jb_doc_type j = jv_doc_type v \<and> jb_destination j = jv_destination v
             \<and> json_eqv (jv_payload v) (jb_payload j))"
    using assms(2,4) canonical_eqv [of "jv_payload v" "jb_payload j"] payload_json_plain
    by (auto simp: stored_fingerprint_def request_fingerprint_def idempotencyFingerprint_def)
  moreover have "jb_tenant j = jv_tenant v \<and> jb_idem j = jv_idem v \<and> jb_api_key j = jv_api_key v"
    using j(2) assms(5) by (cases "jv_api_key v") (auto simp: idempotent_where_def)
  ultimately show ?thesis using j(1) by (auto simp: assms(3) refusal_reason_def)
qed

lemma constraint_reason:
  assumes adm: "admit_and_insert c jsonb v db = (db', Inl DatabaseError)"
    and none: "truthy (jv_idem v) \<Longrightarrow> find_first (idempotent_where v) (print_jobs db) = None"
    and payload: "\<And>w. json_eqv w (jsonb w)" "wf_payload p" "jv_payload v = payload_json p"
    and table: "idempotency_unique (print_jobs db)" "unique_by ak_id (api_keys db)"
      "\<And>j. j \<in> set (print_jobs db) \<Longrightarrow> api_key_exists (jb_tenant j) (jb_api_key j) db"
    and key: "jv_api_key v \<noteq> Some []"
  shows "refusal_reason c v db DatabaseError"
proof (rule ccontr)
  assume no: "\<not> ?thesis"
  let ?row = "queued_row (db_now c) (v\<lparr>jv_payload := jsonb (jv_payload v)\<rparr>)"
  have check: "payload_contract_check (jsonb (jv_payload v))"
    by (rule contract_check_eqv [OF payload(1)])
      (simp_all add: payload(3) payload_json_plain contract_check [OF payload(2)])
  have "\<not> idempotency_unique (print_jobs db @ [?row])"
    using database_error_cause [OF adm] no check
    by (auto simp: insert_allowed_def refusal_reason_def has_job_iff row_by_def find_first_None_iff)
  then obtain j where j: "j \<in> set (print_jobs db)" "jb_idem j = jv_idem v" "jb_api_key j = jv_api_key v" "jv_idem v \<noteq> None"
    using idempotency_extend [OF table(1)] by fastforce
  then have "truthy (jv_idem v)" using no by (cases "jv_idem v") (auto simp: refusal_reason_def)
  then have "\<not> idempotent_where v j" using none j(1) by (auto simp: find_first_None_iff)
  then have other: "jb_tenant j \<noteq> jv_tenant v"
    using j key by (cases "jv_api_key v") (auto simp: idempotent_where_def)
  then obtain k where k: "jv_api_key v = Some k"
    using no j by (cases "jv_api_key v") (auto simp: refusal_reason_def)
  have "api_key_exists (jv_tenant v) (Some k) db" "api_key_exists (jb_tenant j) (Some k) db"
    using no table(3) [OF j(1)] j(3) k by (auto simp: refusal_reason_def)
  then obtain r r' where r: "r \<in> set (api_keys db)" "ak_id r = k" "ak_tenant r = jv_tenant v"
      "r' \<in> set (api_keys db)" "ak_id r' = k" "ak_tenant r' = jb_tenant j"
    by (auto simp: api_key_exists_def dest!: find_first_Some_iff)
  then show False using other unique_by_same [OF table(2) r(1,4)] by simp
qed

text \<open>C24. A refused request leaves no trace and has its reason. Whatever error the admission ends in,
  the database is as it was, the rate-limit counters included, and the state the transaction ran on
  shows why: the tenant is empty or too long; a conflict means that a job of the tenant under the key
  differs in printer, document type, destination or payload; an exceeded entitlement, a full queue and
  a full flight report a limit that is reached, with its present count; a rate limit means that the key
  used up its minute or its hour, and the request passes once the announced seconds are over. The
  INSERT itself violates a constraint of the table only if the drawn id is taken, another tenant's
  job created without an API key (or a job under an empty key) holds the idempotency key, or the
  agent, the printer or the API key is no longer there (another transaction deleted it since it was
  read); for an accepted payload it is never the CHECK, in whatever order \<open>jsonb\<close> lists its keys.\<close>

theorem refused_request:
  assumes "insertQueuedJobAtomically num c jsonb v db = (db', Inl err)"
    and jsonb: "\<And>w. json_eqv w (jsonb w)"
    and payload: "validatePrintJobPayload w = Some p" "jv_payload v = payload_json p"
    and table: "idempotency_unique (print_jobs db)" "unique_by ak_id (api_keys db)"
      "\<And>j. j \<in> set (print_jobs db) \<Longrightarrow> api_key_exists (jb_tenant j) (jb_api_key j) db"
    and key: "jv_api_key v \<noteq> Some []"
  shows "db' = db \<and> refusal_reason c v db err"
proof
  show "db' = db" by (rule refused_unchanged [OF assms(1)])
  show "refusal_reason c v db err"
  proof (rule ccontr)
    assume no: "\<not> refusal_reason c v db err"
    have tenant: "jv_tenant v \<noteq> []" "length (jv_tenant v) \<le> 128"
      using assms(1) no by (auto simp: insertQueuedJobAtomically_def refusal_reason_def split: if_splits)
    have none: "find_first (idempotent_where v) (print_jobs db) = None" if "truthy (jv_idem v)"
    proof (cases "find_first (idempotent_where v) (print_jobs db)")
      case (Some j)
      then show ?thesis
        using conflict_reason [OF _ _ _ payload(2) key, of db j] assms(1) no tenant that
        by (auto simp: insertQueuedJobAtomically_def split: if_splits)
    qed
    then have adm: "admit_and_insert c jsonb v db = (db', Inl err)"
      using assms(1) tenant by (auto simp: insertQueuedJobAtomically_def split: if_splits)
    then show False
      using no admission_reason [OF adm] constraint_reason [OF _ none jsonb validate_wf [OF payload(1)] payload(2) table key]
      by blast
  qed
qed

definition other_tenant_db :: gateway_db where
  "other_tenant_db = shop_db\<lparr>print_jobs := [queued_row 0 (till_request\<lparr>jv_tenant := ''t2'', jv_agent := ''a2''\<rparr>)]\<rparr>"

definition deleted_agent_db :: gateway_db where
  "deleted_agent_db = shop_db\<lparr>agents := [], printers := []\<rparr>"

theorem refused_request_witness:
  "insertQueuedJobAtomically (\<lambda>_. '''') till_clocks id (till_request\<lparr>jv_id := ''j2''\<rparr>) other_tenant_db
     = (other_tenant_db, Inl DatabaseError)
   \<and> insertQueuedJobAtomically (\<lambda>_. '''') till_clocks id till_request deleted_agent_db = (deleted_agent_db, Inl DatabaseError)
   \<and> (\<exists>j \<in> set (print_jobs other_tenant_db). jb_tenant j \<noteq> ''t1'' \<and> jb_idem j = Some ''k1'')
   \<and> \<not> agent_exists ''t1'' ''a1'' deleted_agent_db"
proof -
  let ?v = "till_request\<lparr>jv_id := ''j2''\<rparr>"
  have d: "insertQueuedJobAtomically (\<lambda>_. '''') till_clocks id ?v other_tenant_db
      = (fst (insertQueuedJobAtomically (\<lambda>_. '''') till_clocks id ?v other_tenant_db), Inl DatabaseError)"
    by code_simp
  have e: "insertQueuedJobAtomically (\<lambda>_. '''') till_clocks id till_request deleted_agent_db
      = (fst (insertQueuedJobAtomically (\<lambda>_. '''') till_clocks id till_request deleted_agent_db), Inl DatabaseError)"
    by code_simp
  have facts: "idempotency_unique (print_jobs other_tenant_db)" "\<not> has_job ''j2'' other_tenant_db"
    "agent_exists ''t1'' ''a1'' other_tenant_db" "printer_exists ''t1'' ''p1'' other_tenant_db"
    "\<not> agent_exists ''t1'' ''a1'' deleted_agent_db" "idempotency_unique (print_jobs deleted_agent_db)"
    by code_simp+
  have request: "jv_payload till_request = payload_json receipt_payload" "jv_api_key till_request = None"
    "jv_tenant till_request = ''t1''" "jv_idem till_request = Some ''k1''" "jv_printer till_request = ''p1''"
    "jv_agent till_request = ''a1''"
    by (simp_all add: till_request_def shop_job_def)
  have keys: "unique_by ak_id (api_keys other_tenant_db)" "unique_by ak_id (api_keys deleted_agent_db)"
    "\<And>j. j \<in> set (print_jobs other_tenant_db) \<Longrightarrow> api_key_exists (jb_tenant j) (jb_api_key j) other_tenant_db"
    "print_jobs deleted_agent_db = []"
    by (auto simp: other_tenant_db_def deleted_agent_db_def shop_db_def empty_db_def unique_by_def api_key_exists_def request)
  have "fst (insertQueuedJobAtomically (\<lambda>_. '''') till_clocks id ?v other_tenant_db) = other_tenant_db
      \<and> refusal_reason till_clocks ?v other_tenant_db DatabaseError"
    by (rule refused_request [OF d _ receipt_accepted])
      (use facts keys in \<open>simp_all add: request eqv_refl\<close>)
  moreover have "fst (insertQueuedJobAtomically (\<lambda>_. '''') till_clocks id till_request deleted_agent_db) = deleted_agent_db
      \<and> refusal_reason till_clocks till_request deleted_agent_db DatabaseError"
    by (rule refused_request [OF e _ receipt_accepted])
      (use facts keys in \<open>simp_all add: request eqv_refl\<close>)
  ultimately show ?thesis
    using d e facts by (auto simp: refusal_reason_def api_key_exists_def request)
qed

section \<open>The rate of an API key\<close>

fun charge_all :: "string \<Rightarrow> time list \<Rightarrow> print_job_rate_limit option \<Rightarrow> bool list" where
  "charge_all k [] l = []"
| "charge_all k (t # ts) l =
     (case charge_rate_limit k t l of
        Inl retry \<Rightarrow> False # charge_all k ts l
      | Inr l' \<Rightarrow> True # charge_all k ts (Some l'))"

definition accepted :: "bool list \<Rightarrow> nat" where
  "accepted bs = length (filter id bs)"

text \<open>Within a counter's window at most what is left of it is accepted.\<close>

lemma window_left:
  assumes "\<forall>t \<in> set ts. t - pl_minute_started l < 60000" and "pl_minute_count l \<le> 60"
  shows "accepted (charge_all k ts (Some l)) + pl_minute_count l \<le> 60"
  using assms
proof (induction ts arbitrary: l)
  case (Cons t ts)
  show ?case
  proof (cases "charge_rate_limit k t (Some l)")
    case (Inl r)
    then show ?thesis using Cons.IH [of l] Cons.prems by (simp add: accepted_def)
  next
    case (Inr l')
    then have "pl_minute_started l' = pl_minute_started l" "pl_minute_count l' = pl_minute_count l + 1"
      "pl_minute_count l' \<le> 60"
      using Cons.prems by (auto simp: charge_rate_limit_def Let_def PRINT_JOB_RATE_LIMIT_PER_MINUTE_def split: if_splits)
    then show ?thesis using Cons.IH [of l'] Cons.prems(1) Inr by (simp add: accepted_def)
  qed
qed (simp add: accepted_def)

lemma charged_restart:
  assumes "charge_rate_limit k t (Some l) = Inr l'" and "pl_minute_count l \<le> 60"
  shows "pl_minute_count l' \<le> 60 \<and>
    ((pl_minute_started l' = pl_minute_started l \<and> pl_minute_count l' = pl_minute_count l + 1)
     \<or> (pl_minute_started l' = t \<and> pl_minute_count l' = 1))"
  using assms
  by (auto simp: charge_rate_limit_def Let_def PRINT_JOB_RATE_LIMIT_PER_MINUTE_def split: if_splits)

lemma two_windows:
  assumes "sorted ts" and "\<forall>t \<in> set ts. t - hd ts < 60000" and "pl_minute_count l \<le> 60"
  shows "accepted (charge_all k ts (Some l)) + pl_minute_count l \<le> 120"
  using assms
proof (induction ts arbitrary: l)
  case (Cons t ts)
  have later: "\<forall>s \<in> set ts. s - t < 60000" "sorted ts" using Cons.prems(1,2) by auto
  have tail_span: "\<forall>s \<in> set ts. s - hd ts < 60000"
    using Cons.prems(1) later(1) by (cases ts) auto
  show ?case
  proof (cases "charge_rate_limit k t (Some l)")
    case (Inl r)
    then show ?thesis using Cons.IH [OF later(2) tail_span Cons.prems(3)] by (simp add: accepted_def)
  next
    case (Inr l')
    note restart = charged_restart [OF Inr Cons.prems(3)]
    from restart consider "pl_minute_count l' = pl_minute_count l + 1" | "pl_minute_started l' = t" "pl_minute_count l' = 1"
      by blast
    then show ?thesis
    proof cases
      case 1
      then show ?thesis using Cons.IH [OF later(2) tail_span, of l'] restart Inr by (simp add: accepted_def)
    next
      case 2
      then have "accepted (charge_all k ts (Some l')) + 1 \<le> 60"
        using window_left [of ts l' k] later(1) by auto
      then show ?thesis using Cons.prems(3) Inr by (simp add: accepted_def)
    qed
  qed
qed (simp add: accepted_def)

text \<open>C22. The rate limit of an API key: of any requests that arrive within one minute, at most 120 are
  charged, whatever the state of the key's counters, and at most 60 when its window is already open or
  the key is new; the windows are fixed, so twice the limit can straddle a boundary and no more.\<close>

theorem key_rate:
  assumes "sorted ts" and "\<forall>t \<in> set ts. t - hd ts < 60000"
    and "case l of None \<Rightarrow> True | Some r \<Rightarrow> pl_minute_count r \<le> 60"
  shows "accepted (charge_all k ts l) \<le> 120
    \<and> (case l of None \<Rightarrow> accepted (charge_all k ts l) \<le> 60
       | Some r \<Rightarrow> (\<forall>t \<in> set ts. t - pl_minute_started r < 60000) \<longrightarrow> accepted (charge_all k ts l) \<le> 60)"
proof (cases l)
  case None
  have "accepted (charge_all k ts None) \<le> 60"
  proof (cases ts)
    case (Cons t ts')
    then show ?thesis
      using assms(2) window_left [of ts' "\<lparr>pl_key = k, pl_minute_started = t, pl_minute_count = 1,
          pl_hour_started = t, pl_hour_count = 1, pl_updated = t\<rparr>" k]
      by (simp add: charge_rate_limit_def accepted_def)
  qed (simp add: accepted_def)
  then show ?thesis by (simp add: None)
next
  case (Some r)
  then show ?thesis
    using two_windows [OF assms(1,2), of r k] window_left [of ts r k] assms(3) by auto
qed

theorem key_rate_witness:
  "accepted (charge_all ''key'' (replicate 61 59000 @ replicate 61 60000) (Some
     \<lparr>pl_key = ''key'', pl_minute_started = 0, pl_minute_count = 0, pl_hour_started = 0, pl_hour_count = 0, pl_updated = 0\<rparr>)) \<le> 120
   \<and> accepted (charge_all ''key'' (replicate 61 59000 @ replicate 61 60000) (Some
     \<lparr>pl_key = ''key'', pl_minute_started = 0, pl_minute_count = 0, pl_hour_started = 0, pl_hour_count = 0, pl_updated = 0\<rparr>)) = 120"
proof
  show "accepted (charge_all ''key'' (replicate 61 59000 @ replicate 61 60000) (Some
     \<lparr>pl_key = ''key'', pl_minute_started = 0, pl_minute_count = 0, pl_hour_started = 0, pl_hour_count = 0, pl_updated = 0\<rparr>)) \<le> 120"
    by (rule key_rate [THEN conjunct1]) (auto simp: sorted_append)
  show "accepted (charge_all ''key'' (replicate 61 59000 @ replicate 61 60000) (Some
     \<lparr>pl_key = ''key'', pl_minute_started = 0, pl_minute_count = 0, pl_hour_started = 0, pl_hour_count = 0, pl_updated = 0\<rparr>)) = 120"
    by code_simp
qed

section \<open>A created job\<close>

lemma bind_Inr: "bind_result r f = Inr v \<longleftrightarrow> (\<exists>x. r = Inr x \<and> f x = Inr v)"
  by (auto simp: bind_result_def split: sum.splits)

lemma check_printer_Inr:
  "check_printer printerId tenantId db = Inr p \<Longrightarrow> p \<in> set (printers db) \<and> pr_id p = printerId \<and> pr_tenant p = tenantId
     \<and> pr_lifecycle p = Active \<and> \<not> isVirtualPrinterRecord (printer_like p) \<and> pr_status p = ''online''"
  by (auto simp: check_printer_def split: option.splits if_splits dest!: find_first_Some_iff)

lemma check_payload_Inr:
  "check_payload payload p = Inr pl \<Longrightarrow> validatePrintJobPayload payload = Some pl
     \<and> validatePayloadForPrinter (Some (payload_spec pl)) (capable p) = CapOk"
  by (auto simp: check_payload_def split: option.splits CapabilityCheckResult.splits)

lemma check_agent_Inr:
  "check_agent env now p tenantId db = Inr a \<Longrightarrow> a \<in> set (agents db) \<and> ag_id a = pr_agent p \<and> ag_tenant a = tenantId
     \<and> isAgentAvailableForJob env a now"
  by (auto simp: check_agent_def split: option.splits if_splits dest!: find_first_Some_iff)

lemma check_expiry_Inr: "check_expiry e opts = Inr t \<Longrightarrow> ce_now3 e < t"
  by (auto simp: check_expiry_def Let_def split: option.splits if_splits)

lemma requested_by_Inr: "normalizeRequestedBy s = Inr r \<Longrightarrow> r \<noteq> [] \<and> length r \<le> 100 \<and> r = js_trim s"
  by (auto simp: normalizeRequestedBy_def Let_def split: if_splits)

lemma prepared_job:
  assumes "prepare_job e printerId payload opts db = Inr v"
  shows "\<exists>p a pl. p \<in> set (printers db) \<and> pr_id p = js_trim printerId \<and> pr_tenant p = co_tenantId opts
    \<and> pr_lifecycle p = Active \<and> \<not> isVirtualPrinterRecord (printer_like p) \<and> pr_status p = ''online''
    \<and> validatePrintJobPayload payload = Some pl
    \<and> validatePayloadForPrinter (Some (payload_spec pl)) (capable p) = CapOk
    \<and> a \<in> set (agents (ce_env1 e db)) \<and> ag_id a = pr_agent p \<and> ag_tenant a = co_tenantId opts
    \<and> isAgentAvailableForJob (ce_stale e) a (ce_now1 e)
    \<and> jv_tenant v = co_tenantId opts \<and> jv_agent v = ag_id a \<and> jv_printer v = pr_id p \<and> jv_payload v = payload_json pl
    \<and> jv_requested_by v \<noteq> [] \<and> length (jv_requested_by v) \<le> 100 \<and> ce_now3 e < jv_expires v"
proof -
  obtain rb p pl a t where steps: "normalizeRequestedBy (co_requestedBy opts) = Inr rb"
    "check_printer (js_trim printerId) (co_tenantId opts) db = Inr p" "check_payload payload p = Inr pl"
    "check_agent (ce_stale e) (ce_now1 e) p (co_tenantId opts) (ce_env1 e db) = Inr a" "check_expiry e opts = Inr t"
    and v: "jv_tenant v = co_tenantId opts" "jv_agent v = ag_id a" "jv_printer v = pr_id p"
      "jv_payload v = payload_json pl" "jv_requested_by v = rb" "jv_expires v = t"
    using assms by (auto simp: prepare_job_def Let_def bind_Inr split: if_splits)
  show ?thesis
    using check_printer_Inr [OF steps(2)] check_payload_Inr [OF steps(3)] check_agent_Inr [OF steps(4)]
      check_expiry_Inr [OF steps(5)] requested_by_Inr [OF steps(1)] v
    by (intro exI [of _ p] exI [of _ a] exI [of _ pl]) auto
qed

text \<open>What is known when the transaction of a call has inserted its row.\<close>

lemma created_row:
  assumes v: "prepare_job e printerId payload opts db = Inr v"
    and i: "insertQueuedJobAtomically (ce_num e) (ce_clocks e) (ce_jsonb e) v (ce_env2 e (ce_env1 e db)) = (db2, Inr r)"
    and fresh: "\<not> ir_isReused r"
  shows "ir_jobId r = jv_id v \<and> (\<exists>p a pl w t. p \<in> set (printers db) \<and> pr_id p = js_trim printerId \<and> pr_tenant p = co_tenantId opts
      \<and> pr_lifecycle p = Active \<and> \<not> isVirtualPrinterRecord (printer_like p) \<and> pr_status p = ''online''
      \<and> validatePrintJobPayload payload = Some pl
      \<and> validatePayloadForPrinter (Some (payload_spec pl)) (capable p) = CapOk
      \<and> a \<in> set (agents (ce_env1 e db)) \<and> ag_id a = pr_agent p \<and> ag_tenant a = co_tenantId opts
      \<and> ag_lifecycle a = Active \<and> ag_status a = Online \<and> ag_last_seen a = Some t
      \<and> t \<le> ce_now1 e \<and> ce_now1 e - t \<le> agentStaleThresholdSeconds (ce_stale e) * 1000
      \<and> jv_id v = jv_id w \<and> jv_tenant w = co_tenantId opts \<and> jv_agent w = ag_id a \<and> jv_printer w = pr_id p
      \<and> jv_payload w = ce_jsonb e (payload_json pl) \<and> ce_now3 e < jv_expires w
      \<and> queued_row (db_now (ce_clocks e)) w
          \<in> set (print_jobs (fst (insertQueuedJobAtomically (ce_num e) (ce_clocks e) (ce_jsonb e)
              (w\<lparr>jv_payload := payload_json pl\<rparr>) (ce_env2 e (ce_env1 e db))))))"
proof -
  note ins = admitted_db [OF fresh_insert(1) [OF i fresh]]
  obtain p a pl where prep: "p \<in> set (printers db) \<and> pr_id p = js_trim printerId \<and> pr_tenant p = co_tenantId opts
      \<and> pr_lifecycle p = Active \<and> \<not> isVirtualPrinterRecord (printer_like p) \<and> pr_status p = ''online''
      \<and> validatePrintJobPayload payload = Some pl
      \<and> validatePayloadForPrinter (Some (payload_spec pl)) (capable p) = CapOk
      \<and> a \<in> set (agents (ce_env1 e db)) \<and> ag_id a = pr_agent p \<and> ag_tenant a = co_tenantId opts
      \<and> isAgentAvailableForJob (ce_stale e) a (ce_now1 e)
      \<and> jv_tenant v = co_tenantId opts \<and> jv_agent v = ag_id a \<and> jv_printer v = pr_id p \<and> jv_payload v = payload_json pl
      \<and> jv_requested_by v \<noteq> [] \<and> length (jv_requested_by v) \<le> 100 \<and> ce_now3 e < jv_expires v"
    using prepared_job [OF v] by blast
  obtain t where t: "ag_lifecycle a = Active \<and> ag_status a = Online \<and> ag_last_seen a = Some t
      \<and> t \<le> ce_now1 e \<and> ce_now1 e - t \<le> agentStaleThresholdSeconds (ce_stale e) * 1000"
    using prep available_iff by blast
  define w where "w = v\<lparr>jv_payload := ce_jsonb e (jv_payload v)\<rparr>"
  have w: "w\<lparr>jv_payload := payload_json pl\<rparr> = v" "queued_row (db_now (ce_clocks e)) w \<in> set (print_jobs db2)"
    using prep ins by (simp_all add: w_def)
  have "jv_id w = jv_id v" "jv_tenant w = jv_tenant v" "jv_agent w = jv_agent v" "jv_printer w = jv_printer v"
    "jv_payload w = ce_jsonb e (payload_json pl)" "jv_expires w = jv_expires v" "ir_jobId r = jv_id v"
    using prep ins by (simp_all add: w_def)
  then show ?thesis
    using prep t w i by (intro conjI exI [of _ p] exI [of _ a] exI [of _ pl] exI [of _ w] exI [of _ t]) simp_all
qed

text \<open>C23. A job is created only for a printer that can print it: when the call answers with a new job,
  then, as read in the requester's tenant, the printer was active, online and no virtual queue, its
  agent active, online and seen within the threshold, the payload passed the schema and the capability
  table, the expiry lies in the future, and the row that was inserted is the queued one of this
  printer, agent and payload. When it answers with an error, the call has written nothing.\<close>

theorem created_job_sound:
  assumes "createPrintJobForPrinter e printerId payload opts reg db = (db', reg', res)"
  shows "case res of
      Inl err \<Rightarrow> db' \<in> {ce_env1 e db, ce_env2 e (ce_env1 e db)} \<and> reg' = reg
    | Inr cr \<Rightarrow> cr_isReused cr \<or>
        (\<exists>p a pl v t. p \<in> set (printers db) \<and> pr_id p = js_trim printerId \<and> pr_tenant p = co_tenantId opts
          \<and> pr_lifecycle p = Active \<and> \<not> isVirtualPrinterRecord (printer_like p) \<and> pr_status p = ''online''
          \<and> validatePrintJobPayload payload = Some pl
          \<and> validatePayloadForPrinter (Some (payload_spec pl)) (capable p) = CapOk
          \<and> a \<in> set (agents (ce_env1 e db)) \<and> ag_id a = pr_agent p \<and> ag_tenant a = co_tenantId opts
          \<and> ag_lifecycle a = Active \<and> ag_status a = Online \<and> ag_last_seen a = Some t
          \<and> t \<le> ce_now1 e \<and> ce_now1 e - t \<le> agentStaleThresholdSeconds (ce_stale e) * 1000
          \<and> cr_id cr = jv_id v \<and> jv_tenant v = co_tenantId opts \<and> jv_agent v = ag_id a \<and> jv_printer v = pr_id p
          \<and> jv_payload v = ce_jsonb e (payload_json pl) \<and> ce_now3 e < jv_expires v
          \<and> queued_row (db_now (ce_clocks e)) v
              \<in> set (print_jobs (fst (insertQueuedJobAtomically (ce_num e) (ce_clocks e) (ce_jsonb e)
                  (v\<lparr>jv_payload := payload_json pl\<rparr>) (ce_env2 e (ce_env1 e db))))))"
proof (cases "prepare_job e printerId payload opts db")
  case (Inl err)
  then show ?thesis using assms by (auto simp: createPrintJobForPrinter_def Let_def)
next
  case (Inr v)
  obtain db2 r where i: "insertQueuedJobAtomically (ce_num e) (ce_clocks e) (ce_jsonb e) v (ce_env2 e (ce_env1 e db)) = (db2, r)"
    by (cases "insertQueuedJobAtomically (ce_num e) (ce_clocks e) (ce_jsonb e) v (ce_env2 e (ce_env1 e db))")
  show ?thesis
  proof (cases r)
    case err: (Inl err)
    then have "db2 = ce_env2 e (ce_env1 e db)" using i refused_unchanged by blast
    then show ?thesis using assms Inr i err by (auto simp: createPrintJobForPrinter_def Let_def)
  next
    case ok: (Inr r')
    show ?thesis
    proof (cases "ir_isReused r'")
      case True
      then show ?thesis using assms Inr i ok by (auto simp: createPrintJobForPrinter_def Let_def)
    next
      case fresh: False
      have "ir_jobId r' = jv_id v" by (rule created_row [OF Inr i [unfolded ok] fresh, THEN conjunct1])
      then obtain cr where cr: "res = Inr cr" "cr_id cr = jv_id v"
        using assms Inr i ok fresh by (auto simp: createPrintJobForPrinter_def Let_def split: prod.splits)
      show ?thesis
        unfolding cr(1) sum.case cr(2) by (rule disjI2 [OF created_row [OF Inr i [unfolded ok] fresh, THEN conjunct2]])
    qed
  qed
qed

definition till_env :: create_env where
  "till_env = \<lparr>ce_stale = None, ce_env1 = id, ce_now1 = 1000, ce_now2 = 1000, ce_now3 = 1001, ce_nanoid = ''abc'',
     ce_env2 = id, ce_clocks = till_clocks, ce_num = (\<lambda>_. ''''), ce_jsonb = id, ce_env3 = id, ce_push = shop_push (\<lambda>_. True)\<rparr>"

definition till_opts :: create_options where
  "till_opts = \<lparr>co_requestedBy = '' odoo '', co_idempotencyKey = None, co_tenantId = ''t1'', co_destination = None,
     co_documentType = None, co_expiresAt = None, co_rateLimitKeyId = None, co_requestId = None\<rparr>"

definition till_values :: job_values where
  "till_values = \<lparr>jv_id = ''job_abc'', jv_tenant = ''t1'', jv_api_key = None, jv_destination = None, jv_doc_type = None,
     jv_agent = ''a1'', jv_printer = ''p1'', jv_payload = payload_json receipt_payload, jv_requested_by = ''odoo'',
     jv_request_id = None, jv_idem = None, jv_expires = 3601000\<rparr>"

lemma till_prepared: "prepare_job till_env '' p1 '' receipt till_opts shop_db = Inr till_values"
proof -
  have "normalizeRequestedBy '' odoo '' = Inr ''odoo''" "js_trim '' p1 '' = ''p1''" "js_trim ''t1'' = ''t1''"
    "check_printer ''p1'' ''t1'' shop_db = Inr shop_printer"
    "check_agent None 1000 shop_printer ''t1'' shop_db = Inr shop_agent"
    "validatePayloadForPrinter (Some (payload_spec receipt_payload)) (capable shop_printer) = CapOk"
    by code_simp+
  moreover have "check_expiry till_env till_opts = Inr 3601000"
    by (simp add: check_expiry_def till_env_def till_opts_def)
  ultimately show ?thesis
    by (simp add: prepare_job_def till_env_def till_opts_def till_values_def bind_result_def check_payload_def
      receipt_accepted shop_printer_def shop_agent_def)
qed

definition till_created :: gateway_db where
  "till_created = fst (insertQueuedJobAtomically (\<lambda>_. '''') till_clocks id till_values shop_db)"

theorem created_job_sound_witness:
  "createPrintJobForPrinter till_env '' p1 '' receipt till_opts empty_registry shop_db
     = (till_created, empty_registry,
        Inr \<lparr>cr_id = ''job_abc'', cr_printerId = ''p1'', cr_agentId = ''a1'', cr_status = ''queued'', cr_isReused = False\<rparr>)
   \<and> (\<exists>p \<in> set (printers shop_db). pr_id p = ''p1'' \<and> pr_status p = ''online'' \<and> \<not> isVirtualPrinterRecord (printer_like p))"
proof -
  have i: "insertQueuedJobAtomically (\<lambda>_. '''') till_clocks id till_values shop_db
      = (till_created, Inr \<lparr>ir_jobId = ''job_abc'', ir_status = ''queued'', ir_agentId = ''a1'', ir_printerId = ''p1'', ir_isReused = False\<rparr>)"
    unfolding till_created_def by code_simp
  have push: "claimAndPushJobToAgent u j ''a1'' empty_registry d = (d, empty_registry, PushNoSocket, None)" for u j d
    by (simp add: claimAndPushJobToAgent_def hasOpenAgentSocket_def agent_set_def empty_registry_def)
  have env: "ce_env1 till_env = id" "ce_env2 till_env = id" "ce_env3 till_env = id" "ce_num till_env = (\<lambda>_. '''')"
    "ce_clocks till_env = till_clocks" "ce_jsonb till_env = id"
    by (simp_all add: till_env_def)
  have c: "createPrintJobForPrinter till_env '' p1 '' receipt till_opts empty_registry shop_db
     = (till_created, empty_registry,
        Inr \<lparr>cr_id = ''job_abc'', cr_printerId = ''p1'', cr_agentId = ''a1'', cr_status = ''queued'', cr_isReused = False\<rparr>)"
    by (simp add: createPrintJobForPrinter_def till_prepared env i) (simp add: till_values_def push)
  have "js_trim '' p1 '' = ''p1''" by code_simp
  then show ?thesis using created_job_sound [OF c] c by auto
qed

end
