(* ===== verification/Json_Parse.thy ===== *)
theory Json_Parse
  imports Json_Text
begin

text \<open>
  \<open>JSON.parse\<close>, as far as the sources use it: the JSON grammar, the last of several equal keys
  winning in the place of the first. A number is kept exactly, where the engine rounds it to a
  double; a code unit above 255 becomes a question mark.
\<close>

definition json_ws :: "char \<Rightarrow> bool" where
  "json_ws c \<longleftrightarrow> List.member [CHR 0x20, CHR 0x09, CHR 0x0A, CHR 0x0D] c"

definition skip_ws :: "string \<Rightarrow> string" where "skip_ws s = dropWhile json_ws s"

definition is_digit :: "char \<Rightarrow> bool" where
  "is_digit c \<longleftrightarrow> 48 \<le> (of_char c :: nat) \<and> (of_char c :: nat) \<le> 57"

definition digit_val :: "char \<Rightarrow> nat" where "digit_val c = of_char c - 48"

definition digits_val :: "string \<Rightarrow> nat" where
  "digits_val ds = foldl (\<lambda>n c. n * 10 + digit_val c) 0 ds"

definition hex_val :: "char \<Rightarrow> nat option" where
  "hex_val c =
     (let n = (of_char c :: nat)
      in if 48 \<le> n \<and> n \<le> 57 then Some (n - 48)
         else if 97 \<le> n \<and> n \<le> 102 then Some (n - 87)
         else if 65 \<le> n \<and> n \<le> 70 then Some (n - 55) else None)"

fun hex_unit :: "string \<Rightarrow> nat option" where
  "hex_unit (a # b # c # d # r) =
     (case (hex_val a, hex_val b, hex_val c, hex_val d) of
        (Some w, Some x, Some y, Some z) \<Rightarrow> Some (((w * 16 + x) * 16 + y) * 16 + z)
      | _ \<Rightarrow> None)"
| "hex_unit _ = None"

definition unit_char :: "nat \<Rightarrow> char" where
  "unit_char n = (if n < 256 then char_of n else CHR ''?'')"

definition unescape :: "char \<Rightarrow> char option" where
  "unescape c =
     map_of [(CHR 0x22, CHR 0x22), (CHR 0x5C, CHR 0x5C), (CHR ''/'', CHR ''/''), (CHR ''b'', CHR 0x08),
             (CHR ''f'', CHR 0x0C), (CHR ''n'', CHR 0x0A), (CHR ''r'', CHR 0x0D), (CHR ''t'', CHR 0x09)] c"

text \<open>A string after its opening quote, and what follows its closing one.\<close>

function parse_string :: "string \<Rightarrow> (string \<times> string) option" where
  "parse_string [] = None"
| "parse_string (c # s) =
     (if c = CHR 0x22 then Some ([], s)
      else if c = CHR 0x5C then
        (case s of
           [] \<Rightarrow> None
         | e # r \<Rightarrow>
             if e = CHR ''u''
             then (case hex_unit r of
                     None \<Rightarrow> None
                   | Some n \<Rightarrow> map_option (apfst ((#) (unit_char n))) (parse_string (drop 4 r)))
             else (case unescape e of
                     None \<Rightarrow> None
                   | Some d \<Rightarrow> map_option (apfst ((#) d)) (parse_string r)))
      else if (of_char c :: nat) < 32 then None
      else map_option (apfst ((#) c)) (parse_string s))"
  by pat_completeness auto
termination by (relation "measure length") auto

definition after_sign :: "string \<Rightarrow> int \<times> string" where
  "after_sign s = (case s of c # r \<Rightarrow> if c = CHR ''-'' then (-1, r) else (1, s) | [] \<Rightarrow> (1, s))"

text \<open>The fraction and the exponent, each missing or well formed.\<close>

definition parse_fraction :: "string \<Rightarrow> (rat \<times> string) option" where
  "parse_fraction s =
     (case s of
        c # r \<Rightarrow>
          if c = CHR ''.'' then
            (let fs = takeWhile is_digit r in
             if fs = [] then None
             else Some (of_nat (digits_val fs) / 10 ^ length fs, dropWhile is_digit r))
          else Some (0, s)
      | [] \<Rightarrow> Some (0, s))"

definition parse_exponent :: "string \<Rightarrow> (rat \<times> string) option" where
  "parse_exponent s =
     (case s of
        c # r \<Rightarrow>
          if c = CHR ''e'' \<or> c = CHR ''E'' then
            (let (sg, r1) = (case r of d # u \<Rightarrow> if d = CHR ''+'' then (1, u) else after_sign r | [] \<Rightarrow> (1, r));
                 es = takeWhile is_digit r1
             in if es = [] then None
                else Some (if sg = 1 then 10 ^ digits_val es else 1 / 10 ^ digits_val es, dropWhile is_digit r1))
          else Some (1, s)
      | [] \<Rightarrow> Some (1, s))"

definition parse_number :: "string \<Rightarrow> (rat \<times> string) option" where
  "parse_number s =
     (let (sg, s1) = after_sign s;
          ds = takeWhile is_digit s1
      in if ds = [] \<or> hd ds = CHR ''0'' \<and> length ds > 1 then None
         else case parse_fraction (dropWhile is_digit s1) of
                None \<Rightarrow> None
              | Some (f, s2) \<Rightarrow>
                  (case parse_exponent s2 of
                     None \<Rightarrow> None
                   | Some (e, s3) \<Rightarrow> Some (of_int sg * (of_nat (digits_val ds) + f) * e, s3)))"

fun put_key :: "(string \<times> json) list \<Rightarrow> string \<times> json \<Rightarrow> (string \<times> json) list" where
  "put_key [] e = [e]"
| "put_key ((k, v) # es) e = (if k = fst e then e # es else (k, v) # put_key es e)"

definition entries :: "(string \<times> json) list \<Rightarrow> (string \<times> json) list" where
  "entries es = foldl put_key [] es"

text \<open>
  Values, array items and object members; the number bounds the nesting of the calls. Every two
  nested calls consume a character, so twice the length of the text is enough.
\<close>

fun parse_value :: "nat \<Rightarrow> string \<Rightarrow> (json \<times> string) option"
and parse_items :: "nat \<Rightarrow> string \<Rightarrow> (json list \<times> string) option"
and parse_members :: "nat \<Rightarrow> string \<Rightarrow> ((string \<times> json) list \<times> string) option" where
  "parse_value 0 s = None"
| "parse_value (Suc n) s =
     (case skip_ws s of
        [] \<Rightarrow> None
      | c # r \<Rightarrow>
          if c = CHR 0x22 then map_option (apfst JStr) (parse_string r)
          else if c = CHR ''['' then
            (if starts_with (skip_ws r) '']'' then Some (JArr [], tl (skip_ws r))
             else map_option (apfst JArr) (parse_items n r))
          else if c = CHR ''{'' then
            (if starts_with (skip_ws r) ''}'' then Some (JObj [], tl (skip_ws r))
             else map_option (apfst (\<lambda>es. JObj (entries es))) (parse_members n r))
          else if starts_with (c # r) ''true'' then Some (JBool True, drop 4 (c # r))
          else if starts_with (c # r) ''false'' then Some (JBool False, drop 5 (c # r))
          else if starts_with (c # r) ''null'' then Some (JNull, drop 4 (c # r))
          else map_option (apfst JNum) (parse_number (c # r)))"
| "parse_items 0 s = None"
| "parse_items (Suc n) s =
     (case parse_value n s of
        None \<Rightarrow> None
      | Some (v, r) \<Rightarrow>
          (case skip_ws r of
             [] \<Rightarrow> None
           | c # u \<Rightarrow>
               if c = CHR '','' then map_option (apfst ((#) v)) (parse_items n u)
               else if c = CHR '']'' then Some ([v], u) else None))"
| "parse_members 0 s = None"
| "parse_members (Suc n) s =
     (case skip_ws s of
        [] \<Rightarrow> None
      | q # r \<Rightarrow>
          if q \<noteq> CHR 0x22 then None
          else
            (case parse_string r of
               None \<Rightarrow> None
             | Some (k, r1) \<Rightarrow>
                 if \<not> starts_with (skip_ws r1) '':'' then None
                 else
                   (case parse_value n (tl (skip_ws r1)) of
                      None \<Rightarrow> None
                    | Some (v, r2) \<Rightarrow>
                        (case skip_ws r2 of
                           [] \<Rightarrow> None
                         | c # u \<Rightarrow>
                             if c = CHR '','' then map_option (apfst ((#) (k, v))) (parse_members n u)
                             else if c = CHR ''}'' then Some ([(k, v)], u) else None))))"

definition json_parse :: "string \<Rightarrow> json option" where
  "json_parse s =
     (case parse_value (2 * length s + 2) s of
        Some (v, r) \<Rightarrow> if skip_ws r = [] then Some v else None
      | None \<Rightarrow> None)"

section \<open>Parsing what \<open>JSON.stringify\<close> writes\<close>

lemma hex_val_digit: "d < 16 \<Longrightarrow> hex_val (hex_digit d) = Some d"
  by (auto simp: hex_val_def Let_def hex_digit_code)

lemma unescape_short: "(c, k) \<in> set short_escapes \<Longrightarrow> k \<noteq> CHR ''u'' \<and> unescape k = Some c"
  by (auto simp: short_escapes_def unescape_def)

lemma parse_quote_char: "parse_string (quote_char c @ s) = map_option (apfst ((#) c)) (parse_string s)"
proof (cases c rule: quote_char_cases)
  case (short k)
  then show ?thesis using unescape_short [OF short(1)] by simp
next
  case control
  let ?n = "of_char c :: nat"
  have d: "hex_val (hex_digit (?n div 16)) = Some (?n div 16)" "hex_val (hex_digit (?n mod 16)) = Some (?n mod 16)"
    using control(1) by (auto intro: hex_val_digit)
  have z: "hex_val (CHR ''0'') = Some 0" by code_simp
  have "hex_unit (CHR ''0'' # CHR ''0'' # hex_digit (?n div 16) # hex_digit (?n mod 16) # s) = Some ?n"
    by (simp add: d z)
  then show ?thesis using control by (simp add: unit_char_def)
next
  case plain
  have "c \<noteq> CHR 0x22" "\<not> (of_char c :: nat) < 32"
    using plain by (auto simp: quote_char_def Let_def split: if_splits)
  then show ?thesis using plain by simp
qed

lemma parse_quoted: "parse_string (concat (map quote_char s) @ CHR 0x22 # r) = Some (s, r)"
  by (induction s) (simp_all add: parse_quote_char del: parse_string.simps(2), simp)

definition int_str :: "int \<Rightarrow> string" where
  "int_str n = (if n < 0 then CHR ''-'' # nat_str (nat (- n)) else nat_str (nat n))"

lemma digit_char_val: "d < 10 \<Longrightarrow> is_digit (digit_char d) \<and> digit_val (digit_char d) = d"
  by (simp add: is_digit_def digit_val_def digit_char_def of_char_of)

lemma digits_val_snoc: "digits_val (ds @ [c]) = digits_val ds * 10 + digit_val c"
  by (simp add: digits_val_def)

lemma nat_str_digits:
  "list_all is_digit (nat_str n) \<and> digits_val (nat_str n) = n \<and> nat_str n \<noteq> []
   \<and> (hd (nat_str n) = CHR ''0'' \<longrightarrow> n = 0)"
proof (induction n rule: nat_str.induct)
  case (1 n)
  show ?case
  proof (cases "n < 10")
    case True
    then have "digit_char n = CHR ''0'' \<longrightarrow> n = 0"
      by (auto simp: digit_char_def dest: arg_cong [of _ _ "of_char :: char \<Rightarrow> nat"] simp: of_char_of)
    then show ?thesis using True digit_char_val [OF True] by (simp add: js_simps digits_val_def)
  next
    case False
    then have "n div 10 \<noteq> 0" by linarith
    then show ?thesis using False 1 digit_char_val [of "n mod 10"] by (auto simp: js_simps digits_val_snoc)
  qed
qed

text \<open>What follows a value inside a text that was written.\<close>

definition after_ok :: "string \<Rightarrow> bool" where
  "after_ok r \<longleftrightarrow> (case r of [] \<Rightarrow> True | c # u \<Rightarrow> c = CHR '','' \<or> c = CHR '']'' \<or> c = CHR ''}'')"

lemma after_ok_simps [simp]:
  "after_ok []" "after_ok (CHR '','' # u)" "after_ok (CHR '']'' # u)" "after_ok (CHR ''}'' # u)"
  by (simp_all add: after_ok_def)

lemma digits_end:
  assumes "list_all is_digit ds" "after_ok r"
  shows "takeWhile is_digit (ds @ r) = ds" "dropWhile is_digit (ds @ r) = r"
proof -
  have "takeWhile is_digit r = []" "dropWhile is_digit r = r"
    using assms(2) by (auto simp: after_ok_def is_digit_def split: list.splits)
  then show "takeWhile is_digit (ds @ r) = ds" "dropWhile is_digit (ds @ r) = r"
    using assms(1) by (simp_all add: list_all_iff)
qed

lemma parse_nat_str:
  assumes "after_ok r"
  shows "takeWhile is_digit (nat_str n @ r) = nat_str n" "dropWhile is_digit (nat_str n @ r) = r"
    "\<not> (hd (nat_str n) = CHR ''0'' \<and> length (nat_str n) > 1)"
  using digits_end [OF _ assms] nat_str_digits [of n] by (auto simp: js_simps)

lemma parse_fraction_after: "after_ok r \<Longrightarrow> parse_fraction r = Some (0, r) \<and> parse_exponent r = Some (1, r)"
  by (auto simp: after_ok_def parse_fraction_def parse_exponent_def split: list.splits)

lemma parse_int:
  assumes "after_ok r"
  shows "parse_number (int_str n @ r) = Some (of_int n, r)"
proof -
  have "after_sign (nat_str m @ r) = (1, nat_str m @ r)" for m
    using nat_str_digits [of m] by (cases "nat_str m") (auto simp: after_sign_def is_digit_def)
  then have "after_sign (int_str n @ r) = (if n < 0 then -1 else 1, nat_str (nat \<bar>n\<bar>) @ r)"
    by (auto simp: int_str_def after_sign_def)
  then show ?thesis
    using parse_nat_str [OF assms] parse_fraction_after [OF assms] nat_str_digits [of "nat \<bar>n\<bar>"]
    by (auto simp: parse_number_def Let_def)
qed

text \<open>
  The values that are written here and read back: their numbers are integers that print as
  decimals, the keys of each object are distinct.
\<close>

fun writable :: "(rat \<Rightarrow> string) \<Rightarrow> json \<Rightarrow> bool" where
  "writable num (JNum q) = (num q = int_str \<lfloor>q\<rfloor> \<and> of_int \<lfloor>q\<rfloor> = q)"
| "writable num (JArr xs) = list_all (writable num) xs"
| "writable num (JObj es) = (distinct (map fst es) \<and> list_all (\<lambda>(k, v). writable num v) es)"
| "writable num v = True"

text \<open>The depth of calls a value needs.\<close>

fun need :: "json \<Rightarrow> nat" where
  "need (JArr xs) = Suc (sum_list (map (\<lambda>v. Suc (need v)) xs))"
| "need (JObj es) = Suc (sum_list (map (\<lambda>(k, v). Suc (need v)) es))"
| "need v = 1"

lemma put_key_new: "k \<notin> fst ` set es \<Longrightarrow> put_key es (k, v) = es @ [(k, v)]"
  by (induction es) auto

lemma entries_distinct: "distinct (map fst es) \<Longrightarrow> entries es = es"
proof (induction es rule: rev_induct)
  case (snoc e es)
  then show ?case by (cases e) (simp add: entries_def put_key_new)
qed (simp add: entries_def)

lemma skip_ws_id [simp]: "\<not> json_ws c \<Longrightarrow> skip_ws (c # s) = c # s"
  by (simp add: skip_ws_def)

lemma json_ws_simps [simp]:
  "\<not> json_ws (CHR 0x22)" "\<not> json_ws (CHR ''['')" "\<not> json_ws (CHR '']'')" "\<not> json_ws (CHR ''{'')"
  "\<not> json_ws (CHR ''}'')" "\<not> json_ws (CHR '','')" "\<not> json_ws (CHR '':'')" "\<not> json_ws (CHR ''t'')"
  "\<not> json_ws (CHR ''f'')" "\<not> json_ws (CHR ''n'')" "\<not> json_ws (CHR ''-'')"
  by code_simp+

lemma int_str_start:
  "\<exists>c t. int_str n = c # t \<and> \<not> json_ws c \<and> c \<notin> set [CHR 0x22, CHR ''['', CHR ''{'', CHR ''t'', CHR ''f'', CHR ''n'', CHR '']'', CHR ''}'']"
proof -
  have d: "\<exists>c t. nat_str m = c # t \<and> is_digit c" for m
    using nat_str_digits [of m] by (cases "nat_str m") auto
  have "is_digit c \<Longrightarrow> \<not> json_ws c \<and> c \<notin> set [CHR 0x22, CHR ''['', CHR ''{'', CHR ''t'', CHR ''f'', CHR ''n'', CHR '']'', CHR ''}'']" for c
    by (auto simp: is_digit_def json_ws_def)
  then show ?thesis using d [of "nat n"] unfolding int_str_def
    by (cases "n < 0") (force simp: json_ws_def)+
qed

lemma stringify_head:
  "writable num v \<Longrightarrow> \<exists>c t. stringify num v = c # t \<and> \<not> json_ws c \<and> c \<noteq> CHR '']'' \<and> c \<noteq> CHR ''}''"
  using int_str_start by (cases v) (fastforce simp: json_quote_def)+

lemma parse_items_text:
  assumes items: "\<And>v r m. v \<in> set xs \<Longrightarrow> need v \<le> m \<Longrightarrow> after_ok r \<Longrightarrow> parse_value m (stringify num v @ r) = Some (v, r)"
    and "sum_list (map (\<lambda>v. Suc (need v)) xs) \<le> n" and "xs \<noteq> []"
  shows "parse_items n (join_with '','' (map (stringify num) xs) @ CHR '']'' # r) = Some (xs, r)"
  using assms
proof (induction xs arbitrary: n)
  case (Cons x xs)
  obtain m where n: "n = Suc m" and m: "need x \<le> m" "sum_list (map (\<lambda>v. Suc (need v)) xs) \<le> m"
    using Cons.prems(2) by (cases n) auto
  show ?case
  proof (cases xs)
    case Nil
    then show ?thesis using Cons.prems(1) [of x m "CHR '']'' # r"] m n by simp
  next
    case (Cons y ys)
    then have "parse_items m (join_with '','' (map (stringify num) xs) @ CHR '']'' # r) = Some (xs, r)"
      using Cons.IH [of m] Cons.prems(1) m by auto
    then show ?thesis
      using Cons.prems(1) [of x m "CHR '','' # join_with '','' (map (stringify num) xs) @ CHR '']'' # r"] m n Cons by simp
  qed
qed simp

lemma parse_members_text:
  assumes items: "\<And>e r m. e \<in> set es \<Longrightarrow> need (snd e) \<le> m \<Longrightarrow> after_ok r \<Longrightarrow> parse_value m (stringify num (snd e) @ r) = Some (snd e, r)"
    and "sum_list (map (\<lambda>(k, v). Suc (need v)) es) \<le> n" and "es \<noteq> []"
  shows "parse_members n (join_with '','' (map (entry_text num) es) @ CHR ''}'' # r) = Some (es, r)"
  using assms
proof (induction es arbitrary: n)
  case (Cons e es)
  obtain k v where e: "e = (k, v)" by (cases e)
  obtain m where n: "n = Suc m" and m: "need v \<le> m" "sum_list (map (\<lambda>(k, v). Suc (need v)) es) \<le> m"
    using Cons.prems(2) e by (cases n) auto
  have key: "parse_string (concat (map quote_char k) @ CHR 0x22 # t) = Some (k, t)" for t by (rule parse_quoted)
  have written: "entry_text num e = CHR 0x22 # concat (map quote_char k) @ CHR 0x22 # CHR '':'' # stringify num v"
    by (simp add: e entry_text_def json_quote_def)
  show ?case
  proof (cases es)
    case Nil
    then show ?thesis using Cons.prems(1) [of e m "CHR ''}'' # r"] m n e
      by (simp add: written [unfolded e] key)
  next
    case (Cons f fs)
    then have "parse_members m (join_with '','' (map (entry_text num) es) @ CHR ''}'' # r) = Some (es, r)"
      using Cons.IH [of m] Cons.prems(1) m by auto
    then show ?thesis
      using Cons.prems(1) [of e m "CHR '','' # join_with '','' (map (entry_text num) es) @ CHR ''}'' # r"] m n e Cons
      by (simp add: written [unfolded e] key)
  qed
qed simp

lemma join_head:
  "xs \<noteq> [] \<Longrightarrow> \<exists>t. join_with sep (map f xs) @ r = f (hd xs) @ t"
  by (cases xs rule: list.exhaust; cases "tl xs") auto

lemma parse_stringify:
  "writable num v \<Longrightarrow> need v \<le> n \<Longrightarrow> after_ok r \<Longrightarrow> parse_value n (stringify num v @ r) = Some (v, r)"
proof (induction v arbitrary: n r)
  case JNull
  then show ?case by (cases n) auto
next
  case (JBool b)
  then show ?case by (cases n) auto
next
  case (JNum q)
  obtain c t where c: "int_str \<lfloor>q\<rfloor> = c # t" "\<not> json_ws c"
      "c \<notin> set [CHR 0x22, CHR ''['', CHR ''{'', CHR ''t'', CHR ''f'', CHR ''n'', CHR '']'', CHR ''}'']"
    using int_str_start by blast
  obtain m where n: "n = Suc m" using JNum.prems(2) by (cases n) auto
  have "parse_number (c # t @ r) = Some (q, r)"
    using parse_int [OF JNum.prems(3), of "\<lfloor>q\<rfloor>"] JNum.prems(1) c(1) by simp
  then show ?case using c JNum.prems(1) n by simp
next
  case (JStr s)
  then show ?case using parse_quoted [of s r] by (cases n) (simp_all add: json_quote_def)
next
  case (JArr xs)
  obtain m where n: "n = Suc m" using JArr.prems(2) by (cases n) auto
  show ?case
  proof (cases "xs = []")
    case True
    then show ?thesis using n by simp
  next
    case False
    have items: "parse_value k (stringify num v @ u) = Some (v, u)" if "v \<in> set xs" "need v \<le> k" "after_ok u" for v u k
      using JArr.IH [OF that(1), of k u] JArr.prems(1) that by (simp add: list_all_iff)
    have "parse_items m (join_with '','' (map (stringify num) xs) @ CHR '']'' # r) = Some (xs, r)"
      by (rule parse_items_text) (use items JArr.prems(2) n False in auto)
    moreover obtain c t where "join_with '','' (map (stringify num) xs) @ CHR '']'' # r = c # t" "\<not> json_ws c" "c \<noteq> CHR '']''"
    proof -
      obtain t' where "join_with '','' (map (stringify num) xs) @ CHR '']'' # r = stringify num (hd xs) @ t'"
        using join_head [OF False] by blast
      moreover have "writable num (hd xs)" using JArr.prems(1) False by (cases xs) auto
      ultimately show ?thesis using that stringify_head [of num "hd xs"] by auto
    qed
    ultimately show ?thesis using n by simp
  qed
next
  case (JObj es)
  obtain m where n: "n = Suc m" using JObj.prems(2) by (cases n) auto
  show ?case
  proof (cases "es = []")
    case True
    then show ?thesis using n by (simp add: entries_def)
  next
    case False
    have items: "parse_value k (stringify num (snd e) @ u) = Some (snd e, u)" if "e \<in> set es" "need (snd e) \<le> k" "after_ok u" for e u k
      using JObj.IH [OF that(1), of "snd e" k u] JObj.prems(1) that by (cases e) (auto simp: list_all_iff)
    have "parse_members m (join_with '','' (map (entry_text num) es) @ CHR ''}'' # r) = Some (es, r)"
      by (rule parse_members_text) (use items JObj.prems(2) n False in auto)
    moreover obtain t where "join_with '','' (map (entry_text num) es) @ CHR ''}'' # r = CHR 0x22 # t"
    proof -
      obtain t' where "join_with '','' (map (entry_text num) es) @ CHR ''}'' # r = entry_text num (hd es) @ t'"
        using join_head [OF False] by blast
      then show ?thesis using that by (simp add: entry_text_def json_quote_def)
    qed
    ultimately show ?thesis using n JObj.prems(1) unfolding stringify_object by (simp add: entries_distinct)
  qed
qed

text \<open>The fuel of \<^const>\<open>json_parse\<close> is enough.\<close>

lemma join_length: "sum_list (map (\<lambda>x. length (f x)) xs) \<le> length (join_with sep (map f xs))"
proof (induction xs)
  case (Cons x xs)
  then show ?case by (cases xs) auto
qed simp

lemma need_bound: "writable num v \<Longrightarrow> need v + 1 \<le> 2 * length (stringify num v)"
proof (induction v)
  case (JNum q)
  then show ?case using int_str_start [of "\<lfloor>q\<rfloor>"] by auto
next
  case (JStr s)
  then show ?case using json_quote_length [of s] by simp
next
  case (JArr xs)
  have "sum_list (map (\<lambda>v. Suc (need v)) xs) \<le> 2 * sum_list (map (\<lambda>v. length (stringify num v)) xs)"
    using JArr by (simp add: list_all_iff flip: sum_list_const_mult) (rule sum_list_mono, fastforce)
  then show ?case using join_length [of "stringify num" xs "'',''"] by simp
next
  case (JObj es)
  have "sum_list (map (\<lambda>(k, v). Suc (need v)) es) \<le> 2 * sum_list (map (\<lambda>e. length (entry_text num e)) es)"
    using JObj by (simp add: list_all_iff flip: sum_list_const_mult) (rule sum_list_mono, fastforce simp: entry_text_def)
  then show ?case using join_length [of "entry_text num" es "'',''"] unfolding stringify_object by simp
qed auto

lemma json_parse_stringify: "writable num v \<Longrightarrow> json_parse (stringify num v) = Some v"
  using parse_stringify [of num v "2 * length (stringify num v) + 2" "[]"] need_bound [of num v]
  by (simp add: json_parse_def skip_ws_def)

end
