(* ===== verification/Manager_Auth.thy ===== *)
theory Manager_Auth
  imports Schema Json_Parse Base64
begin

text \<open>
  Manager sessions: \<open>src/lib/manager-auth.ts\<close>, \<open>src/lib/authorization.ts\<close> and
  \<open>src/lib/runtime-secret.ts\<close>. Arguments: HMAC-SHA-256 as \<open>mac key data\<close>, scrypt, how a number
  prints, and the environment; the token itself is built and taken apart as text.
\<close>

datatype ManagerRole = Owner | Admin | Operator | Viewer | Integration_admin | Billing_admin

fun role_str :: "ManagerRole \<Rightarrow> string" where
  "role_str Owner = ''owner''"
| "role_str Admin = ''admin''"
| "role_str Operator = ''operator''"
| "role_str Viewer = ''viewer''"
| "role_str Integration_admin = ''integration_admin''"
| "role_str Billing_admin = ''billing_admin''"

definition all_roles :: "ManagerRole list" where
  "all_roles = [Owner, Admin, Operator, Viewer, Integration_admin, Billing_admin]"

definition role_of :: "string \<Rightarrow> ManagerRole option" where
  "role_of s = List.find (\<lambda>r. role_str r = s) all_roles"

lemma role_of_str [simp]: "role_of (role_str r) = Some r"
  by (cases r) (simp_all add: role_of_def all_roles_def)

lemma role_of_Some: "role_of s = Some r \<longleftrightarrow> s = role_str r"
  by (metis (mono_tags, lifting) find_Some_iff role_of_def role_of_str)

record ManagerClaims =
  mc_jti :: string
  mc_iat :: int
  mc_exp :: int
  mc_tenant :: string
  mc_user :: "string option"
  mc_role :: ManagerRole

section \<open>Runtime secrets\<close>

text \<open>
  \<open>env\<close> is \<open>process.env\<close>, \<open>files\<close> what \<open>readFileSync\<close> gives; \<^const>\<open>None\<close> from it is the
  exception of an unreadable file.
\<close>

definition runtimeSecret ::
  "(string \<Rightarrow> string option) \<Rightarrow> (string \<Rightarrow> string option) \<Rightarrow> string \<Rightarrow> string + string option" where
  "runtimeSecret env files name =
     (let file = map_option js_trim (env (name @ ''_FILE'')) in
      if truthy file
      then (case files (the file) of
              None \<Rightarrow> Inl ''ENOENT''
            | Some v \<Rightarrow> Inr (if js_trim v \<noteq> [] then Some (js_trim v) else None))
      else Inr (case env name of Some v \<Rightarrow> if v \<noteq> [] then Some v else None | None \<Rightarrow> None))"

definition requiredRuntimeSecret ::
  "(string \<Rightarrow> string option) \<Rightarrow> (string \<Rightarrow> string option) \<Rightarrow> string \<Rightarrow> string + string" where
  "requiredRuntimeSecret env files name =
     (case runtimeSecret env files name of
        Inl e \<Rightarrow> Inl e
      | Inr None \<Rightarrow> Inl (name @ '' must be provided via '' @ name @ ''_FILE or '' @ name)
      | Inr (Some v) \<Rightarrow> Inr v)"

definition getSecret :: "(string \<Rightarrow> string option) \<Rightarrow> (string \<Rightarrow> string option) \<Rightarrow> string + string" where
  "getSecret env files =
     (case requiredRuntimeSecret env files ''GATEWAY_JWT_SECRET'' of
        Inl e \<Rightarrow> Inl e
      | Inr s \<Rightarrow> if length s < 32 then Inl ''GATEWAY_JWT_SECRET must be >=32 chars'' else Inr s)"

section \<open>Tokens\<close>

definition COOKIE_NAME :: string where "COOKIE_NAME = ''mgr_session''"
definition MAX_AGE_SECONDS :: int where "MAX_AGE_SECONDS = 8 * 60 * 60"

type_synonym mac = "string \<Rightarrow> string \<Rightarrow> nat list"

definition b64urlEncode :: "string \<Rightarrow> string" where "b64urlEncode s = b64url_encode (utf8 s)"

definition claims_json :: "ManagerClaims \<Rightarrow> json" where
  "claims_json c =
     JObj ([(''jti'', JStr (mc_jti c)), (''iat'', jint (mc_iat c)), (''exp'', jint (mc_exp c)),
            (''sub'', JStr ''manager''), (''tenantId'', JStr (mc_tenant c)), (''role'', JStr (role_str (mc_role c)))]
           @ (case mc_user c of Some u \<Rightarrow> [(''userId'', JStr u)] | None \<Rightarrow> []))"

definition jwt_header :: json where
  "jwt_header = JObj [(''alg'', JStr ''HS256''), (''typ'', JStr ''JWT'')]"

definition sign :: "mac \<Rightarrow> (rat \<Rightarrow> string) \<Rightarrow> string \<Rightarrow> ManagerClaims \<Rightarrow> string" where
  "sign mac num secret claims =
     (let header = b64urlEncode (stringify num jwt_header);
          payload = b64urlEncode (stringify num (claims_json claims));
          data = header @ ''.'' @ payload;
          sig = b64url_encode (mac secret data)
      in data @ ''.'' @ sig)"

text \<open>\<open>Number.isSafeInteger\<close>\<close>

definition safe_integer :: "json option \<Rightarrow> int option" where
  "safe_integer v =
     (case v of
        Some (JNum q) \<Rightarrow> if of_int \<lfloor>q\<rfloor> = q \<and> \<bar>\<lfloor>q\<rfloor>\<bar> \<le> 9007199254740991 then Some \<lfloor>q\<rfloor> else None
      | _ \<Rightarrow> None)"

definition header_ok :: "string \<Rightarrow> bool" where
  "header_ok h =
     (case json_parse (utf8_text (b64_decode h)) of
        None \<Rightarrow> False
      | Some header \<Rightarrow> jget header ''alg'' = Some (JStr ''HS256'') \<and> jget header ''typ'' = Some (JStr ''JWT''))"

text \<open>The checks on the claims; \<open>undefined\<close> is the only value that leaves out a user.\<close>

definition read_claims :: "time \<Rightarrow> json \<Rightarrow> ManagerClaims option" where
  "read_claims now v =
     (if jget v ''sub'' \<noteq> Some (JStr ''manager'') then None
      else
        case (as_string (jget v ''tenantId''), as_string (jget v ''jti''), safe_integer (jget v ''iat''),
              safe_integer (jget v ''exp''), as_string (jget v ''role'')) of
          (Some tenantId, Some jti, Some iat, Some until, Some role) \<Rightarrow>
            (if length tenantId < 1 \<or> length tenantId > 128 \<or> length jti < 16 \<or> length jti > 128
                \<or> until \<le> iat \<or> until - iat > MAX_AGE_SECONDS then None
             else
               case role_of role of
                 None \<Rightarrow> None
               | Some r \<Rightarrow>
                   (let user = jget v ''userId'' in
                    if user \<noteq> None
                       \<and> (case as_string user of None \<Rightarrow> True | Some u \<Rightarrow> length u < 1 \<or> length u > 128) then None
                    else if until * 1000 \<le> now then None
                    else if iat * 1000 > now + 60000 then None
                    else Some \<lparr>mc_jti = jti, mc_iat = iat, mc_exp = until, mc_tenant = tenantId,
                               mc_user = as_string user, mc_role = r\<rparr>))
        | _ \<Rightarrow> None)"

text \<open>\<open>verify\<close>; \<open>secret\<close> is the value of \<open>getSecret()\<close>, read only after the header check.\<close>

definition verify :: "mac \<Rightarrow> string + string \<Rightarrow> time \<Rightarrow> string \<Rightarrow> string + ManagerClaims option" where
  "verify mac secret now token =
     (if length token < 40 \<or> length token > 4096 then Inr None
      else
        case split_on (CHR ''.'') token of
          [h, p, s] \<Rightarrow>
            (if \<not> header_ok h then Inr None
             else
               case secret of
                 Inl e \<Rightarrow> Inl e
               | Inr key \<Rightarrow>
                   (let expected = b64url_encode (mac key (h @ ''.'' @ p)) in
                    if utf8 s \<noteq> utf8 expected then Inr None
                    else
                      case json_parse (utf8_text (b64_decode p)) of
                        None \<Rightarrow> Inr None
                      | Some claims \<Rightarrow> Inr (read_claims now claims)))
        | _ \<Rightarrow> Inr None)"

section \<open>Sessions\<close>

definition session_row :: "gateway_db \<Rightarrow> string \<Rightarrow> manager_session option" where
  "session_row db jti = row_by ms_jti jti (manager_sessions db)"

definition membership :: "gateway_db \<Rightarrow> string \<Rightarrow> string \<Rightarrow> tenant_user option" where
  "membership db userId tenantId = find_first (\<lambda>u. tu_user u = userId \<and> tu_tenant u = tenantId) (tenant_users db)"

definition validateManagerClaims :: "time \<Rightarrow> gateway_db \<Rightarrow> ManagerClaims option \<Rightarrow> ManagerClaims option" where
  "validateManagerClaims now db claims =
     (case claims of
        None \<Rightarrow> None
      | Some c \<Rightarrow>
          (case session_row db (mc_jti c) of
             None \<Rightarrow> None
           | Some row \<Rightarrow>
               if ms_revoked row \<noteq> None then None
               else if ms_expires row \<le> now then None
               else if ms_tenant row \<noteq> mc_tenant c \<or> ms_role row \<noteq> role_str (mc_role c) \<or> ms_user row \<noteq> mc_user c then None
               else if truthy (ms_user row) then
                 (case membership db (the (ms_user row)) (ms_tenant row) of
                    None \<Rightarrow> None
                  | Some m \<Rightarrow> if tu_role m \<noteq> ms_role row then None else Some c)
               else Some c))"

record identity =
  id_user :: "string option"
  id_role :: ManagerRole

text \<open>\<open>jti\<close> is the hex text of sixteen random bytes.\<close>

definition createManagerSession ::
  "mac \<Rightarrow> (rat \<Rightarrow> string) \<Rightarrow> string + string \<Rightarrow> string \<Rightarrow> time \<Rightarrow> time \<Rightarrow> string \<Rightarrow> identity \<Rightarrow> gateway_db
     \<Rightarrow> string + gateway_db \<times> string \<times> time" where
  "createManagerSession mac num secret jti now db_clock tenantId who db =
     (let iat = now div 1000;
          until = iat + MAX_AGE_SECONDS;
          user = (if truthy (id_user who) then id_user who else None);
          claims = \<lparr>mc_jti = jti, mc_iat = iat, mc_exp = until, mc_tenant = tenantId, mc_user = user, mc_role = id_role who\<rparr>
      in case secret of
           Inl e \<Rightarrow> Inl e
         | Inr key \<Rightarrow>
             Inr (db\<lparr>manager_sessions := manager_sessions db @
                      [\<lparr>ms_jti = jti, ms_tenant = tenantId, ms_user = id_user who, ms_role = role_str (id_role who),
                        ms_created = db_clock, ms_expires = until * 1000, ms_revoked = None\<rparr>]\<rparr>,
                  sign mac num key claims, until * 1000))"

text \<open>The session cookie of a request, else its bearer token.\<close>

definition strip_quotes :: "string \<Rightarrow> string" where
  "strip_quotes t =
     (if starts_with t [CHR 0x22] \<and> ends_with t [CHR 0x22] then take (length t - 2) (drop 1 t) else t)"

definition cookie_token :: "string \<Rightarrow> string option" where
  "cookie_token cookieHeader =
     (case List.find (\<lambda>part. hd (split_on (CHR ''='') (js_trim part)) = COOKIE_NAME) (split_on (CHR '';'') cookieHeader) of
        None \<Rightarrow> None
      | Some part \<Rightarrow> Some (strip_quotes (js_trim (join_with ''='' (tl (split_on (CHR ''='') (js_trim part)))))))"

definition request_token :: "string option \<Rightarrow> string option \<Rightarrow> string option" where
  "request_token cookie authorization =
     (let token = cookie_token (or_empty cookie) in
      if truthy token then token
      else
        case authorization of
          Some a \<Rightarrow> if starts_with a ''Bearer '' then Some (js_trim (drop 7 a)) else token
        | None \<Rightarrow> token)"

definition validateManager ::
  "mac \<Rightarrow> string + string \<Rightarrow> time \<Rightarrow> time \<Rightarrow> string option \<Rightarrow> string option \<Rightarrow> gateway_db \<Rightarrow> string + ManagerClaims option" where
  "validateManager mac secret now now' cookie authorization db =
     (let token = request_token cookie authorization in
      if \<not> truthy token then Inr None
      else
        case verify mac secret now (the token) of
          Inl e \<Rightarrow> Inl e
        | Inr claims \<Rightarrow> Inr (validateManagerClaims now' db claims))"

definition revokeManagerSession :: "time \<Rightarrow> string \<Rightarrow> gateway_db \<Rightarrow> gateway_db" where
  "revokeManagerSession now jti db =
     db\<lparr>manager_sessions := update_where (\<lambda>r. ms_jti r = jti) (\<lambda>r. r\<lparr>ms_revoked := Some now\<rparr>) (manager_sessions db)\<rparr>"

definition cleanupExpiredManagerSessions :: "time \<Rightarrow> gateway_db \<Rightarrow> gateway_db \<times> nat" where
  "cleanupExpiredManagerSessions now db =
     (let old = (\<lambda>r. ms_expires r \<le> now)
      in (db\<lparr>manager_sessions := delete_where old (manager_sessions db)\<rparr>, count_where old (manager_sessions db)))"

text \<open>\<open>override\<close> is \<open>COOKIE_SECURE\<close>; \<open>production\<close> tells whether \<open>NODE_ENV\<close> says so.\<close>

definition managerCookieSecure :: "string option \<Rightarrow> bool \<Rightarrow> bool" where
  "managerCookieSecure override production =
     (if override = Some ''1'' \<or> override = Some ''true'' then True
      else if override = Some ''0'' \<or> override = Some ''false'' then False
      else production)"

definition managerCookieHeader :: "bool \<Rightarrow> string \<Rightarrow> string \<Rightarrow> string" where
  "managerCookieHeader secure token expires =
     COOKIE_NAME @ ''='' @ token @ ''; Path=/; HttpOnly; SameSite=Lax'' @ (if secure then ''; Secure'' else '''')
     @ ''; Expires='' @ expires @ ''; Max-Age='' @ int_str MAX_AGE_SECONDS"

definition clearManagerCookieHeader :: string where
  "clearManagerCookieHeader =
     COOKIE_NAME @ ''=; Path=/; HttpOnly; SameSite=Lax; Expires=Thu, 01 Jan 1970 00:00:00 GMT; Max-Age=0''"

end
