(* ===== verification/Manager_Sessions.thy ===== *)
theory Manager_Sessions
  imports Manager_Auth
begin

text \<open>
  A session from its creation to its end: the token a manager gets is read back as the claims it
  was made of, and it is good exactly as long as its row, the clock and the membership say.
\<close>

text \<open>Documented behaviour of \<open>Number::toString\<close> and of HMAC-SHA-256.\<close>

definition prints_ints :: "(rat \<Rightarrow> string) \<Rightarrow> bool" where
  "prints_ints num \<longleftrightarrow> (\<forall>n. \<bar>n\<bar> \<le> 9007199254740991 \<longrightarrow> num (of_int n) = int_str n)"

definition mac_sha256 :: "mac \<Rightarrow> bool" where
  "mac_sha256 mac \<longleftrightarrow> (\<forall>k d. length (mac k d) = 32 \<and> (\<forall>b \<in> set (mac k d). b < 256))"

text \<open>Identifiers as the gateway makes them: printable, and nothing JSON escapes.\<close>

definition plain_id :: "string \<Rightarrow> bool" where
  "plain_id s \<longleftrightarrow> 1 \<le> length s \<and> length s \<le> 128
     \<and> list_all (\<lambda>c. 32 \<le> (of_char c :: nat) \<and> (of_char c :: nat) < 127 \<and> c \<noteq> CHR 0x22 \<and> c \<noteq> CHR 0x5C) s"

definition wf_claims :: "ManagerClaims \<Rightarrow> bool" where
  "wf_claims c \<longleftrightarrow> plain_id (mc_jti c) \<and> 16 \<le> length (mc_jti c) \<and> plain_id (mc_tenant c)
     \<and> (case mc_user c of None \<Rightarrow> True | Some u \<Rightarrow> plain_id u)
     \<and> 0 \<le> mc_iat c \<and> mc_iat c < mc_exp c \<and> mc_exp c - mc_iat c \<le> MAX_AGE_SECONDS
     \<and> mc_exp c \<le> 9007199254740991"

lemma quote_plain: "plain_id s \<Longrightarrow> json_quote s = [CHR 0x22] @ s @ [CHR 0x22]"
proof -
  assume "plain_id s"
  then have "quote_char c = [c]" if "c \<in> set s" for c
    using that quote_char_plain [of c] by (simp add: plain_id_def list_all_iff)
  then have "map quote_char s = map (\<lambda>c. [c]) s" by simp
  then have "concat (map quote_char s) = concat (map (\<lambda>c. [c]) s)" by (simp only:)
  also have "\<dots> = s" by (induction s) simp_all
  finally show ?thesis by (simp add: json_quote_def)
qed

lemma plain_ascii:
  assumes "plain_id s"
  shows "ascii s"
proof -
  have "(of_char c :: nat) < 128" if "c \<in> set s" for c
  proof -
    have "(of_char c :: nat) < 127" using assms that unfolding plain_id_def list_all_iff by blast
    then show ?thesis by linarith
  qed
  then show ?thesis unfolding ascii_def list_all_iff by blast
qed

lemma stamp_digits: "n < 10 ^ k \<Longrightarrow> 0 < k \<Longrightarrow> length (nat_str n) \<le> k"
proof (induction n arbitrary: k rule: nat_str.induct)
  case (1 n)
  show ?case
  proof (cases "n < 10")
    case True
    then show ?thesis using 1 by (simp add: js_simps)
  next
    case False
    then obtain j where k: "k = Suc j" "0 < j" using 1 by (cases k; cases "k = 1") auto
    then have "n div 10 < 10 ^ j" using 1(2) by (simp add: less_mult_imp_div_less mult.commute)
    then show ?thesis using 1(1) [of j] False k by (simp add: js_simps)
  qed
qed

lemma int_str_length: "0 \<le> n \<Longrightarrow> n \<le> 9007199254740991 \<Longrightarrow> length (int_str n) \<le> 16"
  using stamp_digits [of "nat n" 16] by (simp add: int_str_def)

lemma int_str_ascii: "ascii (int_str n)"
proof -
  have "ascii (nat_str m)" for m
    using nat_str_digits [of m] by (auto simp: ascii_def list_all_iff is_digit_def)
  then show ?thesis by (simp add: int_str_def ascii_def)
qed

lemma header_text: "stringify num jwt_header = [CHR ''{'', CHR 0x22] @ ''alg'' @ [CHR 0x22, CHR '':'', CHR 0x22] @ ''HS256''
    @ [CHR 0x22, CHR '','', CHR 0x22] @ ''typ'' @ [CHR 0x22, CHR '':'', CHR 0x22] @ ''JWT'' @ [CHR 0x22, CHR ''}'']"
  by (simp add: jwt_header_def json_quote_def quote_char_def Let_def)

lemma encoded: "json_parse (utf8_text (b64_decode (b64urlEncode s))) = json_parse s"
  unfolding b64urlEncode_def using b64url_roundtrip [of "utf8 s"] utf8_bytes by (simp add: utf8_text_utf8)

lemma header_accepted: "header_ok (b64urlEncode (stringify num jwt_header))"
proof -
  have "json_parse (stringify num jwt_header) = Some jwt_header"
    by (rule json_parse_stringify) (simp add: jwt_header_def)
  then show ?thesis unfolding header_ok_def encoded by (simp add: jwt_header_def jprop_def)
qed

lemma claims_written:
  assumes "prints_ints num" and "wf_claims c"
  shows "json_parse (stringify num (claims_json c)) = Some (claims_json c)"
proof (rule json_parse_stringify)
  have "num (of_int (mc_iat c)) = int_str (mc_iat c)" "num (of_int (mc_exp c)) = int_str (mc_exp c)"
    using assms by (auto simp: prints_ints_def wf_claims_def)
  then show "writable num (claims_json c)"
    by (auto simp: claims_json_def jint_def split: option.splits)
qed

lemma claims_read:
  assumes "wf_claims c" and "mc_iat c * 1000 \<le> now + 60000" and "now < mc_exp c * 1000"
  shows "read_claims now (claims_json c) = Some c"
proof -
  have get: "jget (claims_json c) ''sub'' = Some (JStr ''manager'')" "jget (claims_json c) ''tenantId'' = Some (JStr (mc_tenant c))"
    "jget (claims_json c) ''jti'' = Some (JStr (mc_jti c))" "jget (claims_json c) ''iat'' = Some (jint (mc_iat c))"
    "jget (claims_json c) ''exp'' = Some (jint (mc_exp c))" "jget (claims_json c) ''role'' = Some (JStr (role_str (mc_role c)))"
    "jget (claims_json c) ''userId'' = map_option JStr (mc_user c)"
    by (auto simp: claims_json_def jprop_def split: option.splits)
  have ints: "safe_integer (Some (jint (mc_iat c))) = Some (mc_iat c)" "safe_integer (Some (jint (mc_exp c))) = Some (mc_exp c)"
    using assms(1) by (auto simp: safe_integer_def jint_def wf_claims_def)
  have lens: "1 \<le> length (mc_tenant c)" "length (mc_tenant c) \<le> 128" "16 \<le> length (mc_jti c)" "length (mc_jti c) \<le> 128"
    "mc_iat c < mc_exp c" "mc_exp c - mc_iat c \<le> MAX_AGE_SECONDS"
    using assms(1) by (auto simp: wf_claims_def plain_id_def)
  have user: "as_string (map_option JStr (mc_user c)) = mc_user c"
    "\<And>u. mc_user c = Some u \<Longrightarrow> u \<noteq> [] \<and> length u \<le> 128"
    using assms(1) by (cases "mc_user c"; auto simp: wf_claims_def plain_id_def)+
  have "mc_tenant c \<noteq> []" using lens(1) by auto
  then show ?thesis using lens assms(2,3) user(2)
    by (auto simp: read_claims_def get ints user(1) Let_def not_less not_le split: option.splits
        intro!: ManagerClaims.equality)
qed

lemma claims_expired:
  assumes "wf_claims c" and "mc_exp c * 1000 \<le> now"
  shows "read_claims now (claims_json c) = None"
proof -
  have "jget (claims_json c) ''exp'' = Some (jint (mc_exp c))"
    by (auto simp: claims_json_def jprop_def)
  moreover have "safe_integer (Some (jint (mc_exp c))) = Some (mc_exp c)"
    using assms(1) by (auto simp: safe_integer_def jint_def wf_claims_def)
  ultimately show ?thesis using assms(2)
    by (simp add: read_claims_def Let_def split: option.splits if_splits)
qed

lemma claims_text:
  assumes "prints_ints num" and "wf_claims c"
  shows "ascii (stringify num (claims_json c))" and "length (stringify num (claims_json c)) \<le> 520"
proof -
  have n: "num (of_int (mc_iat c)) = int_str (mc_iat c)" "num (of_int (mc_exp c)) = int_str (mc_exp c)"
    using assms by (auto simp: prints_ints_def wf_claims_def)
  have l: "length (int_str (mc_iat c)) \<le> 16" "length (int_str (mc_exp c)) \<le> 16"
    using assms(2) by (auto simp: wf_claims_def intro!: int_str_length)
  have q: "json_quote (mc_jti c) = [CHR 0x22] @ mc_jti c @ [CHR 0x22]" "json_quote (mc_tenant c) = [CHR 0x22] @ mc_tenant c @ [CHR 0x22]"
    and ids: "plain_id (mc_jti c)" "plain_id (mc_tenant c)"
    using assms(2) quote_plain by (simp_all add: wf_claims_def)
  have names: "json_quote w = [CHR 0x22] @ w @ [CHR 0x22] \<and> ascii w \<and> length w \<le> 17"
    if "w \<in> set [''jti'', ''iat'', ''exp'', ''sub'', ''manager'', ''tenantId'', ''role'', ''userId'', role_str (mc_role c)]" for w
    using that by (cases "mc_role c") (auto simp: json_quote_def quote_char_def Let_def ascii_def)
  note nm = names [of "''jti''"] names [of "''iat''"] names [of "''exp''"] names [of "''sub''"] names [of "''manager''"]
    names [of "''tenantId''"] names [of "''role''"] names [of "''userId''"] names [of "role_str (mc_role c)"]
  have "ascii (stringify num (claims_json c)) \<and> length (stringify num (claims_json c)) \<le> 520"
  proof (cases "mc_user c")
    case None
    then show ?thesis using nm l ids int_str_ascii [of "mc_iat c"] int_str_ascii [of "mc_exp c"]
        plain_ascii [OF ids(1)] plain_ascii [OF ids(2)]
      by (simp add: claims_json_def jint_def n q plain_id_def) (simp add: ascii_def)
  next
    case (Some u)
    then have u: "plain_id u" using assms(2) by (simp add: wf_claims_def)
    show ?thesis using nm l ids u int_str_ascii [of "mc_iat c"] int_str_ascii [of "mc_exp c"]
        plain_ascii [OF ids(1)] plain_ascii [OF ids(2)] plain_ascii [OF u]
      by (simp add: claims_json_def jint_def n q plain_id_def Some quote_plain [OF u]) (simp add: ascii_def)
  qed
  then show "ascii (stringify num (claims_json c))" "length (stringify num (claims_json c)) \<le> 520" by simp_all
qed

section \<open>The token\<close>

definition url_plain :: "char \<Rightarrow> bool" where
  "url_plain c \<longleftrightarrow> \<not> is_ws c \<and> c \<notin> set [CHR ''.'', CHR '';'', CHR ''='', CHR 0x22]"

lemma alphabet_plain: "list_all (\<lambda>c. url_plain (url_char c)) b64_alphabet"
  by code_simp

lemma part_plain:
  assumes "\<forall>b \<in> set bs. b < 256"
  shows "list_all url_plain (b64url_encode bs)"
  by (rule b64url_all [OF alphabet_plain assms])

text \<open>The three parts of a token, with the sizes \<^const>\<open>verify\<close> asks about.\<close>

lemma sign_parts:
  assumes num: "prints_ints num" and mac: "mac_sha256 mac" and c: "wf_claims c"
  obtains h p s where "sign mac num key c = h @ ''.'' @ p @ ''.'' @ s"
    and "h = b64urlEncode (stringify num jwt_header)" and "p = b64urlEncode (stringify num (claims_json c))"
    and "s = b64url_encode (mac key (h @ ''.'' @ p))"
    and "list_all url_plain h" and "list_all url_plain p" and "list_all url_plain s"
    and "40 \<le> length (sign mac num key c)" and "length (sign mac num key c) \<le> 4096"
proof -
  let ?h = "b64urlEncode (stringify num jwt_header)" and ?p = "b64urlEncode (stringify num (claims_json c))"
  let ?s = "b64url_encode (mac key (?h @ ''.'' @ ?p))"
  have bytes: "\<forall>b \<in> set (mac key (?h @ ''.'' @ ?p)). b < 256" "length (mac key (?h @ ''.'' @ ?p)) = 32"
    using mac by (simp_all add: mac_sha256_def)
  have plain: "list_all url_plain ?h" "list_all url_plain ?p" "list_all url_plain ?s"
    using part_plain utf8_bytes bytes(1) by (auto simp: b64urlEncode_def)
  have htext: "ascii (stringify num jwt_header)" "length (stringify num jwt_header) = 27"
    by (simp_all add: header_text ascii_def)
  have hlen: "27 \<le> length ?h" "length ?h \<le> 36"
    using b64url_length [of "latin1 (stringify num jwt_header)"] latin1_bytes htext
    by (auto simp: b64urlEncode_def utf8_ascii)
  have plen: "length ?p \<le> 4 * ((520 + 2) div 3)"
  proof -
    have l: "length (utf8 (stringify num (claims_json c))) \<le> 520"
      using claims_text [OF num c] by (simp add: utf8_ascii)
    have "length ?p \<le> 4 * ((length (utf8 (stringify num (claims_json c))) + 2) div 3)"
      unfolding b64urlEncode_def using b64url_length(2) utf8_bytes by blast
    also have "\<dots> \<le> 4 * ((520 + 2) div 3)" using l by (intro mult_le_mono2 div_le_mono) simp
    finally show ?thesis .
  qed
  have slen: "32 \<le> length ?s" "length ?s \<le> 44"
    using b64url_length [OF bytes(1)] bytes(2) by simp_all
  have tok: "sign mac num key c = ?h @ ''.'' @ ?p @ ''.'' @ ?s" by (simp add: sign_def Let_def)
  show ?thesis by (rule that [OF tok refl refl refl plain]) (use hlen plen slen in \<open>simp_all add: tok\<close>)
qed

lemma plain_not: "list_all url_plain s \<Longrightarrow> CHR ''.'' \<notin> set s \<and> CHR '';'' \<notin> set s \<and> CHR ''='' \<notin> set s \<and> CHR 0x22 \<notin> set s"
  by (auto simp: list_all_iff url_plain_def)

lemma verify_signed:
  assumes num: "prints_ints num" and mac: "mac_sha256 mac" and c: "wf_claims c"
  shows "verify mac (Inr key) now (sign mac num key c) = Inr (read_claims now (claims_json c))"
proof -
  obtain h p s where t: "sign mac num key c = h @ ''.'' @ p @ ''.'' @ s"
    and h: "h = b64urlEncode (stringify num jwt_header)" and p: "p = b64urlEncode (stringify num (claims_json c))"
    and s: "s = b64url_encode (mac key (h @ ''.'' @ p))"
    and plain: "list_all url_plain h" "list_all url_plain p" "list_all url_plain s"
    and len: "40 \<le> length (sign mac num key c)" "length (sign mac num key c) \<le> 4096"
    by (rule sign_parts [OF num mac c])
  have "split_on (CHR ''.'') (sign mac num key c) = [h, p, s]"
    using plain_not [OF plain(1)] plain_not [OF plain(2)] plain_not [OF plain(3)]
    by (simp add: t split_on_append split_on_plain)
  moreover have "header_ok h" unfolding h by (rule header_accepted)
  moreover have "json_parse (utf8_text (b64_decode p)) = Some (claims_json c)"
    unfolding p encoded by (rule claims_written [OF num c])
  ultimately show ?thesis using len s by (simp add: verify_def Let_def)
qed

text \<open>The cookie the login sets, as the browser sends it back.\<close>

lemma cookie_back:
  assumes num: "prints_ints num" and mac: "mac_sha256 mac" and c: "wf_claims c"
  shows "request_token (Some (COOKIE_NAME @ ''='' @ sign mac num key c)) auth = Some (sign mac num key c)"
proof -
  obtain h p s where t: "sign mac num key c = h @ ''.'' @ p @ ''.'' @ s"
    and plain: "list_all url_plain h" "list_all url_plain p" "list_all url_plain s"
    and len: "40 \<le> length (sign mac num key c)"
    using sign_parts [OF num mac c, of key] by metis
  let ?t = "sign mac num key c"
  have chars: "list_all (\<lambda>c. url_plain c \<or> c = CHR ''.'') ?t"
    using plain by (auto simp: t list_all_iff)
  have no: "CHR '';'' \<notin> set ?t" "CHR ''='' \<notin> set ?t" "CHR 0x22 \<notin> set ?t"
    using plain_not [OF plain(1)] plain_not [OF plain(2)] plain_not [OF plain(3)] by (auto simp: t)
  have ne: "?t \<noteq> []" using len by auto
  have ends: "\<not> is_ws (last ?t)" "\<not> is_ws (hd ?t)"
  proof -
    have "url_plain x \<or> x = CHR ''.'' \<Longrightarrow> \<not> is_ws x" for x by (auto simp: url_plain_def is_ws_def)
    then show "\<not> is_ws (last ?t)" "\<not> is_ws (hd ?t)" using chars ne last_in_set [OF ne] hd_in_set [OF ne]
      by (auto simp: list_all_iff)
  qed
  let ?c = "COOKIE_NAME @ CHR ''='' # ?t"
  have "js_trim ?c = ?c"
    by (rule js_trim_id) (use ends ne in \<open>simp_all add: COOKIE_NAME_def is_ws_def\<close>)
  moreover have "split_on (CHR '';'') ?c = [?c]"
    by (rule split_on_plain) (use no in \<open>simp add: COOKIE_NAME_def\<close>)
  moreover have "split_on (CHR ''='') ?c = [COOKIE_NAME, ?t]"
    using no by (subst split_on_append) (simp_all add: COOKIE_NAME_def split_on_plain)
  moreover have "js_trim ?t = ?t" by (rule js_trim_id) (use ends ne in simp_all)
  moreover have "strip_quotes ?t = ?t"
    using no(3) ne by (cases ?t) (auto simp: strip_quotes_def)
  ultimately have "cookie_token ?c = Some ?t" by (simp add: cookie_token_def)
  then show ?thesis using ne by (simp add: request_token_def or_empty_def)
qed

section \<open>The life of a session\<close>

definition created_claims :: "string \<Rightarrow> time \<Rightarrow> string \<Rightarrow> identity \<Rightarrow> ManagerClaims" where
  "created_claims jti now tenantId who =
     \<lparr>mc_jti = jti, mc_iat = now div 1000, mc_exp = now div 1000 + MAX_AGE_SECONDS, mc_tenant = tenantId,
      mc_user = id_user who, mc_role = id_role who\<rparr>"

definition created_row :: "string \<Rightarrow> time \<Rightarrow> time \<Rightarrow> string \<Rightarrow> identity \<Rightarrow> manager_session" where
  "created_row jti now clock tenantId who =
     \<lparr>ms_jti = jti, ms_tenant = tenantId, ms_user = id_user who, ms_role = role_str (id_role who), ms_created = clock,
      ms_expires = (now div 1000 + MAX_AGE_SECONDS) * 1000, ms_revoked = None\<rparr>"

text \<open>Whether a later database still lets the session in: for a user, the role it was created with.\<close>

definition still_member :: "gateway_db \<Rightarrow> string \<Rightarrow> identity \<Rightarrow> bool" where
  "still_member db tenantId who =
     (case id_user who of
        None \<Rightarrow> True
      | Some u \<Rightarrow> (case membership db u tenantId of None \<Rightarrow> False | Some m \<Rightarrow> tu_role m = role_str (id_role who)))"

definition session_request :: "string \<Rightarrow> time \<Rightarrow> string \<Rightarrow> identity \<Rightarrow> bool" where
  "session_request jti now tenantId who \<longleftrightarrow> plain_id jti \<and> 16 \<le> length jti \<and> plain_id tenantId
     \<and> (case id_user who of None \<Rightarrow> True | Some u \<Rightarrow> plain_id u) \<and> 0 \<le> now \<and> now \<le> 8640000000000000"

lemma created_wf: "session_request jti now tenantId who \<Longrightarrow> wf_claims (created_claims jti now tenantId who)"
  by (auto simp: session_request_def wf_claims_def created_claims_def MAX_AGE_SECONDS_def)

lemma plain_id_nonempty: "plain_id u \<Longrightarrow> u \<noteq> []"
  unfolding plain_id_def by force

lemma plain_truthy: "session_request jti now tenantId who \<Longrightarrow> id_user who = Some u \<Longrightarrow> u \<noteq> []"
  unfolding session_request_def using plain_id_nonempty by simp

lemma create_result:
  assumes "session_request jti now tenantId who"
  shows "createManagerSession mac num (Inr key) jti now clock tenantId who db
    = Inr (db\<lparr>manager_sessions := manager_sessions db @ [created_row jti now clock tenantId who]\<rparr>,
           sign mac num key (created_claims jti now tenantId who), (now div 1000 + MAX_AGE_SECONDS) * 1000)"
proof -
  have "(if truthy (id_user who) then id_user who else None) = id_user who"
    using plain_truthy [OF assms] by (cases "id_user who") auto
  then show ?thesis by (simp add: createManagerSession_def Let_def created_row_def created_claims_def)
qed

lemma row_appended:
  "row_by ms_jti (ms_jti r) t = None \<Longrightarrow> row_by ms_jti (ms_jti r) (t @ [r]) = Some r"
  by (induction t) (auto simp: row_by_def find_first_def split: if_splits)

lemma row_revoked:
  "row_by ms_jti jti (update_where (\<lambda>r. ms_jti r = jti) (\<lambda>r. r\<lparr>ms_revoked := Some w\<rparr>) t) = Some r
     \<Longrightarrow> ms_revoked r = Some w"
proof (drule row_by_Some, elim conjE)
  assume in_t: "r \<in> set (update_where (\<lambda>r. ms_jti r = jti) (\<lambda>r. r\<lparr>ms_revoked := Some w\<rparr>) t)" and key: "ms_jti r = jti"
  then obtain s where s: "r = (if ms_jti s = jti then s\<lparr>ms_revoked := Some w\<rparr> else s)"
    unfolding set_update_where by blast
  show ?thesis
  proof (cases "ms_jti s = jti")
    case True
    then show ?thesis using s by simp
  next
    case False
    then show ?thesis using s key by simp
  qed
qed

lemma validate_created:
  assumes "session_request jti now tenantId who"
    and "session_row db jti = Some (created_row jti now clock tenantId who)"
  shows "validateManagerClaims t db (Some (created_claims jti now tenantId who))
    = (if t < (now div 1000 + MAX_AGE_SECONDS) * 1000 \<and> still_member db tenantId who
       then Some (created_claims jti now tenantId who) else None)"
proof (cases "id_user who")
  case None
  then show ?thesis using assms(2)
    by (simp add: validateManagerClaims_def created_claims_def created_row_def still_member_def)
next
  case (Some u)
  then have "u \<noteq> []" by (rule plain_truthy [OF assms(1)])
  then show ?thesis using assms(2) Some
    by (auto simp: validateManagerClaims_def created_claims_def created_row_def still_member_def split: option.splits)
qed

text \<open>C28. A manager's session: creating it stores its row and gives a token, and the cookie made
  of the token is accepted, as exactly the claims it was created with, as long as its eight
  hours are not over, its row stands and the user still has the role in the tenant; once the
  session is revoked, or its time is over, the cookie is refused.\<close>

theorem session_lifecycle:
  assumes num: "prints_ints num" and mac: "mac_sha256 mac" and req: "session_request jti now tenantId who"
    and created: "createManagerSession mac num (Inr key) jti now clock tenantId who db = Inr (db', token, until)"
    and fresh: "session_row db jti = None" and t: "now \<le> t + 60000" "t \<le> t'"
  defines "cookie \<equiv> Some (COOKIE_NAME @ ''='' @ token)"
  shows "session_row db' jti = Some (created_row jti now clock tenantId who)
    \<and> (\<forall>later. session_row later jti = Some (created_row jti now clock tenantId who) \<longrightarrow>
         validateManager mac (Inr key) t t' cookie auth later
           = Inr (if t' < (now div 1000 + 28800) * 1000 \<and> still_member later tenantId who
                  then Some (created_claims jti now tenantId who) else None))
    \<and> (\<forall>later w. validateManager mac (Inr key) t t' cookie auth (revokeManagerSession w jti later) = Inr None)"
proof -
  let ?c = "created_claims jti now tenantId who" and ?until = "(now div 1000 + MAX_AGE_SECONDS) * 1000"
  note wf = created_wf [OF req]
  have db': "db' = db\<lparr>manager_sessions := manager_sessions db @ [created_row jti now clock tenantId who]\<rparr>"
    and token: "token = sign mac num key ?c"
    using created create_result [OF req] by simp_all
  have row: "session_row db' jti = Some (created_row jti now clock tenantId who)"
    using fresh row_appended [of "created_row jti now clock tenantId who" "manager_sessions db"]
    by (simp add: session_row_def db' created_row_def)
  have read: "validateManager mac (Inr key) t t' cookie auth later
      = Inr (validateManagerClaims t' later (if t < ?until then Some ?c else None))" for later
  proof -
    have "read_claims t (claims_json ?c) = (if t < ?until then Some ?c else None)"
    proof (cases "t < ?until")
      case True
      have "now div 1000 * 1000 \<le> now" by simp
      then show ?thesis using True t claims_read [OF wf, of t] by (simp add: created_claims_def)
    next
      case False
      then show ?thesis using claims_expired [OF wf, of t] by (simp add: created_claims_def)
    qed
    moreover have "token \<noteq> []" unfolding token by (simp add: sign_def Let_def)
    ultimately show ?thesis
      using cookie_back [OF num mac wf, of key auth] verify_signed [OF num mac wf, of key t]
      by (simp add: validateManager_def cookie_def token Let_def)
  qed
  have "validateManagerClaims t' (revokeManagerSession w jti later) (Some ?c) = None" for later w
    by (auto simp: validateManagerClaims_def session_row_def revokeManagerSession_def created_claims_def
        split: option.splits dest!: row_revoked)
  then have "validateManager mac (Inr key) t t' cookie auth (revokeManagerSession w jti later) = Inr None" for later w
    unfolding read by (simp add: validateManagerClaims_def)
  moreover have "validateManager mac (Inr key) t t' cookie auth later
      = Inr (if t' < ?until \<and> still_member later tenantId who then Some ?c else None)"
    if "session_row later jti = Some (created_row jti now clock tenantId who)" for later
    using validate_created [OF req that, of t'] t(2) unfolding read by (simp add: validateManagerClaims_def)
  ultimately show ?thesis using row by (simp add: MAX_AGE_SECONDS_def)
qed

definition till_mac :: mac where "till_mac k d = replicate 32 (length (k @ d) mod 256)"
definition dot_zero :: "rat \<Rightarrow> string" where "dot_zero q = int_str \<lfloor>q\<rfloor>"
definition shop_keeper :: identity where "shop_keeper = \<lparr>id_user = Some ''u-7'', id_role = Operator\<rparr>"

lemma till_mac_ok: "mac_sha256 till_mac" and dot_zero_ok: "prints_ints dot_zero"
  by (simp_all add: mac_sha256_def till_mac_def prints_ints_def dot_zero_def)

theorem session_lifecycle_witness:
  "(case createManagerSession till_mac dot_zero (Inr ''key'') ''0123456789abcdef'' 1700000000999 0 ''shop'' shop_keeper empty_db of
      Inl e \<Rightarrow> False
    | Inr (db', token, until) \<Rightarrow>
        until = 1700028800000
        \<and> validateManager till_mac (Inr ''key'') 1700000000000 1700028799999 (Some (COOKIE_NAME @ ''='' @ token)) None
            (db'\<lparr>tenant_users := [\<lparr>tu_user = ''u-7'', tu_tenant = ''shop'', tu_role = ''operator''\<rparr>]\<rparr>)
          = Inr (Some (created_claims ''0123456789abcdef'' 1700000000999 ''shop'' shop_keeper)))"
proof -
  have req: "session_request ''0123456789abcdef'' 1700000000999 ''shop'' shop_keeper" by code_simp
  note made = create_result [OF req, of till_mac dot_zero "''key''" 0 empty_db]
  let ?db = "empty_db\<lparr>manager_sessions := [created_row ''0123456789abcdef'' 1700000000999 0 ''shop'' shop_keeper]\<rparr>"
  let ?later = "?db\<lparr>tenant_users := [\<lparr>tu_user = ''u-7'', tu_tenant = ''shop'', tu_role = ''operator''\<rparr>]\<rparr>"
  have fresh: "session_row empty_db ''0123456789abcdef'' = None" by code_simp
  have row: "session_row ?later ''0123456789abcdef'' = Some (created_row ''0123456789abcdef'' 1700000000999 0 ''shop'' shop_keeper)"
    by (simp add: session_row_def row_by_def find_first_def created_row_def)
  have "still_member ?later ''shop'' shop_keeper" by code_simp
  then show ?thesis
    using session_lifecycle [OF dot_zero_ok till_mac_ok req made fresh, of 1700000000000 1700028799999 None] row made
    by (simp add: MAX_AGE_SECONDS_def empty_db_def)
qed

end
