(* ===== verification/Auth_Limits.thy ===== *)
theory Auth_Limits
  imports Schema
begin

text \<open>
  \<open>src/lib/auth-rate-limit.ts\<close> and \<open>src/lib/ws-rate-limit.ts\<close>: failure counters with
  growing locks in the table \<open>auth_rate_limits\<close>, and the local copy of WebSocket locks.
  A statement sequence of one transaction is one step; \<open>isIP\<close> is an argument.
\<close>

definition AUTH_RATE_WINDOW_MS :: int where "AUTH_RATE_WINDOW_MS = 15 * 60 * 1000"
definition PAIRING_RATE_WINDOW_MS :: int where "PAIRING_RATE_WINDOW_MS = 15 * 60 * 1000"
definition AUTH_RATE_RETENTION_MS :: int where "AUTH_RATE_RETENTION_MS = 24 * 60 * 60 * 1000"

definition lockDurationMs :: "nat \<Rightarrow> int" where
  "lockDurationMs failures =
     (if failures < 5 then 0 else if failures < 10 then 30000 else if failures < 15 then 5 * 60000
      else if failures < 20 then 15 * 60000 else 60 * 60000)"

definition pairingLockDurationMs :: "nat \<Rightarrow> int" where
  "pairingLockDurationMs failures =
     (if failures < 5 then 0 else if failures < 10 then 30000 else if failures < 15 then 5 * 60000
      else if failures < 20 then 15 * 60000 else 60 * 60000)"

text \<open>\<open>trust\<close> is \<open>trustProxyEnabled()\<close>; the two headers are as \<open>Headers.get\<close> gives them.\<close>

definition clientIpFrom :: "(string \<Rightarrow> bool) \<Rightarrow> bool \<Rightarrow> string option \<Rightarrow> string option \<Rightarrow> string" where
  "clientIpFrom isIP trust forwardedFor realIp =
     (if \<not> trust then ''unknown''
      else
        let candidates = (case forwardedFor of Some f \<Rightarrow> split_on (CHR '','') f | None \<Rightarrow> [])
                         @ [case realIp of Some r \<Rightarrow> r | None \<Rightarrow> '''']
        in case List.find (\<lambda>ip. ip \<noteq> [] \<and> isIP ip) (map js_trim candidates) of
             Some ip \<Rightarrow> take 128 ip | None \<Rightarrow> ''unknown'')"

definition accountKey :: "string \<Rightarrow> string" where
  "accountKey username = ''acct:'' @ take 128 (js_lower (js_trim username))"
definition ipKey :: "string \<Rightarrow> string" where "ipKey ip = ''ip:'' @ take 128 ip"
definition pairingIpKey :: "string \<Rightarrow> string" where "pairingIpKey ip = ''pairing-ip:'' @ take 128 ip"

type_synonym limit_table = "auth_rate_limit list"

definition readBucket :: "string \<Rightarrow> limit_table \<Rightarrow> auth_rate_limit option" where
  "readBucket key t = row_by rl_key key t"

definition lockedFor :: "auth_rate_limit option \<Rightarrow> time \<Rightarrow> int" where
  "lockedFor row now =
     (case row of
        None \<Rightarrow> 0
      | Some r \<Rightarrow>
          (case rl_locked_until r of None \<Rightarrow> 0 | Some until \<Rightarrow> if until \<le> now then 0 else until - now))"

text \<open>A decision: allowed, or the seconds to wait.\<close>

datatype RateLimitDecision = Allowed | RetryAfter int

definition decide_remaining :: "int \<Rightarrow> RateLimitDecision" where
  "decide_remaining remaining =
     (if remaining > 0 then RetryAfter (max 1 \<lceil>(of_int remaining :: rat) / 1000\<rceil>) else Allowed)"

definition inspectAuthRateLimit :: "bool \<Rightarrow> time \<Rightarrow> string \<Rightarrow> string \<Rightarrow> limit_table \<Rightarrow> RateLimitDecision" where
  "inspectAuthRateLimit trust now ip username t =
     (let account = readBucket (accountKey username) t in
      if \<not> trust \<or> ip = ''unknown'' then decide_remaining (lockedFor account now)
      else decide_remaining (max (lockedFor (readBucket (ipKey ip) t) now) (lockedFor account now)))"

definition inspectPairingRateLimit :: "time \<Rightarrow> string \<Rightarrow> limit_table \<Rightarrow> RateLimitDecision" where
  "inspectPairingRateLimit now ip t = decide_remaining (lockedFor (readBucket (pairingIpKey ip) t) now)"

text \<open>The row a failure leaves behind; \<open>bumpWith\<close> inserts it when the key is new.\<close>

definition bumped :: "string \<Rightarrow> int \<Rightarrow> (nat \<Rightarrow> int) \<Rightarrow> time \<Rightarrow> auth_rate_limit option \<Rightarrow> auth_rate_limit" where
  "bumped key windowMs lockFn now existing =
     (let row = (case existing of
                   Some r \<Rightarrow> r
                 | None \<Rightarrow> \<lparr>rl_key = key, rl_failures = 0, rl_window_started = now, rl_locked_until = None, rl_updated = now\<rparr>);
          windowExpired = (rl_window_started row < now - windowMs);
          newFailures = (if windowExpired then 1 else rl_failures row + 1);
          lockMs = lockFn newFailures
      in row\<lparr>rl_failures := newFailures,
             rl_window_started := (if windowExpired then now else rl_window_started row),
             rl_locked_until := (if lockMs > 0 then Some (now + lockMs) else None),
             rl_updated := now\<rparr>)"

definition put_row :: "auth_rate_limit \<Rightarrow> limit_table \<Rightarrow> limit_table" where
  "put_row r t =
     (if row_by rl_key (rl_key r) t = None then t @ [r] else update_where (\<lambda>x. rl_key x = rl_key r) (\<lambda>_. r) t)"

definition bumpWith :: "string \<Rightarrow> int \<Rightarrow> (nat \<Rightarrow> int) \<Rightarrow> time \<Rightarrow> limit_table \<Rightarrow> limit_table \<times> time option" where
  "bumpWith key windowMs lockFn now t =
     (let r = bumped key windowMs lockFn now (readBucket key t) in (put_row r t, rl_locked_until r))"

definition bump :: "string \<Rightarrow> time \<Rightarrow> limit_table \<Rightarrow> limit_table \<times> time option" where
  "bump key now t = bumpWith key AUTH_RATE_WINDOW_MS lockDurationMs now t"

text \<open>\<open>now\<close> is the clock of the transactions, \<open>now'\<close> the one read afterwards.\<close>

definition recordPairingFailure :: "time \<Rightarrow> time \<Rightarrow> string \<Rightarrow> limit_table \<Rightarrow> limit_table \<times> RateLimitDecision" where
  "recordPairingFailure now now' ip t =
     (let (t', locked) = bumpWith (pairingIpKey ip) PAIRING_RATE_WINDOW_MS pairingLockDurationMs now t
      in (t', case locked of None \<Rightarrow> Allowed | Some until \<Rightarrow> decide_remaining (until - now')))"

definition cleanupAuthRateLimits :: "time \<Rightarrow> limit_table \<Rightarrow> limit_table \<times> nat" where
  "cleanupAuthRateLimits now t =
     (let old = (\<lambda>r. rl_updated r < now - AUTH_RATE_RETENTION_MS) in (delete_where old t, count_where old t))"

definition recordAuthFailure :: "bool \<Rightarrow> time \<Rightarrow> time \<Rightarrow> string \<Rightarrow> string \<Rightarrow> limit_table \<Rightarrow> limit_table \<times> RateLimitDecision" where
  "recordAuthFailure trust now now' ip username t =
     (let (t1, acct) = bump (accountKey username) now t in
      if \<not> trust \<or> ip = ''unknown''
      then (t1, case acct of None \<Rightarrow> Allowed | Some until \<Rightarrow> decide_remaining (until - now'))
      else
        let (t2, viaIp) = bump (ipKey ip) now t1
        in (t2, case (viaIp, acct) of
                  (None, None) \<Rightarrow> Allowed
                | (Some a, None) \<Rightarrow> decide_remaining (a - now')
                | (None, Some b) \<Rightarrow> decide_remaining (b - now')
                | (Some a, Some b) \<Rightarrow> decide_remaining (max a b - now')))"

definition recordAuthSuccess :: "string \<Rightarrow> limit_table \<Rightarrow> limit_table" where
  "recordAuthSuccess username t = delete_where (\<lambda>r. rl_key r = accountKey username) t"

definition recordPairingSuccess :: "string \<Rightarrow> limit_table \<Rightarrow> limit_table" where
  "recordPairingSuccess ip t = delete_where (\<lambda>r. rl_key r = pairingIpKey ip) t"

section \<open>WebSocket upgrades\<close>

definition WINDOW_MS :: int where "WINDOW_MS = 60000"
definition MAX_FAILURES :: nat where "MAX_FAILURES = 20"
definition LOCK_MS :: int where "LOCK_MS = 60000"

type_synonym local_locks = "string \<Rightarrow> time option"

definition isWsUpgradeLocallyLocked :: "string \<Rightarrow> time \<Rightarrow> local_locks \<Rightarrow> local_locks \<times> bool" where
  "isWsUpgradeLocallyLocked key now locks =
     (let until = (case locks key of Some u \<Rightarrow> u | None \<Rightarrow> 0) in
      if until \<le> now then (locks(key := None), False) else (locks, True))"

definition wsKey :: "string \<Rightarrow> string" where "wsKey key = ''ws-upgrade:'' @ key"

definition inspectWsUpgradeRateLimit ::
  "string \<Rightarrow> time \<Rightarrow> local_locks \<Rightarrow> limit_table \<Rightarrow> local_locks \<times> RateLimitDecision" where
  "inspectWsUpgradeRateLimit key now locks t =
     (let (locks1, locked) = isWsUpgradeLocallyLocked key now locks in
      if locked then
        (let until = (case locks1 key of Some u \<Rightarrow> u | None \<Rightarrow> now + LOCK_MS)
         in (locks1, RetryAfter (max 1 \<lceil>(of_int (until - now) :: rat) / 1000\<rceil>)))
      else
        case row_by rl_key (wsKey key) t of
          None \<Rightarrow> (locks1, Allowed)
        | Some row \<Rightarrow>
            let lockedUntil = (case rl_locked_until row of Some u \<Rightarrow> u | None \<Rightarrow> 0) in
            if lockedUntil > now
            then (locks1(key \<mapsto> lockedUntil), RetryAfter (max 1 \<lceil>(of_int (lockedUntil - now) :: rat) / 1000\<rceil>))
            else if rl_window_started row \<le> now - WINDOW_MS then (locks1, Allowed)
            else if rl_failures row \<ge> MAX_FAILURES then (locks1(key \<mapsto> now + LOCK_MS), RetryAfter 60)
            else (locks1, Allowed))"

definition ws_bumped :: "string \<Rightarrow> time \<Rightarrow> auth_rate_limit option \<Rightarrow> auth_rate_limit" where
  "ws_bumped key now existing =
     (case existing of
        None \<Rightarrow> \<lparr>rl_key = wsKey key, rl_failures = 1, rl_window_started = now, rl_locked_until = None, rl_updated = now\<rparr>
      | Some r \<Rightarrow>
          let old = (rl_window_started r < now - WINDOW_MS)
          in r\<lparr>rl_failures := (if old then 1 else rl_failures r + 1),
               rl_window_started := (if old then now else rl_window_started r),
               rl_locked_until := (if old then None else if rl_failures r + 1 \<ge> MAX_FAILURES then Some (now + LOCK_MS) else None),
               rl_updated := now\<rparr>)"

definition recordWsUpgradeFailure :: "string \<Rightarrow> time \<Rightarrow> time \<Rightarrow> local_locks \<Rightarrow> limit_table \<Rightarrow> local_locks \<times> limit_table" where
  "recordWsUpgradeFailure key now now' locks t =
     (let t' = put_row (ws_bumped key now (row_by rl_key (wsKey key) t)) t;
          lockedUntil = (case row_by rl_key (wsKey key) t' of
                           Some r \<Rightarrow> (case rl_locked_until r of Some u \<Rightarrow> u | None \<Rightarrow> 0) | None \<Rightarrow> 0)
      in (if lockedUntil > now' then locks(key \<mapsto> lockedUntil) else locks, t'))"

section \<open>The counter of a key\<close>

lemma row_put_present:
  "row_by rl_key (rl_key r) t \<noteq> None \<Longrightarrow>
     row_by rl_key k (update_where (\<lambda>x. rl_key x = rl_key r) (\<lambda>_. r) t)
       = (if k = rl_key r then Some r else row_by rl_key k t)"
proof (induction t)
  case Nil
  then show ?case by (simp add: row_by_def find_first_def)
next
  case (Cons x t)
  have other: "row_by rl_key k (update_where (\<lambda>x. rl_key x = rl_key r) (\<lambda>_. r) u) = row_by rl_key k u"
    if "k \<noteq> rl_key r" for u
    using that by (induction u) (auto simp: row_by_def find_first_def)
  show ?case
  proof (cases "k = rl_key r")
    case True
    then show ?thesis using Cons by (auto simp: row_by_def find_first_def)
  next
    case False
    then show ?thesis using other [OF False] by (simp del: update_where_Cons)
  qed
qed

lemma row_put_absent:
  "row_by rl_key (rl_key r) t = None \<Longrightarrow>
     row_by rl_key k (t @ [r]) = (if k = rl_key r then Some r else row_by rl_key k t)"
  by (induction t) (auto simp: row_by_def find_first_def split: if_splits)

lemma row_put: "row_by rl_key k (put_row r t) = (if k = rl_key r then Some r else row_by rl_key k t)"
  by (simp add: put_row_def row_put_present row_put_absent)

lemma bumped_key [simp]:
  "(case e of None \<Rightarrow> True | Some r \<Rightarrow> rl_key r = key) \<Longrightarrow> rl_key (bumped key w f now e) = key"
  by (simp add: bumped_def Let_def split: option.splits)

lemma row_key: "row_by rl_key key t = Some r \<Longrightarrow> rl_key r = key"
  using row_by_Some by fastforce

lemma bump_row:
  "row_by rl_key k (fst (bump key now t))
     = (if k = key then Some (bumped key AUTH_RATE_WINDOW_MS lockDurationMs now (row_by rl_key key t)) else row_by rl_key k t)"
proof -
  have "rl_key (bumped key AUTH_RATE_WINDOW_MS lockDurationMs now (row_by rl_key key t)) = key"
    by (cases "row_by rl_key key t") (simp_all add: row_key)
  then show ?thesis by (simp add: bump_def bumpWith_def Let_def readBucket_def row_put)
qed

lemma keys_apart: "accountKey u \<noteq> ipKey ip"
  by (simp add: accountKey_def ipKey_def)

text \<open>What a failure does to the counter of the account.\<close>

lemma failure_row:
  "row_by rl_key (accountKey u) (fst (recordAuthFailure trust now now' ip v t))
     = (if accountKey v = accountKey u
        then Some (bumped (accountKey u) AUTH_RATE_WINDOW_MS lockDurationMs now (row_by rl_key (accountKey u) t))
        else row_by rl_key (accountKey u) t)"
  using keys_apart [of u ip] bump_row [of "accountKey u"]
  by (auto simp: recordAuthFailure_def Let_def split_beta)

lemma allowed_unlocked:
  assumes "inspectAuthRateLimit trust now ip u t = Allowed" and "row_by rl_key (accountKey u) t = Some r"
    and "rl_locked_until r = Some until"
  shows "until \<le> now"
  using assms
  by (auto simp: inspectAuthRateLimit_def decide_remaining_def lockedFor_def readBucket_def Let_def split: if_splits)

text \<open>
  The counter of an account: the locks of the fifth to the twelfth failure add up to more than
  the window, so a thirteenth does not fit.
\<close>

definition lock_sum :: "nat \<Rightarrow> int" where
  "lock_sum k = (if k < 5 then 0 else if k < 10 then 30000 * (int k - 4) else 150000 + 300000 * (int k - 9))"

definition counter_ok :: "auth_rate_limit \<Rightarrow> bool" where
  "counter_ok r \<longleftrightarrow> 1 \<le> rl_failures r \<and> rl_failures r \<le> 12
     \<and> (5 \<le> rl_failures r \<longrightarrow> (\<exists>u. rl_locked_until r = Some u \<and> rl_window_started r + lock_sum (rl_failures r) \<le> u))"

lemma lock_sum_step: "k \<le> 11 \<Longrightarrow> lock_sum (k + 1) = lock_sum k + lockDurationMs (k + 1)"
  by (auto simp: lock_sum_def lockDurationMs_def)

lemma bumped_ok:
  assumes ok: "counter_ok r" and free: "\<And>u. rl_locked_until r = Some u \<Longrightarrow> u \<le> now" and w: "rl_window_started r \<le> now"
  shows "counter_ok (bumped key AUTH_RATE_WINDOW_MS lockDurationMs now (Some r))
    \<and> (if rl_window_started r < now - 900000
       then rl_failures (bumped key AUTH_RATE_WINDOW_MS lockDurationMs now (Some r)) = 1
            \<and> rl_window_started (bumped key AUTH_RATE_WINDOW_MS lockDurationMs now (Some r)) = now
       else rl_failures (bumped key AUTH_RATE_WINDOW_MS lockDurationMs now (Some r)) = rl_failures r + 1
            \<and> rl_window_started (bumped key AUTH_RATE_WINDOW_MS lockDurationMs now (Some r)) = rl_window_started r)"
proof (cases "rl_window_started r < now - 900000")
  case True
  then show ?thesis by (simp add: bumped_def Let_def AUTH_RATE_WINDOW_MS_def counter_ok_def lockDurationMs_def)
next
  case False
  have k: "1 \<le> rl_failures r" "rl_failures r \<le> 12" using ok by (simp_all add: counter_ok_def)
  have at: "rl_window_started r + lock_sum (rl_failures r) \<le> now"
  proof (cases "5 \<le> rl_failures r")
    case True
    then show ?thesis using ok free unfolding counter_ok_def by force
  next
    case False
    then show ?thesis using w by (simp add: lock_sum_def)
  qed
  have "rl_failures r \<noteq> 12" using at False by (auto simp: lock_sum_def)
  then have le: "rl_failures r \<le> 11" using k by simp
  have pos: "5 \<le> rl_failures r + 1 \<Longrightarrow> lockDurationMs (rl_failures r + 1) > 0"
    by (simp add: lockDurationMs_def)
  have "rl_window_started r + lock_sum (rl_failures r + 1) \<le> now + lockDurationMs (rl_failures r + 1)"
    using at lock_sum_step [OF le] by simp
  then show ?thesis
    using False le pos by (simp add: bumped_def Let_def AUTH_RATE_WINDOW_MS_def counter_ok_def)
qed

lemma bumped_new:
  "counter_ok (bumped key AUTH_RATE_WINDOW_MS lockDurationMs now None)
   \<and> rl_failures (bumped key AUTH_RATE_WINDOW_MS lockDurationMs now None) = 1
   \<and> rl_window_started (bumped key AUTH_RATE_WINDOW_MS lockDurationMs now None) = now"
  by (simp add: bumped_def Let_def AUTH_RATE_WINDOW_MS_def counter_ok_def lockDurationMs_def)

section \<open>How many guesses fit\<close>

text \<open>
  \<open>budget T a row\<close> bounds the failures that can still be recorded for the key up to \<open>T\<close>,
  when the next one comes at \<open>a\<close> or later: twelve for every window that is still to come.
\<close>

definition budget :: "time \<Rightarrow> time \<Rightarrow> auth_rate_limit option \<Rightarrow> int" where
  "budget T a row =
     (case row of
        None \<Rightarrow> 12 * (1 + (T - a) div 900000)
      | Some r \<Rightarrow> 12 - int (rl_failures r) + 12 * ((T - rl_window_started r) div 900000))"

definition row_ok :: "time \<Rightarrow> auth_rate_limit option \<Rightarrow> bool" where
  "row_ok a row \<longleftrightarrow> (case row of None \<Rightarrow> True | Some r \<Rightarrow> counter_ok r \<and> rl_window_started r \<le> a \<and> rl_updated r \<le> a
     \<and> rl_window_started r \<le> rl_updated r)"

lemma budget_nonneg: "row_ok a row \<Longrightarrow> a \<le> T \<Longrightarrow> 0 \<le> budget T a row"
  by (auto simp: budget_def row_ok_def counter_ok_def pos_imp_zdiv_nonneg_iff split: option.splits)

lemma budget_later:
  assumes "a \<le> b" "b \<le> T"
  shows "budget T b row \<le> budget T a row"
  using assms by (auto simp: budget_def zdiv_mono1 split: option.splits)

lemma row_ok_later: "row_ok a row \<Longrightarrow> a \<le> b \<Longrightarrow> row_ok b row"
  by (auto simp: row_ok_def split: option.splits)

lemma bumped_updated [simp]: "rl_updated (bumped key w f now e) = now"
  by (simp add: bumped_def Let_def)

lemma budget_bump:
  fixes key :: string
  assumes ok: "row_ok now row" and free: "\<And>r u. row = Some r \<Longrightarrow> rl_locked_until r = Some u \<Longrightarrow> u \<le> now"
    and le: "now \<le> T"
  defines "r' \<equiv> Some (bumped key AUTH_RATE_WINDOW_MS lockDurationMs now row)"
  shows "row_ok now r'" and "1 + budget T now r' \<le> budget T now row"
proof -
  have "row_ok now r' \<and> 1 + budget T now r' \<le> budget T now row"
  proof (cases row)
    case None
    then show ?thesis using bumped_new [of key now] by (simp add: r'_def row_ok_def budget_def)
  next
    case (Some r)
    have w: "counter_ok r" "rl_window_started r \<le> now" using ok Some by (simp_all add: row_ok_def)
    note b = bumped_ok [OF w(1) free [OF Some] w(2), of key]
    show ?thesis
    proof (cases "rl_window_started r < now - 900000")
      case True
      have "(T - now) div 900000 + 1 \<le> (T - rl_window_started r) div 900000"
        using True zdiv_mono1 [of "T - now + 900000" "T - rl_window_started r" 900000] by simp
      then show ?thesis using b True w Some by (simp add: r'_def row_ok_def budget_def counter_ok_def)
    next
      case False
      then show ?thesis using b w Some by (simp add: r'_def row_ok_def budget_def)
    qed
  qed
  then show "row_ok now r'" "1 + budget T now r' \<le> budget T now row" by simp_all
qed

text \<open>The retention job removes a counter only after its window is over.\<close>

lemma budget_delete:
  assumes ok: "row_ok now row" and old: "\<And>r. row = Some r \<Longrightarrow> rl_updated r < now - AUTH_RATE_RETENTION_MS"
    and le: "now \<le> T"
  shows "budget T now None \<le> budget T now row"
proof (cases row)
  case None
  then show ?thesis by simp
next
  case (Some r)
  then have "rl_window_started r + 900000 \<le> now" and k: "rl_failures r \<le> 12"
    using ok old by (auto simp: row_ok_def AUTH_RATE_RETENTION_MS_def counter_ok_def)
  then have "(T - now) div 900000 + 1 \<le> (T - rl_window_started r) div 900000"
    using zdiv_mono1 [of "T - now + 900000" "T - rl_window_started r" 900000] by simp
  then show ?thesis using k Some by (simp add: budget_def)
qed

end
