(* ===== verification/Agent_Auth.thy ===== *)
theory Agent_Auth
  imports Auth_Limits Json_Parse Base64 Canonical
begin

text \<open>
  Agent identities: \<open>src/lib/agent-auth.ts\<close>, \<open>src/lib/lifecycle.ts\<close>,
  \<open>src/lib/agent-lifecycle.ts\<close> and the route \<open>api/agent/register\<close>. SHA-256 as a hex
  text is the argument \<open>sha\<close>; random draws come in as lists.
\<close>

section \<open>Codes and secrets\<close>

definition PAIRING_CODE_ALPHABET :: string where
  "PAIRING_CODE_ALPHABET = ''ABCDEFGHJKLMNPQRSTUVWXYZ23456789''"
definition PAIRING_CODE_LENGTH :: nat where "PAIRING_CODE_LENGTH = 6"

definition hashSecret :: "(string \<Rightarrow> string) \<Rightarrow> string \<Rightarrow> string" where
  "hashSecret sha secret = sha secret"

definition hashPairingCode :: "(string \<Rightarrow> string) \<Rightarrow> string \<Rightarrow> string" where
  "hashPairingCode sha code = sha (js_upper (js_trim code))"

definition generateSecret :: "nat list \<Rightarrow> string" where "generateSecret random = b64url_encode random"

text \<open>The draws of \<open>randomInt(0, length)\<close>, one per character.\<close>

definition generatePairingCode :: "nat list \<Rightarrow> string" where
  "generatePairingCode draws = map (\<lambda>d. PAIRING_CODE_ALPHABET ! d) (take PAIRING_CODE_LENGTH draws)"

definition isValidPairingCode :: "json option \<Rightarrow> bool" where
  "isValidPairingCode value =
     (case as_string value of
        None \<Rightarrow> False
      | Some s \<Rightarrow>
          (let normalized = js_upper (js_trim s)
           in length normalized = PAIRING_CODE_LENGTH
              \<and> list_all (\<lambda>c. List.member PAIRING_CODE_ALPHABET c) normalized))"

definition timingSafeStringEqual :: "(string \<Rightarrow> string) \<Rightarrow> string \<Rightarrow> string \<Rightarrow> bool" where
  "timingSafeStringEqual sha a b \<longleftrightarrow> sha a = sha b"

definition agent_row :: "gateway_db \<Rightarrow> string \<Rightarrow> agent option" where
  "agent_row db agentId = row_by ag_id agentId (agents db)"

text \<open>The agent id and the secret of an Authorization header.\<close>

definition bearer_parts :: "string option \<Rightarrow> (string \<times> string) option" where
  "bearer_parts authHeader =
     (case authHeader of
        None \<Rightarrow> None
      | Some a \<Rightarrow>
          if \<not> starts_with a ''Bearer '' then None
          else
            let token = drop 7 a;
                agentId = takeWhile (\<lambda>c. c \<noteq> CHR '':'') token;
                after = dropWhile (\<lambda>c. c \<noteq> CHR '':'') token
            in if after = [] \<or> agentId = [] \<or> tl after = [] then None else Some (agentId, tl after))"

definition validateAgent :: "(string \<Rightarrow> string) \<Rightarrow> string option \<Rightarrow> gateway_db \<Rightarrow> agent option" where
  "validateAgent sha authHeader db =
     (case bearer_parts authHeader of
        None \<Rightarrow> None
      | Some (agentId, secret) \<Rightarrow>
          (case agent_row db agentId of
             None \<Rightarrow> None
           | Some agent \<Rightarrow>
               if \<not> truthy (ag_secret agent) \<or> ag_lifecycle agent \<noteq> Active then None
               else if timingSafeStringEqual sha (the (ag_secret agent)) (hashSecret sha secret) then Some agent
               else None))"

section \<open>Lifecycles\<close>

definition isLifecycle :: "json option \<Rightarrow> bool" where
  "isLifecycle value =
     (case as_string value of
        Some s \<Rightarrow> List.member [''active'', ''disabled'', ''retired''] s
      | None \<Rightarrow> False)"

definition canTransitionLifecycle :: "Lifecycle \<Rightarrow> Lifecycle \<Rightarrow> bool" where
  "canTransitionLifecycle current nxt =
     (if current = nxt then True
      else if current = Retired then False
      else if nxt = Retired then current = Active \<or> current = Disabled
      else if nxt = Active \<or> nxt = Disabled then current = Active \<or> current = Disabled
      else False)"

definition lifecycleAllowsNewJobs :: "Lifecycle \<Rightarrow> bool" where
  "lifecycleAllowsNewJobs lifecycle \<longleftrightarrow> lifecycle = Active"

text \<open>The first of at most five candidates that no other agent waits for.\<close>

definition mint_code :: "(string \<Rightarrow> string) \<Rightarrow> string option \<Rightarrow> string list \<Rightarrow> gateway_db \<Rightarrow> string option" where
  "mint_code sha owner candidates db =
     List.find (\<lambda>candidate.
         case find_first (\<lambda>a. ag_pairing_hash a = Some (hashPairingCode sha candidate)) (agents db) of
           None \<Rightarrow> True
         | Some clash \<Rightarrow> Some (ag_id clash) = owner)
       (take 5 candidates)"

text \<open>\<open>CodeTaken\<close> is the error of the unique index on pending codes.\<close>

datatype lifecycle_error = LifecycleConflict string | MintFailed | CodeTaken

record AgentLifecycleResult =
  al_changed :: bool
  al_lifecycle :: Lifecycle
  al_pairing_code :: "string option"

definition agent_in :: "string \<Rightarrow> string \<Rightarrow> agent \<Rightarrow> bool" where
  "agent_in agentId tenantId a \<longleftrightarrow> ag_id a = agentId \<and> ag_tenant a = tenantId"

definition printer_of :: "string \<Rightarrow> string \<Rightarrow> printer \<Rightarrow> bool" where
  "printer_of agentId tenantId p \<longleftrightarrow> pr_agent p = agentId \<and> pr_tenant p = tenantId"

text \<open>The unique index on pending codes: another agent than the one written holds the hash.\<close>

definition code_held :: "string option \<Rightarrow> (agent \<Rightarrow> bool) \<Rightarrow> gateway_db \<Rightarrow> bool" where
  "code_held h mine db \<longleftrightarrow> h \<noteq> None \<and> find_first (\<lambda>a. ag_pairing_hash a = h \<and> \<not> mine a) (agents db) \<noteq> None"

text \<open>The transaction of a transition.\<close>

definition write_lifecycle ::
  "string \<Rightarrow> Lifecycle \<Rightarrow> string \<Rightarrow> string option \<Rightarrow> time option \<Rightarrow> time \<Rightarrow> gateway_db \<Rightarrow> gateway_db" where
  "write_lifecycle agentId nxt tenantId pairingCodeHash expires now db =
     db\<lparr>agents := update_where (agent_in agentId tenantId)
          (\<lambda>a. a\<lparr>ag_lifecycle := nxt, ag_secret := None, ag_pairing_hash := pairingCodeHash,
                 ag_pairing_expires := expires, ag_status := Offline, ag_updated := now\<rparr>) (agents db),
        printers := (if nxt \<noteq> Active
                     then update_where (printer_of agentId tenantId)
                            (\<lambda>p. p\<lparr>pr_lifecycle := Disabled, pr_updated := now\<rparr>) (printers db)
                     else printers db)\<rparr>"

text \<open>
  \<open>db\<close> is what the reads see and \<open>db'\<close> what the transaction finds. A changed result is
  followed by \<open>closeAgentSockets\<close> and the published close for the agent.
\<close>

definition transitionAgentLifecycle ::
  "(string \<Rightarrow> string) \<Rightarrow> string list \<Rightarrow> time \<Rightarrow> string \<Rightarrow> Lifecycle \<Rightarrow> string \<Rightarrow> gateway_db \<Rightarrow> gateway_db
     \<Rightarrow> gateway_db \<times> (lifecycle_error + AgentLifecycleResult option)" where
  "transitionAgentLifecycle sha candidates now agentId nxt tenantId db db' =
     (case find_first (agent_in agentId tenantId) (agents db) of
        None \<Rightarrow> (db', Inr None)
      | Some agent \<Rightarrow>
          if ag_lifecycle agent = nxt
          then (db', Inr (Some \<lparr>al_changed = False, al_lifecycle = nxt, al_pairing_code = None\<rparr>))
          else if \<not> canTransitionLifecycle (ag_lifecycle agent) nxt
          then (db', Inl (LifecycleConflict (''invalid lifecycle transition: '' @ lifecycle_str (ag_lifecycle agent)
                                             @ '' -> '' @ lifecycle_str nxt)))
          else
            let reenable = (ag_lifecycle agent = Disabled \<and> nxt = Active);
                code = (if reenable then mint_code sha (Some agentId) candidates db else None);
                codeHash = map_option (hashPairingCode sha) code
            in if reenable \<and> code = None then (db', Inl MintFailed)
               else if agent_exists tenantId agentId db' \<and> code_held codeHash (agent_in agentId tenantId) db'
               then (db', Inl CodeTaken)
               else
                 (write_lifecycle agentId nxt tenantId codeHash
                    (if code = None then None else Some (now + 10 * 60 * 1000)) now db',
                  Inr (Some \<lparr>al_changed = True, al_lifecycle = nxt, al_pairing_code = code\<rparr>)))"

section \<open>Registration\<close>

definition MAX_REGISTRATION_BODY_BYTES :: rat where "MAX_REGISTRATION_BODY_BYTES = 64 * 1024"

text \<open>\<open>z.string().trim()\<close> with a range of lengths, missing or present.\<close>

definition trimmed_field :: "nat \<Rightarrow> nat \<Rightarrow> json option \<Rightarrow> string option option" where
  "trimmed_field lo hi v =
     (case v of
        None \<Rightarrow> Some None
      | Some (JStr s) \<Rightarrow> if lo \<le> length (js_trim s) \<and> length (js_trim s) \<le> hi then Some (Some (js_trim s)) else None
      | _ \<Rightarrow> None)"

definition code_field :: "json option \<Rightarrow> string option option" where
  "code_field v =
     (case trimmed_field 6 6 v of
        Some (Some s) \<Rightarrow> if isValidPairingCode (Some (JStr s)) then Some (Some s) else None
      | r \<Rightarrow> r)"

definition record_field :: "json option \<Rightarrow> (string \<times> json) list option option" where
  "record_field v = (case v of None \<Rightarrow> Some None | Some (JObj es) \<Rightarrow> Some (Some es) | _ \<Rightarrow> None)"

record registration =
  rg_code :: string
  rg_agent :: "string option"
  rg_hostname :: "string option"
  rg_version :: "string option"
  rg_platform :: "string option"
  rg_metadata :: "(string \<times> json) list option"

definition REGISTRATION_KEYS :: "string list" where
  "REGISTRATION_KEYS = [''pairingCode'', ''pairing_code'', ''hostname'', ''client_version'', ''clientVersion'', ''platform'',
     ''metadata'', ''agentId'', ''agent_id'']"

text \<open>\<open>a || b\<close> of two optional strings.\<close>

definition first_truthy :: "string option \<Rightarrow> string option \<Rightarrow> string option" where
  "first_truthy a b = (if truthy a then a else b)"

definition differ :: "string option \<Rightarrow> string option \<Rightarrow> bool" where
  "differ a b \<longleftrightarrow> truthy a \<and> truthy b \<and> a \<noteq> b"

definition registrationSchema :: "json \<Rightarrow> registration option" where
  "registrationSchema body =
     (case body of
        JObj es \<Rightarrow>
          (case (code_field (jprop ''pairingCode'' es), code_field (jprop ''pairing_code'' es),
                 trimmed_field 0 255 (jprop ''hostname'' es), trimmed_field 0 100 (jprop ''client_version'' es),
                 trimmed_field 0 100 (jprop ''clientVersion'' es), trimmed_field 0 100 (jprop ''platform'' es),
                 record_field (jprop ''metadata'' es), trimmed_field 1 120 (jprop ''agentId'' es),
                 trimmed_field 1 120 (jprop ''agent_id'' es)) of
             (Some c1, Some c2, Some host, Some v1, Some v2, Some plat, Some meta, Some a1, Some a2) \<Rightarrow>
               (if \<not> list_all (\<lambda>(k, v). List.member REGISTRATION_KEYS k) es then None
                else if \<not> truthy c1 \<and> \<not> truthy c2 then None
                else if differ (map_option js_upper c1) (map_option js_upper c2) \<or> differ a1 a2 \<or> differ v2 v1 then None
                else Some \<lparr>rg_code = or_empty (first_truthy c2 c1), rg_agent = first_truthy a2 a1, rg_hostname = host,
                           rg_version = first_truthy v1 v2, rg_platform = plat, rg_metadata = meta\<rparr>)
           | _ \<Rightarrow> None)
      | _ \<Rightarrow> None)"

text \<open>The agents a code opens at a time.\<close>

definition pairable :: "string \<Rightarrow> time \<Rightarrow> agent \<Rightarrow> bool" where
  "pairable hashedCode now a \<longleftrightarrow> ag_pairing_hash a = Some hashedCode
     \<and> (case ag_pairing_expires a of Some t \<Rightarrow> t > now | None \<Rightarrow> False) \<and> ag_lifecycle a = Active"

definition find_pairing :: "string \<Rightarrow> string option \<Rightarrow> time \<Rightarrow> gateway_db \<Rightarrow> agent option" where
  "find_pairing hashedCode targetAgentId now db =
     find_first (\<lambda>a. pairable hashedCode now a \<and> (truthy targetAgentId \<longrightarrow> Some (ag_id a) = targetAgentId)) (agents db)"

definition spread :: "(string \<times> json) list \<Rightarrow> (string \<times> json) list \<Rightarrow> (string \<times> json) list" where
  "spread base over = foldl put_key base over"

definition text_entry :: "string \<Rightarrow> string option \<Rightarrow> (string \<times> json) list" where
  "text_entry k v = (if truthy v then [(k, JStr (the v))] else [])"

definition merged_metadata :: "agent \<Rightarrow> registration \<Rightarrow> (string \<times> json) list" where
  "merged_metadata a rg =
     spread (spread (spread (spread (spread [] (case ag_metadata a of Some m \<Rightarrow> m | None \<Rightarrow> []))
       (case rg_metadata rg of Some m \<Rightarrow> m | None \<Rightarrow> []))
       (text_entry ''hostname'' (rg_hostname rg)))
       (text_entry ''version'' (rg_version rg)))
       (text_entry ''os'' (rg_platform rg))"

text \<open>The conditional update that consumes the code.\<close>

definition consume_where :: "string \<Rightarrow> string \<Rightarrow> time \<Rightarrow> agent \<Rightarrow> bool" where
  "consume_where agentId hashedCode now a \<longleftrightarrow> ag_id a = agentId \<and> pairable hashedCode now a"

definition consume_set :: "string \<Rightarrow> (string \<times> json) list \<Rightarrow> time \<Rightarrow> agent \<Rightarrow> agent" where
  "consume_set hashedSecret meta now a =
     a\<lparr>ag_pairing_hash := None, ag_pairing_expires := None, ag_secret := Some hashedSecret, ag_status := Online,
       ag_metadata := Some meta, ag_last_seen := Some now, ag_updated := now\<rparr>"

record register_env =
  re_sha :: "string \<Rightarrow> string"
  re_num :: "rat \<Rightarrow> string"
  re_zod_message :: "json \<Rightarrow> string"
  re_ip :: string

record register_run =
  rr_inspect :: time
  rr_lookup :: time
  rr_update :: time
  rr_record :: time
  rr_random :: "nat list"
  rr_fail_inspect :: bool
  rr_fail_limit :: bool

definition pairing_failed :: "register_env \<Rightarrow> register_run \<Rightarrow> gateway_db \<Rightarrow> gateway_db" where
  "pairing_failed env run db =
     (if rr_fail_limit run then db
      else db\<lparr>auth_rate_limits := fst (recordPairingFailure (rr_record run) (rr_record run) (re_ip env) (auth_rate_limits db))\<rparr>)"

text \<open>The second half: \<open>agent\<close> is the row the lookup found.\<close>

definition register_commit ::
  "register_env \<Rightarrow> register_run \<Rightarrow> registration \<Rightarrow> string \<Rightarrow> agent \<Rightarrow> gateway_db \<Rightarrow> gateway_db \<times> http" where
  "register_commit env run rg hashedCode agent db =
     (let secret = generateSecret (rr_random run);
          now = rr_update run;
          cond = consume_where (ag_id agent) hashedCode now
      in if select_where cond (agents db) = []
         then (pairing_failed env run db,
               error_reply 409 ''Pairing code was consumed or expired; retry with a fresh code'')
         else
           let db1 = db\<lparr>agents := update_where cond (consume_set (hashSecret (re_sha env) secret) (merged_metadata agent rg) now)
                                    (agents db)\<rparr>;
               db2 = (if rr_fail_limit run then db1
                      else db1\<lparr>auth_rate_limits := recordPairingSuccess (re_ip env) (auth_rate_limits db1)\<rparr>)
           in (db2, reply 200 [(''agentId'', JStr (ag_id agent)), (''agent_id'', JStr (ag_id agent)),
                               (''secret'', JStr secret), (''agent_secret'', JStr secret)]))"

text \<open>\<open>db\<close> is what the lookup reads, \<open>db'\<close> what the update finds; \<open>body\<close> is \<^const>\<open>None\<close> for a text
  that is no JSON.\<close>

definition register_POST ::
  "register_env \<Rightarrow> register_run \<Rightarrow> js_number option \<Rightarrow> json option \<Rightarrow> gateway_db \<Rightarrow> gateway_db \<Rightarrow> gateway_db \<times> http" where
  "register_POST env run len body db db' =
     (if hasBodyOverLimit len MAX_REGISTRATION_BODY_BYTES then (db', error_reply 413 ''Request body too large'')
      else
        case body of
          None \<Rightarrow> (db', error_reply 400 ''Invalid JSON'')
        | Some v \<Rightarrow>
            if js_truthy (jget v ''metadata'')
               \<and> length (stringify (re_num env) (the (jget v ''metadata''))) > 32768
            then (db', error_reply 400 ''metadata exceeds 32KB'')
            else
              case registrationSchema v of
                None \<Rightarrow> (db', error_reply 400 (re_zod_message env v))
              | Some rg \<Rightarrow>
                  (let normalizedCode = js_upper (js_trim (rg_code rg));
                       hashedCode = hashPairingCode (re_sha env) normalizedCode
                   in if rr_fail_inspect run then (db', error_reply 503 ''Registration temporarily unavailable'')
                      else
                        case inspectPairingRateLimit (rr_inspect run) (re_ip env) (auth_rate_limits db) of
                          RetryAfter s \<Rightarrow>
                            (db', (error_reply 429 ''Too many pairing attempts. Try again later.'')
                                    \<lparr>http_headers := [(''Retry-After'', int_str s)]\<rparr>)
                        | Allowed \<Rightarrow>
                            (case find_pairing hashedCode (rg_agent rg) (rr_lookup run) db of
                               None \<Rightarrow>
                                 (pairing_failed env run db',
                                  error_reply 400 ''Unknown, disabled, retired, or expired agent registration'')
                             | Some agent \<Rightarrow> register_commit env run rg hashedCode agent db')))"

end
