(* ===== verification/Manager_Login.thy ===== *)
theory Manager_Login
  imports Manager_Auth Auth_Limits
begin

text \<open>
  Signing in: host and password checks of \<open>src/lib/manager-auth.ts\<close>, the routes
  \<open>api/auth/manager/login\<close> and \<open>logout\<close>, and the permissions of
  \<open>src/lib/authorization.ts\<close>. Log lines and audit events, which nothing reads back, are left out.
\<close>

section \<open>Permissions\<close>

datatype ManagerPermission =
    Tenant_read | Tenant_update
  | Users_read | Users_manage
  | Agents_read | Agents_pair | Agents_disable | Agents_retire
  | Printers_read | Printers_manage | Printers_test
  | Jobs_read | Jobs_create | Jobs_retry | Jobs_cancel
  | Bindings_read | Bindings_manage
  | Integrations_read | Integrations_manage
  | Billing_read | Billing_manage

fun permissionsByRole :: "ManagerRole \<Rightarrow> ManagerPermission list" where
  "permissionsByRole Owner =
     [Tenant_read, Tenant_update, Users_read, Users_manage, Agents_read, Agents_pair, Agents_disable, Agents_retire,
      Printers_read, Printers_manage, Printers_test, Jobs_read, Jobs_create, Jobs_retry, Jobs_cancel,
      Bindings_read, Bindings_manage, Integrations_read, Integrations_manage, Billing_read, Billing_manage]"
| "permissionsByRole Admin =
     [Tenant_read, Users_read, Users_manage, Agents_read, Agents_pair, Agents_disable, Agents_retire,
      Printers_read, Printers_manage, Printers_test, Jobs_read, Jobs_create, Jobs_retry, Jobs_cancel,
      Bindings_read, Bindings_manage, Integrations_read, Integrations_manage, Billing_read, Billing_manage]"
| "permissionsByRole Operator =
     [Tenant_read, Agents_read, Printers_read, Printers_test, Jobs_read, Jobs_create, Jobs_retry, Jobs_cancel,
      Bindings_read]"
| "permissionsByRole Viewer = [Tenant_read, Agents_read, Printers_read, Jobs_read, Bindings_read]"
| "permissionsByRole Integration_admin =
     [Tenant_read, Agents_read, Printers_read, Jobs_read, Bindings_read, Bindings_manage, Integrations_read,
      Integrations_manage]"
| "permissionsByRole Billing_admin = [Tenant_read, Billing_read, Billing_manage]"

definition hasManagerPermission :: "ManagerClaims \<Rightarrow> ManagerPermission \<Rightarrow> bool" where
  "hasManagerPermission claims permission = List.member (permissionsByRole (mc_role claims)) permission"

section \<open>The tenant of a host\<close>

record tenant_domain =
  td_domain :: string
  td_tenant :: string
  td_verified :: bool

record user =
  us_id :: string
  us_email :: string
  us_password_hash :: string

text \<open>The tables the login only reads.\<close>

record directory =
  dir_tenants :: "string list"
  dir_domains :: "tenant_domain list"
  dir_users :: "user list"

text \<open>\<open>raw.replace(/:\d+$/, "")\<close>\<close>

definition strip_port :: "string \<Rightarrow> string" where
  "strip_port raw =
     (let ds = takeWhile is_digit (rev raw); rest = dropWhile is_digit (rev raw)
      in if ds \<noteq> [] \<and> starts_with rest '':'' then rev (tl rest) else raw)"

text \<open>\<open>raw.replace(/^\[([^\]]+)\](?::\d+)?$/, "$1")\<close>, for a text that begins with a bracket\<close>

definition strip_brackets :: "string \<Rightarrow> string" where
  "strip_brackets raw =
     (let inner = takeWhile (\<lambda>c. c \<noteq> CHR '']'') (tl raw); after = dropWhile (\<lambda>c. c \<noteq> CHR '']'') (tl raw)
      in if inner \<noteq> [] \<and> after \<noteq> []
            \<and> (tl after = [] \<or> starts_with (tl after) '':'' \<and> tl (tl after) \<noteq> [] \<and> list_all is_digit (tl (tl after)))
         then inner else raw)"

definition normalizeHost :: "string option \<Rightarrow> string option" where
  "normalizeHost host =
     (if \<not> truthy host then None
      else
        let lowered = js_lower (js_trim (the host));
            raw = (if ends_with lowered ''.'' then butlast lowered else lowered)
        in if raw = [] \<or> length raw > 255 \<or> js_includes raw ''@'' \<or> js_includes raw ''/'' then None
           else
             let withoutPort = (if starts_with raw ''['' then strip_brackets raw else strip_port raw)
             in if withoutPort = [] \<or> length withoutPort > 253 then None else Some withoutPort)"

text \<open>\<open>configured\<close> is \<open>runtimeSecret("MANAGER_TENANT_ID")?.trim()\<close>.\<close>

definition resolveManagerTenantId :: "directory \<Rightarrow> string option \<Rightarrow> string option \<Rightarrow> string option" where
  "resolveManagerTenantId dir configured host =
     (let by_host = (case normalizeHost host of
                       None \<Rightarrow> None
                     | Some h \<Rightarrow>
                         (case row_by td_domain h (dir_domains dir) of
                            Some d \<Rightarrow> if td_verified d then Some (td_tenant d) else None
                          | None \<Rightarrow> None))
      in case by_host of
           Some t \<Rightarrow> Some t
         | None \<Rightarrow>
             if truthy configured \<and> List.member (dir_tenants dir) (the configured) then configured else None)"

section \<open>Passwords\<close>

type_synonym scrypt = "string \<Rightarrow> string \<Rightarrow> nat list"

definition byte_hex :: "nat list \<Rightarrow> string" where
  "byte_hex bs = concat (map (\<lambda>b. [hex_digit (b div 16), hex_digit (b mod 16)]) bs)"

definition is_hash :: "string \<Rightarrow> bool" where
  "is_hash h \<longleftrightarrow> length h = 64 \<and> list_all (\<lambda>c. hex_val c \<noteq> None) h"

definition compareStringsSafe :: "string \<Rightarrow> string \<Rightarrow> bool" where
  "compareStringsSafe a b \<longleftrightarrow> utf8 a = utf8 b"

definition verifyScryptPasswordHash :: "scrypt \<Rightarrow> string \<Rightarrow> string option \<Rightarrow> bool" where
  "verifyScryptPasswordHash scrypt input stored =
     (if \<not> truthy stored \<or> \<not> js_includes (the stored) '':'' then False
      else
        case split_on (CHR '':'') (the stored) of
          salt # hash # _ \<Rightarrow>
            (if salt = [] \<or> hash = [] \<or> \<not> is_hash hash then False
             else compareStringsSafe (byte_hex (scrypt input salt)) (js_lower hash))
        | _ \<Rightarrow> False)"

text \<open>The legacy credential of the environment; \<open>plaintext\<close> is \<open>ALLOW_PLAINTEXT_MANAGER_PASSWORD\<close>.\<close>

record manager_credential =
  cr_user :: "string option"
  cr_hash :: "string option"
  cr_password :: "string option"
  cr_plaintext :: bool

definition verifyManagerPassword :: "scrypt \<Rightarrow> manager_credential \<Rightarrow> string \<Rightarrow> string \<Rightarrow> bool" where
  "verifyManagerPassword scrypt cr username input =
     (if \<not> truthy (cr_user cr) then False
      else if \<not> compareStringsSafe username (the (cr_user cr)) then False
      else if truthy (cr_hash cr) \<and> js_includes (the (cr_hash cr)) '':''
      then verifyScryptPasswordHash scrypt input (cr_hash cr)
      else if \<not> cr_plaintext cr \<or> \<not> truthy (cr_password cr) then False
      else compareStringsSafe input (the (cr_password cr)))"

definition authenticateManagerUser ::
  "scrypt \<Rightarrow> directory \<Rightarrow> gateway_db \<Rightarrow> string \<Rightarrow> string \<Rightarrow> string \<Rightarrow> (string \<times> ManagerRole) option" where
  "authenticateManagerUser scrypt dir db username password tenantId =
     (let normalized = js_lower (js_trim username) in
      if normalized = [] then None
      else
        case row_by us_email normalized (dir_users dir) of
          None \<Rightarrow> None
        | Some row \<Rightarrow>
            if \<not> verifyScryptPasswordHash scrypt password (Some (us_password_hash row)) then None
            else
              case membership db (us_id row) tenantId of
                None \<Rightarrow> None
              | Some m \<Rightarrow> map_option (\<lambda>r. (us_id row, r)) (role_of (tu_role m)))"

section \<open>The login route\<close>

record login_env =
  le_trust :: bool
  le_isIP :: "string \<Rightarrow> bool"
  le_credential :: manager_credential
  le_tenant_pin :: "string option"
  le_configured :: "string option"
  le_mac :: mac
  le_num :: "rat \<Rightarrow> string"
  le_secret :: "string + string"
  le_scrypt :: scrypt
  le_secure :: bool
  le_iso :: "time \<Rightarrow> string"
  le_utc :: "time \<Rightarrow> string"

record login_request =
  lq_length :: "js_number option"
  lq_body :: "json option"
  lq_host :: "string option"
  lq_forwarded :: "string option"
  lq_real_ip :: "string option"
  lq_desktop :: "string option"

text \<open>What the outside decides for one request: the clocks, the random id, and which of the
  database calls fail.\<close>

record login_run =
  lr_now :: time
  lr_recorded :: time
  lr_checked :: time
  lr_session :: time
  lr_clock :: time
  lr_jti :: string
  lr_fail_inspect :: bool
  lr_fail_lookup :: bool
  lr_fail_record :: bool
  lr_fail_clear :: bool
  lr_fail_session :: bool

definition tooMany :: "int \<Rightarrow> http" where
  "tooMany retryAfterSec =
     (error_reply 429 ''Too many attempts. Try again later.'')\<lparr>http_headers := [(''Retry-After'', int_str retryAfterSec)]\<rparr>"

text \<open>Up to the look at the password: a reply, or the user name, the password, the address and the tenant.\<close>

definition login_begin ::
  "login_env \<Rightarrow> directory \<Rightarrow> login_run \<Rightarrow> login_request \<Rightarrow> gateway_db \<Rightarrow> http + string \<times> string \<times> string \<times> string" where
  "login_begin env dir run req db =
     (if hasBodyOverLimit (lq_length req) (64 * 1024) then Inl (error_reply 413 ''Request body too large'')
      else
        case lq_body req of
          None \<Rightarrow> Inl (error_reply 400 ''Invalid JSON'')
        | Some JNull \<Rightarrow> Inl (reply 500 [])
        | Some body \<Rightarrow>
            (let username = take 128 (or_empty (as_string (jget body ''username'')));
                 password = or_empty (as_string (jget body ''password''))
             in if username = [] \<or> password = [] \<or> length password > 4096
                then Inl (error_reply 400 ''username and password required'')
                else
                  let ip = clientIpFrom (le_isIP env) (le_trust env) (lq_forwarded req) (lq_real_ip req)
                  in if lr_fail_inspect run then Inl (error_reply 503 ''Authentication temporarily unavailable'')
                     else
                       case inspectAuthRateLimit (le_trust env) (lr_now run) ip username (auth_rate_limits db) of
                         RetryAfter s \<Rightarrow> Inl (tooMany s)
                       | Allowed \<Rightarrow>
                           (case resolveManagerTenantId dir (le_configured env) (lq_host req) of
                              None \<Rightarrow> Inl (error_reply 503 ''Manager tenant is not configured for this hostname'')
                            | Some tenantId \<Rightarrow> Inr (username, password, ip, tenantId))))"

text \<open>The password check: the identity of a user, or the legacy credential, which is an owner.\<close>

definition login_identity ::
  "login_env \<Rightarrow> directory \<Rightarrow> login_run \<Rightarrow> gateway_db \<Rightarrow> string \<Rightarrow> string \<Rightarrow> string \<Rightarrow> identity option" where
  "login_identity env dir run db username password tenantId =
     (let user = (if js_includes username ''@'' \<and> \<not> lr_fail_lookup run
                  then authenticateManagerUser (le_scrypt env) dir db username password tenantId else None);
          pinned = (js_trim (or_empty (le_tenant_pin env)) \<noteq> []);
          legacyValid = (truthy (cr_user (le_credential env)) \<and> pinned
                         \<and> verifyManagerPassword (le_scrypt env) (le_credential env) username password)
      in case user of
           Some (userId, role) \<Rightarrow> Some \<lparr>id_user = Some userId, id_role = role\<rparr>
         | None \<Rightarrow> if legacyValid then Some \<lparr>id_user = None, id_role = Owner\<rparr> else None)"

definition login_failed :: "login_env \<Rightarrow> login_run \<Rightarrow> string \<Rightarrow> string \<Rightarrow> gateway_db \<Rightarrow> gateway_db \<times> http" where
  "login_failed env run ip username db =
     (if lr_fail_record run then (db, error_reply 401 ''Invalid credentials'')
      else
        let (t, after) = recordAuthFailure (le_trust env) (lr_recorded run) (lr_checked run) ip username (auth_rate_limits db)
        in (db\<lparr>auth_rate_limits := t\<rparr>,
            case after of RetryAfter s \<Rightarrow> tooMany s | Allowed \<Rightarrow> error_reply 401 ''Invalid credentials''))"

definition login_succeeded ::
  "login_env \<Rightarrow> login_run \<Rightarrow> login_request \<Rightarrow> string \<Rightarrow> identity \<Rightarrow> string \<Rightarrow> gateway_db \<Rightarrow> gateway_db \<times> http" where
  "login_succeeded env run req tenantId who username db =
     (let db1 = (if lr_fail_clear run then db
                 else db\<lparr>auth_rate_limits := recordAuthSuccess username (auth_rate_limits db)\<rparr>);
          unavailable = error_reply 500 ''Sign-in is temporarily unavailable. Try again in a moment.''
      in if lr_fail_session run then (db1, unavailable)
         else
           case createManagerSession (le_mac env) (le_num env) (le_secret env) (lr_jti run) (lr_session run) (lr_clock run)
                  tenantId who db1 of
             Inl e \<Rightarrow> (db1, unavailable)
           | Inr (db2, token, until) \<Rightarrow>
               (db2,
                (reply 200 ([(''ok'', JBool True), (''expiresAt'', JStr (le_iso env until))]
                            @ (if lq_desktop req = Some ''1'' then [(''accessToken'', JStr token)] else [])))
                \<lparr>http_headers := [(''Set-Cookie'', managerCookieHeader (le_secure env) token (le_utc env until))]\<rparr>))"

definition login_POST ::
  "login_env \<Rightarrow> directory \<Rightarrow> login_run \<Rightarrow> login_request \<Rightarrow> gateway_db \<Rightarrow> gateway_db \<times> http" where
  "login_POST env dir run req db =
     (case login_begin env dir run req db of
        Inl rep \<Rightarrow> (db, rep)
      | Inr (username, password, ip, tenantId) \<Rightarrow>
          (case login_identity env dir run db username password tenantId of
             None \<Rightarrow> login_failed env run ip username db
           | Some who \<Rightarrow> login_succeeded env run req tenantId who username db))"

text \<open>Signing out; the first argument is what \<^const>\<open>validateManager\<close> gave.\<close>

definition logout_POST :: "ManagerClaims option \<Rightarrow> time \<Rightarrow> bool \<Rightarrow> gateway_db \<Rightarrow> gateway_db \<times> http" where
  "logout_POST claims now fail_revoke db =
     (case claims of
        Some c \<Rightarrow> if fail_revoke then db else revokeManagerSession now (mc_jti c) db
      | None \<Rightarrow> db,
      (reply 200 [(''ok'', JBool True)])\<lparr>http_headers := [(''Set-Cookie'', clearManagerCookieHeader)]\<rparr>)"

section \<open>Guessing a password\<close>

text \<open>Logins and runs of the retention job, one after the other.\<close>

datatype login_event = Attempt login_run login_request | Retention time

definition login_step :: "login_env \<Rightarrow> directory \<Rightarrow> login_event \<Rightarrow> gateway_db \<Rightarrow> gateway_db" where
  "login_step env dir e db =
     (case e of
        Attempt run req \<Rightarrow> fst (login_POST env dir run req db)
      | Retention now \<Rightarrow> db\<lparr>auth_rate_limits := fst (cleanupAuthRateLimits now (auth_rate_limits db))\<rparr>)"

text \<open>Whether the event looks at a password for the account with this key, and what it finds.\<close>

definition looks_at :: "login_env \<Rightarrow> directory \<Rightarrow> string \<Rightarrow> login_event \<Rightarrow> gateway_db \<Rightarrow> identity option option" where
  "looks_at env dir key e db =
     (case e of
        Attempt run req \<Rightarrow>
          (case login_begin env dir run req db of
             Inr (username, password, ip, tenantId) \<Rightarrow>
               if accountKey username = key then Some (login_identity env dir run db username password tenantId) else None
           | Inl _ \<Rightarrow> None)
      | Retention _ \<Rightarrow> None)"

fun wrong_guesses :: "login_env \<Rightarrow> directory \<Rightarrow> string \<Rightarrow> login_event list \<Rightarrow> gateway_db \<Rightarrow> nat" where
  "wrong_guesses env dir key [] db = 0"
| "wrong_guesses env dir key (e # es) db =
     (if looks_at env dir key e db = Some None then 1 else 0) + wrong_guesses env dir key es (login_step env dir e db)"

fun right_guess :: "login_env \<Rightarrow> directory \<Rightarrow> string \<Rightarrow> login_event list \<Rightarrow> gateway_db \<Rightarrow> bool" where
  "right_guess env dir key [] db = False"
| "right_guess env dir key (e # es) db =
     ((case looks_at env dir key e db of Some (Some who) \<Rightarrow> True | _ \<Rightarrow> False) \<or> right_guess env dir key es (login_step env dir e db))"

text \<open>The clocks do not run backwards from \<open>a\<close> to \<open>T\<close>, and every failure is recorded.\<close>

fun timely :: "time \<Rightarrow> time \<Rightarrow> login_event list \<Rightarrow> bool" where
  "timely a T [] \<longleftrightarrow> a \<le> T"
| "timely a T (Attempt run req # es) \<longleftrightarrow>
     a \<le> lr_now run \<and> lr_now run \<le> lr_recorded run \<and> \<not> lr_fail_record run \<and> timely (lr_recorded run) T es"
| "timely a T (Retention now # es) \<longleftrightarrow> a \<le> now \<and> timely now T es"

lemma timely_end: "timely a T es \<Longrightarrow> a \<le> T"
  by (induction a T es rule: timely.induct) auto

lemma unique_put: "unique_by rl_key t \<Longrightarrow> unique_by rl_key (put_row r t)"
proof -
  assume u: "unique_by rl_key t"
  have "map rl_key (update_where (\<lambda>x. rl_key x = rl_key r) (\<lambda>_. r) t) = map rl_key t"
    by (simp add: update_where_def)
  moreover have "row_by rl_key (rl_key r) t = None \<Longrightarrow> rl_key r \<notin> rl_key ` set t"
    by (induction t) (auto simp: row_by_def find_first_def split: if_splits)
  ultimately show ?thesis using u by (auto simp: put_row_def unique_by_def)
qed

lemma unique_failure: "unique_by rl_key t \<Longrightarrow> unique_by rl_key (fst (recordAuthFailure trust now now' ip u t))"
  by (simp add: recordAuthFailure_def bump_def bumpWith_def Let_def unique_put split_beta)

lemma row_delete:
  "unique_by rl_key t \<Longrightarrow> row_by rl_key k (delete_where old t)
     = (case row_by rl_key k t of None \<Rightarrow> None | Some r \<Rightarrow> if old r then None else Some r)"
proof (induction t)
  case (Cons x t)
  have "rl_key x = k \<Longrightarrow> row_by rl_key k (delete_where old t) = None"
    using Cons.prems by (auto simp: unique_by_def row_by_def find_first_def delete_where_def find_None_iff) (metis imageI)
  moreover have "unique_by rl_key t" using Cons.prems by (simp add: unique_by_def)
  ultimately show ?case using Cons.IH by (auto simp: row_by_def find_first_def delete_where_def)
qed (simp add: row_by_def find_first_def delete_where_def)

lemma unique_delete: "unique_by rl_key t \<Longrightarrow> unique_by rl_key (delete_where old t)"
  by (simp add: unique_by_def delete_where_def distinct_map_filter)

lemma begin_allowed:
  "login_begin env dir run req db = Inr (username, password, ip, tenantId)
     \<Longrightarrow> inspectAuthRateLimit (le_trust env) (lr_now run) ip username (auth_rate_limits db) = Allowed"
  by (auto simp: login_begin_def Let_def split: if_splits option.splits json.splits RateLimitDecision.splits)

lemma succeeded_limits:
  "auth_rate_limits (fst (login_succeeded env run req tenantId who username db))
     = (if lr_fail_clear run then auth_rate_limits db else recordAuthSuccess username (auth_rate_limits db))"
  by (auto simp: login_succeeded_def createManagerSession_def Let_def split: sum.splits)

text \<open>One event uses up its share of the budget.\<close>

lemma guess_step:
  assumes ok: "row_ok a (row_by rl_key (accountKey u) (auth_rate_limits db))" "unique_by rl_key (auth_rate_limits db)"
    and time: "timely a T (e # es)" and wrong: "\<And>who. looks_at env dir (accountKey u) e db \<noteq> Some (Some who)"
  shows "\<exists>b. timely b T es \<and> unique_by rl_key (auth_rate_limits (login_step env dir e db))
    \<and> row_ok b (row_by rl_key (accountKey u) (auth_rate_limits (login_step env dir e db)))
    \<and> (if looks_at env dir (accountKey u) e db = Some None then 1 else 0)
        + budget T b (row_by rl_key (accountKey u) (auth_rate_limits (login_step env dir e db)))
      \<le> budget T a (row_by rl_key (accountKey u) (auth_rate_limits db))"
proof (cases e)
  case (Retention now)
  let ?row = "row_by rl_key (accountKey u) (auth_rate_limits db)"
  have le: "a \<le> now" "now \<le> T" "timely now T es" using time timely_end Retention by auto
  have now: "row_ok now ?row" "budget T now ?row \<le> budget T a ?row"
    using row_ok_later [OF ok(1) le(1)] budget_later [OF le(1,2)] by simp_all
  have row: "row_by rl_key (accountKey u) (auth_rate_limits (login_step env dir e db))
      = (case ?row of None \<Rightarrow> None | Some r \<Rightarrow> if rl_updated r < now - AUTH_RATE_RETENTION_MS then None else Some r)"
    by (simp add: login_step_def Retention cleanupAuthRateLimits_def Let_def row_delete [OF ok(2)])
  have "row_ok now (row_by rl_key (accountKey u) (auth_rate_limits (login_step env dir e db)))"
    "budget T now (row_by rl_key (accountKey u) (auth_rate_limits (login_step env dir e db))) \<le> budget T now ?row"
    using now(1) budget_delete [OF now(1) _ le(2)] by (auto simp: row row_ok_def split: option.splits)
  moreover have "unique_by rl_key (auth_rate_limits (login_step env dir e db))"
    by (simp add: login_step_def Retention cleanupAuthRateLimits_def Let_def unique_delete [OF ok(2)])
  ultimately show ?thesis using le now(2) by (intro exI [of _ now]) (simp add: looks_at_def Retention)
next
  case (Attempt run req)
  let ?row = "row_by rl_key (accountKey u) (auth_rate_limits db)"
  let ?b = "lr_recorded run"
  have le: "a \<le> ?b" "lr_now run \<le> ?b" "timely ?b T es" "?b \<le> T" "\<not> lr_fail_record run"
    using time Attempt timely_end by auto
  have later: "row_ok ?b ?row" "budget T ?b ?row \<le> budget T a ?row"
    using row_ok_later [OF ok(1) le(1)] budget_later [OF le(1,4)] by simp_all
  show ?thesis
  proof (cases "login_begin env dir run req db")
    case (Inl rep)
    then show ?thesis using later le ok(2)
      by (intro exI [of _ ?b]) (simp add: login_step_def login_POST_def looks_at_def Attempt)
  next
    case (Inr x)
    then obtain username password ip tenantId where x: "login_begin env dir run req db = Inr (username, password, ip, tenantId)"
      by (cases x) auto
    show ?thesis
    proof (cases "login_identity env dir run db username password tenantId")
      case (Some who)
      then have other: "accountKey username \<noteq> accountKey u" using wrong [of who] by (auto simp: looks_at_def Attempt x)
      have "row_by rl_key (accountKey u) (auth_rate_limits (login_step env dir e db)) = ?row"
        using other by (auto simp: login_step_def Attempt login_POST_def x Some succeeded_limits
            recordAuthSuccess_def row_delete [OF ok(2)] dest: row_key split: option.splits)
      moreover have "unique_by rl_key (auth_rate_limits (login_step env dir e db))"
        using ok(2) by (simp add: login_step_def Attempt login_POST_def x Some succeeded_limits recordAuthSuccess_def unique_delete)
      ultimately show ?thesis using later le other by (intro exI [of _ ?b]) (simp add: looks_at_def Attempt x)
    next
      case None
      have limits: "auth_rate_limits (login_step env dir e db)
          = fst (recordAuthFailure (le_trust env) ?b (lr_checked run) ip username (auth_rate_limits db))"
        using le(5) by (simp add: login_step_def Attempt login_POST_def x None login_failed_def split_beta)
      have uniq: "unique_by rl_key (auth_rate_limits (login_step env dir e db))"
        unfolding limits by (rule unique_failure [OF ok(2)])
      show ?thesis
      proof (cases "accountKey username = accountKey u")
        case False
        then show ?thesis using later le uniq unfolding limits failure_row
          by (intro exI [of _ ?b]) (simp add: looks_at_def Attempt x)
      next
        case True
        have free: "t \<le> ?b" if "?row = Some r" "rl_locked_until r = Some t" for r t
          using allowed_unlocked [OF begin_allowed [OF x], of r t] that le(2) by (simp add: True)
        have "row_ok ?b (Some (bumped (accountKey u) AUTH_RATE_WINDOW_MS lockDurationMs ?b ?row))"
          by (rule budget_bump(1) [OF later(1) _ le(4)]) (rule free)
        moreover have "1 + budget T ?b (Some (bumped (accountKey u) AUTH_RATE_WINDOW_MS lockDurationMs ?b ?row)) \<le> budget T ?b ?row"
          by (rule budget_bump(2) [OF later(1) _ le(4)]) (rule free)
        ultimately show ?thesis
          using later(2) le uniq True unfolding limits failure_row
          by (intro exI [of _ ?b]) (simp add: looks_at_def Attempt x None)
      qed
    qed
  qed
qed

lemma guesses_in_budget:
  assumes "row_ok a (row_by rl_key (accountKey u) (auth_rate_limits db))" "unique_by rl_key (auth_rate_limits db)"
    and "timely a T es" and "\<not> right_guess env dir (accountKey u) es db"
  shows "int (wrong_guesses env dir (accountKey u) es db) \<le> budget T a (row_by rl_key (accountKey u) (auth_rate_limits db))"
  using assms
proof (induction es arbitrary: a db)
  case Nil
  then show ?case using budget_nonneg by simp
next
  case (Cons e es)
  have "looks_at env dir (accountKey u) e db \<noteq> Some (Some who)" for who
    using Cons.prems(4) by (cases "looks_at env dir (accountKey u) e db") auto
  from guess_step [OF Cons.prems(1-3) this] obtain b where b: "timely b T es"
    "unique_by rl_key (auth_rate_limits (login_step env dir e db))"
    "row_ok b (row_by rl_key (accountKey u) (auth_rate_limits (login_step env dir e db)))"
    "(if looks_at env dir (accountKey u) e db = Some None then 1 else 0)
        + budget T b (row_by rl_key (accountKey u) (auth_rate_limits (login_step env dir e db)))
      \<le> budget T a (row_by rl_key (accountKey u) (auth_rate_limits db))"
    by blast
  have "int (wrong_guesses env dir (accountKey u) es (login_step env dir e db))
      \<le> budget T b (row_by rl_key (accountKey u) (auth_rate_limits (login_step env dir e db)))"
    using Cons.IH [OF b(3,2,1)] Cons.prems(4) by simp
  then show ?case using b(4) by auto
qed

text \<open>C29. Guessing an account's password: whatever logins and retention runs follow one
  another, from whatever addresses and at whatever hosts, as long as none signs the account in
  and the limiter records the failures, at most twelve passwords for it are looked at in every
  fifteen minutes begun.\<close>

theorem guess_bound:
  assumes "row_by rl_key (accountKey u) (auth_rate_limits db) = None" and "unique_by rl_key (auth_rate_limits db)"
    and "timely a T es" and "\<not> right_guess env dir (accountKey u) es db"
  shows "int (wrong_guesses env dir (accountKey u) es db) \<le> 12 * (1 + (T - a) div 900000)"
  using guesses_in_budget [of a u db T es env dir] assms by (simp add: row_ok_def budget_def)

definition front_door :: login_env where
  "front_door =
     \<lparr>le_trust = False, le_isIP = (\<lambda>_. False),
      le_credential = \<lparr>cr_user = Some ''boss'', cr_hash = None, cr_password = Some ''correct horse'', cr_plaintext = True\<rparr>,
      le_tenant_pin = Some ''shop'', le_configured = Some ''shop'', le_mac = (\<lambda>k d. []), le_num = (\<lambda>q. ''0''),
      le_secret = Inr ''key'', le_scrypt = (\<lambda>p s. []), le_secure = True, le_iso = (\<lambda>_. ''''), le_utc = (\<lambda>_. '''')\<rparr>"

definition one_shop :: directory where "one_shop = \<lparr>dir_tenants = [''shop''], dir_domains = [], dir_users = []\<rparr>"

definition guess_of :: "string \<Rightarrow> time \<Rightarrow> login_event" where
  "guess_of pw t =
     Attempt \<lparr>lr_now = t, lr_recorded = t + 10, lr_checked = t + 10, lr_session = t, lr_clock = t, lr_jti = ''j'',
              lr_fail_inspect = False, lr_fail_lookup = False, lr_fail_record = False, lr_fail_clear = False,
              lr_fail_session = False\<rparr>
             \<lparr>lq_length = None, lq_body = Some (JObj [(''username'', JStr ''Boss''), (''password'', JStr pw)]), lq_host = None,
              lq_forwarded = None, lq_real_ip = None, lq_desktop = None\<rparr>"

definition evening :: "login_event list" where
  "evening = [guess_of ''a'' 0, Retention 200, guess_of ''c'' 1000000]"

theorem guess_bound_witness:
  "wrong_guesses front_door one_shop (accountKey ''boss'') evening empty_db = 2
   \<and> int (wrong_guesses front_door one_shop (accountKey ''boss'') evening empty_db) \<le> 12 * (1 + (2000000 - 0) div 900000)"
proof -
  have h: "row_by rl_key (accountKey ''boss'') (auth_rate_limits empty_db) = None" "unique_by rl_key (auth_rate_limits empty_db)"
    by code_simp+
  have t: "timely 0 2000000 evening" by code_simp
  have no: "\<not> right_guess front_door one_shop (accountKey ''boss'') evening empty_db"
    by code_simp
  have two: "wrong_guesses front_door one_shop (accountKey ''boss'') evening empty_db = 2" by code_simp
  show ?thesis by (rule conjI [OF two guess_bound [OF h t no]])
qed

end
