(* ===== verification/Printer_Model.thy ===== *)
theory Printer_Model
  imports Agent_Auth Print_Service Manager_Login Js_Date
begin

text \<open>
  \<open>src/lib/printer-model.ts\<close> and the printer routes of the manager, \<open>api/printers\<close> and
  \<open>api/printers/[id]\<close>: which printers may be stored, and how they are created and changed.
  The texts of the schema library's messages are an argument.
\<close>

definition PRINTER_TYPES :: "string list" where "PRINTER_TYPES = [''physical'', ''virtual'', ''redirected'']"
definition DEVICE_CLASSES :: "string list" where
  "DEVICE_CLASSES = [''thermal'', ''laser'', ''inkjet'', ''label'', ''other'', ''unknown'']"
definition CONNECTION_TYPES :: "string list" where
  "CONNECTION_TYPES = [''network'', ''usb'', ''spooler'', ''ipp'', ''ipps'']"
definition PRINTER_PROTOCOLS :: "string list" where
  "PRINTER_PROTOCOLS = [''raw'', ''escpos'', ''zpl'', ''tspl'', ''ipp'', ''ipps'', ''spooler'', ''unknown'']"
definition PRINTER_STATUSES :: "string list" where
  "PRINTER_STATUSES = [''online'', ''offline'', ''busy'', ''error'', ''unknown'']"

definition PRINTER_CONFIG_MAX_BYTES :: nat where "PRINTER_CONFIG_MAX_BYTES = 16 * 1024"
definition PRINTER_CAPABILITIES_MAX_BYTES :: nat where "PRINTER_CAPABILITIES_MAX_BYTES = 32 * 1024"

text \<open>\<open>!v || typeof v !== "string"\<close> and the like.\<close>

definition text_value :: "json option \<Rightarrow> string option" where
  "text_value v = (case as_string v of Some s \<Rightarrow> if s \<noteq> [] then Some s else None | None \<Rightarrow> None)"

definition number_value :: "json option \<Rightarrow> bool" where
  "number_value v \<longleftrightarrow> (case v of Some (JNum q) \<Rightarrow> q \<noteq> 0 | _ \<Rightarrow> False)"

definition trimmed_text :: "json option \<Rightarrow> bool" where
  "trimmed_text v \<longleftrightarrow> (case as_string v of Some s \<Rightarrow> js_trim s \<noteq> [] | None \<Rightarrow> False)"

definition validateConnectionConfig :: "string \<Rightarrow> (string \<times> json) list \<Rightarrow> string option" where
  "validateConnectionConfig connectionType cfg =
     (if connectionType = ''network'' \<and> text_value (jprop ''ip'' cfg) = None
      then Some ''network printer requires config.ip''
      else if connectionType = ''network'' \<and> \<not> number_value (jprop ''port'' cfg)
      then Some ''network printer requires config.port''
      else if connectionType = ''network'' \<and> js_includes (the (text_value (jprop ''ip'' cfg))) '' ''
      then Some ''invalid network address''
      else if connectionType = ''spooler'' \<and> \<not> trimmed_text (jprop ''spooler_name'' cfg) \<and> \<not> trimmed_text (jprop ''address'' cfg)
      then Some ''spooler printer requires config.spooler_name or config.address''
      else None)"

section \<open>The input schema\<close>

text \<open>Field checks of the schemas: \<^const>\<open>None\<close> is a failure, a missing field stays missing.\<close>

definition string_field :: "(string \<Rightarrow> bool) \<Rightarrow> json option \<Rightarrow> string option option" where
  "string_field ok v =
     (case v of None \<Rightarrow> Some None | Some (JStr s) \<Rightarrow> if ok s then Some (Some s) else None | _ \<Rightarrow> None)"

definition enum_field :: "string list \<Rightarrow> json option \<Rightarrow> string option option" where
  "enum_field words v = string_field (\<lambda>s. List.member words s) v"

definition int_field :: "int \<Rightarrow> int \<Rightarrow> json option \<Rightarrow> bool" where
  "int_field lo hi v \<longleftrightarrow>
     (case v of None \<Rightarrow> True | Some (JNum q) \<Rightarrow> of_int \<lfloor>q\<rfloor> = q \<and> lo \<le> \<lfloor>q\<rfloor> \<and> \<lfloor>q\<rfloor> \<le> hi | _ \<Rightarrow> False)"

definition text_field :: "nat \<Rightarrow> json option \<Rightarrow> bool" where
  "text_field hi v \<longleftrightarrow> string_field (\<lambda>s. length s \<le> hi) v \<noteq> None"

definition bool_field :: "json option \<Rightarrow> bool" where
  "bool_field v \<longleftrightarrow> (case v of None \<Rightarrow> True | Some (JBool b) \<Rightarrow> True | _ \<Rightarrow> False)"

definition only_keys :: "string list \<Rightarrow> (string \<times> json) list \<Rightarrow> bool" where
  "only_keys ks es \<longleftrightarrow> list_all (\<lambda>(k, v). List.member ks k) es"

definition BASE_CONFIG_KEYS :: "string list" where
  "BASE_CONFIG_KEYS = [''ip'', ''port'', ''vid'', ''pid'', ''serial'', ''address'', ''spooler_name'']"

definition base_config_ok :: "(string \<times> json) list \<Rightarrow> bool" where
  "base_config_ok es \<longleftrightarrow> int_field 1 65535 (jprop ''port'' es) \<and> int_field 0 65535 (jprop ''vid'' es)
     \<and> int_field 0 65535 (jprop ''pid'' es) \<and> text_field 255 (jprop ''serial'' es) \<and> text_field 512 (jprop ''address'' es)
     \<and> text_field 255 (jprop ''spooler_name'' es)"

definition paper_widths_ok :: "json option \<Rightarrow> bool" where
  "paper_widths_ok v \<longleftrightarrow>
     (case v of
        None \<Rightarrow> True
      | Some (JArr xs) \<Rightarrow> length xs \<le> 32 \<and> list_all (\<lambda>x. case x of JNum q \<Rightarrow> 0 < q \<and> q \<le> 1000 | _ \<Rightarrow> False) xs
      | _ \<Rightarrow> False)"

text \<open>The config of the create schema; its \<open>ip\<close> is trimmed.\<close>

definition parse_config :: "json option \<Rightarrow> (string \<times> json) list option" where
  "parse_config v =
     (case v of
        None \<Rightarrow> Some []
      | Some (JObj es) \<Rightarrow>
          (case trimmed_field 0 255 (jprop ''ip'' es) of
             None \<Rightarrow> None
           | Some ip \<Rightarrow>
               if base_config_ok es \<and> paper_widths_ok (jprop ''paper_widths'' es) \<and> bool_field (jprop ''color_capable'' es)
                  \<and> bool_field (jprop ''duplex_capable'' es)
                  \<and> only_keys (BASE_CONFIG_KEYS @ [''paper_widths'', ''color_capable'', ''duplex_capable'']) es
               then Some (map (\<lambda>(k, x). if k = ''ip'' then (k, JStr (or_empty ip)) else (k, x)) es)
               else None)
      | _ \<Rightarrow> None)"

text \<open>\<open>/^[a-z0-9_][a-z0-9_-]*$/\<close>\<close>

definition id_char :: "char \<Rightarrow> bool" where
  "id_char c \<longleftrightarrow> is_digit c \<or> c = CHR ''_'' \<or> 97 \<le> (of_char c :: nat) \<and> (of_char c :: nat) \<le> 122"

definition printer_id_ok :: "string \<Rightarrow> bool" where
  "printer_id_ok s \<longleftrightarrow>
     (case s of [] \<Rightarrow> False | c # r \<Rightarrow> id_char c \<and> list_all (\<lambda>d. id_char d \<or> d = CHR ''-'') r) \<and> length s \<le> 120"

record CanonicalPrinterInput =
  ci_id :: "string option"
  ci_agent :: string
  ci_name :: string
  ci_type :: string
  ci_class :: string
  ci_connection :: string
  ci_protocol :: string
  ci_config :: "(string \<times> json) list"
  ci_capabilities :: "(string \<times> json) list option"

definition printerInputSchema :: "json \<Rightarrow> CanonicalPrinterInput option" where
  "printerInputSchema body =
     (case body of
        JObj es \<Rightarrow>
          (case (string_field printer_id_ok (jprop ''id'' es),
                 string_field (\<lambda>s. 1 \<le> length s \<and> length s \<le> 120) (jprop ''agentId'' es),
                 trimmed_field 1 100 (jprop ''name'' es), enum_field PRINTER_TYPES (jprop ''printerType'' es),
                 enum_field DEVICE_CLASSES (jprop ''deviceClass'' es), enum_field CONNECTION_TYPES (jprop ''connectionType'' es),
                 enum_field PRINTER_PROTOCOLS (jprop ''protocol'' es), parse_config (jprop ''config'' es),
                 record_field (jprop ''capabilities'' es)) of
             (Some i, Some (Some agentId), Some (Some name), Some ty, Some cl, Some conn, Some (Some proto), Some cfg, Some caps) \<Rightarrow>
               (if only_keys [''id'', ''agentId'', ''name'', ''printerType'', ''deviceClass'', ''connectionType'', ''protocol'',
                              ''config'', ''capabilities''] es
                then Some \<lparr>ci_id = i, ci_agent = agentId, ci_name = name,
                           ci_type = (case ty of Some t \<Rightarrow> t | None \<Rightarrow> ''physical''),
                           ci_class = (case cl of Some c \<Rightarrow> c | None \<Rightarrow> ''unknown''),
                           ci_connection = (case conn of Some c \<Rightarrow> c | None \<Rightarrow> ''network''),
                           ci_protocol = proto, ci_config = cfg, ci_capabilities = caps\<rparr>
                else None)
           | _ \<Rightarrow> None)
      | _ \<Rightarrow> None)"

definition assertPrinterMetadataLimits ::
  "(rat \<Rightarrow> string) \<Rightarrow> (string \<times> json) list option \<Rightarrow> (string \<times> json) list option \<Rightarrow> string option" where
  "assertPrinterMetadataLimits num config capabilities =
     (if length (stringify num (JObj (case config of Some c \<Rightarrow> c | None \<Rightarrow> []))) > PRINTER_CONFIG_MAX_BYTES
      then Some ''printer config exceeds 16KB''
      else
        case capabilities of
          Some c \<Rightarrow> if length (stringify num (JObj c)) > PRINTER_CAPABILITIES_MAX_BYTES
                    then Some ''printer capabilities exceed 32KB'' else None
        | None \<Rightarrow> None)"

definition parsePrinterInput :: "(rat \<Rightarrow> string) \<Rightarrow> (json \<Rightarrow> string) \<Rightarrow> json \<Rightarrow> string + CanonicalPrinterInput" where
  "parsePrinterInput num zod_message v =
     (case printerInputSchema v of
        None \<Rightarrow> Inl (zod_message v)
      | Some p \<Rightarrow>
          (case assertPrinterMetadataLimits num (Some (ci_config p)) (ci_capabilities p) of
             Some e \<Rightarrow> Inl e
           | None \<Rightarrow> Inr p))"

section \<open>The manager's printer routes\<close>

text \<open>The session and permission check every manager route begins with.\<close>

definition authorize :: "ManagerClaims option \<Rightarrow> ManagerPermission \<Rightarrow> http + ManagerClaims" where
  "authorize claims permission =
     (case claims of
        None \<Rightarrow> Inl (error_reply 401 ''Unauthorized'')
      | Some c \<Rightarrow> if hasManagerPermission c permission then Inr c else Inl (error_reply 403 ''Forbidden''))"

text \<open>A date column of a reply.\<close>

definition jdate :: "time option \<Rightarrow> json" where
  "jdate t = (case t of Some t' \<Rightarrow> JStr (toISOString t') | None \<Rightarrow> JNull)"

definition printer_json :: "printer \<Rightarrow> json" where
  "printer_json p =
     JObj [(''id'', JStr (pr_id p)), (''tenantId'', JStr (pr_tenant p)), (''agentId'', JStr (pr_agent p)),
           (''name'', JStr (pr_name p)), (''printerType'', JStr (pr_type p)), (''deviceClass'', JStr (pr_class p)),
           (''connectionType'', JStr (pr_connection p)), (''protocol'', JStr (pr_protocol p)),
           (''status'', JStr (pr_status p)), (''lifecycle'', JStr (lifecycle_str (pr_lifecycle p))),
           (''config'', case pr_config p of Some c \<Rightarrow> JObj c | None \<Rightarrow> JNull),
           (''capabilities'', case pr_capabilities p of Some c \<Rightarrow> c | None \<Rightarrow> JNull),
           (''lastSeenAt'', jdate (pr_last_seen p)), (''createdAt'', jdate (Some (pr_created p))),
           (''updatedAt'', jdate (Some (pr_updated p)))]"

definition http_json :: "nat \<Rightarrow> json \<Rightarrow> http" where
  "http_json st v = \<lparr>http_status = st, http_headers = [], http_body = v\<rparr>"

definition live_printers :: "gateway_db \<Rightarrow> string \<Rightarrow> nat" where
  "live_printers db tenantId = count_where (\<lambda>p. pr_tenant p = tenantId \<and> pr_lifecycle p \<noteq> Retired) (printers db)"

definition new_printer :: "time \<Rightarrow> string \<Rightarrow> string \<Rightarrow> CanonicalPrinterInput \<Rightarrow> printer" where
  "new_printer now tenantId i data =
     \<lparr>pr_id = i, pr_tenant = tenantId, pr_agent = ci_agent data, pr_name = ci_name data, pr_type = ci_type data,
      pr_class = ci_class data, pr_connection = ci_connection data, pr_protocol = ci_protocol data,
      pr_status = ''unknown'', pr_lifecycle = Active, pr_config = Some (ci_config data),
      pr_capabilities = map_option JObj (ci_capabilities data), pr_last_seen = None, pr_created = now, pr_updated = now\<rparr>"

definition entitlement_message :: "string \<times> int \<Rightarrow> string" where
  "entitlement_message e = ''Tenant entitlement '' @ fst e @ '' exceeded (limit '' @ int_str (snd e) @ '')''"

text \<open>The answer to a failing insert, whose error text is the database driver's.\<close>

definition insert_refused :: "string \<Rightarrow> http" where
  "insert_refused db_message =
     (if js_includes (js_lower db_message) ''already exists'' \<or> js_includes (js_lower db_message) ''duplicate''
      then error_reply 409 ''printer id already exists'' else error_reply 400 db_message)"

text \<open>
  The agent is read before the transaction that counts and inserts, so the route sees the agent of
  \<open>seen\<close> and writes to \<open>db\<close>. The insert fails when the id is taken or the agent is gone;
  \<open>nano\<close> is the drawn id.
\<close>

definition printers_POST ::
  "(rat \<Rightarrow> string) \<Rightarrow> (json \<Rightarrow> string) \<Rightarrow> string \<Rightarrow> time \<Rightarrow> string \<Rightarrow> ManagerClaims option \<Rightarrow> json option \<Rightarrow> gateway_db
     \<Rightarrow> gateway_db \<Rightarrow> gateway_db \<times> http" where
  "printers_POST num zod_message db_message now nano claims body seen db =
     (case authorize claims Printers_manage of
        Inl rep \<Rightarrow> (db, rep)
      | Inr c \<Rightarrow>
          (case body of
             None \<Rightarrow> (db, error_reply 400 ''Invalid JSON'')
           | Some v \<Rightarrow>
               (case parsePrinterInput num zod_message v of
                  Inl e \<Rightarrow> (db, error_reply 400 e)
                | Inr data \<Rightarrow>
                    (case find_first (agent_in (ci_agent data) (mc_tenant c)) (agents seen) of
                       None \<Rightarrow> (db, error_reply 404 ''agentId not found'')
                     | Some agent \<Rightarrow>
                         if ag_lifecycle agent \<noteq> Active
                         then (db, error_reply 409 (''agent is '' @ lifecycle_str (ag_lifecycle agent)))
                         else
                           case validateConnectionConfig (ci_connection data) (ci_config data) of
                             Some e \<Rightarrow> (db, error_reply 400 e)
                           | None \<Rightarrow>
                               let i = (case ci_id data of Some x \<Rightarrow> x | None \<Rightarrow> ''printer_'' @ nano)
                               in case enforceTenantResourceEntitlement db (mc_tenant c) ''max_printers''
                                         (live_printers db (mc_tenant c)) of
                                    Some e \<Rightarrow>
                                      (db, (reply 429 [(''error'', JStr (entitlement_message e)),
                                                       (''code'', JStr ''TENANT_ENTITLEMENT_EXCEEDED'')])
                                           \<lparr>http_headers := [(''Retry-After'', ''60'')]\<rparr>)
                                  | None \<Rightarrow>
                                      if row_by pr_id i (printers db) \<noteq> None \<or> \<not> agent_exists (mc_tenant c) (ci_agent data) db
                                      then (db, insert_refused db_message)
                                      else
                                        let row = new_printer now (mc_tenant c) i data
                                        in (db\<lparr>printers := printers db @ [row]\<rparr>, http_json 201 (printer_json row))))))"

text \<open>Changing a printer.\<close>

record printer_patch =
  pp_name :: "string option"
  pp_type :: "string option"
  pp_class :: "string option"
  pp_connection :: "string option"
  pp_protocol :: "string option"
  pp_lifecycle :: "Lifecycle option"
  pp_config :: "(string \<times> json) list option"
  pp_capabilities :: "(string \<times> json) list option"
  pp_status :: "string option"

definition lifecycle_field :: "json option \<Rightarrow> Lifecycle option option" where
  "lifecycle_field v =
     (case v of
        None \<Rightarrow> Some None
      | Some (JStr s) \<Rightarrow> map_option Some (List.find (\<lambda>l. lifecycle_str l = s) [Active, Disabled, Retired])
      | _ \<Rightarrow> None)"

definition patch_config_field :: "json option \<Rightarrow> (string \<times> json) list option option" where
  "patch_config_field v =
     (case v of
        None \<Rightarrow> Some None
      | Some (JObj es) \<Rightarrow>
          if text_field 255 (jprop ''ip'' es) \<and> base_config_ok es \<and> only_keys BASE_CONFIG_KEYS es then Some (Some es) else None
      | _ \<Rightarrow> None)"

definition patchSchema :: "json \<Rightarrow> printer_patch option" where
  "patchSchema body =
     (case body of
        JObj es \<Rightarrow>
          (case (trimmed_field 1 100 (jprop ''name'' es), enum_field PRINTER_TYPES (jprop ''printerType'' es),
                 enum_field DEVICE_CLASSES (jprop ''deviceClass'' es), enum_field CONNECTION_TYPES (jprop ''connectionType'' es),
                 enum_field PRINTER_PROTOCOLS (jprop ''protocol'' es), lifecycle_field (jprop ''lifecycle'' es),
                 patch_config_field (jprop ''config'' es), record_field (jprop ''capabilities'' es),
                 enum_field PRINTER_STATUSES (jprop ''status'' es)) of
             (Some n, Some ty, Some cl, Some conn, Some proto, Some lc, Some cfg, Some caps, Some st) \<Rightarrow>
               (if only_keys [''name'', ''printerType'', ''deviceClass'', ''connectionType'', ''protocol'', ''lifecycle'',
                              ''config'', ''capabilities'', ''status''] es
                then Some \<lparr>pp_name = n, pp_type = ty, pp_class = cl, pp_connection = conn, pp_protocol = proto,
                           pp_lifecycle = lc, pp_config = cfg, pp_capabilities = caps, pp_status = st\<rparr>
                else None)
           | _ \<Rightarrow> None)
      | _ \<Rightarrow> None)"

definition or_else :: "'a option \<Rightarrow> 'a \<Rightarrow> 'a" where
  "or_else x d = (case x of Some v \<Rightarrow> v | None \<Rightarrow> d)"

definition apply_patch :: "time \<Rightarrow> printer_patch \<Rightarrow> printer \<Rightarrow> printer" where
  "apply_patch now u p =
     p\<lparr>pr_name := or_else (pp_name u) (pr_name p), pr_type := or_else (pp_type u) (pr_type p),
       pr_class := or_else (pp_class u) (pr_class p), pr_connection := or_else (pp_connection u) (pr_connection p),
       pr_protocol := or_else (pp_protocol u) (pr_protocol p),
       pr_config := (case pp_config u of Some c \<Rightarrow> Some c | None \<Rightarrow> pr_config p),
       pr_capabilities := (case pp_capabilities u of Some c \<Rightarrow> Some (JObj c) | None \<Rightarrow> pr_capabilities p),
       pr_status := or_else (pp_status u) (pr_status p), pr_lifecycle := or_else (pp_lifecycle u) (pr_lifecycle p),
       pr_updated := now\<rparr>"

definition patch_transport_error :: "printer_patch \<Rightarrow> printer \<Rightarrow> string option" where
  "patch_transport_error u existing =
     (if pp_connection u = None \<and> pp_config u = None then None
      else
        let connectionType = or_else (pp_connection u) (pr_connection existing);
            cfg = (case pp_config u of Some c \<Rightarrow> c | None \<Rightarrow> (case pr_config existing of Some c \<Rightarrow> c | None \<Rightarrow> []))
        in if connectionType = ''network'' \<and> (\<not> js_truthy (jprop ''ip'' cfg) \<or> \<not> js_truthy (jprop ''port'' cfg))
           then Some ''network printer requires config.ip and config.port''
           else if connectionType = ''spooler'' \<and> \<not> js_truthy (jprop ''spooler_name'' cfg) \<and> \<not> js_truthy (jprop ''address'' cfg)
           then Some ''spooler printer requires config.spooler_name or config.address''
           else None)"

definition LEGACY_KEYS :: "string list" where
  "LEGACY_KEYS = [''branchId'', ''branch_id'', ''enabled'', ''type'']"

definition printer_in :: "string \<Rightarrow> string \<Rightarrow> printer \<Rightarrow> bool" where
  "printer_in i tenantId p \<longleftrightarrow> pr_id p = i \<and> pr_tenant p = tenantId"

text \<open>
  Three statements: the printer is read in \<open>seen\<close>, its agent in \<open>seen_owner\<close>, and the UPDATE finds
  \<open>db\<close>. Where the row is gone by then, there is nothing to put into the reply and the route ends
  in an error.
\<close>

definition printer_PATCH ::
  "(rat \<Rightarrow> string) \<Rightarrow> (json \<Rightarrow> string) \<Rightarrow> time \<Rightarrow> ManagerClaims option \<Rightarrow> string \<Rightarrow> json option \<Rightarrow> gateway_db
     \<Rightarrow> gateway_db \<Rightarrow> gateway_db \<Rightarrow> gateway_db \<times> http" where
  "printer_PATCH num zod_message now claims i body seen seen_owner db =
     (case authorize claims Printers_manage of
        Inl rep \<Rightarrow> (db, rep)
      | Inr c \<Rightarrow>
          (case find_first (printer_in i (mc_tenant c)) (printers seen) of
             None \<Rightarrow> (db, error_reply 404 ''Not found'')
           | Some existing \<Rightarrow>
               (case body of
                  None \<Rightarrow> (db, error_reply 400 ''Invalid JSON'')
                | Some v \<Rightarrow>
                    if list_ex (\<lambda>k. jget v k \<noteq> None) LEGACY_KEYS
                    then (db, error_reply 400 ''Unsupported legacy/ownership field'')
                    else
                      case patchSchema v of
                        None \<Rightarrow> (db, error_reply 400 (zod_message v))
                      | Some u \<Rightarrow>
                          (case assertPrinterMetadataLimits num (pp_config u) (pp_capabilities u) of
                             Some e \<Rightarrow> (db, error_reply 400 e)
                           | None \<Rightarrow>
                               if pp_lifecycle u \<noteq> None \<and> \<not> canTransitionLifecycle (pr_lifecycle existing) (the (pp_lifecycle u))
                               then (db, error_reply 409 (''invalid lifecycle transition: '' @ lifecycle_str (pr_lifecycle existing)
                                                          @ '' -> '' @ lifecycle_str (the (pp_lifecycle u))))
                               else
                                 let owner = find_first (agent_in (pr_agent existing) (mc_tenant c)) (agents seen_owner)
                                 in if pp_lifecycle u = Some Active \<and> owner = None
                                    then (db, error_reply 500 ''Printer owner agent missing'')
                                    else if pp_lifecycle u = Some Active \<and> ag_lifecycle (the owner) \<noteq> Active
                                    then (db, error_reply 409 (''cannot activate printer while agent is ''
                                                               @ lifecycle_str (ag_lifecycle (the owner))))
                                    else
                                      case patch_transport_error u existing of
                                        Some e \<Rightarrow> (db, error_reply 400 e)
                                      | None \<Rightarrow>
                                          (db\<lparr>printers := update_where (printer_in i (mc_tenant c)) (apply_patch now u) (printers db)\<rparr>,
                                           case find_first (printer_in i (mc_tenant c)) (printers db) of
                                             Some row \<Rightarrow> http_json 200 (printer_json (apply_patch now u row))
                                           | None \<Rightarrow> reply 500 [])))))"

end
