(* ===== verification/Network_Address.thy ===== *)
theory Network_Address
  imports Printer_Model
begin

text \<open>
  \<open>src/lib/network-address.ts\<close> and \<open>src/lib/discovery.ts\<close>: which addresses and ranges
  count as private, and the request that starts a discovery. The family that \<open>isIP\<close> tells
  (4, 6 or 0) is an argument.
\<close>

text \<open>\<open>Number(text)\<close>; \<open>NaN\<close> and the infinities are one value, and a decimal is taken exactly.\<close>

definition radix_digits :: "nat \<Rightarrow> string \<Rightarrow> rat option" where
  "radix_digits b ds =
     (if ds = [] \<or> \<not> list_all (\<lambda>c. case hex_val c of Some d \<Rightarrow> d < b | None \<Rightarrow> False) ds then None
      else Some (of_nat (foldl (\<lambda>n c. n * b + the (hex_val c)) 0 ds)))"

definition decimal_number :: "string \<Rightarrow> rat option" where
  "decimal_number t =
     (let (sg, s1) = (case t of c # r \<Rightarrow> if c = CHR ''+'' then (1, r) else after_sign t | [] \<Rightarrow> (1, t));
          ds = takeWhile is_digit s1;
          r1 = dropWhile is_digit s1;
          dotted = starts_with r1 ''.'';
          fs = (if dotted then takeWhile is_digit (tl r1) else []);
          r2 = (if dotted then dropWhile is_digit (tl r1) else r1)
      in if ds = [] \<and> fs = [] then None
         else
           case parse_exponent r2 of
             Some (e, []) \<Rightarrow> Some (of_int sg * (of_nat (digits_val ds) + of_nat (digits_val fs) / 10 ^ length fs) * e)
           | _ \<Rightarrow> None)"

definition js_Number :: "string \<Rightarrow> js_number" where
  "js_Number s =
     (let t = js_trim s;
          q = (if t = [] then Some 0
               else if starts_with t ''0x'' \<or> starts_with t ''0X'' then radix_digits 16 (drop 2 t)
               else if starts_with t ''0o'' \<or> starts_with t ''0O'' then radix_digits 8 (drop 2 t)
               else if starts_with t ''0b'' \<or> starts_with t ''0B'' then radix_digits 2 (drop 2 t)
               else decimal_number t)
      in case q of Some x \<Rightarrow> Fin x | None \<Rightarrow> NotFinite)"

definition finite_numbers :: "string list \<Rightarrow> rat list option" where
  "finite_numbers parts =
     (let ns = map js_Number parts
      in if list_ex (\<lambda>n. n = NotFinite) ns then None
         else Some (map (\<lambda>n. case n of Fin q \<Rightarrow> q | NotFinite \<Rightarrow> 0) ns))"

definition isPrivateIPv4 :: "string \<Rightarrow> bool" where
  "isPrivateIPv4 ip =
     (case finite_numbers (split_on (CHR ''.'') ip) of
        Some [a, b, c, d] \<Rightarrow>
          list_all (\<lambda>n. of_int \<lfloor>n\<rfloor> = n \<and> 0 \<le> n \<and> n \<le> 255) [a, b, c, d]
          \<and> (a = 10 \<or> a = 172 \<and> 16 \<le> b \<and> b \<le> 31 \<or> a = 192 \<and> b = 168 \<or> a = 169 \<and> b = 254)
      | _ \<Rightarrow> False)"

text \<open>\<open>ip.split("::")\<close>\<close>

fun split_halves :: "string \<Rightarrow> string list" where
  "split_halves [] = [[]]"
| "split_halves [c] = [[c]]"
| "split_halves (c # d # s) =
     (if c = CHR '':'' \<and> d = CHR '':'' then [] # split_halves s
      else (case split_halves (d # s) of p # ps \<Rightarrow> (c # p) # ps | [] \<Rightarrow> [[c]]))"

definition hex_group :: "string \<Rightarrow> bool" where
  "hex_group p \<longleftrightarrow> 1 \<le> length p \<and> length p \<le> 4 \<and> list_all (\<lambda>c. hex_val c \<noteq> None) p"

definition group_val :: "string \<Rightarrow> nat" where
  "group_val p = foldl (\<lambda>n c. n * 16 + the (hex_val c)) 0 p"

definition groups_of :: "string \<Rightarrow> string list" where
  "groups_of half = (if half = [] then [] else split_on (CHR '':'') half)"

definition parseIPv6 :: "string \<Rightarrow> nat option" where
  "parseIPv6 ip =
     (if js_includes ip ''%'' then None
      else
        let halves = split_halves ip in
        if length halves > 2 then None
        else
          let left = groups_of (hd halves);
              right = (if length halves = 2 then groups_of (halves ! 1) else []);
              total = length left + length right
          in if \<not> list_all hex_group left \<or> \<not> list_all hex_group right then None
             else if length halves = 1 \<and> total \<noteq> 8 then None
             else if length halves = 2 \<and> total \<ge> 8 then None
             else
               let groups = (if length halves = 2 then left @ replicate (8 - total) ''0'' @ right else left)
               in Some (foldl (\<lambda>value part. value * 65536 + group_val part) 0 groups))"

definition isPrivateIPv6 :: "string \<Rightarrow> bool" where
  "isPrivateIPv6 ip =
     (case parseIPv6 ip of
        None \<Rightarrow> False
      | Some value \<Rightarrow>
          value \<noteq> 0 \<and> value \<noteq> 1 \<and> (value div 2 ^ 121 = 126 \<or> value div 2 ^ 118 = 1018))"

definition isPrivateNetworkAddress :: "(string \<Rightarrow> nat) \<Rightarrow> string \<Rightarrow> bool" where
  "isPrivateNetworkAddress isIP ip =
     (if isIP ip = 4 then isPrivateIPv4 ip else if isIP ip = 6 then isPrivateIPv6 ip else False)"

section \<open>Discovery requests\<close>

definition DISCOVERY_PROTOCOLS :: "string list" where
  "DISCOVERY_PROTOCOLS = [''ipp'', ''ipps'', ''raw'', ''lpr'', ''mdns'', ''snmp'', ''wsd'', ''windows_spooler'', ''usb'', ''unknown'',
     ''escpos'', ''spooler'']"

definition isPrivateCIDR :: "string \<Rightarrow> bool" where
  "isPrivateCIDR cidr =
     (case split_on (CHR ''/'') cidr of
        [ip, pfx] \<Rightarrow>
          (case js_Number pfx of
             NotFinite \<Rightarrow> False
           | Fin bits \<Rightarrow>
               if of_int \<lfloor>bits\<rfloor> \<noteq> bits \<or> bits < 16 \<or> bits > 30 then False
               else
                 case finite_numbers (split_on (CHR ''.'') ip) of
                   Some [a, b, c, d] \<Rightarrow>
                     list_all (\<lambda>n. 0 \<le> n \<and> n \<le> 255) [a, b, c, d]
                     \<and> (a = 10 \<or> a = 172 \<and> 16 \<le> b \<and> b \<le> 31 \<or> a = 192 \<and> b = 168)
                 | _ \<Rightarrow> False)
      | _ \<Rightarrow> False)"

text \<open>\<open>discoveryStartSchema\<close>; the result is the range, if one is given.\<close>

definition discoveryStartSchema :: "json \<Rightarrow> string option option" where
  "discoveryStartSchema body =
     (case body of
        JObj es \<Rightarrow>
          (case string_field (\<lambda>_. True) (jprop ''cidr'' es) of
             None \<Rightarrow> None
           | Some cidr \<Rightarrow>
               if (case jprop ''protocols'' es of
                     None \<Rightarrow> True
                   | Some (JArr xs) \<Rightarrow> list_all (\<lambda>x. case x of JStr s \<Rightarrow> List.member DISCOVERY_PROTOCOLS s | _ \<Rightarrow> False) xs
                   | _ \<Rightarrow> False)
                  \<and> int_field 1 64 (jprop ''concurrency'' es) \<and> int_field 500 30000 (jprop ''timeoutMs'' es)
                  \<and> only_keys [''cidr'', ''protocols'', ''concurrency'', ''timeoutMs''] es
               then Some cidr else None)
      | _ \<Rightarrow> None)"

text \<open>\<open>body ?? {}\<close>: a missing or null body is an empty request.\<close>

definition validateDiscoveryRequest :: "(json \<Rightarrow> string) \<Rightarrow> json option \<Rightarrow> string + string option" where
  "validateDiscoveryRequest zod_message body =
     (let v = (case body of None \<Rightarrow> JObj [] | Some JNull \<Rightarrow> JObj [] | Some b \<Rightarrow> b) in
      case discoveryStartSchema v of
        None \<Rightarrow> Inl (zod_message v)
      | Some cidr \<Rightarrow>
          if truthy cidr \<and> \<not> isPrivateCIDR (the cidr)
          then Inl ''CIDR must be private (10/8, 172.16/12, 192.168/16) and /16-/30''
          else Inr cidr)"

definition confidenceFor :: "string list \<Rightarrow> string \<Rightarrow> bool \<Rightarrow> string" where
  "confidenceFor source verification hasModel =
     (let verified = (verification = ''verified'');
          count = length source;
          hasHigh = (verified \<and> (List.member source ''ipp'' \<or> List.member source ''ipps'' \<or> List.member source ''windows_spooler''))
      in if hasHigh \<or> (count \<ge> 2 \<and> hasModel) then ''high''
         else if verified \<or> count \<ge> 2 \<or> hasModel then ''medium''
         else ''low'')"

end
