(* ===== verification/Heartbeat.thy ===== *)
theory Heartbeat
  imports Printer_Model Job_Insert
begin

text \<open>
  \<open>api/agent/heartbeat\<close>: the agent's report of its printers, checked at the trust boundary
  and stored, and the keep-alive of its jobs. Reading a property of a null entry of the report
  throws, which ends the handler with what it has written so far.
\<close>

definition VALID_PRINTER_STATUSES :: "string list" where
  "VALID_PRINTER_STATUSES = [''online'', ''offline'', ''busy'', ''error'', ''unknown'']"
definition KNOWN_CAPABILITY_TOKENS :: "string list" where
  "KNOWN_CAPABILITY_TOKENS = [''raw'', ''escpos'', ''zpl'', ''tspl'', ''pdf'', ''image'', ''jpeg'', ''spooler'', ''ipp'', ''ipps'']"
definition VALID_CONNECTION_TYPES :: "string list" where
  "VALID_CONNECTION_TYPES = [''network'', ''usb'', ''spooler'', ''ipp'', ''ipps'']"
definition VALID_PROTOCOLS :: "string list" where
  "VALID_PROTOCOLS = [''raw'', ''escpos'', ''zpl'', ''tspl'', ''ipp'', ''ipps'', ''spooler'', ''windows_spooler'', ''unknown'']"
definition VALID_AGENT_STATUSES :: "string list" where "VALID_AGENT_STATUSES = [''online'', ''offline'']"
definition MAX_HEARTBEAT_BODY_BYTES :: rat where "MAX_HEARTBEAT_BODY_BYTES = 512 * 1024"

text \<open>\<open>typeof v === "string" ? v.toLowerCase().trim() : ""\<close>\<close>

definition lowered :: "json option \<Rightarrow> string" where
  "lowered v = (case as_string v of Some s \<Rightarrow> js_trim (js_lower s) | None \<Rightarrow> '''')"

definition normalizeConnectionType :: "json option \<Rightarrow> json option \<Rightarrow> string option" where
  "normalizeConnectionType raw legacy =
     (let canonical = lowered raw;
          old = lowered legacy;
          normalizedOld = (if old = ''tcp'' then ''network'' else if old = ''windows_spooler'' then ''spooler'' else old)
      in if canonical \<noteq> [] \<and> normalizedOld \<noteq> [] \<and> canonical \<noteq> normalizedOld then None
         else
           let value = (if canonical \<noteq> [] then canonical else normalizedOld)
           in if List.member VALID_CONNECTION_TYPES value then Some value else None)"

definition normalizeProtocol :: "json option \<Rightarrow> string option" where
  "normalizeProtocol raw =
     (let p = lowered raw;
          normalized = (if p = ''windows_spooler'' then ''spooler'' else p)
      in if List.member VALID_PROTOCOLS normalized \<and> normalized \<noteq> [] then Some normalized else None)"

text \<open>\<open>{ ...v }\<close> of a truthy object; an array spreads to its indices.\<close>

definition spread_value :: "json option \<Rightarrow> (string \<times> json) list option" where
  "spread_value v =
     (case v of
        Some (JObj es) \<Rightarrow> Some es
      | Some (JArr xs) \<Rightarrow> Some (map (\<lambda>(i, x). (nat_str i, x)) (enumerate 0 xs))
      | _ \<Rightarrow> None)"

definition without_key :: "string \<Rightarrow> (string \<times> json) list \<Rightarrow> (string \<times> json) list" where
  "without_key k es = filter (\<lambda>e. fst e \<noteq> k) es"

definition known_tokens :: "json list \<Rightarrow> string list" where
  "known_tokens xs = filter (\<lambda>t. List.member KNOWN_CAPABILITY_TOKENS t) (map (\<lambda>v. js_trim (js_lower (js_String v))) xs)"

definition set_key :: "string \<Rightarrow> json \<Rightarrow> (string \<times> json) list \<Rightarrow> (string \<times> json) list" where
  "set_key k v es = map (\<lambda>e. if fst e = k then (k, v) else e) es"

definition filter_capabilities :: "(string \<times> json) list \<Rightarrow> (string \<times> json) list" where
  "filter_capabilities caps =
     (case jprop ''supported_protocols'' caps of
        None \<Rightarrow> caps
      | Some (JArr xs) \<Rightarrow>
          if known_tokens xs \<noteq> [] then set_key ''supported_protocols'' (JArr (map JStr (known_tokens xs))) caps
          else without_key ''supported_protocols'' caps
      | Some _ \<Rightarrow> without_key ''supported_protocols'' caps)"

record sanitized =
  sp_id :: string
  sp_name :: string
  sp_type :: string
  sp_class :: string
  sp_connection :: string
  sp_protocol :: string
  sp_status :: string
  sp_config :: "(string \<times> json) list"
  sp_capabilities :: "(string \<times> json) list option"

text \<open>The two vocabularies in one field: a device class given as the printer type.\<close>

definition type_and_class :: "json \<Rightarrow> (string \<times> string) option" where
  "type_and_class p =
     (let ty = (case as_string (jget p ''printerType'') of Some s \<Rightarrow> js_lower (js_trim s) | None \<Rightarrow> '''');
          cl = (case as_string (jget p ''deviceClass'') of Some s \<Rightarrow> js_lower (js_trim s) | None \<Rightarrow> ''unknown'');
          (ty1, cl1) = (if \<not> List.member PRINTER_TYPES ty \<and> List.member DEVICE_CLASSES ty then (''physical'', ty) else (ty, cl));
          ty2 = (if ty1 = [] then ''physical'' else ty1)
      in if List.member PRINTER_TYPES ty2 \<and> List.member DEVICE_CLASSES cl1 then Some (ty2, cl1) else None)"

definition bounded_text :: "nat \<Rightarrow> json option \<Rightarrow> string option" where
  "bounded_text hi v =
     (case as_string v of Some s \<Rightarrow> if js_trim s = [] \<or> length s > hi then None else Some s | None \<Rightarrow> None)"

text \<open>\<open>a ?? b\<close> of two property values.\<close>

definition nullish_or :: "json option \<Rightarrow> json option \<Rightarrow> json option" where
  "nullish_or a b = (if a = None \<or> a = Some JNull then b else a)"

definition sanitizePrinter :: "(rat \<Rightarrow> string) \<Rightarrow> json \<Rightarrow> string + sanitized" where
  "sanitizePrinter num p =
     (case bounded_text 120 (jget p ''id'') of
        None \<Rightarrow> Inl ''invalid_id''
      | Some i \<Rightarrow>
          (case bounded_text 100 (jget p ''name'') of
             None \<Rightarrow> Inl ''invalid_name''
           | Some name \<Rightarrow>
               (case normalizeConnectionType (jget p ''connectionType'') (jget p ''type'') of
                  None \<Rightarrow> Inl ''invalid_or_unsupported_connection_type''
                | Some connectionType \<Rightarrow>
                    (case type_and_class p of
                       None \<Rightarrow> Inl ''invalid_device_class_or_printer_type''
                     | Some (printerType, deviceClass) \<Rightarrow>
                         (case normalizeProtocol (nullish_or (jget p ''protocol'')
                                 (case jget p ''config'' of Some c \<Rightarrow> jget c ''protocol'' | None \<Rightarrow> None)) of
                            None \<Rightarrow> Inl ''invalid_or_unsupported_protocol''
                          | Some protocol \<Rightarrow>
                              (let config = without_key ''protocol''
                                     (case spread_value (jget p ''config'') of Some es \<Rightarrow> es | None \<Rightarrow> []);
                                   capabilities = map_option filter_capabilities (spread_value (jget p ''capabilities''));
                                   said = (case as_string (jget p ''status'') of Some s \<Rightarrow> js_lower (js_trim s) | None \<Rightarrow> '''');
                                   status = (if List.member VALID_PRINTER_STATUSES said then said else ''unknown'')
                               in if length (stringify num (JObj config)) > PRINTER_CONFIG_MAX_BYTES
                                  then Inl ''config_payload_too_large''
                                  else if capabilities \<noteq> None
                                          \<and> length (stringify num (JObj (the capabilities))) > PRINTER_CAPABILITIES_MAX_BYTES
                                  then Inl ''capabilities_payload_too_large''
                                  else
                                    case validateConnectionConfig connectionType config of
                                      Some e \<Rightarrow> Inl (''invalid_connection_config: '' @ e)
                                    | None \<Rightarrow>
                                        Inr \<lparr>sp_id = js_trim i, sp_name = js_trim name, sp_type = printerType,
                                             sp_class = deviceClass, sp_connection = connectionType, sp_protocol = protocol,
                                             sp_status = status, sp_config = config, sp_capabilities = capabilities\<rparr>))))))"

definition printer_update :: "time \<Rightarrow> sanitized \<Rightarrow> printer \<Rightarrow> printer" where
  "printer_update now s p =
     p\<lparr>pr_name := sp_name s, pr_type := sp_type s, pr_class := sp_class s, pr_connection := sp_connection s,
       pr_protocol := sp_protocol s, pr_status := sp_status s, pr_config := Some (sp_config s),
       pr_capabilities := map_option JObj (sp_capabilities s), pr_last_seen := Some now, pr_updated := now\<rparr>"

definition reported_printer :: "time \<Rightarrow> agent \<Rightarrow> sanitized \<Rightarrow> printer" where
  "reported_printer now a s =
     \<lparr>pr_id = sp_id s, pr_tenant = ag_tenant a, pr_agent = ag_id a, pr_name = sp_name s, pr_type = sp_type s,
      pr_class = sp_class s, pr_connection = sp_connection s, pr_protocol = sp_protocol s, pr_status = sp_status s,
      pr_lifecycle = Active, pr_config = Some (sp_config s), pr_capabilities = map_option JObj (sp_capabilities s),
      pr_last_seen = Some now, pr_created = now, pr_updated = now\<rparr>"

text \<open>What becomes of one reported printer: an INSERT that the foreign key refuses throws.\<close>

datatype entry_outcome = Stored | Skipped string string | Threw

text \<open>
  One reported printer. Its statements are separate: the row is looked up in \<open>seen\<close>, the UPDATE or the
  INSERT finds \<open>db\<close>, and after an INSERT that met a taken id the row is looked up again in \<open>raced\<close>.
\<close>

definition store_printer ::
  "time \<Rightarrow> agent \<Rightarrow> sanitized \<Rightarrow> gateway_db \<Rightarrow> gateway_db \<Rightarrow> gateway_db \<Rightarrow> gateway_db \<times> entry_outcome" where
  "store_printer now a s seen raced db =
     (let mine = printer_in (sp_id s) (ag_tenant a);
          updated = db\<lparr>printers := update_where mine (printer_update now s) (printers db)\<rparr>
      in case find_first mine (printers seen) of
           Some existing \<Rightarrow>
             if pr_agent existing \<noteq> ag_id a
             then (db, Skipped (sp_id s) (''owned_by_another_agent ('' @ pr_agent existing @ '')''))
             else (updated, Stored)
         | None \<Rightarrow>
             if row_by pr_id (sp_id s) (printers db) = None
             then (if agent_exists (ag_tenant a) (ag_id a) db
                   then (db\<lparr>printers := printers db @ [reported_printer now a s]\<rparr>, Stored) else (db, Threw))
             else
               case find_first mine (printers raced) of
                 Some r \<Rightarrow>
                   if pr_agent r = ag_id a then (updated, Stored)
                   else (db, Skipped (sp_id s) ''insert_conflict_owned_by_another_agent'')
               | None \<Rightarrow> (db, Skipped (sp_id s) ''insert_conflict_owned_by_another_agent''))"

text \<open>One entry of the report; a null entry throws.\<close>

definition heartbeat_entry ::
  "(rat \<Rightarrow> string) \<Rightarrow> time \<Rightarrow> agent \<Rightarrow> json \<Rightarrow> gateway_db \<Rightarrow> gateway_db \<Rightarrow> gateway_db \<Rightarrow> gateway_db \<times> entry_outcome" where
  "heartbeat_entry num now a raw seen raced db =
     (if raw = JNull then (db, Threw)
      else
        case sanitizePrinter num raw of
          Inl reason \<Rightarrow> (db, Skipped (case as_string (jget raw ''id'') of Some s \<Rightarrow> s | None \<Rightarrow> ''(unknown)'') reason)
        | Inr s \<Rightarrow> store_printer now a s seen raced db)"

text \<open>The loop; \<open>reads i\<close> are the two states entry \<open>i\<close> reads, the flag tells that an entry threw.\<close>

fun store_printers ::
  "(rat \<Rightarrow> string) \<Rightarrow> time \<Rightarrow> agent \<Rightarrow> json list \<Rightarrow> (nat \<Rightarrow> gateway_db \<times> gateway_db) \<Rightarrow> gateway_db
     \<Rightarrow> (string \<times> string) list \<Rightarrow> gateway_db \<times> (string \<times> string) list \<times> bool" where
  "store_printers num now a [] reads db skipped = (db, skipped, False)"
| "store_printers num now a (raw # rest) reads db skipped =
     (case heartbeat_entry num now a raw (fst (reads 0)) (snd (reads 0)) db of
        (db', Stored) \<Rightarrow> store_printers num now a rest (\<lambda>i. reads (Suc i)) db' skipped
      | (db', Skipped i reason) \<Rightarrow> store_printers num now a rest (\<lambda>i. reads (Suc i)) db' (skipped @ [(i, reason)])
      | (db', Threw) \<Rightarrow> (db', skipped, True))"

definition heartbeat_agent :: "time \<Rightarrow> AgentStatus \<Rightarrow> agent \<Rightarrow> gateway_db \<Rightarrow> gateway_db" where
  "heartbeat_agent now status a db =
     db\<lparr>agents := update_where (agent_in (ag_id a) (ag_tenant a)) (\<lambda>r. r\<lparr>ag_status := status, ag_last_seen := Some now\<rparr>)
                    (agents db)\<rparr>"

definition skipped_json :: "(string \<times> string) list \<Rightarrow> json" where
  "skipped_json skipped = JArr (map (\<lambda>(i, r). JObj [(''id'', JStr i), (''reason'', JStr r)]) skipped)"

text \<open>
  The checks before the first write. \<open>agent\<close> is what \<^const>\<open>validateAgent\<close> gave; a body that is no
  JSON throws in \<open>req.json()\<close>.
\<close>

definition heartbeat_check ::
  "(rat \<Rightarrow> string) \<Rightarrow> agent option \<Rightarrow> js_number option \<Rightarrow> json option
     \<Rightarrow> http + agent \<times> AgentStatus \<times> json list \<times> json list" where
  "heartbeat_check num agent len body =
     (case agent of
        None \<Rightarrow> Inl (error_reply 401 ''Unauthorized'')
      | Some a \<Rightarrow>
          if ag_lifecycle a \<noteq> Active then Inl (error_reply 409 (''Agent is '' @ lifecycle_str (ag_lifecycle a)))
          else if hasBodyOverLimit len MAX_HEARTBEAT_BODY_BYTES then Inl (error_reply 413 ''Request body too large'')
          else
            case body of
              None \<Rightarrow> Inl (error_reply 500 ''Internal server error'')
            | Some v \<Rightarrow>
                (let rawStatus = (case as_string (jget v ''status'') of Some s \<Rightarrow> js_lower (js_trim s) | None \<Rightarrow> ''online'');
                     reported = as_array (jget v ''printers'')
                 in if \<not> List.member VALID_AGENT_STATUSES rawStatus
                    then Inl (error_reply 400 ''status must be online or offline'')
                    else if length reported > 500 then Inl (error_reply 400 ''too many printers in heartbeat'')
                    else if length (stringify num (JArr reported)) > 256000
                    then Inl (error_reply 400 ''heartbeat printer metadata exceeds 256KB'')
                    else Inr (a, if rawStatus = ''online'' then Online else Offline,
                              as_array (jget v ''keepAliveJobIds''), reported)))"

text \<open>
  The handler, \<open>agent\<close> from an earlier state and each reported printer looked up in states of its own;
  between its writes nothing else happens here. The two functions after it are its statements on their
  own, to be run with anything in between.
\<close>

definition heartbeat_POST ::
  "(rat \<Rightarrow> string) \<Rightarrow> clocks \<Rightarrow> agent option \<Rightarrow> js_number option \<Rightarrow> json option \<Rightarrow> (nat \<Rightarrow> gateway_db \<times> gateway_db)
     \<Rightarrow> gateway_db \<Rightarrow> gateway_db \<times> http" where
  "heartbeat_POST num c agent len body reads db =
     (case heartbeat_check num agent len body of
        Inl rep \<Rightarrow> (db, rep)
      | Inr (a, status, ids, reported) \<Rightarrow>
          (let db1 = heartbeat_agent (app_now c) status a db;
               db2 = keep_alive c a ids db1;
               (db3, skipped, thrown) = store_printers num (app_now c) a reported reads db2 []
           in if thrown then (db3, error_reply 500 ''Internal server error'')
              else (db3, reply 200 [(''success'', JBool True), (''skippedPrinters'', skipped_json skipped)])))"

definition heartbeat_row ::
  "(rat \<Rightarrow> string) \<Rightarrow> clocks \<Rightarrow> agent option \<Rightarrow> js_number option \<Rightarrow> json option \<Rightarrow> gateway_db \<Rightarrow> gateway_db" where
  "heartbeat_row num c agent len body db =
     (case heartbeat_check num agent len body of
        Inl rep \<Rightarrow> db
      | Inr (a, status, ids, reported) \<Rightarrow> keep_alive c a ids (heartbeat_agent (app_now c) status a db))"

definition heartbeat_printer ::
  "(rat \<Rightarrow> string) \<Rightarrow> clocks \<Rightarrow> agent option \<Rightarrow> js_number option \<Rightarrow> json option \<Rightarrow> nat \<Rightarrow> gateway_db \<times> gateway_db
     \<Rightarrow> gateway_db \<Rightarrow> gateway_db" where
  "heartbeat_printer num c agent len body n r db =
     (case heartbeat_check num agent len body of
        Inl rep \<Rightarrow> db
      | Inr (a, status, ids, reported) \<Rightarrow>
          if n < length reported then fst (heartbeat_entry num (app_now c) a (reported ! n) (fst r) (snd r) db) else db)"

text \<open>The handler is its statements in their order, up to an entry that throws.\<close>

lemma store_printers_steps:
  "\<exists>k \<le> length raws. fst (store_printers num now a raws reads db skipped)
     = fold (\<lambda>i d. fst (heartbeat_entry num now a (raws ! i) (fst (reads i)) (snd (reads i)) d)) [0..<k] db"
proof (induction raws arbitrary: reads db skipped)
  case (Cons raw rest)
  obtain db' out where e: "heartbeat_entry num now a raw (fst (reads 0)) (snd (reads 0)) db = (db', out)"
    by (rule prod.exhaust)
  have steps: "[0..<Suc k] = 0 # map Suc [0..<k]" for k
    by (simp add: map_Suc_upt upt_conv_Cons)
  have tail: "\<exists>k \<le> length (raw # rest). fst (store_printers num now a rest (\<lambda>i. reads (Suc i)) db' sk)
      = fold (\<lambda>i d. fst (heartbeat_entry num now a ((raw # rest) ! i) (fst (reads i)) (snd (reads i)) d)) [0..<k] db" for sk
  proof -
    obtain k where "k \<le> length rest" "fst (store_printers num now a rest (\<lambda>i. reads (Suc i)) db' sk)
        = fold (\<lambda>i d. fst (heartbeat_entry num now a (rest ! i) (fst (reads (Suc i))) (snd (reads (Suc i))) d)) [0..<k] db'"
      using Cons.IH by blast
    then show ?thesis
      using e by (intro exI [of _ "Suc k"]) (simp add: steps fold_map comp_def del: upt_Suc)
  qed
  show ?case
  proof (cases out)
    case Threw
    then show ?thesis using e by (intro exI [of _ 1]) simp
  qed (use e tail in simp_all)
qed simp

lemma heartbeat_steps:
  "\<exists>k. fst (heartbeat_POST num c agent len body reads db)
     = fold (\<lambda>i. heartbeat_printer num c agent len body i (reads i)) [0..<k] (heartbeat_row num c agent len body db)"
proof (cases "heartbeat_check num agent len body")
  case (Inl rep)
  then show ?thesis by (intro exI [of _ 0]) (simp add: heartbeat_POST_def heartbeat_row_def)
next
  case (Inr x)
  then obtain a status ids reported where x: "heartbeat_check num agent len body = Inr (a, status, ids, reported)"
    by (cases x) auto
  let ?db = "keep_alive c a ids (heartbeat_agent (app_now c) status a db)"
  obtain k where k: "k \<le> length reported" "fst (store_printers num (app_now c) a reported reads ?db [])
      = fold (\<lambda>i d. fst (heartbeat_entry num (app_now c) a (reported ! i) (fst (reads i)) (snd (reads i)) d)) [0..<k] ?db"
    using store_printers_steps by blast
  have "fold (\<lambda>i. heartbeat_printer num c agent len body i (reads i)) [0..<k] ?db
      = fold (\<lambda>i d. fst (heartbeat_entry num (app_now c) a (reported ! i) (fst (reads i)) (snd (reads i)) d)) [0..<k] ?db"
    by (rule fold_cong) (use k(1) x in \<open>auto simp: heartbeat_printer_def\<close>)
  then show ?thesis
    using k(2) x by (intro exI [of _ k]) (simp add: heartbeat_POST_def heartbeat_row_def split_beta Let_def)
qed

end
