(* ===== verification/Agent_Admin.thy ===== *)
theory Agent_Admin
  imports Printer_Model Ws_Sockets
begin

text \<open>
  The manager's actions on agents and printers: \<open>createAgent\<close>, \<open>deleteAgent\<close>,
  \<open>setPrinterLifecycle\<close> and \<open>setAgentLifecycle\<close> of \<open>src/app/actions.ts\<close> and the routes
  \<open>api/agents\<close> and \<open>api/agents/[id]\<close>. Audit events and page revalidation are left out.
\<close>

text \<open>What an action throws: an \<open>ActionError\<close> with its status, or any other error.\<close>

datatype action_error = ActionError string nat | Thrown string

definition requireManager :: "ManagerClaims option \<Rightarrow> ManagerPermission \<Rightarrow> action_error + ManagerClaims" where
  "requireManager claims permission =
     (case claims of
        None \<Rightarrow> Inl (ActionError ''Your manager session has expired. Sign in again.'' 401)
      | Some c \<Rightarrow> if hasManagerPermission c permission then Inr c else Inl (Thrown ''FORBIDDEN''))"

definition live_agents :: "gateway_db \<Rightarrow> string \<Rightarrow> nat" where
  "live_agents db tenantId = count_where (\<lambda>a. ag_tenant a = tenantId \<and> ag_lifecycle a \<noteq> Retired) (agents db)"

definition new_agent :: "time \<Rightarrow> string \<Rightarrow> string \<Rightarrow> string \<Rightarrow> string \<Rightarrow> time \<Rightarrow> agent" where
  "new_agent now i tenantId name codeHash expiresAt =
     \<lparr>ag_id = i, ag_tenant = tenantId, ag_name = name, ag_pairing_hash = Some codeHash,
      ag_pairing_expires = Some expiresAt, ag_secret = None, ag_status = Offline, ag_lifecycle = Active,
      ag_metadata = None, ag_last_seen = None, ag_created = now, ag_updated = now\<rparr>"

text \<open>
  \<open>name\<close> is \<^const>\<open>None\<close> when it is no string; the result is the id, the code and its expiry. The
  code is minted against \<open>seen\<close>, the transaction counts and inserts in \<open>db\<close>, where the id or the
  code may be taken.
\<close>

definition createAgent ::
  "(string \<Rightarrow> string) \<Rightarrow> string list \<Rightarrow> clocks \<Rightarrow> string \<Rightarrow> ManagerClaims option \<Rightarrow> string option \<Rightarrow> gateway_db
     \<Rightarrow> gateway_db \<Rightarrow> gateway_db \<times> (action_error + string \<times> string \<times> time)" where
  "createAgent sha candidates c nano claims name seen db =
     (case requireManager claims Agents_pair of
        Inl e \<Rightarrow> (db, Inl e)
      | Inr m \<Rightarrow>
          (let trimmed = js_trim (or_empty name) in
           if trimmed = [] \<or> length trimmed > 200 then (db, Inl (ActionError ''Agent name must be 1-200 characters.'' 400))
           else
             case mint_code sha None candidates seen of
               None \<Rightarrow> (db, Inl (ActionError ''Could not mint a unique pairing code. Try again.'' 500))
             | Some code \<Rightarrow>
                 let i = ''agt_'' @ nano;
                     expiresAt = app_now c + 1000 * 60 * 10
                 in case enforceTenantResourceEntitlement db (mc_tenant m) ''max_agents'' (live_agents db (mc_tenant m)) of
                      Some e \<Rightarrow> (db, Inl (ActionError (entitlement_message e) 429))
                    | None \<Rightarrow>
                        if row_by ag_id i (agents db) \<noteq> None \<or> code_held (Some (hashPairingCode sha code)) (\<lambda>_. False) db
                        then (db, Inl (Thrown ''duplicate key''))
                        else
                          (db\<lparr>agents := agents db @ [new_agent (db_now c) i (mc_tenant m) trimmed (hashPairingCode sha code) expiresAt]\<rparr>,
                           Inr (i, code, expiresAt))))"

definition STILL_CONNECTED :: string where
  "STILL_CONNECTED = ''This agent is still connected. Stop the agent service first, then delete it.''"

text \<open>Whether an agent or one of its printers has jobs.\<close>

definition has_history :: "gateway_db \<Rightarrow> string \<Rightarrow> string \<Rightarrow> bool" where
  "has_history db agentId tenantId =
     (let printerIds = map pr_id (select_where (printer_of agentId tenantId) (printers db))
      in count_where (\<lambda>j. jb_agent j = agentId \<and> jb_tenant j = tenantId
                          \<or> List.member printerIds (jb_printer j) \<and> jb_tenant j = tenantId) (print_jobs db) > 0)"

text \<open>\<open>is_connected\<close> is \<^const>\<open>hasOpenAgentSocket\<close> for the agent; a deletion is followed by closing its sockets.\<close>

definition deleteAgent ::
  "ManagerClaims option \<Rightarrow> string option \<Rightarrow> bool \<Rightarrow> gateway_db \<Rightarrow> gateway_db \<times> (action_error + unit)" where
  "deleteAgent claims i is_connected db =
     (case requireManager claims Agents_retire of
        Inl e \<Rightarrow> (db, Inl e)
      | Inr m \<Rightarrow>
          (let agentId = js_trim (or_empty i) in
           if agentId = [] then (db, Inl (ActionError ''agent id is required'' 400))
           else if is_connected then (db, Inl (ActionError STILL_CONNECTED 409))
           else
             case find_first (agent_in agentId (mc_tenant m)) (agents db) of
               None \<Rightarrow> (db, Inl (ActionError ''Agent not found'' 404))
             | Some agent \<Rightarrow>
                 if ag_status agent = Online then (db, Inl (ActionError STILL_CONNECTED 409))
                 else if ag_lifecycle agent = Retired
                 then (db, Inl (ActionError ''Retired agents are kept for audit history and cannot be deleted.'' 409))
                 else if has_history db agentId (mc_tenant m)
                 then (db, Inl (ActionError ''This agent has print history and cannot be deleted. Choose Retire instead to preserve the audit history.'' 409))
                 else
                   (db\<lparr>discovered_devices := delete_where (\<lambda>d. dd_agent d = agentId \<and> dd_tenant d = mc_tenant m) (discovered_devices db),
                       discovery_sessions := delete_where (\<lambda>s. ds_agent s = agentId \<and> ds_tenant s = mc_tenant m) (discovery_sessions db),
                       printers := delete_where (printer_of agentId (mc_tenant m)) (printers db),
                       agents := delete_where (agent_in agentId (mc_tenant m)) (agents db)\<rparr>,
                    Inr ())))"

text \<open>The printer is read in \<open>seen\<close>, its agent in \<open>seen_owner\<close>, and the UPDATE finds \<open>db\<close>.\<close>

definition setPrinterLifecycle ::
  "time \<Rightarrow> ManagerClaims option \<Rightarrow> string \<Rightarrow> Lifecycle \<Rightarrow> gateway_db \<Rightarrow> gateway_db \<Rightarrow> gateway_db
     \<Rightarrow> gateway_db \<times> (action_error + unit)" where
  "setPrinterLifecycle now claims i lifecycle seen seen_owner db =
     (case requireManager claims Printers_manage of
        Inl e \<Rightarrow> (db, Inl e)
      | Inr m \<Rightarrow>
          (case find_first (printer_in i (mc_tenant m)) (printers seen) of
             None \<Rightarrow> (db, Inl (ActionError ''Printer not found'' 404))
           | Some printer \<Rightarrow>
               if pr_lifecycle printer = lifecycle then (db, Inr ())
               else if \<not> canTransitionLifecycle (pr_lifecycle printer) lifecycle
               then (db, Inl (ActionError (''This printer cannot go from '' @ lifecycle_str (pr_lifecycle printer) @ '' to ''
                                           @ lifecycle_str lifecycle @ ''.'') 409))
               else
                 let owner = find_first (agent_in (pr_agent printer) (mc_tenant m)) (agents seen_owner)
                 in if lifecycle = Active \<and> owner = None
                    then (db, Inl (ActionError ''The agent that owns this printer no longer exists.'' 404))
                    else if lifecycle = Active \<and> ag_lifecycle (the owner) \<noteq> Active
                    then (db, Inl (ActionError (''The agent owning this printer is '' @ lifecycle_str (ag_lifecycle (the owner))
                                                @ ''; reactivate the agent first.'') 409))
                    else
                      (db\<lparr>printers := update_where (printer_in i (mc_tenant m))
                                        (\<lambda>p. p\<lparr>pr_lifecycle := lifecycle, pr_updated := now\<rparr>) (printers db)\<rparr>,
                       Inr ())))"

definition setAgentLifecycle ::
  "(string \<Rightarrow> string) \<Rightarrow> string list \<Rightarrow> time \<Rightarrow> ManagerClaims option \<Rightarrow> string \<Rightarrow> Lifecycle \<Rightarrow> gateway_db
     \<Rightarrow> gateway_db \<Rightarrow> gateway_db \<times> (action_error + AgentLifecycleResult)" where
  "setAgentLifecycle sha candidates now claims i lifecycle seen db =
     (case requireManager claims Agents_disable of
        Inl e \<Rightarrow> (db, Inl e)
      | Inr m \<Rightarrow>
          (let (db', result) = transitionAgentLifecycle sha candidates now i lifecycle (mc_tenant m) seen db
           in (db', case result of
                      Inl (LifecycleConflict msg) \<Rightarrow> Inl (ActionError msg 409)
                    | Inl MintFailed \<Rightarrow> Inl (Thrown ''could not mint a unique pairing code'')
                    | Inl CodeTaken \<Rightarrow> Inl (Thrown ''duplicate key'')
                    | Inr None \<Rightarrow> Inl (ActionError ''Agent not found'' 404)
                    | Inr (Some r) \<Rightarrow> Inr r)))"

section \<open>The routes\<close>

definition createAgentSchema :: "json \<Rightarrow> string option" where
  "createAgentSchema body =
     (case body of
        JObj es \<Rightarrow>
          (case trimmed_field 1 200 (jprop ''name'' es) of
             Some (Some name) \<Rightarrow> if only_keys [''name''] es then Some name else None
           | _ \<Rightarrow> None)
      | _ \<Rightarrow> None)"

definition agents_POST ::
  "(string \<Rightarrow> string) \<Rightarrow> string list \<Rightarrow> (time \<Rightarrow> string) \<Rightarrow> clocks \<Rightarrow> string \<Rightarrow> ManagerClaims option \<Rightarrow> json option
     \<Rightarrow> gateway_db \<Rightarrow> gateway_db \<Rightarrow> gateway_db \<times> http" where
  "agents_POST sha candidates iso_text c nano claims body seen db =
     (case authorize claims Agents_pair of
        Inl rep \<Rightarrow> (db, rep)
      | Inr m \<Rightarrow>
          (case body of
             None \<Rightarrow> (db, error_reply 400 ''Invalid JSON'')
           | Some v \<Rightarrow>
               (case createAgentSchema v of
                  None \<Rightarrow> (db, error_reply 400 ''agent name is required'')
                | Some name \<Rightarrow>
                    (case createAgent sha candidates c nano claims (Some name) seen db of
                       (db', Inl (ActionError msg status)) \<Rightarrow> (db', error_reply status msg)
                     | (db', Inl (Thrown e)) \<Rightarrow> (db', error_reply 500 ''Internal server error'')
                     | (db', Inr (i, code, expiresAt)) \<Rightarrow>
                         (db', reply 201 [(''id'', JStr i), (''pairingCode'', JStr code), (''expiresAt'', JStr (iso_text expiresAt)),
                                          (''expires_at'', JStr (iso_text expiresAt))])))))"

definition lifecycle_body :: "json \<Rightarrow> Lifecycle option" where
  "lifecycle_body v =
     (case v of
        JObj es \<Rightarrow>
          (case lifecycle_field (jprop ''lifecycle'' es) of
             Some (Some l) \<Rightarrow> if only_keys [''lifecycle''] es then Some l else None
           | _ \<Rightarrow> None)
      | _ \<Rightarrow> None)"

definition agent_PATCH ::
  "(string \<Rightarrow> string) \<Rightarrow> string list \<Rightarrow> time \<Rightarrow> ManagerClaims option \<Rightarrow> string \<Rightarrow> json option \<Rightarrow> gateway_db
     \<Rightarrow> gateway_db \<Rightarrow> gateway_db \<times> http" where
  "agent_PATCH sha candidates now claims i body seen db =
     (case authorize claims Agents_disable of
        Inl rep \<Rightarrow> (db, rep)
      | Inr m \<Rightarrow>
          (case body of
             None \<Rightarrow> (db, error_reply 400 ''Invalid JSON'')
           | Some v \<Rightarrow>
               (case lifecycle_body v of
                  None \<Rightarrow> (db, error_reply 400 ''lifecycle is required'')
                | Some l \<Rightarrow>
                    (let (db', result) = transitionAgentLifecycle sha candidates now i l (mc_tenant m) seen db
                     in (db', case result of
                                Inr None \<Rightarrow> error_reply 404 ''Not found''
                              | Inr (Some r) \<Rightarrow> reply 200 [(''ok'', JBool True), (''lifecycle'', JStr (lifecycle_str (al_lifecycle r))),
                                                            (''pairingCode'', jopt (al_pairing_code r))]
                              | Inl (LifecycleConflict msg) \<Rightarrow> error_reply 409 msg
                              | Inl _ \<Rightarrow> error_reply 500 ''Internal server error'')))))"

end
