(* ===== verification/Discovery.thy ===== *)
theory Discovery
  imports Network_Address Heartbeat Agent_Admin
begin

text \<open>
  Discovery: the routes that start, report, cancel and list a discovery, the manager's approval
  of a candidate (\<open>verify\<close>) and its provisioning as a printer. A discovered device is an
  observation until a manager approves it.
\<close>

definition device_in :: "string \<Rightarrow> string \<Rightarrow> string \<Rightarrow> discovered_device \<Rightarrow> bool" where
  "device_in deviceId agentId tenantId d \<longleftrightarrow> dd_id d = deviceId \<and> dd_agent d = agentId \<and> dd_tenant d = tenantId"

definition session_in :: "string \<Rightarrow> string \<Rightarrow> string \<Rightarrow> discovery_session \<Rightarrow> bool" where
  "session_in discoveryId agentId tenantId s \<longleftrightarrow> ds_id s = discoveryId \<and> ds_agent s = agentId \<and> ds_tenant s = tenantId"

text \<open>The agent of the path, if it is active: a check three routes share.\<close>

definition active_agent :: "ManagerClaims \<Rightarrow> string \<Rightarrow> gateway_db \<Rightarrow> http + agent" where
  "active_agent c agentId db =
     (case find_first (agent_in agentId (mc_tenant c)) (agents db) of
        None \<Rightarrow> Inl (error_reply 404 ''Agent not found'')
      | Some a \<Rightarrow>
          if ag_lifecycle a \<noteq> Active then Inl (error_reply 409 (''Agent is '' @ lifecycle_str (ag_lifecycle a))) else Inr a)"

section \<open>Sessions\<close>

text \<open>
  The routes read the agent in \<open>seen\<close> and then a session or a device in a state of its own; their
  write finds \<open>db\<close>. An INSERT the table refuses is caught nowhere.
\<close>

definition discovery_start_POST ::
  "(json \<Rightarrow> string) \<Rightarrow> clocks \<Rightarrow> string \<Rightarrow> ManagerClaims option \<Rightarrow> string \<Rightarrow> json option \<Rightarrow> gateway_db \<Rightarrow> gateway_db
     \<Rightarrow> gateway_db \<Rightarrow> gateway_db \<times> http" where
  "discovery_start_POST zod_message c nano claims agentId body seen seen_session db =
     (case authorize claims Agents_pair of
        Inl rep \<Rightarrow> (db, rep)
      | Inr m \<Rightarrow>
          (case active_agent m agentId seen of
             Inl rep \<Rightarrow> (db, rep)
           | Inr a \<Rightarrow>
               (case find_first (\<lambda>s. ds_agent s = agentId \<and> ds_tenant s = mc_tenant m \<and> ds_status s = ''running'')
                       (discovery_sessions seen_session) of
                  Some s \<Rightarrow> (db, reply 409 [(''error'', JStr ''Discovery already running for this agent''), (''discoveryId'', JStr (ds_id s))])
                | None \<Rightarrow>
                    let sent = (case body of Some v \<Rightarrow> v | None \<Rightarrow> JObj [])
                    in case validateDiscoveryRequest zod_message (Some sent) of
                         Inl e \<Rightarrow> (db, error_reply 400 e)
                       | Inr cidr \<Rightarrow>
                           let discoveryId = ''dsc_'' @ nano;
                               config = spread (text_entry ''cidr'' cidr) (case as_object (Some sent) of Some es \<Rightarrow> es | None \<Rightarrow> []);
                               row = \<lparr>ds_id = discoveryId, ds_tenant = mc_tenant m, ds_agent = agentId, ds_status = ''running'',
                                      ds_config = config, ds_candidates = None, ds_started = app_now c, ds_completed = None,
                                      ds_created = db_now c, ds_updated = db_now c\<rparr>
                           in if row_by ds_id discoveryId (discovery_sessions db) \<noteq> None \<or> \<not> agent_exists (mc_tenant m) agentId db
                              then (db, reply 500 [])
                              else
                                (db\<lparr>discovery_sessions := discovery_sessions db @ [row]\<rparr>,
                                 reply 201 [(''discoveryId'', JStr discoveryId), (''agentId'', JStr agentId), (''status'', JStr ''running'')]))))"

definition discovery_cancel_POST ::
  "time \<Rightarrow> ManagerClaims option \<Rightarrow> string \<Rightarrow> string \<Rightarrow> gateway_db \<Rightarrow> gateway_db \<Rightarrow> gateway_db \<times> http" where
  "discovery_cancel_POST now claims agentId discoveryId seen db =
     (case authorize claims Agents_disable of
        Inl rep \<Rightarrow> (db, rep)
      | Inr m \<Rightarrow>
          (case find_first (session_in discoveryId agentId (mc_tenant m)) (discovery_sessions seen) of
             None \<Rightarrow> (db, error_reply 404 ''Not found'')
           | Some s \<Rightarrow>
               if ds_status s \<noteq> ''running'' then (db, error_reply 409 (''Already '' @ ds_status s))
               else
                 (db\<lparr>discovery_sessions := update_where (session_in discoveryId agentId (mc_tenant m))
                       (\<lambda>r. r\<lparr>ds_status := ''cancelled'', ds_completed := Some now, ds_updated := now\<rparr>) (discovery_sessions db)\<rparr>,
                  reply 200 [(''ok'', JBool True), (''status'', JStr ''cancelled'')])))"

section \<open>The agent's report\<close>

record device_report =
  dr_id :: "string option"
  dr_source :: "string list option"
  dr_protocol :: "string option"
  dr_ip :: "string option"
  dr_hostname :: "string option"
  dr_port :: "int option"
  dr_name :: "string option"
  dr_manufacturer :: "string option"
  dr_model :: "string option"
  dr_serial :: "string option"
  dr_capabilities :: "(string \<times> json) list option"
  dr_raw_metadata :: "(string \<times> json) list option"

definition source_field :: "json option \<Rightarrow> string list option option" where
  "source_field v =
     (case v of
        None \<Rightarrow> Some None
      | Some (JArr xs) \<Rightarrow>
          if length xs \<le> 32 \<and> list_all (\<lambda>x. case x of JStr s \<Rightarrow> length s \<le> 64 | _ \<Rightarrow> False) xs
          then Some (Some (map (\<lambda>x. case x of JStr s \<Rightarrow> s | _ \<Rightarrow> '''') xs)) else None
      | _ \<Rightarrow> None)"

definition port_field :: "json option \<Rightarrow> int option option" where
  "port_field v =
     (case v of
        None \<Rightarrow> Some None
      | Some (JNum q) \<Rightarrow> if int_field 1 65535 v then Some (Some \<lfloor>q\<rfloor>) else None
      | _ \<Rightarrow> None)"

definition sized :: "nat \<Rightarrow> nat \<Rightarrow> json option \<Rightarrow> string option option" where
  "sized lo hi v = string_field (\<lambda>s. lo \<le> length s \<and> length s \<le> hi) v"

definition deviceSchema :: "json \<Rightarrow> device_report option" where
  "deviceSchema v =
     (case v of
        JObj es \<Rightarrow>
          (if enum_field [''low'', ''medium'', ''high''] (jprop ''confidence'' es) = None
              \<or> enum_field [''candidate'', ''verified''] (jprop ''verification'' es) = None then None
           else
             case (sized 1 120 (jprop ''id'' es), source_field (jprop ''source'' es), sized 1 32 (jprop ''protocol'' es),
                   sized 0 45 (jprop ''ipAddress'' es), sized 0 255 (jprop ''hostname'' es), port_field (jprop ''port'' es)) of
               (Some i, Some src, Some proto, Some ip, Some host, Some port) \<Rightarrow>
                 (case (sized 0 255 (jprop ''deviceName'' es), sized 0 120 (jprop ''manufacturer'' es), sized 0 255 (jprop ''model'' es),
                        sized 0 120 (jprop ''serialNumber'' es), record_field (jprop ''capabilities'' es),
                        record_field (jprop ''rawMetadata'' es)) of
                    (Some name, Some manu, Some model, Some serial, Some caps, Some meta) \<Rightarrow>
                      Some \<lparr>dr_id = i, dr_source = src, dr_protocol = proto, dr_ip = ip, dr_hostname = host, dr_port = port,
                            dr_name = name, dr_manufacturer = manu, dr_model = model, dr_serial = serial,
                            dr_capabilities = caps, dr_raw_metadata = meta\<rparr>
                  | _ \<Rightarrow> None)
             | _ \<Rightarrow> None)
      | _ \<Rightarrow> None)"

text \<open>The first device that fails the schema or has a public address ends the report.\<close>

fun parse_devices :: "(string \<Rightarrow> nat) \<Rightarrow> (json \<Rightarrow> string) \<Rightarrow> json list \<Rightarrow> string + device_report list" where
  "parse_devices isIP zod_message [] = Inr []"
| "parse_devices isIP zod_message (raw # rest) =
     (case deviceSchema raw of
        None \<Rightarrow> Inl (''Invalid device: '' @ zod_message raw)
      | Some d \<Rightarrow>
          if truthy (dr_ip d) \<and> \<not> isPrivateNetworkAddress isIP (the (dr_ip d))
          then Inl (''Device IP must be private or link-local, got '' @ the (dr_ip d))
          else
            case parse_devices isIP zod_message rest of
              Inl e \<Rightarrow> Inl e
            | Inr ds \<Rightarrow> Inr (d # ds))"

definition candidate_row :: "time \<Rightarrow> agent \<Rightarrow> string \<Rightarrow> string \<Rightarrow> device_report \<Rightarrow> discovered_device" where
  "candidate_row now a discoveryId nano d =
     \<lparr>dd_id = (if truthy (dr_id d) then the (dr_id d) else ''dev_'' @ nano), dd_tenant = ag_tenant a,
      dd_discovery = discoveryId, dd_agent = ag_id a, dd_source = or_else (dr_source d) [],
      dd_protocol = or_else (dr_protocol d) ''unknown'', dd_ip = dr_ip d, dd_hostname = dr_hostname d, dd_port = dr_port d,
      dd_name = dr_name d, dd_manufacturer = dr_manufacturer d, dd_model = dr_model d, dd_serial = dr_serial d,
      dd_uri = None, dd_confidence = ''low'', dd_verification = ''candidate'', dd_class = ''unknown'',
      dd_capabilities = map_option JObj (dr_capabilities d), dd_raw_metadata = map_option JObj (dr_raw_metadata d),
      dd_provisioned = None, dd_candidate_status = ''discovered'', dd_updated = now\<rparr>"

text \<open>
  The INSERT of one candidate. \<open>onConflictDoNothing\<close>: a row whose id is taken is dropped; one whose
  agent or session is gone throws.
\<close>

definition session_exists :: "string \<Rightarrow> string \<Rightarrow> gateway_db \<Rightarrow> bool" where
  "session_exists tenant discoveryId db \<longleftrightarrow>
     find_first (\<lambda>s. ds_tenant s = tenant \<and> ds_id s = discoveryId) (discovery_sessions db) \<noteq> None"

definition insert_candidate :: "time \<Rightarrow> agent \<Rightarrow> string \<Rightarrow> string \<Rightarrow> device_report \<Rightarrow> gateway_db \<Rightarrow> gateway_db option" where
  "insert_candidate now a discoveryId nano d db =
     (let row = candidate_row now a discoveryId nano d in
      if row_by dd_id (dd_id row) (discovered_devices db) \<noteq> None then Some db
      else if agent_exists (ag_tenant a) (ag_id a) db \<and> session_exists (ag_tenant a) discoveryId db
      then Some (db\<lparr>discovered_devices := discovered_devices db @ [row]\<rparr>) else None)"

text \<open>The loop; \<open>nanos\<close> are the drawn ids, the flag tells that an INSERT threw.\<close>

fun insert_candidates ::
  "time \<Rightarrow> agent \<Rightarrow> string \<Rightarrow> (nat \<Rightarrow> string) \<Rightarrow> nat \<Rightarrow> device_report list \<Rightarrow> gateway_db \<Rightarrow> gateway_db \<times> bool" where
  "insert_candidates now a discoveryId nanos n [] db = (db, False)"
| "insert_candidates now a discoveryId nanos n (d # ds) db =
     (case insert_candidate now a discoveryId (nanos n) d db of
        None \<Rightarrow> (db, True)
      | Some db' \<Rightarrow> insert_candidates now a discoveryId nanos (Suc n) ds db')"

definition MAX_DISCOVERY_BODY_BYTES :: rat where "MAX_DISCOVERY_BODY_BYTES = 2 * 1024 * 1024"

text \<open>The checks before the first write; the session is read in \<open>seen\<close>.\<close>

definition discovery_check ::
  "(string \<Rightarrow> nat) \<Rightarrow> (json \<Rightarrow> string) \<Rightarrow> agent option \<Rightarrow> js_number option \<Rightarrow> json option \<Rightarrow> gateway_db
     \<Rightarrow> http + agent \<times> string \<times> string option \<times> device_report list" where
  "discovery_check isIP zod_message agent len body seen =
     (case agent of
        None \<Rightarrow> Inl (error_reply 401 ''Unauthorized'')
      | Some a \<Rightarrow>
          if ag_lifecycle a \<noteq> Active then Inl (error_reply 409 (''Agent is '' @ lifecycle_str (ag_lifecycle a)))
          else if hasBodyOverLimit len MAX_DISCOVERY_BODY_BYTES then Inl (error_reply 413 ''Request body too large'')
          else
            case body of
              None \<Rightarrow> Inl (error_reply 400 ''Invalid JSON'')
            | Some v \<Rightarrow>
                (let discoveryId = as_string (jget v ''discoveryId'');
                     status = as_string (jget v ''status'');
                     devices = as_array (jget v ''devices'')
                 in if \<not> truthy discoveryId then Inl (error_reply 400 ''discoveryId required'')
                    else if length devices > 5000
                    then Inl (error_reply 413 ''Too many devices in one discovery report'')
                    else
                      let d = the discoveryId in
                      case find_first (session_in d (ag_id a) (ag_tenant a)) (discovery_sessions seen) of
                        None \<Rightarrow> Inl (error_reply 404 ''Discovery not found'')
                      | Some s \<Rightarrow>
                          if ds_status s \<noteq> ''running''
                          then Inl (error_reply 409 (''Discovery already '' @ ds_status s))
                          else
                            case parse_devices isIP zod_message devices of
                              Inl e \<Rightarrow> Inl (error_reply 400 e)
                            | Inr parsed \<Rightarrow> Inr (a, d, status, parsed)))"

definition close_session :: "clocks \<Rightarrow> agent \<Rightarrow> string \<Rightarrow> string option \<Rightarrow> nat \<Rightarrow> gateway_db \<Rightarrow> gateway_db" where
  "close_session c a d status n db =
     (if truthy status \<and> List.member [''completed'', ''partial'', ''failed'', ''cancelled''] (the status)
      then db\<lparr>discovery_sessions := update_where (session_in d (ag_id a) (ag_tenant a))
             (\<lambda>r. r\<lparr>ds_status := the status, ds_completed := Some (app_now c), ds_updated := app_now c,
                    ds_candidates := Some n\<rparr>) (discovery_sessions db)\<rparr>
      else db)"

text \<open>The handler with nothing between its writes, and its statements on their own.\<close>

definition discovery_report_POST ::
  "(string \<Rightarrow> nat) \<Rightarrow> (json \<Rightarrow> string) \<Rightarrow> clocks \<Rightarrow> (nat \<Rightarrow> string) \<Rightarrow> agent option \<Rightarrow> js_number option \<Rightarrow> json option
     \<Rightarrow> gateway_db \<Rightarrow> gateway_db \<Rightarrow> gateway_db \<times> http" where
  "discovery_report_POST isIP zod_message c nanos agent len body seen db =
     (case discovery_check isIP zod_message agent len body seen of
        Inl rep \<Rightarrow> (db, rep)
      | Inr (a, d, status, parsed) \<Rightarrow>
          (case insert_candidates (db_now c) a d nanos 0 parsed db of
             (db1, True) \<Rightarrow> (db1, reply 500 [])
           | (db1, False) \<Rightarrow>
               (close_session c a d status (length parsed) db1,
                reply 200 [(''ok'', JBool True), (''inserted'', jint (int (length parsed))),
                           (''verification'', JStr ''candidate-only'')])))"

definition discovery_candidate ::
  "(string \<Rightarrow> nat) \<Rightarrow> (json \<Rightarrow> string) \<Rightarrow> clocks \<Rightarrow> string \<Rightarrow> agent option \<Rightarrow> js_number option \<Rightarrow> json option
     \<Rightarrow> nat \<Rightarrow> gateway_db \<Rightarrow> gateway_db \<Rightarrow> gateway_db" where
  "discovery_candidate isIP zod_message c nano agent len body n seen db =
     (case discovery_check isIP zod_message agent len body seen of
        Inl rep \<Rightarrow> db
      | Inr (a, d, status, parsed) \<Rightarrow>
          if n < length parsed
          then (case insert_candidate (db_now c) a d nano (parsed ! n) db of Some db' \<Rightarrow> db' | None \<Rightarrow> db) else db)"

definition discovery_close ::
  "(string \<Rightarrow> nat) \<Rightarrow> (json \<Rightarrow> string) \<Rightarrow> clocks \<Rightarrow> agent option \<Rightarrow> js_number option \<Rightarrow> json option
     \<Rightarrow> gateway_db \<Rightarrow> gateway_db \<Rightarrow> gateway_db" where
  "discovery_close isIP zod_message c agent len body seen db =
     (case discovery_check isIP zod_message agent len body seen of
        Inl rep \<Rightarrow> db
      | Inr (a, d, status, parsed) \<Rightarrow> close_session c a d status (length parsed) db)"

text \<open>The report is its statements in their order, up to an INSERT that throws.\<close>

lemma insert_candidates_steps:
  "\<exists>k \<le> length ds. fst (insert_candidates now a discoveryId nanos n ds db)
     = fold (\<lambda>i x. case insert_candidate now a discoveryId (nanos (n + i)) (ds ! i) x of Some x' \<Rightarrow> x' | None \<Rightarrow> x) [0..<k] db"
proof (induction ds arbitrary: n db)
  case (Cons d ds)
  have steps: "[0..<Suc k] = 0 # map Suc [0..<k]" for k
    by (simp add: map_Suc_upt upt_conv_Cons)
  show ?case
  proof (cases "insert_candidate now a discoveryId (nanos n) d db")
    case (Some db')
    obtain k where "k \<le> length ds" "fst (insert_candidates now a discoveryId nanos (Suc n) ds db')
        = fold (\<lambda>i x. case insert_candidate now a discoveryId (nanos (Suc n + i)) (ds ! i) x of Some x' \<Rightarrow> x' | None \<Rightarrow> x) [0..<k] db'"
      using Cons.IH by blast
    then show ?thesis
      using Some by (intro exI [of _ "Suc k"]) (simp add: steps fold_map comp_def del: upt_Suc)
  qed (intro exI [of _ 0], simp)
qed simp

lemma discovery_steps:
  "\<exists>k closes. fst (discovery_report_POST isIP zod_message c nanos agent len body seen db)
     = (if closes then discovery_close isIP zod_message c agent len body seen else id)
         (fold (\<lambda>i. discovery_candidate isIP zod_message c (nanos i) agent len body i seen) [0..<k] db)"
proof (cases "discovery_check isIP zod_message agent len body seen")
  case (Inl rep)
  then show ?thesis by (intro exI [of _ 0] exI [of _ False]) (simp add: discovery_report_POST_def)
next
  case (Inr x)
  then obtain a d status parsed where x: "discovery_check isIP zod_message agent len body seen = Inr (a, d, status, parsed)"
    by (cases x) auto
  obtain k where k: "k \<le> length parsed" "fst (insert_candidates (db_now c) a d nanos 0 parsed db)
      = fold (\<lambda>i x. case insert_candidate (db_now c) a d (nanos (0 + i)) (parsed ! i) x of Some x' \<Rightarrow> x' | None \<Rightarrow> x) [0..<k] db"
    using insert_candidates_steps by blast
  have "fold (\<lambda>i. discovery_candidate isIP zod_message c (nanos i) agent len body i seen) [0..<k] db
      = fst (insert_candidates (db_now c) a d nanos 0 parsed db)"
    unfolding k(2) by (rule fold_cong) (use k(1) x in \<open>auto simp: discovery_candidate_def fun_eq_iff split: option.splits\<close>)
  moreover obtain db1 b where "insert_candidates (db_now c) a d nanos 0 parsed db = (db1, b)" by (rule prod.exhaust)
  ultimately show ?thesis
    using x by (intro exI [of _ k] exI [of _ "\<not> b"]) (simp add: discovery_report_POST_def discovery_close_def)
qed

section \<open>Approval and provisioning\<close>

definition verify_POST ::
  "time \<Rightarrow> ManagerClaims option \<Rightarrow> string \<Rightarrow> string \<Rightarrow> gateway_db \<Rightarrow> gateway_db \<Rightarrow> gateway_db
     \<Rightarrow> gateway_db \<times> http" where
  "verify_POST now claims agentId deviceId seen seen_device db =
     (case authorize claims Printers_manage of
        Inl rep \<Rightarrow> (db, rep)
      | Inr m \<Rightarrow>
          (case active_agent m agentId seen of
             Inl rep \<Rightarrow> (db, rep)
           | Inr a \<Rightarrow>
               (case find_first (device_in deviceId agentId (mc_tenant m)) (discovered_devices seen_device) of
                  None \<Rightarrow> (db, error_reply 404 ''Device not found'')
                | Some d \<Rightarrow>
                    if dd_candidate_status d = ''provisioned'' then (db, error_reply 409 ''Device is already provisioned'')
                    else if dd_verification d = ''verified'' \<and> dd_candidate_status d = ''verified''
                    then (db, reply 200 [(''ok'', JBool True), (''already'', JBool True), (''deviceId'', JStr deviceId)])
                    else
                      let cond = (\<lambda>r. device_in deviceId agentId (mc_tenant m) r \<and> dd_candidate_status r = ''discovered'')
                      in if count_where cond (discovered_devices db) \<noteq> 1
                         then (db\<lparr>discovered_devices := update_where cond
                                 (\<lambda>r. r\<lparr>dd_verification := ''verified'', dd_candidate_status := ''verified'', dd_updated := now\<rparr>)
                                 (discovered_devices db)\<rparr>,
                               error_reply 409 ''Device state changed concurrently; reload and retry'')
                         else (db\<lparr>discovered_devices := update_where cond
                                 (\<lambda>r. r\<lparr>dd_verification := ''verified'', dd_candidate_status := ''verified'', dd_updated := now\<rparr>)
                                 (discovered_devices db)\<rparr>,
                               reply 200 [(''ok'', JBool True), (''verified'', JBool True), (''deviceId'', JStr deviceId)]))))"

text \<open>Protocol and connection type of a discovered protocol.\<close>

definition protocolMap :: "(string \<times> string \<times> string) list" where
  "protocolMap =
     [(''ipp'', ''ipp'', ''ipp''), (''ipps'', ''ipps'', ''ipps''), (''raw'', ''raw'', ''network''),
      (''escpos'', ''escpos'', ''network''), (''spooler'', ''spooler'', ''spooler''),
      (''windows_spooler'', ''spooler'', ''spooler'')]"

text \<open>
  Indexing the object also finds what it inherits: the two all-lowercase names of
  \<open>Object.prototype\<close> give an object without either field, and the insert then takes the
  column defaults.
\<close>

definition transport_of :: "string \<Rightarrow> (string \<times> string) option" where
  "transport_of rawProtocol =
     (case map_of protocolMap rawProtocol of
        Some via \<Rightarrow> Some via
      | None \<Rightarrow> if List.member [''constructor'', ''__proto__''] rawProtocol then Some (''unknown'', ''network'') else None)"

datatype provision_result =
    NotFound | NotApproved | UnsupportedTransport string | MissingEndpoint
  | Already string | Created string | Crashed

text \<open>\<open>cfg?.ip ?? cfg?.address\<close>, and the comparison with the device's endpoint.\<close>

definition same_endpoint :: "string \<Rightarrow> int \<Rightarrow> printer \<Rightarrow> bool" where
  "same_endpoint ip port p =
     (let cfg = or_else (pr_config p) []
      in nullish_or (jprop ''ip'' cfg) (jprop ''address'' cfg) = Some (JStr ip) \<and> jprop ''port'' cfg = Some (jint port))"

definition mark_provisioned :: "time \<Rightarrow> string \<Rightarrow> string \<Rightarrow> string \<Rightarrow> gateway_db \<Rightarrow> gateway_db" where
  "mark_provisioned now deviceId tenantId printerId db =
     db\<lparr>discovered_devices := update_where
           (\<lambda>r. dd_id r = deviceId \<and> dd_tenant r = tenantId \<and> dd_candidate_status r = ''verified'')
           (\<lambda>r. r\<lparr>dd_candidate_status := ''provisioned'', dd_provisioned := Some printerId, dd_updated := now\<rparr>)
           (discovered_devices db)\<rparr>"

definition optional_text :: "string \<Rightarrow> string option \<Rightarrow> (string \<times> json) list" where
  "optional_text k v = (case v of Some s \<Rightarrow> [(k, JStr s)] | None \<Rightarrow> [])"

definition provisioned_printer :: "time \<Rightarrow> string \<Rightarrow> string \<Rightarrow> string \<Rightarrow> string \<times> string \<Rightarrow> discovered_device \<Rightarrow> printer" where
  "provisioned_printer now tenantId agentId printerId via d =
     \<lparr>pr_id = printerId, pr_tenant = tenantId, pr_agent = agentId,
      pr_name = (case dd_name d of Some n \<Rightarrow> n | None \<Rightarrow>
                  (case dd_model d of Some n \<Rightarrow> n | None \<Rightarrow> ''Printer '' @ or_else (dd_ip d) (dd_id d))),
      pr_type = ''physical'', pr_class = dd_class d, pr_connection = snd via, pr_protocol = fst via,
      pr_status = ''unknown'', pr_lifecycle = Active,
      pr_config = Some (optional_text ''ip'' (dd_ip d)
                        @ (case dd_port d of Some n \<Rightarrow> [(''port'', jint n)] | None \<Rightarrow> [])
                        @ optional_text ''address'' (dd_uri d)),
      pr_capabilities = Some (case dd_capabilities d of Some (JObj es) \<Rightarrow> JObj es | _ \<Rightarrow> JObj []),
      pr_last_seen = None, pr_created = now, pr_updated = now\<rparr>"

text \<open>
  The transaction: the locked device, the checks, and either an existing printer or a new one.
  An insert the table refuses undoes it, and nothing catches the error.
\<close>

definition provision_tx ::
  "time \<Rightarrow> string \<Rightarrow> string \<Rightarrow> string \<Rightarrow> string \<Rightarrow> gateway_db \<Rightarrow> gateway_db \<times> provision_result" where
  "provision_tx now nano tenantId agentId deviceId db =
     (case find_first (device_in deviceId agentId tenantId) (discovered_devices db) of
        None \<Rightarrow> (db, NotFound)
      | Some d \<Rightarrow>
          if dd_candidate_status d = ''provisioned'' \<and> truthy (dd_provisioned d) then (db, Already (the (dd_provisioned d)))
          else if dd_verification d \<noteq> ''verified'' \<or> dd_candidate_status d \<noteq> ''verified'' then (db, NotApproved)
          else
            case transport_of (js_lower (dd_protocol d)) of
              None \<Rightarrow> (db, UnsupportedTransport (dd_protocol d))
            | Some via \<Rightarrow>
                (let endpoint = (truthy (dd_ip d) \<and> dd_port d \<noteq> None \<and> dd_port d \<noteq> Some 0) in
                 if List.member [''ipp'', ''ipps'', ''raw''] (fst via) \<and> \<not> endpoint then (db, MissingEndpoint)
                 else
                   case (if endpoint
                         then find_first (\<lambda>p. printer_of agentId tenantId p \<and> same_endpoint (the (dd_ip d)) (the (dd_port d)) p)
                                (printers db)
                         else None) of
                     Some p \<Rightarrow> (mark_provisioned now deviceId tenantId (pr_id p) db, Already (pr_id p))
                   | None \<Rightarrow>
                       let printerId = ''printer_'' @ nano;
                           row = provisioned_printer now tenantId agentId printerId via d
                       in if row_by pr_id printerId (printers db) \<noteq> None \<or> \<not> printer_checks row \<or> \<not> agent_exists tenantId agentId db
                          then (db, Crashed)
                          else (mark_provisioned now deviceId tenantId printerId (db\<lparr>printers := printers db @ [row]\<rparr>), Created printerId)))"

fun provision_reply :: "provision_result \<Rightarrow> http" where
  "provision_reply NotFound = error_reply 404 ''Device not found''"
| "provision_reply NotApproved =
     reply 409 [(''error'', JStr ''DEVICE_NOT_APPROVED: a discovery candidate must be explicitly approved before provisioning''),
                (''code'', JStr ''DEVICE_NOT_APPROVED'')]"
| "provision_reply (UnsupportedTransport p) =
     reply 422 [(''error'', JStr (''UNSUPPORTED_DISCOVERY_TRANSPORT: '' @ p
                  @ ''. The candidate must report an explicit executable print transport before provisioning.'')),
                (''code'', JStr ''UNSUPPORTED_DISCOVERY_TRANSPORT'')]"
| "provision_reply MissingEndpoint =
     reply 422 [(''error'', JStr ''MISSING_PRINTER_ENDPOINT: network printer requires ipAddress and port''),
                (''code'', JStr ''MISSING_PRINTER_ENDPOINT'')]"
| "provision_reply (Already i) = reply 200 [(''printerId'', JStr i), (''already'', JBool True)]"
| "provision_reply (Created i) = reply 201 [(''printerId'', JStr i), (''already'', JBool False)]"
| "provision_reply Crashed = reply 500 []"

text \<open>The agent is read before the transaction, in \<open>seen\<close>.\<close>

definition provision_POST ::
  "time \<Rightarrow> string \<Rightarrow> ManagerClaims option \<Rightarrow> string \<Rightarrow> string \<Rightarrow> gateway_db \<Rightarrow> gateway_db \<Rightarrow> gateway_db \<times> http" where
  "provision_POST now nano claims agentId deviceId seen db =
     (case authorize claims Printers_manage of
        Inl rep \<Rightarrow> (db, rep)
      | Inr m \<Rightarrow>
          (case active_agent m agentId seen of
             Inl rep \<Rightarrow> (db, rep)
           | Inr a \<Rightarrow>
               (let (db', r) = provision_tx now nano (mc_tenant m) agentId deviceId db in (db', provision_reply r))))"

end
