(* ===== verification/Fleet_Spec.thy ===== *)
theory Fleet_Spec
  imports Discovery
begin

text \<open>
  What the handlers of agents, printers and discovered devices promise together: the three
  tables as one state, the writes allowed on it, and what those writes keep. The theory
  \<open>Fleet\<close> shows that every handler is a sequence of such writes.
\<close>

section \<open>The tables and the writes\<close>

record fleet =
  fl_agents :: "agent list"
  fl_printers :: "printer list"
  fl_devices :: "discovered_device list"

definition fleet_of :: "gateway_db \<Rightarrow> fleet" where
  "fleet_of db = \<lparr>fl_agents = agents db, fl_printers = printers db, fl_devices = discovered_devices db\<rparr>"

lemma fleet_of_simps [simp]:
  "fl_agents (fleet_of db) = agents db"
  "fl_printers (fleet_of db) = printers db"
  "fl_devices (fleet_of db) = discovered_devices db"
  by (simp_all add: fleet_of_def)

text \<open>
  The writes later arguments speak of: the write of printers, which may make one active, with a flag
  that tells whether its agent is known to be active at that moment; a pairing of an agent; the
  deletion of one.
\<close>

datatype fleet_label = Plain | Activates bool | Paired string | Deleted string string

definition same_identity :: "agent \<Rightarrow> agent \<Rightarrow> bool" where
  "same_identity a b \<longleftrightarrow> ag_id b = ag_id a \<and> ag_tenant b = ag_tenant a \<and> ag_lifecycle b = ag_lifecycle a
     \<and> ag_secret b = ag_secret a"

definition owned :: "agent list \<Rightarrow> printer \<Rightarrow> bool" where
  "owned ags p \<longleftrightarrow> list_ex (agent_in (pr_agent p) (pr_tenant p)) ags"

definition owned_by_active :: "agent list \<Rightarrow> printer \<Rightarrow> bool" where
  "owned_by_active ags p \<longleftrightarrow> list_ex (\<lambda>a. agent_in (pr_agent p) (pr_tenant p) a \<and> ag_lifecycle a = Active) ags"

definition printer_change :: "bool \<Rightarrow> agent list \<Rightarrow> printer \<Rightarrow> printer \<Rightarrow> bool" where
  "printer_change sure ags p q \<longleftrightarrow> pr_id q = pr_id p \<and> pr_tenant q = pr_tenant p \<and> pr_agent q = pr_agent p
     \<and> (printer_checks p \<longrightarrow> printer_checks q)
     \<and> (sure \<and> pr_lifecycle q = Active \<longrightarrow> pr_lifecycle p = Active \<or> owned_by_active ags p)"

inductive fleet_write :: "fleet_label \<Rightarrow> fleet \<Rightarrow> fleet \<Rightarrow> bool" where
  seen: "\<lbrakk>\<And>a. g a \<Longrightarrow> same_identity a (u a)\<rbrakk>
    \<Longrightarrow> fleet_write Plain f (f\<lparr>fl_agents := update_where g u (fl_agents f)\<rparr>)"
| lifecycle: "\<lbrakk>\<And>a. agent_in agentId tenantId a \<Longrightarrow> ag_id (u a) = ag_id a \<and> ag_tenant (u a) = ag_tenant a
        \<and> ag_lifecycle (u a) = nxt \<and> ag_secret (u a) = None;
      \<And>p. printer_of agentId tenantId p \<Longrightarrow> pr_id (w p) = pr_id p \<and> pr_tenant (w p) = pr_tenant p
        \<and> pr_agent (w p) = pr_agent p \<and> (printer_checks p \<longrightarrow> printer_checks (w p)) \<and> pr_lifecycle (w p) = Disabled\<rbrakk>
    \<Longrightarrow> fleet_write Plain f
         (f\<lparr>fl_agents := update_where (agent_in agentId tenantId) u (fl_agents f),
            fl_printers := (if nxt \<noteq> Active then update_where (printer_of agentId tenantId) w (fl_printers f)
                            else fl_printers f)\<rparr>)"
| pair: "fleet_write (Paired agentId) f
    (f\<lparr>fl_agents := update_where (consume_where agentId h now) (consume_set s meta now) (fl_agents f)\<rparr>)"
| agent_new: "\<lbrakk>row_by ag_id (ag_id a) (fl_agents f) = None; ag_secret a = None\<rbrakk>
    \<Longrightarrow> fleet_write Plain f (f\<lparr>fl_agents := fl_agents f @ [a]\<rparr>)"
| agent_gone: "fleet_write (Deleted agentId tenantId) f
    (f\<lparr>fl_agents := delete_where (agent_in agentId tenantId) (fl_agents f),
       fl_printers := delete_where (printer_of agentId tenantId) (fl_printers f),
       fl_devices := delete_where (\<lambda>d. dd_agent d = agentId \<and> dd_tenant d = tenantId) (fl_devices f)\<rparr>)"
| printer_new: "\<lbrakk>row_by pr_id (pr_id p) (fl_printers f) = None; pr_id p \<noteq> []; printer_checks p; owned (fl_agents f) p;
      sure \<Longrightarrow> owned_by_active (fl_agents f) p\<rbrakk>
    \<Longrightarrow> fleet_write (Activates sure) f (f\<lparr>fl_printers := fl_printers f @ [p]\<rparr>)"
| printer_set: "\<lbrakk>\<And>p. p \<in> set (fl_printers f) \<Longrightarrow> g p \<Longrightarrow> printer_change sure (fl_agents f) p (u p)\<rbrakk>
    \<Longrightarrow> fleet_write (Activates sure) f (f\<lparr>fl_printers := update_where g u (fl_printers f)\<rparr>)"
| device_new: "\<lbrakk>row_by dd_id (dd_id d) (fl_devices f) = None; dd_candidate_status d = ''discovered''\<rbrakk>
    \<Longrightarrow> fleet_write Plain f (f\<lparr>fl_devices := fl_devices f @ [d]\<rparr>)"
| device_approved: "\<lbrakk>\<And>d. g d \<Longrightarrow> dd_candidate_status d = ''discovered'';
      \<And>d. g d \<Longrightarrow> dd_id (u d) = dd_id d \<and> dd_tenant (u d) = dd_tenant d \<and> dd_agent (u d) = dd_agent d
        \<and> dd_candidate_status (u d) = ''verified'' \<and> dd_verification (u d) = ''verified''\<rbrakk>
    \<Longrightarrow> fleet_write Plain f (f\<lparr>fl_devices := update_where g u (fl_devices f)\<rparr>)"
| device_provisioned: "\<lbrakk>d \<in> set (fl_devices f); device_in deviceId agentId tenantId d;
      p \<in> set (fl_printers f); pr_id p = printerId; printer_of agentId tenantId p\<rbrakk>
    \<Longrightarrow> fleet_write Plain f
         (f\<lparr>fl_devices := update_where
              (\<lambda>r. dd_id r = deviceId \<and> dd_tenant r = tenantId \<and> dd_candidate_status r = ''verified'')
              (\<lambda>r. r\<lparr>dd_candidate_status := ''provisioned'', dd_provisioned := Some printerId, dd_updated := now\<rparr>)
              (fl_devices f)\<rparr>)"

text \<open>Any number of writes whose labels are allowed.\<close>

inductive writes :: "(fleet_label \<Rightarrow> bool) \<Rightarrow> fleet \<Rightarrow> fleet \<Rightarrow> bool" for allowed where
  none [intro!, simp]: "writes allowed f f"
| more: "\<lbrakk>fleet_write l f f'; allowed l; writes allowed f' f''\<rbrakk> \<Longrightarrow> writes allowed f f''"

lemma writes_one: "fleet_write l f f' \<Longrightarrow> allowed l \<Longrightarrow> writes allowed f f'"
  by (rule writes.more [OF _ _ writes.none])

lemma writes_trans: "writes allowed f g \<Longrightarrow> writes allowed g h \<Longrightarrow> writes allowed f h"
  by (induction rule: writes.induct) (auto intro: writes.more)

lemma writes_mono: "writes allowed f g \<Longrightarrow> (\<And>l. allowed l \<Longrightarrow> more_allowed l) \<Longrightarrow> writes more_allowed f g"
  by (induction rule: writes.induct) (auto intro: writes.more)

text \<open>A fact of the tables that every allowed write keeps holds after any number of them.\<close>

locale fleet_fact =
  fixes fact :: "fleet \<Rightarrow> bool" and allowed :: "fleet_label \<Rightarrow> bool"
  assumes write_keeps: "fleet_write l f f' \<Longrightarrow> allowed l \<Longrightarrow> fact f \<Longrightarrow> fact f'"
begin

lemma writes_keep: "writes allowed f f' \<Longrightarrow> fact f \<Longrightarrow> fact f'"
  by (induction rule: writes.induct) (auto intro: write_keeps)

end

section \<open>The invariant\<close>

definition printer_ok :: "agent list \<Rightarrow> printer \<Rightarrow> bool" where
  "printer_ok ags p \<longleftrightarrow> pr_id p \<noteq> [] \<and> printer_checks p \<and> owned ags p"

definition device_ok :: "printer list \<Rightarrow> discovered_device \<Rightarrow> bool" where
  "device_ok ps d \<longleftrightarrow>
     (dd_candidate_status d = ''verified'' \<longrightarrow> dd_verification d = ''verified'')
     \<and> (dd_candidate_status d = ''provisioned'' \<longrightarrow>
          list_ex (\<lambda>p. dd_provisioned d = Some (pr_id p) \<and> printer_of (dd_agent d) (dd_tenant d) p) ps)"

definition fleet_ok :: "fleet \<Rightarrow> bool" where
  "fleet_ok f \<longleftrightarrow> unique_by ag_id (fl_agents f) \<and> unique_by pr_id (fl_printers f) \<and> unique_by dd_id (fl_devices f)
     \<and> list_all (printer_ok (fl_agents f)) (fl_printers f) \<and> list_all (device_ok (fl_printers f)) (fl_devices f)"

lemma fleet_okI:
  assumes "unique_by ag_id (fl_agents f)" and "unique_by pr_id (fl_printers f)" and "unique_by dd_id (fl_devices f)"
    and "\<And>p. p \<in> set (fl_printers f) \<Longrightarrow> printer_ok (fl_agents f) p"
    and "\<And>d. d \<in> set (fl_devices f) \<Longrightarrow> device_ok (fl_printers f) d"
  shows "fleet_ok f"
  using assms by (simp add: fleet_ok_def list_all_iff)

lemma fleet_okD:
  assumes "fleet_ok f"
  shows "unique_by ag_id (fl_agents f)" and "unique_by pr_id (fl_printers f)" and "unique_by dd_id (fl_devices f)"
    and "p \<in> set (fl_printers f) \<Longrightarrow> printer_ok (fl_agents f) p"
    and "d \<in> set (fl_devices f) \<Longrightarrow> device_ok (fl_printers f) d"
  using assms by (simp_all add: fleet_ok_def list_all_iff)

text \<open>How the two row facts follow the tables they look at.\<close>

lemma printer_ok_agents:
  assumes "printer_ok ags p"
    and "\<And>a. a \<in> set ags \<Longrightarrow> agent_in (pr_agent p) (pr_tenant p) a \<Longrightarrow>
       \<exists>b \<in> set bgs. agent_in (pr_agent p) (pr_tenant p) b"
  shows "printer_ok bgs p"
  using assms unfolding printer_ok_def owned_def list_ex_iff by blast

lemma device_ok_printers:
  assumes "device_ok ps d"
    and "\<And>p. p \<in> set ps \<Longrightarrow> printer_of (dd_agent d) (dd_tenant d) p \<Longrightarrow>
       \<exists>q \<in> set qs. printer_of (dd_agent d) (dd_tenant d) q \<and> pr_id q = pr_id p"
  shows "device_ok qs d"
  using assms unfolding device_ok_def list_ex_iff by metis

section \<open>Every write keeps the invariant\<close>

lemma agents_changed:
  assumes "fleet_ok f" and "unique_by ag_id ags"
    and "\<And>p a. \<lbrakk>p \<in> set (fl_printers f); a \<in> set (fl_agents f); agent_in (pr_agent p) (pr_tenant p) a\<rbrakk> \<Longrightarrow>
       \<exists>b \<in> set ags. agent_in (pr_agent p) (pr_tenant p) b"
  shows "fleet_ok (f\<lparr>fl_agents := ags\<rparr>)"
proof (rule fleet_okI)
  fix p assume "p \<in> set (fl_printers (f\<lparr>fl_agents := ags\<rparr>))"
  then have p: "p \<in> set (fl_printers f)" by simp
  have "printer_ok ags p"
    by (rule printer_ok_agents [OF fleet_okD(4) [OF assms(1) p] assms(3) [OF p]])
  then show "printer_ok (fl_agents (f\<lparr>fl_agents := ags\<rparr>)) p" by simp
qed (use assms(2) fleet_okD [OF assms(1)] in simp_all)

lemma printers_changed:
  assumes "fleet_ok f" and "unique_by pr_id ps" and "\<And>p. p \<in> set ps \<Longrightarrow> printer_ok (fl_agents f) p"
    and "\<And>p. p \<in> set (fl_printers f) \<Longrightarrow>
       \<exists>q \<in> set ps. pr_id q = pr_id p \<and> pr_agent q = pr_agent p \<and> pr_tenant q = pr_tenant p"
  shows "fleet_ok (f\<lparr>fl_printers := ps\<rparr>)"
proof (rule fleet_okI)
  fix d assume "d \<in> set (fl_devices (f\<lparr>fl_printers := ps\<rparr>))"
  then have "device_ok (fl_printers f) d"
    using fleet_okD(5) [OF assms(1)] by simp
  then show "device_ok (fl_printers (f\<lparr>fl_printers := ps\<rparr>)) d"
    by (rule device_ok_printers) (use assms(4) in \<open>fastforce simp: printer_of_def\<close>)
qed (use assms fleet_okD [OF assms(1)] in auto)

lemma devices_changed:
  assumes "fleet_ok f" and "unique_by dd_id ds" and "\<And>d. d \<in> set ds \<Longrightarrow> device_ok (fl_printers f) d"
  shows "fleet_ok (f\<lparr>fl_devices := ds\<rparr>)"
  by (rule fleet_okI) (use assms fleet_okD [OF assms(1)] in auto)

lemma devices_updated:
  assumes ok: "fleet_ok f"
    and new: "\<And>d. d \<in> set (fl_devices f) \<Longrightarrow> g d \<Longrightarrow> dd_id (u d) = dd_id d \<and> device_ok (fl_printers f) (u d)"
  shows "fleet_ok (f\<lparr>fl_devices := update_where g u (fl_devices f)\<rparr>)"
proof (rule devices_changed [OF ok])
  show "unique_by dd_id (update_where g u (fl_devices f))"
    by (rule unique_by_keys [OF fleet_okD(3) [OF ok]], rule keys_of_update) (use new in blast)
  show "device_ok (fl_printers f) d" if "d \<in> set (update_where g u (fl_devices f))" for d
    using that new fleet_okD(5) [OF ok] by (auto simp: set_update_where split: if_splits)
qed

lemma agents_updated:
  assumes ok: "fleet_ok f" and new: "\<And>a. g a \<Longrightarrow> ag_id (u a) = ag_id a \<and> ag_tenant (u a) = ag_tenant a"
  shows "fleet_ok (f\<lparr>fl_agents := update_where g u (fl_agents f)\<rparr>)"
proof (rule agents_changed [OF ok])
  show "unique_by ag_id (update_where g u (fl_agents f))"
    by (rule unique_by_keys [OF fleet_okD(1) [OF ok]], rule keys_of_update) (use new in blast)
  fix p a assume a: "a \<in> set (fl_agents f)" "agent_in (pr_agent p) (pr_tenant p) a"
  show "\<exists>b \<in> set (update_where g u (fl_agents f)). agent_in (pr_agent p) (pr_tenant p) b"
  proof (rule bexI)
    show "(if g a then u a else a) \<in> set (update_where g u (fl_agents f))"
      using a(1) by (auto simp: set_update_where)
  qed (use new [of a] a(2) in \<open>auto simp: agent_in_def\<close>)
qed

lemma printers_updated:
  assumes ok: "fleet_ok f"
    and new: "\<And>p. p \<in> set (fl_printers f) \<Longrightarrow> g p \<Longrightarrow> pr_id (u p) = pr_id p \<and> pr_agent (u p) = pr_agent p
       \<and> pr_tenant (u p) = pr_tenant p \<and> printer_ok (fl_agents f) (u p)"
  shows "fleet_ok (f\<lparr>fl_printers := update_where g u (fl_printers f)\<rparr>)"
proof (rule printers_changed [OF ok])
  show "unique_by pr_id (update_where g u (fl_printers f))"
    by (rule unique_by_keys [OF fleet_okD(2) [OF ok]], rule keys_of_update) (use new in blast)
  show "printer_ok (fl_agents f) p" if "p \<in> set (update_where g u (fl_printers f))" for p
    using that new fleet_okD(4) [OF ok] by (auto simp: set_update_where split: if_splits)
  fix p assume p: "p \<in> set (fl_printers f)"
  show "\<exists>q \<in> set (update_where g u (fl_printers f)). pr_id q = pr_id p \<and> pr_agent q = pr_agent p \<and> pr_tenant q = pr_tenant p"
    by (rule bexI [of _ "if g p then u p else p"]) (use new [OF p] p in \<open>auto simp: set_update_where\<close>)
qed

lemma fleet_ok_gone:
  assumes ok: "fleet_ok f"
  shows "fleet_ok (f\<lparr>fl_agents := delete_where (agent_in agentId tenantId) (fl_agents f),
       fl_printers := delete_where (printer_of agentId tenantId) (fl_printers f),
       fl_devices := delete_where (\<lambda>d. dd_agent d = agentId \<and> dd_tenant d = tenantId) (fl_devices f)\<rparr>)"
    (is "fleet_ok ?f")
proof (rule fleet_okI)
  fix p assume "p \<in> set (fl_printers ?f)"
  then have p: "p \<in> set (fl_printers f)" "\<not> printer_of agentId tenantId p"
    by (auto simp: set_delete_where)
  have "printer_ok (delete_where (agent_in agentId tenantId) (fl_agents f)) p"
    by (rule printer_ok_agents [OF fleet_okD(4) [OF ok p(1)]])
      (use p(2) in \<open>auto simp: set_delete_where agent_in_def printer_of_def\<close>)
  then show "printer_ok (fl_agents ?f) p" by simp
next
  fix d assume "d \<in> set (fl_devices ?f)"
  then have d: "d \<in> set (fl_devices f)" "\<not> (dd_agent d = agentId \<and> dd_tenant d = tenantId)"
    by (auto simp: set_delete_where)
  have "device_ok (delete_where (printer_of agentId tenantId) (fl_printers f)) d"
    by (rule device_ok_printers [OF fleet_okD(5) [OF ok d(1)]])
      (use d(2) in \<open>auto simp: set_delete_where printer_of_def\<close>)
  then show "device_ok (fl_printers ?f) d" by simp
qed (use fleet_okD [OF ok] in \<open>simp_all add: unique_by_delete\<close>)

lemma fleet_ok_lifecycle:
  assumes ok: "fleet_ok f"
    and u: "\<And>a. agent_in agentId tenantId a \<Longrightarrow> ag_id (u a) = ag_id a \<and> ag_tenant (u a) = ag_tenant a
        \<and> ag_lifecycle (u a) = nxt \<and> ag_secret (u a) = None"
    and w: "\<And>p. printer_of agentId tenantId p \<Longrightarrow> pr_id (w p) = pr_id p \<and> pr_tenant (w p) = pr_tenant p
        \<and> pr_agent (w p) = pr_agent p \<and> (printer_checks p \<longrightarrow> printer_checks (w p)) \<and> pr_lifecycle (w p) = Disabled"
  shows "fleet_ok (f\<lparr>fl_agents := update_where (agent_in agentId tenantId) u (fl_agents f),
            fl_printers := (if nxt \<noteq> Active then update_where (printer_of agentId tenantId) w (fl_printers f)
                            else fl_printers f)\<rparr>)"
proof -
  let ?f = "f\<lparr>fl_agents := update_where (agent_in agentId tenantId) u (fl_agents f)\<rparr>"
  have agents: "fleet_ok ?f" by (rule agents_updated [OF ok]) (use u in auto)
  show ?thesis
  proof (cases "nxt = Active")
    case False
    have "fleet_ok (?f\<lparr>fl_printers := update_where (printer_of agentId tenantId) w (fl_printers ?f)\<rparr>)"
      by (rule printers_updated [OF agents]) (use w fleet_okD(4) [OF agents] in \<open>auto simp: printer_ok_def owned_def\<close>)
    then show ?thesis using False by simp
  qed (use agents in simp)
qed

lemma fleet_ok_write: "fleet_write l f f' \<Longrightarrow> fleet_ok f \<Longrightarrow> fleet_ok f'"
proof (induction rule: fleet_write.induct)
  case (seen g u f)
  show ?case by (rule agents_updated) (use seen in \<open>auto simp: same_identity_def\<close>)
next
  case (lifecycle agentId tenantId u nxt w f)
  show ?case by (rule fleet_ok_lifecycle) (use lifecycle in auto)
next
  case (pair agentId f h now s meta)
  show ?case by (rule agents_updated) (use pair in \<open>auto simp: consume_set_def\<close>)
next
  case (agent_new a f)
  show ?case by (rule agents_changed) (use agent_new in \<open>auto intro: unique_by_append fleet_okD(1)\<close>)
next
  case (agent_gone agentId tenantId f)
  then show ?case by (rule fleet_ok_gone)
next
  case (printer_new p f sure)
  have "printer_ok (fl_agents f) p" using printer_new by (simp add: printer_ok_def)
  then show ?case
    using printer_new fleet_okD(4) [of f] by (intro printers_changed) (auto intro: unique_by_append fleet_okD(2))
next
  case (printer_set f g sure u)
  show ?case
  proof (rule printers_updated [OF printer_set.prems])
    fix p assume p: "p \<in> set (fl_printers f)" "g p"
    have "printer_change sure (fl_agents f) p (u p)" by (rule printer_set.hyps [OF p])
    then show "pr_id (u p) = pr_id p \<and> pr_agent (u p) = pr_agent p \<and> pr_tenant (u p) = pr_tenant p \<and> printer_ok (fl_agents f) (u p)"
      using fleet_okD(4) [OF printer_set.prems p(1)] by (auto simp: printer_change_def printer_ok_def owned_def)
  qed
next
  case (device_new d f)
  then have "device_ok (fl_printers f) d" by (simp add: device_ok_def)
  then show ?case
    using device_new fleet_okD(5) [of f] by (intro devices_changed) (auto intro: unique_by_append fleet_okD(3))
next
  case (device_approved g u f)
  show ?case by (rule devices_updated) (use device_approved in \<open>auto simp: device_ok_def\<close>)
next
  case (device_provisioned d f deviceId agentId tenantId p printerId now)
  have "r = d" if "r \<in> set (fl_devices f)" "dd_id r = deviceId" for r
    using unique_by_same [OF fleet_okD(3) [OF device_provisioned.prems] that(1) device_provisioned.hyps(1)] that(2)
      device_provisioned.hyps(2) by (simp add: device_in_def)
  then show ?case
    using device_provisioned by (intro devices_updated) (auto simp: device_ok_def device_in_def list_ex_iff)
qed

interpretation fleet_inv: fleet_fact fleet_ok allowed for allowed
  by unfold_locales (rule fleet_ok_write)

section \<open>Active printers\<close>

text \<open>Every active printer has an active agent. Only a write that made a printer active without knowing that ends this.\<close>

definition active_ok :: "fleet \<Rightarrow> bool" where
  "active_ok f \<longleftrightarrow> list_all (\<lambda>p. pr_lifecycle p = Active \<longrightarrow> owned_by_active (fl_agents f) p) (fl_printers f)"

lemma owned_by_active_update:
  assumes "owned_by_active ags p"
    and "\<And>a. g a \<Longrightarrow> ag_id (u a) = ag_id a \<and> ag_tenant (u a) = ag_tenant a"
    and "\<And>a. \<lbrakk>g a; agent_in (pr_agent p) (pr_tenant p) a; ag_lifecycle a = Active\<rbrakk> \<Longrightarrow> ag_lifecycle (u a) = Active"
  shows "owned_by_active (update_where g u ags) p"
proof -
  obtain a where a: "a \<in> set ags" "agent_in (pr_agent p) (pr_tenant p) a" "ag_lifecycle a = Active"
    using assms(1) by (auto simp: owned_by_active_def list_ex_iff)
  then have "(if g a then u a else a) \<in> set (update_where g u ags)" by (auto simp: set_update_where)
  moreover have "agent_in (pr_agent p) (pr_tenant p) (if g a then u a else a) \<and> ag_lifecycle (if g a then u a else a) = Active"
    using a assms(2,3) by (auto simp: agent_in_def)
  ultimately show ?thesis unfolding owned_by_active_def list_ex_iff by blast
qed

lemma owned_by_active_same:
  "pr_agent q = pr_agent p \<Longrightarrow> pr_tenant q = pr_tenant p \<Longrightarrow> owned_by_active ags q = owned_by_active ags p"
  by (simp add: owned_by_active_def)

lemma active_ok_write: "fleet_write l f f' \<Longrightarrow> l \<noteq> Activates False \<Longrightarrow> active_ok f \<Longrightarrow> active_ok f'"
proof (induction rule: fleet_write.induct)
  case (seen g u f)
  then show ?case by (auto simp: active_ok_def list_all_iff same_identity_def intro!: owned_by_active_update)
next
  case (lifecycle agentId tenantId u nxt w f)
  show ?case
    unfolding active_ok_def list_all_iff
  proof (intro ballI impI)
    let ?f = "f\<lparr>fl_agents := update_where (agent_in agentId tenantId) u (fl_agents f),
            fl_printers := (if nxt \<noteq> Active then update_where (printer_of agentId tenantId) w (fl_printers f)
                            else fl_printers f)\<rparr>"
    fix p assume p: "p \<in> set (fl_printers ?f)" "pr_lifecycle p = Active"
    have old: "p \<in> set (fl_printers f) \<and> (nxt = Active \<or> \<not> printer_of agentId tenantId p)"
    proof (cases "nxt = Active")
      case False
      have "p \<in> set (update_where (printer_of agentId tenantId) w (fl_printers f))" using p(1) False by simp
      then obtain q where q: "q \<in> set (fl_printers f)" "p = (if printer_of agentId tenantId q then w q else q)"
        unfolding set_update_where by blast
      then show ?thesis using lifecycle.hyps(2) [of q] p(2) by (auto split: if_splits)
    qed (use p(1) in simp)
    then have "owned_by_active (fl_agents f) p" using lifecycle.prems(2) p(2) by (auto simp: active_ok_def list_all_iff)
    then show "owned_by_active (fl_agents ?f) p"
      using old lifecycle.hyps(1) by (simp, intro owned_by_active_update) (auto simp: agent_in_def printer_of_def)
  qed
next
  case (pair agentId f h now s meta)
  then show ?case by (auto simp: active_ok_def list_all_iff consume_set_def intro!: owned_by_active_update)
next
  case (agent_new a f)
  then show ?case by (auto simp: active_ok_def list_all_iff owned_by_active_def)
next
  case (agent_gone agentId tenantId f)
  then show ?case
    by (fastforce simp: active_ok_def list_all_iff owned_by_active_def list_ex_iff set_delete_where agent_in_def printer_of_def)
next
  case (printer_new p f sure)
  then show ?case by (auto simp: active_ok_def list_all_iff)
next
  case (printer_set f g sure u)
  have "owned_by_active (fl_agents f) (u p)" if p: "p \<in> set (fl_printers f)" "g p" "pr_lifecycle (u p) = Active" for p
    using printer_set.hyps [OF p(1,2)] printer_set.prems p
    by (auto simp: printer_change_def active_ok_def list_all_iff owned_by_active_same [of "u p" p])
  then show ?case
    using printer_set.prems by (auto simp: active_ok_def list_all_iff set_update_where split: if_splits)
qed (auto simp: active_ok_def)

interpretation activity: fleet_fact active_ok "\<lambda>l. l \<noteq> Activates False"
  by unfold_locales (rule active_ok_write)

section \<open>Two facts that only a named write ends\<close>

definition revoked :: "string \<Rightarrow> string \<Rightarrow> fleet \<Rightarrow> bool" where
  "revoked agentId tenantId f \<longleftrightarrow> list_all (\<lambda>a. agent_in agentId tenantId a \<longrightarrow> ag_secret a = None) (fl_agents f)"

lemma revoked_write: "fleet_write l f f' \<Longrightarrow> l \<noteq> Paired agentId \<Longrightarrow> revoked agentId tenantId f \<Longrightarrow> revoked agentId tenantId f'"
proof (induction rule: fleet_write.induct)
  case (seen g u f)
  then show ?case
    by (auto simp: revoked_def list_all_iff set_update_where agent_in_def same_identity_def split: if_splits)
next
  case (lifecycle i t u nxt w f)
  have "ag_secret b = None" if b: "b \<in> set (update_where (agent_in i t) u (fl_agents f))" "agent_in agentId tenantId b" for b
  proof -
    obtain a where a: "a \<in> set (fl_agents f)" "b = (if agent_in i t a then u a else a)"
      using b(1) unfolding set_update_where by blast
    show ?thesis
      using a b(2) lifecycle.hyps(1) [of a] lifecycle.prems by (cases "agent_in i t a") (auto simp: revoked_def list_all_iff)
  qed
  then show ?case by (simp add: revoked_def list_all_iff)
next
  case (pair i f h now s meta)
  then show ?case
    by (auto simp: revoked_def list_all_iff set_update_where agent_in_def consume_where_def consume_set_def split: if_splits)
next
  case (agent_gone i t f)
  then show ?case by (auto simp: revoked_def list_all_iff set_delete_where)
qed (auto simp: revoked_def list_all_iff)

interpretation revocation: fleet_fact "revoked agentId tenantId" "\<lambda>l. l \<noteq> Paired agentId" for agentId tenantId
  by unfold_locales (rule revoked_write)

definition provisioned_as :: "string \<Rightarrow> string \<Rightarrow> string \<Rightarrow> string \<Rightarrow> fleet \<Rightarrow> bool" where
  "provisioned_as deviceId agentId tenantId printerId f \<longleftrightarrow>
     list_ex (\<lambda>d. device_in deviceId agentId tenantId d \<and> dd_candidate_status d = ''provisioned''
                  \<and> dd_provisioned d = Some printerId) (fl_devices f)"

lemma provisioned_updated:
  assumes "provisioned_as deviceId agentId tenantId printerId f" and "\<And>d. g d \<Longrightarrow> dd_candidate_status d \<noteq> ''provisioned''"
  shows "provisioned_as deviceId agentId tenantId printerId (f\<lparr>fl_devices := update_where g u (fl_devices f)\<rparr>)"
proof -
  obtain d where d: "d \<in> set (fl_devices f)" "device_in deviceId agentId tenantId d"
      "dd_candidate_status d = ''provisioned''" "dd_provisioned d = Some printerId"
    using assms(1) by (auto simp: provisioned_as_def list_ex_iff)
  then have "\<not> g d" using assms(2) by auto
  then have "d \<in> set (update_where g u (fl_devices f))"
    using d(1) by (auto simp: set_update_where)
  then show ?thesis using d by (auto simp: provisioned_as_def list_ex_iff)
qed

lemma provisioned_write:
  "fleet_write l f f' \<Longrightarrow> l \<noteq> Deleted agentId tenantId \<Longrightarrow> provisioned_as deviceId agentId tenantId printerId f
     \<Longrightarrow> provisioned_as deviceId agentId tenantId printerId f'"
proof (induction rule: fleet_write.induct)
  case (agent_gone i t f)
  then show ?case by (auto simp: provisioned_as_def list_ex_iff set_delete_where device_in_def)
next
  case (device_approved g u f)
  show ?case by (rule provisioned_updated [OF device_approved.prems(2)]) (use device_approved.hyps(1) in auto)
next
  case (device_provisioned d f i a t p pid now)
  show ?case by (rule provisioned_updated [OF device_provisioned.prems(2)]) auto
qed (auto simp: provisioned_as_def list_ex_iff)

interpretation provisioning: fleet_fact "provisioned_as deviceId agentId tenantId printerId" "\<lambda>l. l \<noteq> Deleted agentId tenantId"
  for deviceId agentId tenantId printerId
  by unfold_locales (rule provisioned_write)

end
