(* ===== verification/Fleet.thy ===== *)
theory Fleet
  imports Fleet_Spec
begin

text \<open>
  Every handler that writes agents, printers or discovered devices is a sequence of the writes
  of \<open>Fleet_Spec\<close>: the heartbeat, pairing, the lifecycle transition, creating and deleting
  agents, the manager's printer routes, discovery and provisioning. Runs of handlers then keep
  the facts proved there. A handler that makes a printer active does so for an agent it has read as
  active in an older state; what it read may no longer be true.
\<close>

abbreviation plain :: "fleet_label \<Rightarrow> bool" where "plain l \<equiv> l = Plain"

text \<open>The labels of a handler that writes printers: sure of the agent wherever \<open>sure\<close> holds.\<close>

definition on_printers :: "bool \<Rightarrow> fleet_label \<Rightarrow> bool" where
  "on_printers sure l \<longleftrightarrow> l = Plain \<or> (\<exists>s. l = Activates s \<and> (sure \<longrightarrow> s))"

lemma on_printers_intros [simp, intro]: "on_printers sure Plain" "on_printers sure (Activates sure)" "on_printers sure (Activates True)"
  by (auto simp: on_printers_def)

text \<open>
  What was read still holds: no agent that was active then has been disabled, retired or deleted
  since, and no printer's id has passed to another agent.
\<close>

definition still_true :: "gateway_db \<Rightarrow> gateway_db \<Rightarrow> bool" where
  "still_true seen db \<longleftrightarrow>
     list_all (\<lambda>a. ag_lifecycle a = Active \<longrightarrow>
       list_ex (\<lambda>b. agent_in (ag_id a) (ag_tenant a) b \<and> ag_lifecycle b = Active) (agents db)) (agents seen)
     \<and> list_all (\<lambda>p. list_all (\<lambda>q. printer_in (pr_id p) (pr_tenant p) q \<longrightarrow> pr_agent q = pr_agent p) (printers db)) (printers seen)"

lemma still_true_refl: "unique_by pr_id (printers db) \<Longrightarrow> still_true db db"
  using unique_by_same [of pr_id "printers db"]
  by (auto simp: still_true_def list_all_iff list_ex_iff agent_in_def printer_in_def)

lemma still_active:
  assumes "still_true seen db" and "a \<in> set (agents seen)" and "ag_lifecycle a = Active" and "agent_in (pr_agent p) (pr_tenant p) a"
  shows "owned_by_active (agents db) p"
  using assms by (auto simp: still_true_def list_all_iff owned_by_active_def agent_in_def)

lemma still_owned:
  "still_true seen db \<Longrightarrow> p \<in> set (printers seen) \<Longrightarrow> q \<in> set (printers db) \<Longrightarrow> printer_in (pr_id p) (pr_tenant p) q
     \<Longrightarrow> pr_agent q = pr_agent p"
  by (auto simp: still_true_def list_all_iff)

lemma agent_exists_owned: "agent_exists (pr_tenant p) (pr_agent p) db \<longleftrightarrow> owned (agents db) p"
  using find_first_None_iff [of "\<lambda>a. ag_tenant a = pr_tenant p \<and> ag_id a = pr_agent p" "agents db"]
  by (auto simp: agent_exists_def owned_def list_ex_iff agent_in_def)

lemma fleet_of_db [simp]:
  "fleet_of (db\<lparr>agents := x\<rparr>) = fleet_of db\<lparr>fl_agents := x\<rparr>"
  "fleet_of (db\<lparr>printers := y\<rparr>) = fleet_of db\<lparr>fl_printers := y\<rparr>"
  "fleet_of (db\<lparr>discovered_devices := z\<rparr>) = fleet_of db\<lparr>fl_devices := z\<rparr>"
  "fleet_of (db\<lparr>discovery_sessions := s\<rparr>) = fleet_of db"
  "fleet_of (db\<lparr>auth_rate_limits := r\<rparr>) = fleet_of db"
  "fleet_of (db\<lparr>print_jobs := j\<rparr>) = fleet_of db"
  by (simp_all add: fleet_of_def)

section \<open>The heartbeat\<close>

lemma sanitized_vocabulary:
  assumes "sanitizePrinter num p = Inr s"
  shows "sp_id s \<noteq> [] \<and> printer_checks (reported_printer now a s)"
proof -
  obtain i name c tc proto where parts: "bounded_text 120 (jget p ''id'') = Some i" "bounded_text 100 (jget p ''name'') = Some name"
      "normalizeConnectionType (jget p ''connectionType'') (jget p ''type'') = Some c" "type_and_class p = Some tc"
      "normalizeProtocol (nullish_or (jget p ''protocol'')
                                 (case jget p ''config'' of Some c \<Rightarrow> jget c ''protocol'' | None \<Rightarrow> None)) = Some proto"
    using assms unfolding sanitizePrinter_def
    by (auto simp: Let_def split: option.splits prod.splits if_splits)
  have s: "sp_id s = js_trim i \<and> sp_type s = fst tc \<and> sp_class s = snd tc \<and> sp_connection s = c \<and> sp_protocol s = proto
      \<and> List.member VALID_PRINTER_STATUSES (sp_status s)"
    using assms unfolding sanitizePrinter_def parts
    by (cases tc) (auto simp: Let_def VALID_PRINTER_STATUSES_def split: option.splits if_splits)
  have "js_trim i \<noteq> []"
    using parts(1) by (auto simp: bounded_text_def split: option.splits if_splits)
  moreover have "List.member VALID_CONNECTION_TYPES c"
    using parts(3) by (auto simp: normalizeConnectionType_def Let_def split: if_splits)
  moreover have "List.member PRINTER_TYPES (fst tc) \<and> List.member DEVICE_CLASSES (snd tc)"
    using parts(4) by (auto simp: type_and_class_def Let_def split: if_splits prod.splits)
  moreover have "List.member VALID_PROTOCOLS proto"
    using parts(5) by (auto simp: normalizeProtocol_def Let_def split: if_splits)
  ultimately show ?thesis
    using s by (simp add: printer_checks_def reported_printer_def VALID_CONNECTION_TYPES_def PRINTER_TYPES_def
        DEVICE_CLASSES_def VALID_PROTOCOLS_def VALID_PRINTER_STATUSES_def)
qed

lemma printer_update_change:
  assumes "printer_checks (reported_printer now a s)"
  shows "printer_change True ags p (printer_update now s p)"
  using assms by (auto simp: printer_change_def printer_update_def reported_printer_def printer_checks_def)

lemma update_write:
  assumes "printer_checks (reported_printer now a s)"
  shows "writes (on_printers sure) f (f\<lparr>fl_printers := update_where g (printer_update now s) (fl_printers f)\<rparr>)"
  by (rule writes_one [OF fleet_write.printer_set [where sure = True]]) (use printer_update_change [OF assms] in auto)

lemma printer_row_writes:
  assumes "row_by pr_id (pr_id p) (printers db) = None" and "pr_id p \<noteq> []" and "printer_checks p"
    and "agent_exists (pr_tenant p) (pr_agent p) db" and "sure \<Longrightarrow> owned_by_active (agents db) p"
  shows "writes (on_printers sure) (fleet_of db) (fleet_of db\<lparr>fl_printers := printers db @ [p]\<rparr>)"
  using fleet_write.printer_new [of p "fleet_of db" sure] assms agent_exists_owned [of p db] by (auto intro: writes_one)

lemma store_printer_writes:
  assumes s: "sp_id s \<noteq> []" "printer_checks (reported_printer now a s)"
    and a: "a \<in> set (agents seen_agent)" "ag_lifecycle a = Active"
  shows "writes (on_printers (still_true seen_agent db)) (fleet_of db) (fleet_of (fst (store_printer now a s seen raced db)))"
proof -
  have new: "writes (on_printers (still_true seen_agent db)) (fleet_of db) (fleet_of db\<lparr>fl_printers := printers db @ [reported_printer now a s]\<rparr>)"
    if "row_by pr_id (sp_id s) (printers db) = None" "agent_exists (ag_tenant a) (ag_id a) db"
    by (rule printer_row_writes)
      (use that s in \<open>auto simp: reported_printer_def agent_in_def intro: still_active [OF _ a]\<close>)
  have "writes (on_printers (still_true seen_agent db)) (fleet_of db) (fleet_of db\<lparr>fl_printers := update_where g (printer_update now s) (printers db)\<rparr>)" for g
    using update_write [OF s(2), of _ "fleet_of db"] by simp
  then show ?thesis
    using new unfolding store_printer_def by (auto simp: Let_def split: option.splits)
qed

lemma keep_alive_fleet [simp]: "fleet_of (keep_alive c a ids db) = fleet_of db"
  by (simp add: keep_alive_def fleet_of_def Let_def)

lemma heartbeat_row_writes: "writes plain (fleet_of db) (fleet_of (heartbeat_row num c agent len body db))"
proof -
  have "writes plain (fleet_of db) (fleet_of (heartbeat_agent now status a db))" for now status a
    unfolding heartbeat_agent_def fleet_of_db
    using fleet_write.seen [of "agent_in (ag_id a) (ag_tenant a)" "\<lambda>r. r\<lparr>ag_status := status, ag_last_seen := Some now\<rparr>" "fleet_of db"]
    by (auto simp: same_identity_def intro: writes_one)
  then show ?thesis
    unfolding heartbeat_row_def by (auto split: sum.splits prod.splits)
qed

lemma heartbeat_checked:
  "heartbeat_check num agent len body = Inr (a, status, ids, reported) \<Longrightarrow> agent = Some a \<and> ag_lifecycle a = Active"
  unfolding heartbeat_check_def by (auto simp: Let_def split: option.splits if_splits)

lemma heartbeat_printer_writes:
  assumes "\<And>a. agent = Some a \<Longrightarrow> a \<in> set (agents seen_agent)"
  shows "writes (on_printers (still_true seen_agent db)) (fleet_of db) (fleet_of (heartbeat_printer num c agent len body n r db))"
proof -
  have "writes (on_printers (still_true seen_agent db)) (fleet_of db) (fleet_of (fst (heartbeat_entry num now a raw seen raced db)))"
    if "agent = Some a \<and> ag_lifecycle a = Active" for now a raw seen raced
    unfolding heartbeat_entry_def
    using store_printer_writes [of _ now a seen_agent db] sanitized_vocabulary [of num raw] assms that
    by (auto split: sum.splits)
  then show ?thesis
    using heartbeat_checked [of num agent len body] unfolding heartbeat_printer_def
    by (auto split: sum.splits prod.splits)
qed

section \<open>Pairing and the lifecycle of agents\<close>

lemma pairing_failed_fleet [simp]: "fleet_of (pairing_failed env run db) = fleet_of db"
  by (simp add: pairing_failed_def)

text \<open>The agent a registration answered with.\<close>

definition paired_agent :: "http \<Rightarrow> string option" where
  "paired_agent rep = (if http_status rep = 200 then as_string (jget (http_body rep) ''agentId'') else None)"

lemma register_commit_writes:
  "writes (\<lambda>l. l = Plain \<or> (\<exists>i. l = Paired i \<and> paired_agent (snd (register_commit env run rg h a db)) = Some i))
     (fleet_of db) (fleet_of (fst (register_commit env run rg h a db)))"
proof (cases "select_where (consume_where (ag_id a) h (rr_update run)) (agents db) = []")
  case True
  then show ?thesis by (simp add: register_commit_def Let_def)
next
  case False
  then have "paired_agent (snd (register_commit env run rg h a db)) = Some (ag_id a)"
    by (simp add: register_commit_def Let_def paired_agent_def reply_def jprop_def)
  moreover have "writes (\<lambda>l. l = Plain \<or> l = Paired i) (fleet_of db)
      (fleet_of db\<lparr>fl_agents := update_where (consume_where i h now) (consume_set s meta now) (agents db)\<rparr>)" for i now s meta
    using fleet_write.pair [of i "fleet_of db" h now s meta] by (intro writes_one [where l = "Paired i"]) auto
  ultimately show ?thesis
    using False by (auto simp: register_commit_def Let_def)
qed

lemma register_writes:
  "writes (\<lambda>l. l = Plain \<or> (\<exists>i. l = Paired i \<and> paired_agent (snd (register_POST env run len body seen db)) = Some i))
     (fleet_of db) (fleet_of (fst (register_POST env run len body seen db)))"
  using register_commit_writes unfolding register_POST_def
  by (auto simp: Let_def split: option.splits RateLimitDecision.splits)

lemma write_lifecycle_write:
  "writes plain (fleet_of db) (fleet_of (write_lifecycle agentId nxt tenantId h e now db))"
  using fleet_write.lifecycle [of agentId tenantId
      "\<lambda>a. a\<lparr>ag_lifecycle := nxt, ag_secret := None, ag_pairing_hash := h, ag_pairing_expires := e, ag_status := Offline,
             ag_updated := now\<rparr>" nxt "\<lambda>p. p\<lparr>pr_lifecycle := Disabled, pr_updated := now\<rparr>" "fleet_of db"]
  by (auto simp: write_lifecycle_def printer_checks_def fleet_of_def intro: writes_one)

lemma transition_writes:
  "writes plain (fleet_of db) (fleet_of (fst (transitionAgentLifecycle sha candidates now agentId nxt tenantId seen db)))"
  unfolding transitionAgentLifecycle_def
  by (auto simp: Let_def intro: write_lifecycle_write split: option.splits)

lemma agent_PATCH_writes:
  "writes plain (fleet_of db) (fleet_of (fst (agent_PATCH sha candidates now claims i body seen db)))"
  using transition_writes unfolding agent_PATCH_def
  by (auto simp: Let_def split_beta split: option.splits sum.splits)

lemma setAgentLifecycle_writes:
  "writes plain (fleet_of db) (fleet_of (fst (setAgentLifecycle sha candidates now claims i l seen db)))"
  using transition_writes unfolding setAgentLifecycle_def
  by (auto simp: Let_def split_beta split: option.splits sum.splits)

lemma createAgent_writes:
  "writes plain (fleet_of db) (fleet_of (fst (createAgent sha candidates c nano claims name seen db)))"
proof -
  have new: "writes plain (fleet_of db) (fleet_of db\<lparr>fl_agents := agents db @ [new_agent now i t n h e]\<rparr>)"
    if "row_by ag_id i (agents db) = None" for now i t n h e
    using fleet_write.agent_new [of "new_agent now i t n h e" "fleet_of db"] that
    by (auto simp: new_agent_def intro: writes_one)
  show ?thesis
    unfolding createAgent_def by (auto simp: Let_def intro: new split: option.splits sum.splits)
qed

lemma agents_POST_writes:
  "writes plain (fleet_of db) (fleet_of (fst (agents_POST sha candidates iso_text c nano claims body seen db)))"
  using createAgent_writes [of db sha candidates c nano claims _ seen] unfolding agents_POST_def
  by (auto simp: Let_def split: option.splits sum.splits prod.splits action_error.splits) (metis fst_conv)+

lemma deleteAgent_writes:
  "writes (\<lambda>l. l = Plain \<or> (\<exists>m. claims = Some m \<and> l = Deleted (js_trim (or_empty i)) (mc_tenant m)))
     (fleet_of db) (fleet_of (fst (deleteAgent claims i online db)))"
proof -
  have gone: "writes (\<lambda>l. l = Plain \<or> l = Deleted agentId tenantId) (fleet_of db)
      (fleet_of db\<lparr>fl_devices := delete_where (\<lambda>d. dd_agent d = agentId \<and> dd_tenant d = tenantId) (discovered_devices db),
                   fl_printers := delete_where (printer_of agentId tenantId) (printers db),
                   fl_agents := delete_where (agent_in agentId tenantId) (agents db)\<rparr>)" for agentId tenantId
    using fleet_write.agent_gone [of agentId tenantId "fleet_of db"]
    by (intro writes_one [where l = "Deleted agentId tenantId"]) (auto simp: fleet_of_def)
  have manager: "claims = Some m" if "requireManager claims p = Inr m" for p m
    using that by (auto simp: requireManager_def split: option.splits if_splits)
  show ?thesis
    unfolding deleteAgent_def
    by (auto simp: Let_def dest!: manager intro: gone split: option.splits sum.splits)
qed

section \<open>The manager's printers\<close>

lemma enum_member: "enum_field words v = Some (Some s) \<Longrightarrow> s \<in> set words"
  by (auto simp: enum_field_def string_field_def split: option.splits json.splits if_splits)

lemma parsed_vocabulary:
  assumes "parsePrinterInput num zod_message v = Inr data"
  shows "ci_id data \<noteq> Some [] \<and> printer_checks (new_printer now t i data)"
proof -
  have p: "printerInputSchema v = Some data"
    using assms by (auto simp: parsePrinterInput_def split: option.splits)
  then obtain es where v: "v = JObj es"
    by (auto simp: printerInputSchema_def split: json.splits)
  have "ci_id data \<noteq> Some []"
    using p unfolding printerInputSchema_def v
    by (auto simp: string_field_def printer_id_ok_def split: option.splits json.splits if_splits)
  moreover have "List.member PRINTER_TYPES (ci_type data) \<and> List.member DEVICE_CLASSES (ci_class data)
      \<and> List.member CONNECTION_TYPES (ci_connection data) \<and> List.member PRINTER_PROTOCOLS (ci_protocol data)"
    using p unfolding printerInputSchema_def v
    by (auto dest!: enum_member split: option.splits if_splits
        simp: PRINTER_TYPES_def DEVICE_CLASSES_def CONNECTION_TYPES_def)
  ultimately show ?thesis
    by (auto simp: printer_checks_def new_printer_def PRINTER_TYPES_def DEVICE_CLASSES_def CONNECTION_TYPES_def PRINTER_PROTOCOLS_def)
qed

lemma printers_POST_writes:
  "writes (on_printers (still_true seen db)) (fleet_of db)
     (fleet_of (fst (printers_POST num zod_message db_message now nano claims body seen db)))"
proof -
  have new: "writes (on_printers (still_true seen db)) (fleet_of db) (fleet_of db\<lparr>fl_printers := printers db @ [new_printer now t i data]\<rparr>)"
    if "parsePrinterInput num zod_message v = Inr data" "find_first (agent_in (ci_agent data) t) (agents seen) = Some a"
      "ag_lifecycle a = Active" "row_by pr_id i (printers db) = None" "i \<noteq> []" "agent_exists t (ci_agent data) db" for v t i data a
    by (rule printer_row_writes)
      (use that parsed_vocabulary [OF that(1), of now t i] find_first_Some_iff [OF that(2)]
       in \<open>auto simp: new_printer_def intro: still_active [where a = a]\<close>)
  show ?thesis
    unfolding printers_POST_def
    by (auto simp: Let_def intro!: new dest: parsed_vocabulary split: option.splits sum.splits)
qed

lemma or_else_holds: "(\<And>s. x = Some s \<Longrightarrow> P s) \<Longrightarrow> P d \<Longrightarrow> P (or_else x d)"
  by (simp add: or_else_def split: option.splits)

lemma printer_checks_words:
  "printer_checks p \<longleftrightarrow> List.member PRINTER_TYPES (pr_type p) \<and> List.member DEVICE_CLASSES (pr_class p)
     \<and> List.member CONNECTION_TYPES (pr_connection p) \<and> List.member VALID_PROTOCOLS (pr_protocol p)
     \<and> List.member PRINTER_STATUSES (pr_status p)"
  by (simp add: printer_checks_def PRINTER_TYPES_def DEVICE_CLASSES_def CONNECTION_TYPES_def VALID_PROTOCOLS_def PRINTER_STATUSES_def)

lemma printer_protocol_valid: "s \<in> set PRINTER_PROTOCOLS \<Longrightarrow> s \<in> set VALID_PROTOCOLS"
  unfolding PRINTER_PROTOCOLS_def VALID_PROTOCOLS_def by auto

lemma patch_vocabulary:
  assumes "patchSchema v = Some u" and p: "printer_checks p"
  shows "printer_checks (apply_patch now u p)"
proof -
  obtain es where v: "v = JObj es"
    using assms(1) by (auto simp: patchSchema_def split: json.splits)
  have u: "pp_type u = Some s \<Longrightarrow> s \<in> set PRINTER_TYPES" "pp_class u = Some s \<Longrightarrow> s \<in> set DEVICE_CLASSES"
      "pp_connection u = Some s \<Longrightarrow> s \<in> set CONNECTION_TYPES" "pp_protocol u = Some s \<Longrightarrow> s \<in> set VALID_PROTOCOLS"
      "pp_status u = Some s \<Longrightarrow> s \<in> set PRINTER_STATUSES" for s
    using assms(1) unfolding patchSchema_def v
    by (auto dest: enum_member printer_protocol_valid [OF enum_member] split: option.splits if_splits)
  have "pr_type (apply_patch now u p) \<in> set PRINTER_TYPES" "pr_class (apply_patch now u p) \<in> set DEVICE_CLASSES"
    "pr_connection (apply_patch now u p) \<in> set CONNECTION_TYPES" "pr_protocol (apply_patch now u p) \<in> set VALID_PROTOCOLS"
    "pr_status (apply_patch now u p) \<in> set PRINTER_STATUSES"
    unfolding apply_patch_def using p u
    by (auto simp: printer_checks_words List.member_iff intro: or_else_holds [where P = "\<lambda>x. x \<in> set W" for W])
  then show ?thesis by (simp add: printer_checks_words List.member_iff)
qed

text \<open>An update of the printer of an id, which activates it only under an agent read as active.\<close>

lemma set_printer_writes:
  assumes row: "find_first (printer_in i tenantId) (printers seen) = Some p0"
    and same: "\<And>p. pr_id (u p) = pr_id p \<and> pr_tenant (u p) = pr_tenant p \<and> pr_agent (u p) = pr_agent p
       \<and> (printer_checks p \<longrightarrow> printer_checks (u p))"
    and active: "\<And>p. pr_lifecycle (u p) = Active \<Longrightarrow> pr_lifecycle p = Active \<or>
       (\<exists>a. find_first (agent_in (pr_agent p0) tenantId) (agents seen_owner) = Some a \<and> ag_lifecycle a = Active)"
  shows "writes (on_printers (still_true seen db \<and> still_true seen_owner db)) (fleet_of db)
     (fleet_of db\<lparr>fl_printers := update_where (printer_in i tenantId) u (printers db)\<rparr>)"
proof -
  let ?sure = "still_true seen db \<and> still_true seen_owner db"
  have p0: "p0 \<in> set (printers seen)" "pr_id p0 = i" "pr_tenant p0 = tenantId"
    using find_first_Some_iff [OF row] by (auto simp: printer_in_def)
  have "printer_change ?sure (agents db) p (u p)" if p: "p \<in> set (printers db)" "printer_in i tenantId p" for p
  proof -
    have "owned_by_active (agents db) p"
      if sure: ?sure and a: "find_first (agent_in (pr_agent p0) tenantId) (agents seen_owner) = Some a" "ag_lifecycle a = Active" for a
    proof (rule still_active [where seen = seen_owner and a = a])
      have "pr_agent p = pr_agent p0" using still_owned [of seen db p0 p] sure p p0 by simp
      then show "agent_in (pr_agent p) (pr_tenant p) a"
        using find_first_Some_iff [OF a(1)] p(2) by (simp add: printer_in_def)
    qed (use sure a find_first_Some_iff [OF a(1)] in simp_all)
    then show ?thesis using same [of p] active [of p] unfolding printer_change_def by blast
  qed
  then show ?thesis
    using fleet_write.printer_set [of "fleet_of db" "printer_in i tenantId" ?sure u] by (auto intro: writes_one)
qed

lemma printer_PATCH_writes:
  "writes (on_printers (still_true seen db \<and> still_true seen_owner db)) (fleet_of db)
     (fleet_of (fst (printer_PATCH num zod_message now claims i body seen seen_owner db)))"
proof -
  have set_row: "writes (on_printers (still_true seen db \<and> still_true seen_owner db)) (fleet_of db)
      (fleet_of db\<lparr>fl_printers := update_where (printer_in i t) (apply_patch now u) (printers db)\<rparr>)"
    if "find_first (printer_in i t) (printers seen) = Some p" "patchSchema v = Some u"
      "pp_lifecycle u = Some Active \<longrightarrow> (\<exists>a. find_first (agent_in (pr_agent p) t) (agents seen_owner) = Some a \<and> ag_lifecycle a = Active)"
    for t p v u
    by (rule set_printer_writes [OF that(1)])
      (use that(3) patch_vocabulary [OF that(2)] in \<open>auto simp: apply_patch_def or_else_def split: option.splits\<close>)
  show ?thesis
    unfolding printer_PATCH_def
    by (auto simp: Let_def intro!: set_row split: option.splits sum.splits)
qed

lemma setPrinterLifecycle_writes:
  "writes (on_printers (still_true seen db \<and> still_true seen_owner db)) (fleet_of db)
     (fleet_of (fst (setPrinterLifecycle now claims i l seen seen_owner db)))"
proof -
  have set_row: "writes (on_printers (still_true seen db \<and> still_true seen_owner db)) (fleet_of db)
      (fleet_of db\<lparr>fl_printers := update_where (printer_in i t) (\<lambda>p. p\<lparr>pr_lifecycle := l, pr_updated := now\<rparr>) (printers db)\<rparr>)"
    if "find_first (printer_in i t) (printers seen) = Some p"
      "l = Active \<longrightarrow> (\<exists>a. find_first (agent_in (pr_agent p) t) (agents seen_owner) = Some a \<and> ag_lifecycle a = Active)" for t p
    by (rule set_printer_writes [OF that(1)]) (use that(2) in \<open>auto simp: printer_checks_def\<close>)
  show ?thesis
    unfolding setPrinterLifecycle_def
    by (auto simp: Let_def intro!: set_row split: option.splits sum.splits)
qed

section \<open>Discovery and provisioning\<close>

lemma discovery_candidate_writes:
  "writes plain (fleet_of db) (fleet_of (discovery_candidate isIP zod_message c nano agent len body n seen db))"
proof -
  have "writes plain (fleet_of db) (fleet_of db')" if "insert_candidate now a discoveryId nano d db = Some db'" for now a discoveryId d db'
    using fleet_write.device_new [of "candidate_row now a discoveryId nano d" "fleet_of db"] that
    by (auto simp: insert_candidate_def candidate_row_def Let_def intro: writes_one split: if_splits)
  then show ?thesis
    unfolding discovery_candidate_def by (auto split: sum.splits prod.splits option.splits)
qed

lemma verify_writes:
  "writes plain (fleet_of db) (fleet_of (fst (verify_POST now claims agentId deviceId seen seen_device db)))"
proof -
  have approve: "writes plain (fleet_of db) (fleet_of db\<lparr>fl_devices := update_where
        (\<lambda>r. device_in deviceId agentId t r \<and> dd_candidate_status r = ''discovered'')
        (\<lambda>r. r\<lparr>dd_verification := ''verified'', dd_candidate_status := ''verified'', dd_updated := now\<rparr>) (discovered_devices db)\<rparr>)" for t
    using fleet_write.device_approved [of "\<lambda>r. device_in deviceId agentId t r \<and> dd_candidate_status r = ''discovered''"
        "\<lambda>r. r\<lparr>dd_verification := ''verified'', dd_candidate_status := ''verified'', dd_updated := now\<rparr>" "fleet_of db"]
    by (auto intro: writes_one)
  show ?thesis
    unfolding verify_POST_def by (auto simp: Let_def intro!: approve split: option.splits sum.splits)
qed

lemma provision_tx_writes:
  assumes a: "a \<in> set (agents seen)" "ag_lifecycle a = Active" "agent_in agentId tenantId a"
  shows "writes (on_printers (still_true seen db)) (fleet_of db) (fleet_of (fst (provision_tx now nano tenantId agentId deviceId db)))"
proof -
  let ?ok = "on_printers (still_true seen db)"
  have mark: "writes ?ok (fleet_of db') (fleet_of (mark_provisioned now deviceId tenantId (pr_id p) db'))"
    if "find_first (device_in deviceId agentId tenantId) (discovered_devices db') = Some d" "p \<in> set (printers db')"
      "printer_of agentId tenantId p" for db' d p
    using fleet_write.device_provisioned [of d "fleet_of db'" deviceId agentId tenantId p "pr_id p" now] that
      find_first_Some_iff [OF that(1)]
    by (auto simp: mark_provisioned_def intro: writes_one)
  have created: "writes ?ok (fleet_of db)
      (fleet_of (mark_provisioned now deviceId tenantId i (db\<lparr>printers := printers db @ [provisioned_printer now tenantId agentId i via d]\<rparr>)))"
    if "find_first (device_in deviceId agentId tenantId) (discovered_devices db) = Some d" "row_by pr_id i (printers db) = None"
      "printer_checks (provisioned_printer now tenantId agentId i via d)" "i \<noteq> []" "agent_exists tenantId agentId db" for d i via
  proof (rule writes_trans)
    let ?p = "provisioned_printer now tenantId agentId i via d"
    have p: "pr_id ?p = i" "pr_tenant ?p = tenantId" "pr_agent ?p = agentId" by (simp_all add: provisioned_printer_def)
    show "writes ?ok (fleet_of db) (fleet_of (db\<lparr>printers := printers db @ [?p]\<rparr>))"
      unfolding fleet_of_db
      by (rule printer_row_writes) (use that a p in \<open>auto intro: still_active [where a = a]\<close>)
    show "writes ?ok (fleet_of (db\<lparr>printers := printers db @ [?p]\<rparr>))
        (fleet_of (mark_provisioned now deviceId tenantId i (db\<lparr>printers := printers db @ [?p]\<rparr>)))"
      using mark [of "db\<lparr>printers := printers db @ [?p]\<rparr>" d ?p] that(1) p by (simp add: printer_of_def)
  qed
  show ?thesis
    unfolding provision_tx_def
    by (auto simp: Let_def intro!: created mark dest: find_first_Some_iff split: option.splits)
qed

lemma active_agent_read:
  "active_agent m agentId seen = Inr a \<Longrightarrow> a \<in> set (agents seen) \<and> ag_lifecycle a = Active \<and> agent_in agentId (mc_tenant m) a"
  unfolding active_agent_def by (auto dest: find_first_Some_iff split: option.splits if_splits)

lemma provision_POST_writes:
  "writes (on_printers (still_true seen db)) (fleet_of db) (fleet_of (fst (provision_POST now nano claims agentId deviceId seen db)))"
  unfolding provision_POST_def
  by (auto simp: split_beta intro!: provision_tx_writes dest: active_agent_read split: sum.splits)

lemma discovery_sessions_kept [simp]:
  "fleet_of (fst (discovery_cancel_POST now claims agentId discoveryId seen db)) = fleet_of db"
  "fleet_of (fst (discovery_start_POST zod_message c nano claims agentId body seen seen_session db)) = fleet_of db"
  "fleet_of (discovery_close isIP zod_message c agent len body seen db) = fleet_of db"
  unfolding discovery_cancel_POST_def discovery_start_POST_def discovery_close_def close_session_def
  by (auto simp: Let_def split: option.splits sum.splits prod.splits)

end
