(* ===== verification/Fleet_Runs.thy ===== *)
theory Fleet_Runs
  imports Fleet
begin

text \<open>
  Runs of the handlers that write agents, printers and discovered devices. A step is one transaction or
  one unlocked statement with what the handler goes on to write; whatever it decides on it has read in
  states of its own, given with it, which need not be the state it writes to nor any state of the run. So
  every interleaving of the handlers' statements is a run. The properties of the fleet.
\<close>

section \<open>Operations\<close>

text \<open>
  The last arguments are the states read. A heartbeat and a discovery report are not one step but one
  per statement: the agent's row and each reported printer, each candidate and the end of the session.
\<close>

datatype fleet_op =
    HeartbeatRow "rat \<Rightarrow> string" clocks "string option" "js_number option" "json option" gateway_db
  | HeartbeatPrinter "rat \<Rightarrow> string" clocks "string option" "js_number option" "json option" nat gateway_db "gateway_db \<times> gateway_db"
  | Register register_env register_run "js_number option" "json option" gateway_db
  | Transition "string list" time string Lifecycle string gateway_db
  | AgentPatch "string list" time "ManagerClaims option" string "json option" gateway_db
  | AgentLifecycle "string list" time "ManagerClaims option" string Lifecycle gateway_db
  | AgentCreate "string list" clocks string "ManagerClaims option" "string option" gateway_db
  | AgentPost "string list" "time \<Rightarrow> string" clocks string "ManagerClaims option" "json option" gateway_db
  | AgentDelete "ManagerClaims option" "string option" bool
  | PrinterPost "rat \<Rightarrow> string" "json \<Rightarrow> string" string time string "ManagerClaims option" "json option" gateway_db
  | PrinterPatch "rat \<Rightarrow> string" "json \<Rightarrow> string" time "ManagerClaims option" string "json option" gateway_db gateway_db
  | PrinterLifecycle time "ManagerClaims option" string Lifecycle gateway_db gateway_db
  | DiscoveryCandidate "string \<Rightarrow> nat" "json \<Rightarrow> string" clocks string "string option" "js_number option" "json option" nat
      gateway_db gateway_db
  | DiscoveryClose "string \<Rightarrow> nat" "json \<Rightarrow> string" clocks "string option" "js_number option" "json option" gateway_db gateway_db
  | DiscoveryStart "json \<Rightarrow> string" clocks string "ManagerClaims option" string "json option" gateway_db gateway_db
  | DiscoveryCancel time "ManagerClaims option" string string gateway_db
  | Verify time "ManagerClaims option" string string gateway_db gateway_db
  | Provision time string "ManagerClaims option" string string gateway_db

fun fleet_exec :: "(string \<Rightarrow> string) \<Rightarrow> fleet_op \<Rightarrow> gateway_db \<Rightarrow> gateway_db" where
  "fleet_exec sha (HeartbeatRow num c header len body seen) db =
     heartbeat_row num c (validateAgent sha header seen) len body db"
| "fleet_exec sha (HeartbeatPrinter num c header len body n seen r) db =
     heartbeat_printer num c (validateAgent sha header seen) len body n r db"
| "fleet_exec sha (Register env run len body seen) db = fst (register_POST env run len body seen db)"
| "fleet_exec sha (Transition cands now i l t seen) db = fst (transitionAgentLifecycle sha cands now i l t seen db)"
| "fleet_exec sha (AgentPatch cands now m i body seen) db = fst (agent_PATCH sha cands now m i body seen db)"
| "fleet_exec sha (AgentLifecycle cands now m i l seen) db = fst (setAgentLifecycle sha cands now m i l seen db)"
| "fleet_exec sha (AgentCreate cands c nano m name seen) db = fst (createAgent sha cands c nano m name seen db)"
| "fleet_exec sha (AgentPost cands iso_text c nano m body seen) db = fst (agents_POST sha cands iso_text c nano m body seen db)"
| "fleet_exec sha (AgentDelete m i online) db = fst (deleteAgent m i online db)"
| "fleet_exec sha (PrinterPost num zod msg now nano m body seen) db = fst (printers_POST num zod msg now nano m body seen db)"
| "fleet_exec sha (PrinterPatch num zod now m i body seen owner) db = fst (printer_PATCH num zod now m i body seen owner db)"
| "fleet_exec sha (PrinterLifecycle now m i l seen owner) db = fst (setPrinterLifecycle now m i l seen owner db)"
| "fleet_exec sha (DiscoveryCandidate isIP zod c nano header len body n seen session) db =
     discovery_candidate isIP zod c nano (validateAgent sha header seen) len body n session db"
| "fleet_exec sha (DiscoveryClose isIP zod c header len body seen session) db =
     discovery_close isIP zod c (validateAgent sha header seen) len body session db"
| "fleet_exec sha (DiscoveryStart zod c nano m i body seen session) db = fst (discovery_start_POST zod c nano m i body seen session db)"
| "fleet_exec sha (DiscoveryCancel now m i d seen) db = fst (discovery_cancel_POST now m i d seen db)"
| "fleet_exec sha (Verify now m i d seen device) db = fst (verify_POST now m i d seen device db)"
| "fleet_exec sha (Provision now nano m i d seen) db = fst (provision_POST now nano m i d seen db)"

text \<open>The agent an operation pairs, the agent it may delete.\<close>

fun pairs :: "fleet_op \<Rightarrow> gateway_db \<Rightarrow> string option" where
  "pairs (Register env run len body seen) db = paired_agent (snd (register_POST env run len body seen db))"
| "pairs _ db = None"

fun deletes :: "fleet_op \<Rightarrow> (string \<times> string) option" where
  "deletes (AgentDelete (Some m) i online) = Some (js_trim (or_empty i), mc_tenant m)"
| "deletes _ = None"

text \<open>What an operation that may make a printer active has read of agents and owners still holds when it writes.\<close>

fun reads_hold :: "fleet_op \<Rightarrow> gateway_db \<Rightarrow> bool" where
  "reads_hold (HeartbeatPrinter num c header len body n seen r) db = still_true seen db"
| "reads_hold (PrinterPost num zod msg now nano m body seen) db = still_true seen db"
| "reads_hold (PrinterPatch num zod now m i body seen owner) db = (still_true seen db \<and> still_true owner db)"
| "reads_hold (PrinterLifecycle now m i l seen owner) db = (still_true seen db \<and> still_true owner db)"
| "reads_hold (Provision now nano m i d seen) db = still_true seen db"
| "reads_hold _ db = True"

definition op_label :: "fleet_op \<Rightarrow> gateway_db \<Rightarrow> fleet_label \<Rightarrow> bool" where
  "op_label op db l \<longleftrightarrow>
     (case l of Plain \<Rightarrow> True | Activates sure \<Rightarrow> (reads_hold op db \<longrightarrow> sure)
      | Paired i \<Rightarrow> pairs op db = Some i | Deleted i t \<Rightarrow> deletes op = Some (i, t))"

definition fleet_run :: "(string \<Rightarrow> string) \<Rightarrow> fleet_op list \<Rightarrow> gateway_db \<Rightarrow> gateway_db" where
  "fleet_run sha ops db = fold (fleet_exec sha) ops db"

fun never_paired :: "(string \<Rightarrow> string) \<Rightarrow> string \<Rightarrow> fleet_op list \<Rightarrow> gateway_db \<Rightarrow> bool" where
  "never_paired sha i [] db = True"
| "never_paired sha i (op # ops) db = (pairs op db \<noteq> Some i \<and> never_paired sha i ops (fleet_exec sha op db))"

fun reads_hold_along :: "(string \<Rightarrow> string) \<Rightarrow> fleet_op list \<Rightarrow> gateway_db \<Rightarrow> bool" where
  "reads_hold_along sha [] db = True"
| "reads_hold_along sha (op # ops) db = (reads_hold op db \<and> reads_hold_along sha ops (fleet_exec sha op db))"

lemma fleet_run_simps [simp]:
  "fleet_run sha [] db = db"
  "fleet_run sha (op # ops) db = fleet_run sha ops (fleet_exec sha op db)"
  by (simp_all add: fleet_run_def)

lemma validated_row: "validateAgent sha header db = Some a \<Longrightarrow> a \<in> set (agents db) \<and> ag_secret a \<noteq> None"
  unfolding validateAgent_def agent_row_def
  by (auto dest!: row_by_Some elim!: truthy.elims split: option.splits prod.splits if_splits)

lemma plain_writes: "writes plain f f' \<Longrightarrow> writes (op_label op db) f f'"
  by (erule writes_mono) (simp add: op_label_def)

lemma printer_writes: "writes (on_printers (reads_hold op db)) f f' \<Longrightarrow> writes (op_label op db) f f'"
  by (erule writes_mono) (auto simp: op_label_def on_printers_def)

lemma exec_writes: "writes (op_label op db) (fleet_of db) (fleet_of (fleet_exec sha op db))"
proof (cases op)
  case (Register env run len body seen)
  show ?thesis
    unfolding Register fleet_exec.simps by (rule writes_mono [OF register_writes]) (auto simp: op_label_def)
next
  case (AgentDelete m i online)
  show ?thesis
    unfolding AgentDelete fleet_exec.simps by (rule writes_mono [OF deleteAgent_writes]) (auto simp: op_label_def)
next
  case (HeartbeatPrinter num c header len body n seen r)
  show ?thesis
    unfolding HeartbeatPrinter fleet_exec.simps
    by (rule printer_writes, unfold reads_hold.simps, rule heartbeat_printer_writes) (simp add: validated_row)
next
  case (PrinterPost num zod msg now nano m body seen)
  show ?thesis
    unfolding PrinterPost fleet_exec.simps by (rule printer_writes, unfold reads_hold.simps, rule printers_POST_writes)
next
  case (PrinterPatch num zod now m i body seen owner)
  show ?thesis
    unfolding PrinterPatch fleet_exec.simps by (rule printer_writes, unfold reads_hold.simps, rule printer_PATCH_writes)
next
  case (PrinterLifecycle now m i l seen owner)
  show ?thesis
    unfolding PrinterLifecycle fleet_exec.simps
    by (rule printer_writes, unfold reads_hold.simps, rule setPrinterLifecycle_writes)
next
  case (Provision now nano m i d seen)
  show ?thesis
    unfolding Provision fleet_exec.simps by (rule printer_writes, unfold reads_hold.simps, rule provision_POST_writes)
qed (simp_all add: plain_writes heartbeat_row_writes transition_writes agent_PATCH_writes setAgentLifecycle_writes
    createAgent_writes agents_POST_writes discovery_candidate_writes verify_writes)

lemma exec_ok: "fleet_ok (fleet_of db) \<Longrightarrow> fleet_ok (fleet_of (fleet_exec sha op db))"
  by (rule fleet_inv.writes_keep [OF exec_writes])

interpretation any_run: run_fact "fleet_exec sha" "\<lambda>_. True" "\<lambda>db. fleet_ok (fleet_of db)" for sha
  by unfold_locales (rule exec_ok)

lemma run_ok: "fleet_ok (fleet_of db) \<Longrightarrow> fleet_ok (fleet_of (fleet_run sha ops db))"
  unfolding fleet_run_def by (rule any_run.run_keeps) (simp_all add: list_all_iff)

lemma run_active:
  "active_ok (fleet_of db) \<Longrightarrow> reads_hold_along sha ops db \<Longrightarrow> active_ok (fleet_of (fleet_run sha ops db))"
proof (induction ops arbitrary: db)
  case (Cons op ops)
  have "writes (\<lambda>l. l \<noteq> Activates False) (fleet_of db) (fleet_of (fleet_exec sha op db))"
    by (rule writes_mono [OF exec_writes]) (use Cons.prems(2) in \<open>auto simp: op_label_def\<close>)
  then have "active_ok (fleet_of (fleet_exec sha op db))"
    by (rule activity.writes_keep) (rule Cons.prems(1))
  then show ?case using Cons.IH Cons.prems(2) by simp
qed simp

lemma run_revoked:
  "revoked i t (fleet_of db) \<Longrightarrow> never_paired sha i ops db \<Longrightarrow> revoked i t (fleet_of (fleet_run sha ops db))"
proof (induction ops arbitrary: db)
  case (Cons op ops)
  have "writes (\<lambda>l. l \<noteq> Paired i) (fleet_of db) (fleet_of (fleet_exec sha op db))"
    by (rule writes_mono [OF exec_writes]) (use Cons.prems(2) in \<open>auto simp: op_label_def\<close>)
  then have "revoked i t (fleet_of (fleet_exec sha op db))"
    by (rule revocation.writes_keep) (rule Cons.prems(1))
  then show ?case using Cons.IH Cons.prems(2) by simp
qed simp

lemma exec_provisioned:
  assumes "deletes op \<noteq> Some (i, t)" and "provisioned_as d i t p (fleet_of db)"
  shows "provisioned_as d i t p (fleet_of (fleet_exec sha op db))"
proof (rule provisioning.writes_keep)
  show "writes (\<lambda>l. l \<noteq> Deleted i t) (fleet_of db) (fleet_of (fleet_exec sha op db))"
    by (rule writes_mono [OF exec_writes]) (use assms(1) in \<open>auto simp: op_label_def\<close>)
qed (rule assms(2))

interpretation kept_run: run_fact "fleet_exec sha" "\<lambda>op. deletes op \<noteq> Some (i, t)"
    "\<lambda>db. fleet_ok (fleet_of db) \<and> provisioned_as d i t p (fleet_of db)" for sha d i t p
  by unfold_locales (auto intro: exec_ok exec_provisioned)

lemma run_provisioned:
  "fleet_ok (fleet_of db) \<Longrightarrow> provisioned_as d i t p (fleet_of db) \<Longrightarrow> list_all (\<lambda>op. deletes op \<noteq> Some (i, t)) ops
     \<Longrightarrow> provisioned_as d i t p (fleet_of (fleet_run sha ops db))"
  unfolding fleet_run_def using kept_run.run_keeps by blast

section \<open>Registrations\<close>

lemma not_paired: "st \<noteq> 200 \<Longrightarrow> paired_agent (error_reply st e) = None"
    "st \<noteq> 200 \<Longrightarrow> paired_agent (error_reply st e\<lparr>http_headers := hs\<rparr>) = None"
  by (simp_all add: paired_agent_def error_reply_def reply_def)

lemma register_cases:
  "paired_agent (snd (register_POST env run len body seen db)) = None \<or>
   (\<exists>v rg a. body = Some v \<and> registrationSchema v = Some rg \<and>
      register_POST env run len body seen db
        = register_commit env run rg (hashPairingCode (re_sha env) (js_upper (js_trim (rg_code rg)))) a db)"
  unfolding register_POST_def
  by (auto simp: not_paired Let_def split: option.splits RateLimitDecision.splits)

lemma commit_paired:
  "paired_agent (snd (register_commit env run rg h a db)) = Some agentId \<longleftrightarrow>
     ag_id a = agentId \<and> select_where (consume_where agentId h (rr_update run)) (agents db) \<noteq> []"
  by (auto simp: register_commit_def Let_def paired_agent_def error_reply_def reply_def jprop_def)

lemma paired_commit:
  assumes "paired_agent (snd (register_POST env run len body seen db)) = Some agentId"
  obtains v rg a where "body = Some v" and "registrationSchema v = Some rg" and "ag_id a = agentId"
    and "register_POST env run len body seen db
      = register_commit env run rg (hashPairingCode (re_sha env) (js_upper (js_trim (rg_code rg)))) a db"
    and "select_where (consume_where agentId (hashPairingCode (re_sha env) (js_upper (js_trim (rg_code rg)))) (rr_update run))
           (agents db) \<noteq> []"
  using register_cases [of env run len body seen db] assms by (auto simp: commit_paired)

lemma bearer_of:
  assumes "agentId \<noteq> []" and "CHR '':'' \<notin> set agentId" and "secret \<noteq> []"
  shows "bearer_parts (Some (''Bearer '' @ agentId @ '':'' @ secret)) = Some (agentId, secret)"
proof -
  have "takeWhile (\<lambda>c. c \<noteq> CHR '':'') (agentId @ '':'' @ secret) = agentId"
    using assms(2) by (subst takeWhile_append2) auto
  moreover have "dropWhile (\<lambda>c. c \<noteq> CHR '':'') (agentId @ '':'' @ secret) = '':'' @ secret"
    using assms(2) by (subst dropWhile_append2) auto
  ultimately show ?thesis
    using assms by (simp add: bearer_parts_def starts_with_def Let_def)
qed

text \<open>The row of an agent whose code has just been consumed.\<close>

lemma consumed_row:
  assumes u: "unique_by ag_id (agents db)"
    and hit: "select_where (consume_where agentId h now) (agents db) \<noteq> []"
  obtains old where "row_by ag_id agentId (agents db) = Some old" and "pairable h now old"
    and "update_where (consume_where agentId h now) (consume_set s meta now) (agents db)
           = update_where (\<lambda>a. ag_id a = agentId) (\<lambda>_. consume_set s meta now old) (agents db)"
    and "row_by ag_id agentId (update_where (\<lambda>a. ag_id a = agentId) (\<lambda>_. consume_set s meta now old) (agents db))
           = Some (consume_set s meta now old)"
proof -
  obtain old where old: "old \<in> set (agents db)" "ag_id old = agentId" "pairable h now old"
    using hit by (auto simp: select_where_def consume_where_def filter_empty_conv)
  have row: "row_by ag_id agentId (agents db) = Some old"
    using row_by_mem [OF u old(1)] old(2) by simp
  have same: "a = old" if "a \<in> set (agents db)" "ag_id a = agentId" for a
    using unique_by_same [OF u that(1) old(1)] that(2) old(2) by simp
  have "update_where (consume_where agentId h now) (consume_set s meta now) (agents db)
      = update_where (\<lambda>a. ag_id a = agentId) (\<lambda>_. consume_set s meta now old) (agents db)"
    unfolding update_where_def by (rule map_cong) (use same old(3) in \<open>auto simp: consume_where_def\<close>)
  moreover have "row_by ag_id agentId (update_where (\<lambda>a. ag_id a = agentId) (\<lambda>_. consume_set s meta now old) (agents db))
      = Some (consume_set s meta now old)"
    using row old(2) unfolding row_by_def find_first_def
    by (induction "agents db") (auto simp: consume_set_def update_where_def find_Some_iff split: if_splits)
  ultimately show ?thesis using that row old(3) by blast
qed

lemma lifecycle_revokes: "revoked agentId tenantId (fleet_of (write_lifecycle agentId nxt tenantId h e now db))"
  unfolding revoked_def list_all_iff
proof (intro ballI impI)
  fix b assume b: "b \<in> set (fl_agents (fleet_of (write_lifecycle agentId nxt tenantId h e now db)))" "agent_in agentId tenantId b"
  obtain a where "b = (if agent_in agentId tenantId a then a\<lparr>ag_lifecycle := nxt, ag_secret := None, ag_pairing_hash := h,
                 ag_pairing_expires := e, ag_status := Offline, ag_updated := now\<rparr> else a)"
    using b(1) by (auto simp: write_lifecycle_def set_update_where)
  then show "ag_secret b = None"
    using b(2) by (cases "agent_in agentId tenantId a") simp_all
qed

section \<open>Properties\<close>

definition demo_agent :: agent where
  "demo_agent = \<lparr>ag_id = ''agt_1'', ag_tenant = ''t'', ag_name = ''A'', ag_pairing_hash = Some ''#ABCDEF'',
     ag_pairing_expires = Some 1000, ag_secret = Some ''#old'', ag_status = Online, ag_lifecycle = Active,
     ag_metadata = None, ag_last_seen = None, ag_created = 0, ag_updated = 0\<rparr>"

definition demo_printer :: printer where
  "demo_printer = \<lparr>pr_id = ''p1'', pr_tenant = ''t'', pr_agent = ''agt_1'', pr_name = ''P'', pr_type = ''physical'',
     pr_class = ''thermal'', pr_connection = ''usb'', pr_protocol = ''escpos'', pr_status = ''online'', pr_lifecycle = Active,
     pr_config = None, pr_capabilities = None, pr_last_seen = None, pr_created = 0, pr_updated = 0\<rparr>"

definition demo_device :: discovered_device where
  "demo_device = \<lparr>dd_id = ''d1'', dd_tenant = ''t'', dd_discovery = ''dsc_1'', dd_agent = ''agt_1'', dd_source = [],
     dd_protocol = ''RAW'', dd_ip = Some ''10.0.0.9'', dd_hostname = None, dd_port = Some 9100, dd_name = Some ''Till'',
     dd_manufacturer = None, dd_model = None, dd_serial = None, dd_uri = None, dd_confidence = ''low'',
     dd_verification = ''verified'', dd_class = ''unknown'', dd_capabilities = None, dd_raw_metadata = None,
     dd_provisioned = None, dd_candidate_status = ''verified'', dd_updated = 0\<rparr>"

definition demo_db :: gateway_db where
  "demo_db = empty_db\<lparr>agents := [demo_agent], printers := [demo_printer], discovered_devices := [demo_device]\<rparr>"

definition demo_sha :: "string \<Rightarrow> string" where "demo_sha s = CHR ''#'' # s"

definition demo_manager :: ManagerClaims where
  "demo_manager = \<lparr>mc_jti = ''j'', mc_iat = 0, mc_exp = 100, mc_tenant = ''t'', mc_user = Some ''u'', mc_role = Admin\<rparr>"


definition demo_printer_body :: json where
  "demo_printer_body = JObj [(''agentId'', JStr ''agt_1''), (''name'', JStr ''Bar''), (''printerType'', JStr ''physical''),
     (''deviceClass'', JStr ''thermal''), (''connectionType'', JStr ''network''), (''protocol'', JStr ''escpos''),
     (''config'', JObj [(''ip'', JStr ''10.0.0.8''), (''port'', jint 9100)])]"

definition demo_new_printer :: "gateway_db \<Rightarrow> fleet_op" where
  "demo_new_printer seen =
     PrinterPost (\<lambda>_. ''0'') (\<lambda>_. ''invalid'') ''duplicate key'' 6 ''n1'' (Some demo_manager) (Some demo_printer_body) seen"

definition demo_disable :: fleet_op where
  "demo_disable = Transition [] 5 ''agt_1'' Disabled ''t'' demo_db"

text \<open>Registered before the agent is disabled; and the same two handlers with the insert coming last.\<close>

definition demo_in_turn :: "fleet_op list" where
  "demo_in_turn = [demo_new_printer demo_db, demo_disable,
     PrinterLifecycle 7 (Some demo_manager) ''p1'' Active (fleet_run demo_sha [demo_disable] demo_db)
       (fleet_run demo_sha [demo_disable] demo_db)]"

definition demo_race :: "fleet_op list" where
  "demo_race = [demo_disable, demo_new_printer demo_db]"


text \<open>C31. After a lifecycle transition that changed an agent, no header authenticates it, whatever steps the handlers run
  and whatever states they and the transition had read, until a registration answers with that agent's id.\<close>

theorem revoked_until_paired:
  assumes "transitionAgentLifecycle sha candidates now agentId nxt tenantId seen db = (db', Inr (Some r))" and "al_changed r"
    and "never_paired sha agentId ops db'"
  shows "case validateAgent sha header (fleet_run sha ops db') of None \<Rightarrow> True | Some a \<Rightarrow> \<not> agent_in agentId tenantId a"
proof -
  obtain h e where db': "db' = write_lifecycle agentId nxt tenantId h e now db"
    using assms(1,2) unfolding transitionAgentLifecycle_def
    by (auto simp: Let_def split: option.splits if_splits)
  have "revoked agentId tenantId (fleet_of db')"
    unfolding db' by (rule lifecycle_revokes)
  then have "revoked agentId tenantId (fleet_of (fleet_run sha ops db'))"
    using assms(3) by (rule run_revoked)
  then show ?thesis
    by (auto simp: revoked_def list_all_iff dest: validated_row split: option.split)
qed

definition demo_disabled :: "gateway_db \<times> (lifecycle_error + AgentLifecycleResult option)" where
  "demo_disabled = transitionAgentLifecycle demo_sha [] 5 ''agt_1'' Disabled ''t'' demo_db demo_db"

definition demo_ops :: "fleet_op list" where
  "demo_ops =
     [AgentPatch [''GHJKMN''] 7 (Some demo_manager) ''agt_1'' (Some (JObj [(''lifecycle'', JStr ''active'')])) (fst demo_disabled),
      HeartbeatRow (\<lambda>_. ''0'') \<lparr>db_now = 8, app_now = 8\<rparr> (Some ''Bearer agt_1:old'') None (Some (JObj [])) demo_db]"

lemma revoked_until_paired_witness:
  "validateAgent demo_sha (Some ''Bearer agt_1:old'') demo_db \<noteq> None
   \<and> (case validateAgent demo_sha (Some ''Bearer agt_1:old'') (fleet_run demo_sha demo_ops (fst demo_disabled)) of
        None \<Rightarrow> True | Some a \<Rightarrow> \<not> agent_in ''agt_1'' ''t'' a)"
proof
  show "validateAgent demo_sha (Some ''Bearer agt_1:old'') demo_db \<noteq> None" by code_simp
  have "snd demo_disabled = Inr (Some \<lparr>al_changed = True, al_lifecycle = Disabled, al_pairing_code = None\<rparr>)"
    by code_simp
  then have step: "transitionAgentLifecycle demo_sha [] 5 ''agt_1'' Disabled ''t'' demo_db demo_db
      = (fst demo_disabled, Inr (Some \<lparr>al_changed = True, al_lifecycle = Disabled, al_pairing_code = None\<rparr>))"
    by (simp add: demo_disabled_def prod_eq_iff)
  have never: "never_paired demo_sha ''agt_1'' demo_ops (fst demo_disabled)" by (simp add: demo_ops_def)
  show "case validateAgent demo_sha (Some ''Bearer agt_1:old'') (fleet_run demo_sha demo_ops (fst demo_disabled)) of
        None \<Rightarrow> True | Some a \<Rightarrow> \<not> agent_in ''agt_1'' ''t'' a"
    by (rule revoked_until_paired [OF step _ never]) simp
qed

text \<open>C32. A registration that succeeds opens the agent its code was minted for and no other row changes; the returned
  secret authenticates the agent; and no further registration, on whatever state it looked the code up, pairs the agent
  again from the resulting state.\<close>

theorem pairing_once:
  assumes unique: "unique_by ag_id (agents db)"
    and reg: "register_POST env run len body seen db = (db', rep)" and ok: "paired_agent rep = Some agentId"
    and i: "agentId \<noteq> []" "CHR '':'' \<notin> set agentId"
    and random: "rr_random run \<noteq> []" "\<forall>b \<in> set (rr_random run). b < 256" and sha: "\<forall>s. re_sha env s \<noteq> []"
  shows "\<exists>v rg old row secret.
      body = Some v \<and> registrationSchema v = Some rg \<and> row_by ag_id agentId (agents db) = Some old
      \<and> pairable (hashPairingCode (re_sha env) (js_upper (js_trim (rg_code rg)))) (rr_update run) old
      \<and> agents db' = update_where (\<lambda>a. ag_id a = agentId) (\<lambda>_. row) (agents db)
      \<and> jget (http_body rep) ''secret'' = Some (JStr secret)
      \<and> validateAgent (re_sha env) (Some (''Bearer '' @ agentId @ '':'' @ secret)) db' = Some row
      \<and> (\<forall>env2 run2 len2 body2 seen2. paired_agent (snd (register_POST env2 run2 len2 body2 seen2 db')) \<noteq> Some agentId)"
proof -
  have rep: "rep = snd (register_POST env run len body seen db)" "db' = fst (register_POST env run len body seen db)"
    using reg by simp_all
  obtain v rg a where v: "body = Some v" "registrationSchema v = Some rg" and a: "ag_id a = agentId"
    and run: "register_POST env run len body seen db
      = register_commit env run rg (hashPairingCode (re_sha env) (js_upper (js_trim (rg_code rg)))) a db"
    and hit: "select_where (consume_where agentId (hashPairingCode (re_sha env) (js_upper (js_trim (rg_code rg)))) (rr_update run))
      (agents db) \<noteq> []"
    using ok unfolding rep by (rule paired_commit)
  let ?h = "hashPairingCode (re_sha env) (js_upper (js_trim (rg_code rg)))"
  let ?row = "consume_set (hashSecret (re_sha env) (generateSecret (rr_random run))) (merged_metadata a rg) (rr_update run)"
  let ?secret = "generateSecret (rr_random run)"
  obtain old where old: "row_by ag_id agentId (agents db) = Some old" "pairable ?h (rr_update run) old"
    and one: "update_where (consume_where agentId ?h (rr_update run)) ?row (agents db)
        = update_where (\<lambda>a. ag_id a = agentId) (\<lambda>_. ?row old) (agents db)"
    and row: "row_by ag_id agentId (update_where (\<lambda>a. ag_id a = agentId) (\<lambda>_. ?row old) (agents db)) = Some (?row old)"
    by (rule consumed_row [OF unique hit])
  have agents: "agents db' = update_where (\<lambda>a. ag_id a = agentId) (\<lambda>_. ?row old) (agents db)"
    using hit one a unfolding rep(2) run by (auto simp: register_commit_def Let_def)
  have secret: "jget (http_body rep) ''secret'' = Some (JStr ?secret)"
    using hit a unfolding rep(1) run by (auto simp: register_commit_def Let_def reply_def jprop_def)
  have "?secret \<noteq> []"
    using b64url_length(1) [OF random(2)] random(1) by (auto simp: generateSecret_def)
  then have "validateAgent (re_sha env) (Some (''Bearer '' @ agentId @ '':'' @ ?secret)) db' = Some (?row old)"
    using row sha old(2) unfolding validateAgent_def bearer_of [OF i \<open>?secret \<noteq> []\<close>]
    by (auto simp: agent_row_def agents consume_set_def hashSecret_def timingSafeStringEqual_def pairable_def)
  moreover have "paired_agent (snd (register_POST env2 run2 len2 body2 seen2 db')) \<noteq> Some agentId" for env2 run2 len2 body2 seen2
  proof
    assume "paired_agent (snd (register_POST env2 run2 len2 body2 seen2 db')) = Some agentId"
    then obtain h now where "select_where (consume_where agentId h now) (agents db') \<noteq> []"
      by (rule paired_commit) blast
    then show False
      unfolding agents by (auto simp: select_where_def filter_empty_conv set_update_where consume_where_def pairable_def
          consume_set_def split: if_splits)
  qed
  ultimately show ?thesis using v old agents secret by blast
qed

definition demo_env :: register_env where
  "demo_env = \<lparr>re_sha = demo_sha, re_num = (\<lambda>_. ''0''), re_zod_message = (\<lambda>_. ''invalid''), re_ip = ''10.0.0.1''\<rparr>"

definition demo_register :: register_run where
  "demo_register = \<lparr>rr_inspect = 1, rr_lookup = 2, rr_update = 3, rr_record = 4, rr_random = [1, 2, 3],
     rr_fail_inspect = False, rr_fail_limit = False\<rparr>"

definition demo_paired :: "gateway_db \<times> http" where
  "demo_paired = register_POST demo_env demo_register None (Some (JObj [(''pairingCode'', JStr ''abcdef'')])) demo_db demo_db"

lemma pairing_once_witness:
  "paired_agent (snd demo_paired) = Some ''agt_1''
   \<and> paired_agent (snd (register_POST demo_env demo_register None (Some (JObj [(''pairingCode'', JStr ''ABCDEF'')])) demo_db
        (fst demo_paired))) \<noteq> Some ''agt_1''"
proof
  show ok: "paired_agent (snd demo_paired) = Some ''agt_1''" by code_simp
  have u: "unique_by ag_id (agents demo_db)" by code_simp
  have random: "rr_random demo_register \<noteq> []" "\<forall>b \<in> set (rr_random demo_register). b < 256"
    and sha: "\<forall>s. re_sha demo_env s \<noteq> []"
    by (simp_all add: demo_register_def demo_env_def demo_sha_def)
  have reg: "register_POST demo_env demo_register None (Some (JObj [(''pairingCode'', JStr ''abcdef'')])) demo_db demo_db
      = (fst demo_paired, snd demo_paired)"
    by (simp add: demo_paired_def)
  show "paired_agent (snd (register_POST demo_env demo_register None (Some (JObj [(''pairingCode'', JStr ''ABCDEF'')])) demo_db
        (fst demo_paired))) \<noteq> Some ''agt_1''"
    using pairing_once [OF u reg ok _ _ random sha] by auto
qed

text \<open>A provisioned candidate answers with its printer and nothing changes.\<close>

lemma provisioned_again:
  assumes ok: "fleet_ok (fleet_of db)" and p: "provisioned_as deviceId agentId tenantId pid (fleet_of db)"
  shows "provision_tx now nano tenantId agentId deviceId db = (db, Already pid)"
proof -
  obtain d where d: "d \<in> set (discovered_devices db)" "device_in deviceId agentId tenantId d"
      "dd_candidate_status d = ''provisioned''" "dd_provisioned d = Some pid"
    using p by (auto simp: provisioned_as_def list_ex_iff)
  obtain e where e: "find_first (device_in deviceId agentId tenantId) (discovered_devices db) = Some e"
    using d(1,2) find_first_None_iff [of "device_in deviceId agentId tenantId" "discovered_devices db"]
    by (cases "find_first (device_in deviceId agentId tenantId) (discovered_devices db)") auto
  have "e = d"
    using unique_by_same [OF fleet_okD(3) [OF ok], of e d] find_first_Some_iff [OF e] d(1,2) by (simp add: device_in_def)
  moreover have "pid \<noteq> []"
    using fleet_okD(5) [OF ok, of d] fleet_okD(4) [OF ok] d by (auto simp: device_ok_def printer_ok_def list_ex_iff)
  ultimately show ?thesis
    using e d(3,4) by (simp add: provision_tx_def)
qed

lemma marked_provisioned:
  assumes "find_first (device_in deviceId agentId tenantId) (discovered_devices db) = Some d"
    and "dd_candidate_status d = ''verified''"
  shows "provisioned_as deviceId agentId tenantId pid (fleet_of (mark_provisioned now deviceId tenantId pid db))"
proof -
  let ?d = "d\<lparr>dd_candidate_status := ''provisioned'', dd_provisioned := Some pid, dd_updated := now\<rparr>"
  have d: "d \<in> set (discovered_devices db)" "device_in deviceId agentId tenantId d"
    using find_first_Some_iff [OF assms(1)] by simp_all
  then have "?d \<in> set (discovered_devices (mark_provisioned now deviceId tenantId pid db))"
    using assms(2) by (auto simp: mark_provisioned_def set_update_where device_in_def intro!: bexI [of _ d])
  then show ?thesis
    using d(2) by (auto simp: provisioned_as_def list_ex_iff device_in_def intro!: bexI [of _ ?d])
qed

text \<open>What a transaction that answers with a printer has found and done.\<close>

lemma provision_done:
  assumes tx: "provision_tx now nano tenantId agentId deviceId db = (db', r)" and r: "r = Already pid \<or> r = Created pid"
  shows "\<exists>d. find_first (device_in deviceId agentId tenantId) (discovered_devices db) = Some d
     \<and> (dd_candidate_status d = ''provisioned'' \<or> dd_verification d = ''verified'' \<and> dd_candidate_status d = ''verified'')
     \<and> provisioned_as deviceId agentId tenantId pid (fleet_of db')
     \<and> length (printers db') = length (printers db) + (if r = Created pid then 1 else 0)"
proof -
  obtain d where d: "find_first (device_in deviceId agentId tenantId) (discovered_devices db) = Some d"
    using tx r by (cases "find_first (device_in deviceId agentId tenantId) (discovered_devices db)") (auto simp: provision_tx_def)
  show ?thesis
  proof (cases "dd_candidate_status d = ''provisioned'' \<and> truthy (dd_provisioned d)")
    case True
    then have same: "db' = db" "r = Already pid" "dd_provisioned d = Some pid"
      using tx r d by (auto simp: provision_tx_def elim!: truthy.elims)
    then show ?thesis
      using d True find_first_Some_iff [OF d] by (auto simp: provisioned_as_def list_ex_iff)
  next
    case False
    have approved: "dd_verification d = ''verified''" "dd_candidate_status d = ''verified''"
      using tx r d False by (auto simp: provision_tx_def split: if_splits)
    have fits: "printers (mark_provisioned now deviceId tenantId q x) = printers x" for q x
      by (simp add: mark_provisioned_def)
    have "(\<exists>x. db' = mark_provisioned now deviceId tenantId pid x \<and> discovered_devices x = discovered_devices db
        \<and> length (printers x) = length (printers db) + (if r = Created pid then 1 else 0))"
      using tx r d False approved unfolding provision_tx_def
      by (auto simp: Let_def split: option.splits if_splits)
    then show ?thesis
      using d approved marked_provisioned [of deviceId agentId tenantId _ d] by (auto simp: fits)
  qed
qed

text \<open>C33. A provisioning that answers 200 or 201 found a candidate of that agent and tenant which a manager had approved
  (or which was provisioned before); it adds one printer exactly when it answers 201; and from then on, whatever handlers
  run and as long as the agent is not deleted, a further provisioning of the candidate names the same printer and changes
  nothing.\<close>

theorem provision_once:
  assumes ok: "fleet_ok (fleet_of db)"
    and run: "provision_POST now nano claims agentId deviceId seen db = (db', rep)"
    and st: "http_status rep \<in> {200, 201}"
  shows "\<exists>m d pid. claims = Some m
     \<and> find_first (device_in deviceId agentId (mc_tenant m)) (discovered_devices db) = Some d
     \<and> (dd_candidate_status d = ''provisioned'' \<or> dd_verification d = ''verified'' \<and> dd_candidate_status d = ''verified'')
     \<and> jget (http_body rep) ''printerId'' = Some (JStr pid)
     \<and> length (printers db') = length (printers db) + (if http_status rep = 201 then 1 else 0)
     \<and> (\<forall>sha ops now2 nano2. list_all (\<lambda>op. deletes op \<noteq> Some (agentId, mc_tenant m)) ops \<longrightarrow>
          provision_tx now2 nano2 (mc_tenant m) agentId deviceId (fleet_run sha ops db') = (fleet_run sha ops db', Already pid))"
proof -
  obtain m where m: "authorize claims Printers_manage = Inr m"
    using run st by (cases "authorize claims Printers_manage")
      (auto simp: provision_POST_def authorize_def error_reply_def split: option.splits if_splits)
  then have claims: "claims = Some m"
    by (auto simp: authorize_def split: option.splits if_splits)
  obtain a where a: "active_agent m agentId seen = Inr a"
    using run st m by (cases "active_agent m agentId seen")
      (auto simp: provision_POST_def active_agent_def error_reply_def split: option.splits if_splits)
  obtain r where tx: "provision_tx now nano (mc_tenant m) agentId deviceId db = (db', r)" and rep: "rep = provision_reply r"
    using run m a by (auto simp: provision_POST_def split_beta prod_eq_iff)
  obtain pid where r: "r = Already pid \<or> r = Created pid"
    using st unfolding rep by (cases r) (simp_all add: error_reply_def)
  obtain d where d: "find_first (device_in deviceId agentId (mc_tenant m)) (discovered_devices db) = Some d"
      "dd_candidate_status d = ''provisioned'' \<or> dd_verification d = ''verified'' \<and> dd_candidate_status d = ''verified''"
      "provisioned_as deviceId agentId (mc_tenant m) pid (fleet_of db')"
      "length (printers db') = length (printers db) + (if r = Created pid then 1 else 0)"
    using provision_done [OF tx r] by blast
  have ok': "fleet_ok (fleet_of db')"
    using fleet_inv.writes_keep [OF provision_POST_writes ok] run by (metis fst_conv)
  have "provision_tx now2 nano2 (mc_tenant m) agentId deviceId (fleet_run sha ops db') = (fleet_run sha ops db', Already pid)"
    if "list_all (\<lambda>op. deletes op \<noteq> Some (agentId, mc_tenant m)) ops" for sha ops now2 nano2
    by (rule provisioned_again [OF run_ok [OF ok'] run_provisioned [OF ok' d(3) that]])
  moreover have "jget (http_body rep) ''printerId'' = Some (JStr pid)" "http_status rep = 201 \<longleftrightarrow> r = Created pid"
    using r unfolding rep by (auto simp: reply_def jprop_def)
  ultimately show ?thesis using claims d by auto
qed

definition demo_provision :: "string \<Rightarrow> gateway_db \<Rightarrow> gateway_db \<times> http" where
  "demo_provision nano db = provision_POST 9 nano (Some demo_manager) ''agt_1'' ''d1'' db db"

lemma provision_once_witness:
  "map pr_id (printers (fst (demo_provision ''n1'' demo_db))) = [''p1'', ''printer_n1'']
   \<and> provision_tx 10 ''n2'' ''t'' ''agt_1'' ''d1'' (fst (demo_provision ''n1'' demo_db))
       = (fst (demo_provision ''n1'' demo_db), Already ''printer_n1'')"
proof
  show "map pr_id (printers (fst (demo_provision ''n1'' demo_db))) = [''p1'', ''printer_n1'']" by code_simp
  have ok: "fleet_ok (fleet_of demo_db)" by code_simp
  have st: "http_status (snd (demo_provision ''n1'' demo_db)) \<in> {200, 201}" by code_simp
  have body: "jget (http_body (snd (demo_provision ''n1'' demo_db))) ''printerId'' = Some (JStr ''printer_n1'')" by code_simp
  have run: "provision_POST 9 ''n1'' (Some demo_manager) ''agt_1'' ''d1'' demo_db demo_db
      = (fst (demo_provision ''n1'' demo_db), snd (demo_provision ''n1'' demo_db))"
    by (simp add: demo_provision_def)
  obtain m pid where m: "Some demo_manager = Some m" "Some (JStr ''printer_n1'') = Some (JStr pid)"
    and again: "\<forall>sha ops now2 nano2. list_all (\<lambda>op. deletes op \<noteq> Some (''agt_1'', mc_tenant m)) ops \<longrightarrow>
          provision_tx now2 nano2 (mc_tenant m) ''agt_1'' ''d1'' (fleet_run sha ops (fst (demo_provision ''n1'' demo_db)))
            = (fleet_run sha ops (fst (demo_provision ''n1'' demo_db)), Already pid)"
    using provision_once [OF ok run st] unfolding body by blast
  show "provision_tx 10 ''n2'' ''t'' ''agt_1'' ''d1'' (fst (demo_provision ''n1'' demo_db))
       = (fst (demo_provision ''n1'' demo_db), Already ''printer_n1'')"
    using again [rule_format, of "[]"] m by (auto simp: demo_manager_def)
qed

section \<open>Where the handlers disagree with their own rules\<close>

text \<open>Disabling or retiring an agent moves its retired printers back to disabled, a step the lifecycle rules exclude.\<close>

lemma retired_printers_return:
  assumes "p \<in> set (printers db)" and "printer_of agentId tenantId p" and "pr_lifecycle p = Retired" and "nxt \<noteq> Active"
  shows "p\<lparr>pr_lifecycle := Disabled, pr_updated := now\<rparr> \<in> set (printers (write_lifecycle agentId nxt tenantId h e now db))
     \<and> \<not> canTransitionLifecycle Retired Disabled"
  using assms by (auto simp: write_lifecycle_def canTransitionLifecycle_def set_update_where intro!: bexI [of _ p])

text \<open>A candidate whose reported protocol is an inherited property name, or escpos without an address, becomes a network
  printer that the registration schema refuses.\<close>

definition odd_device :: "string \<Rightarrow> discovered_device" where
  "odd_device proto = demo_device\<lparr>dd_protocol := proto, dd_ip := None, dd_port := None\<rparr>"

lemma provisioned_without_endpoint:
  "list_all (\<lambda>proto.
     (case printers (fst (demo_provision ''n1'' (demo_db\<lparr>discovered_devices := [odd_device proto]\<rparr>))) of
        [p, q] \<Rightarrow> pr_connection q = ''network'' \<and> validateConnectionConfig (pr_connection q) (or_else (pr_config q) []) \<noteq> None
      | _ \<Rightarrow> False)) [''constructor'', ''__proto__'', ''escpos'']"
  by code_simp

end
