(* ===== verification/Odoo_Keys.thy ===== *)
theory Odoo_Keys
  imports Agent_Admin
begin

text \<open>
  API keys of Odoo installations: \<open>src/lib/odoo-auth.ts\<close> and the routes \<open>api/odoo/keys\<close>,
  \<open>api/odoo/keys/[id]/rotate\<close>, \<open>api/odoo/health\<close>, \<open>api/odoo/agents\<close> and \<open>api/odoo/printers\<close>.
  SHA-256 as a hex text is the argument \<open>sha\<close>, the random bytes come in as lists, the rank of
  a name in the database's collation is an argument, and so is the schema library's message.
\<close>

section \<open>Authentication\<close>

definition hashKey :: "(string \<Rightarrow> string) \<Rightarrow> string \<Rightarrow> string" where "hashKey sha raw = sha raw"

definition hex_text :: "nat list \<Rightarrow> string" where
  "hex_text bs = concat (map (\<lambda>b. [hex_digit (b div 16), hex_digit (b mod 16)]) bs)"

text \<open>The raw key, its hash and its id, from 32 and 8 random bytes.\<close>

definition generateOdooApiKey :: "(string \<Rightarrow> string) \<Rightarrow> nat list \<Rightarrow> nat list \<Rightarrow> string \<times> string \<times> string" where
  "generateOdooApiKey sha random32 random8 =
     (let raw = ''odoo_'' @ b64url_encode random32 in (raw, hashKey sha raw, ''key_'' @ hex_text random8))"

definition normalizeDocumentType :: "string option \<Rightarrow> string" where
  "normalizeDocumentType value = js_lower (js_trim (or_empty value))"

datatype key_operation = Read_op | Write_op

definition isOdooKeyAllowedForDocumentType :: "api_key \<Rightarrow> string option \<Rightarrow> key_operation \<Rightarrow> bool" where
  "isOdooKeyAllowedForDocumentType key documentType operation =
     (if operation = Write_op \<and> js_lower (js_trim (ak_scope key)) = ''read_only'' then False
      else
        case ak_doc_types key of
          None \<Rightarrow> True
        | Some allowed \<Rightarrow>
            if allowed = [] then True
            else
              let normalized = normalizeDocumentType documentType
              in normalized \<noteq> [] \<and> list_ex (\<lambda>v. normalizeDocumentType (Some v) = normalized) allowed)"

definition raw_key :: "string option \<Rightarrow> string option \<Rightarrow> string" where
  "raw_key authHeader apiHeader =
     (if starts_with (or_empty authHeader) ''Bearer '' then js_trim (drop 7 (or_empty authHeader))
      else js_trim (or_empty apiHeader))"

definition touch_key :: "time \<Rightarrow> api_key \<Rightarrow> gateway_db \<Rightarrow> gateway_db" where
  "touch_key now row db =
     db\<lparr>api_keys := update_where (\<lambda>k. ak_id k = ak_id row \<and> ak_tenant k = ak_tenant row)
                      (\<lambda>k. k\<lparr>ak_last_used := Some now\<rparr>) (api_keys db)\<rparr>"

text \<open>The row is the one read; \<open>touch_fails\<close> tells that the update of its last use was refused, which is ignored.\<close>

definition validateOdooKey ::
  "(string \<Rightarrow> string) \<Rightarrow> time \<Rightarrow> bool \<Rightarrow> string option \<Rightarrow> string option \<Rightarrow> gateway_db \<Rightarrow> gateway_db \<times> api_key option" where
  "validateOdooKey sha now touch_fails authHeader apiHeader db =
     (let raw = raw_key authHeader apiHeader in
      if \<not> starts_with raw ''odoo_'' then (db, None)
      else
        case find_first (\<lambda>k. ak_hash k = hashKey sha raw) (api_keys db) of
          None \<Rightarrow> (db, None)
        | Some row \<Rightarrow>
            if ak_revoked row \<noteq> None then (db, None)
            else ((if touch_fails then db else touch_key now row db), Some row))"

section \<open>The manager's key routes\<close>

record key_input =
  ki_name :: "string option"
  ki_description :: "string option"
  ki_scope :: string
  ki_doc_types :: "string list option"

definition doc_types_field :: "json option \<Rightarrow> string list option option" where
  "doc_types_field v =
     (case v of
        None \<Rightarrow> Some None
      | Some (JArr xs) \<Rightarrow>
          if length xs \<le> 64 \<and> list_all (\<lambda>x. trimmed_field 1 120 (Some x) \<noteq> None) xs
          then Some (Some (map (\<lambda>x. case x of JStr s \<Rightarrow> js_trim s | _ \<Rightarrow> '''') xs)) else None
      | _ \<Rightarrow> None)"

definition keyInputSchema :: "json \<Rightarrow> key_input option" where
  "keyInputSchema body =
     (case body of
        JObj es \<Rightarrow>
          (case (trimmed_field 1 120 (jprop ''name'' es), trimmed_field 0 500 (jprop ''description'' es),
                 enum_field [''standard'', ''read_only''] (jprop ''scope'' es), doc_types_field (jprop ''allowedDocumentTypes'' es)) of
             (Some n, Some d, Some sc, Some dt) \<Rightarrow>
               if only_keys [''name'', ''description'', ''scope'', ''allowedDocumentTypes''] es
               then Some \<lparr>ki_name = n, ki_description = d, ki_scope = or_else sc ''standard'', ki_doc_types = dt\<rparr>
               else None
           | _ \<Rightarrow> None)
      | _ \<Rightarrow> None)"

definition jlist :: "string list option \<Rightarrow> json" where
  "jlist v = (case v of Some xs \<Rightarrow> JArr (map JStr xs) | None \<Rightarrow> JNull)"

definition key_listing :: "api_key \<Rightarrow> json" where
  "key_listing k =
     JObj [(''id'', JStr (ak_id k)), (''name'', JStr (ak_name k)), (''description'', jopt (ak_description k)),
           (''scope'', JStr (ak_scope k)), (''allowedDocumentTypes'', jlist (ak_doc_types k)),
           (''createdAt'', jdate (Some (ak_created k))), (''lastUsedAt'', jdate (ak_last_used k)),
           (''revokedAt'', jdate (ak_revoked k))]"

definition keys_GET :: "ManagerClaims option \<Rightarrow> gateway_db \<Rightarrow> http" where
  "keys_GET claims db =
     (case authorize claims Integrations_read of
        Inl rep \<Rightarrow> rep
      | Inr m \<Rightarrow>
          http_json 200 (JArr (map key_listing
            (sort_key (\<lambda>k. - ak_created k) (select_where (\<lambda>k. ak_tenant k = mc_tenant m) (api_keys db))))))"

text \<open>\<open>d?.trim() || null\<close>\<close>

definition text_or_null :: "string option \<Rightarrow> string option" where
  "text_or_null d = (case map_option js_trim d of Some s \<Rightarrow> if s \<noteq> [] then Some s else None | None \<Rightarrow> None)"

definition new_key :: "time \<Rightarrow> string \<Rightarrow> string \<Rightarrow> string \<Rightarrow> key_input \<Rightarrow> api_key" where
  "new_key now tenantId i hashed inp =
     \<lparr>ak_id = i, ak_tenant = tenantId, ak_scope = ki_scope inp, ak_name = or_else (ki_name inp) ''Odoo'',
      ak_description = text_or_null (ki_description inp), ak_hash = hashed,
      ak_doc_types = (case ki_doc_types inp of Some [] \<Rightarrow> None | dt \<Rightarrow> dt),
      ak_created = now, ak_last_used = None, ak_revoked = None\<rparr>"

text \<open>The two unique columns of the table.\<close>

definition key_taken :: "string \<Rightarrow> string \<Rightarrow> gateway_db \<Rightarrow> bool" where
  "key_taken i hashed db \<longleftrightarrow> list_ex (\<lambda>k. ak_id k = i \<or> ak_hash k = hashed) (api_keys db)"

definition keys_POST ::
  "(string \<Rightarrow> string) \<Rightarrow> (json \<Rightarrow> string) \<Rightarrow> time \<Rightarrow> nat list \<Rightarrow> nat list \<Rightarrow> ManagerClaims option \<Rightarrow> json option \<Rightarrow> gateway_db
     \<Rightarrow> gateway_db \<times> http" where
  "keys_POST sha zod_message now random32 random8 claims body db =
     (case authorize claims Integrations_manage of
        Inl rep \<Rightarrow> (db, rep)
      | Inr m \<Rightarrow>
          (case body of
             None \<Rightarrow> (db, error_reply 400 ''Invalid JSON'')
           | Some v \<Rightarrow>
               (case keyInputSchema v of
                  None \<Rightarrow> (db, error_reply 400 (zod_message v))
                | Some inp \<Rightarrow>
                    (let (raw, hashed, i) = generateOdooApiKey sha random32 random8;
                         row = new_key now (mc_tenant m) i hashed inp
                     in if key_taken i hashed db then (db, reply 500 [])
                        else (db\<lparr>api_keys := api_keys db @ [row]\<rparr>,
                              reply 201 [(''id'', JStr i), (''name'', JStr (ak_name row)), (''description'', jopt (ak_description row)),
                                         (''scope'', JStr (ki_scope inp)), (''allowedDocumentTypes'', jlist (ki_doc_types inp)),
                                         (''apiKey'', JStr raw),
                                         (''note'', JStr ''Copy this key now. The raw key will never be shown again.'')])))))"

definition tenant_key :: "string \<Rightarrow> string \<Rightarrow> api_key \<Rightarrow> bool" where
  "tenant_key i tenantId k \<longleftrightarrow> ak_id k = i \<and> ak_tenant k = tenantId"

text \<open>Rows that refer to a key: its print jobs, and its rate-limit counter.\<close>

definition key_referenced :: "string \<Rightarrow> gateway_db \<Rightarrow> bool" where
  "key_referenced i db \<longleftrightarrow> list_ex (\<lambda>j. jb_api_key j = Some i) (print_jobs db)
     \<or> list_ex (\<lambda>l. pl_key l = i) (print_job_rate_limits db)"

definition keys_remove :: "string \<Rightarrow> string \<Rightarrow> gateway_db \<Rightarrow> gateway_db \<times> http" where
  "keys_remove i tenantId db =
     (let doomed = (\<lambda>k. tenant_key i tenantId k \<and> ak_revoked k \<noteq> None) in
      if select_where doomed (api_keys db) \<noteq> []
      then if key_referenced i db
           then (db, error_reply 409 ''API key has associated print jobs and cannot be removed.'')
           else (db\<lparr>api_keys := delete_where doomed (api_keys db)\<rparr>, reply 200 [(''id'', JStr i), (''removed'', JBool True)])
      else if find_first (tenant_key i tenantId) (api_keys db) = None
      then (db, error_reply 404 ''API key not found'')
      else (db, error_reply 409 ''Only revoked API keys can be removed. Revoke the key first.''))"

definition revoke_key :: "time \<Rightarrow> string \<Rightarrow> string \<Rightarrow> gateway_db \<Rightarrow> gateway_db" where
  "revoke_key now i tenantId db =
     db\<lparr>api_keys := update_where (tenant_key i tenantId) (\<lambda>k. k\<lparr>ak_revoked := Some now\<rparr>) (api_keys db)\<rparr>"

definition keys_DELETE :: "time \<Rightarrow> ManagerClaims option \<Rightarrow> json option \<Rightarrow> gateway_db \<Rightarrow> gateway_db \<times> http" where
  "keys_DELETE now claims body db =
     (case authorize claims Integrations_manage of
        Inl rep \<Rightarrow> (db, rep)
      | Inr m \<Rightarrow>
          (let bodyRecord = or_else body (JObj []);
               i = js_trim (or_empty (as_string (jget bodyRecord ''id'')))
           in if i = [] then (db, error_reply 400 ''id is required'')
              else if jget bodyRecord ''remove'' = Some (JBool True) then keys_remove i (mc_tenant m) db
              else if select_where (tenant_key i (mc_tenant m)) (api_keys db) = []
              then (db, error_reply 404 ''API key not found'')
              else (revoke_key now i (mc_tenant m) db, reply 200 [(''id'', JStr i), (''revokedAt'', JStr (toISOString now))])))"

section \<open>Rotation\<close>

datatype rotation = KeyNotFound | KeyRevoked | Rotated string string string string string "string list option"

definition rotated_key :: "time \<Rightarrow> string \<Rightarrow> string \<Rightarrow> string \<Rightarrow> api_key \<Rightarrow> api_key" where
  "rotated_key now tenantId i hashed old =
     \<lparr>ak_id = i, ak_tenant = tenantId, ak_scope = ak_scope old, ak_name = ak_name old, ak_description = ak_description old,
      ak_hash = hashed, ak_doc_types = ak_doc_types old, ak_created = now, ak_last_used = None, ak_revoked = None\<rparr>"

text \<open>The transaction; \<^const>\<open>None\<close> when the INSERT is refused, which undoes it.\<close>

definition rotate_tx ::
  "(string \<Rightarrow> string) \<Rightarrow> clocks \<Rightarrow> nat list \<Rightarrow> nat list \<Rightarrow> string \<Rightarrow> string \<Rightarrow> gateway_db \<Rightarrow> (gateway_db \<times> rotation) option" where
  "rotate_tx sha c random32 random8 i tenantId db =
     (case find_first (tenant_key i tenantId) (api_keys db) of
        None \<Rightarrow> Some (db, KeyNotFound)
      | Some old \<Rightarrow>
          if ak_revoked old \<noteq> None then Some (db, KeyRevoked)
          else
            let (raw, hashed, newId) = generateOdooApiKey sha random32 random8
            in if key_taken newId hashed db then None
               else Some (revoke_key (app_now c) (ak_id old) tenantId
                            (db\<lparr>api_keys := api_keys db @ [rotated_key (db_now c) tenantId newId hashed old]\<rparr>),
                          Rotated (ak_id old) newId raw (ak_name old) (ak_scope old) (ak_doc_types old)))"

definition rotate_POST ::
  "(string \<Rightarrow> string) \<Rightarrow> clocks \<Rightarrow> nat list \<Rightarrow> nat list \<Rightarrow> ManagerClaims option \<Rightarrow> string \<Rightarrow> gateway_db \<Rightarrow> gateway_db \<times> http" where
  "rotate_POST sha c random32 random8 claims i db =
     (case authorize claims Integrations_manage of
        Inl rep \<Rightarrow> (db, rep)
      | Inr m \<Rightarrow>
          if js_trim i = [] then (db, error_reply 400 ''id is required'')
          else
            case rotate_tx sha c random32 random8 i (mc_tenant m) db of
              None \<Rightarrow> (db, reply 500 [(''error'', JStr ''Internal server error''), (''code'', JStr ''INTERNAL_ERROR'')])
            | Some (db', KeyNotFound) \<Rightarrow> (db', error_reply 404 ''API key not found'')
            | Some (db', KeyRevoked) \<Rightarrow> (db', error_reply 409 ''Only an active API key can be rotated'')
            | Some (db', Rotated oldId newId raw name scope types) \<Rightarrow>
                (db', reply 201 [(''id'', JStr newId), (''replacedKeyId'', JStr oldId), (''name'', JStr name), (''scope'', JStr scope),
                                 (''allowedDocumentTypes'', jlist types), (''apiKey'', JStr raw),
                                 (''note'', JStr ''Update the Odoo installation with this new key now. The previous key has been revoked and the raw key will never be shown again.'')]))"

section \<open>What a key can list\<close>

definition no_store :: "http \<Rightarrow> http" where
  "no_store rep = rep\<lparr>http_headers := [(''Cache-Control'', ''no-store'')]\<rparr>"

definition odoo_health_GET :: "api_key option \<Rightarrow> http" where
  "odoo_health_GET key =
     (case key of
        None \<Rightarrow> reply 401 [(''ok'', JBool False), (''error'', JStr ''Unauthorized'')]
      | Some _ \<Rightarrow> no_store (reply 200 [(''ok'', JBool True)]))"

definition odoo_agent :: "js_number option \<Rightarrow> time \<Rightarrow> agent \<Rightarrow> json" where
  "odoo_agent env now a =
     JObj [(''id'', JStr (ag_id a)), (''name'', JStr (ag_name a)),
           (''status'', JStr (if isAgentAvailableForJob env a now then ''online'' else ''offline'')),
           (''lifecycle'', JStr (lifecycle_str (ag_lifecycle a))), (''lastSeenAt'', jdate (ag_last_seen a))]"

definition odoo_agents_GET :: "(string \<Rightarrow> nat) \<Rightarrow> js_number option \<Rightarrow> time \<Rightarrow> api_key option \<Rightarrow> gateway_db \<Rightarrow> http" where
  "odoo_agents_GET rank env now key db =
     (case key of
        None \<Rightarrow> error_reply 401 ''Unauthorized''
      | Some k \<Rightarrow>
          no_store (reply 200 [(''agents'', JArr (map (odoo_agent env now)
            (sort_key (\<lambda>a. rank (ag_name a))
              (select_where (\<lambda>a. ag_lifecycle a = Active \<and> ag_tenant a = ak_tenant k) (agents db)))))]))"

text \<open>The join of the active printers and active agents of the tenant, of one agent if the query names it.\<close>

definition odoo_rows :: "string option \<Rightarrow> string \<Rightarrow> gateway_db \<Rightarrow> (printer \<times> agent) list" where
  "odoo_rows agentId tenantId db =
     concat (map (\<lambda>p. map (\<lambda>a. (p, a))
       (select_where (\<lambda>a. pr_agent p = ag_id a \<and> pr_lifecycle p = Active \<and> ag_lifecycle a = Active
            \<and> pr_tenant p = tenantId \<and> ag_tenant a = tenantId \<and> (truthy agentId \<longrightarrow> Some (ag_id a) = agentId)) (agents db)))
       (printers db))"

definition odoo_printer :: "js_number option \<Rightarrow> time \<Rightarrow> printer \<times> agent \<Rightarrow> json" where
  "odoo_printer env now row =
     (case row of (p, a) \<Rightarrow>
       JObj [(''id'', JStr (pr_id p)), (''name'', JStr (pr_name p)),
             (''status'', JStr (getEffectivePrinterStatus env p (Some a) now)), (''lifecycle'', JStr (lifecycle_str (pr_lifecycle p))),
             (''printerType'', JStr (pr_type p)), (''deviceClass'', JStr (pr_class p)), (''connectionType'', JStr (pr_connection p)),
             (''protocol'', JStr (pr_protocol p)), (''agent'', JObj [(''id'', JStr (ag_id a)), (''name'', JStr (ag_name a))])])"

definition odoo_printers_GET ::
  "(string \<Rightarrow> nat) \<Rightarrow> js_number option \<Rightarrow> time \<Rightarrow> string option \<Rightarrow> api_key option \<Rightarrow> gateway_db \<Rightarrow> http" where
  "odoo_printers_GET rank env now agent_id key db =
     (case key of
        None \<Rightarrow> error_reply 401 ''Unauthorized''
      | Some k \<Rightarrow>
          no_store (reply 200 [(''printers'', JArr (map (odoo_printer env now)
            (sort_key (\<lambda>row. rank (pr_name (fst row))) (odoo_rows (map_option js_trim agent_id) (ak_tenant k) db))))]))"

end
