(* ===== verification/Key_Runs.thy ===== *)
theory Key_Runs
  imports Odoo_Keys Manager_Sessions
begin

text \<open>
  Runs of the operations on API keys: what stays true of a key that is in use and of one that
  has been revoked, and the property of rotation.
\<close>

section \<open>Runs\<close>

datatype key_op =
    KeyCreate "json \<Rightarrow> string" time "nat list" "nat list" "ManagerClaims option" "json option"
  | KeyDelete time "ManagerClaims option" "json option"
  | KeyRotate clocks "nat list" "nat list" "ManagerClaims option" string
  | KeyUse time bool "string option" "string option"

fun key_exec :: "(string \<Rightarrow> string) \<Rightarrow> key_op \<Rightarrow> gateway_db \<Rightarrow> gateway_db" where
  "key_exec sha (KeyCreate zod now r32 r8 claims body) db = fst (keys_POST sha zod now r32 r8 claims body db)"
| "key_exec sha (KeyDelete now claims body) db = fst (keys_DELETE now claims body db)"
| "key_exec sha (KeyRotate c r32 r8 claims i) db = fst (rotate_POST sha c r32 r8 claims i db)"
| "key_exec sha (KeyUse now tf h a) db = fst (validateOdooKey sha now tf h a db)"

definition key_run :: "(string \<Rightarrow> string) \<Rightarrow> key_op list \<Rightarrow> gateway_db \<Rightarrow> gateway_db" where
  "key_run sha ops db = fold (key_exec sha) ops db"

text \<open>The hash an operation may add; whether it may revoke a key.\<close>

fun minted :: "(string \<Rightarrow> string) \<Rightarrow> key_op \<Rightarrow> string option" where
  "minted sha (KeyCreate zod now r32 r8 claims body) = Some (fst (snd (generateOdooApiKey sha r32 r8)))"
| "minted sha (KeyRotate c r32 r8 claims i) = Some (fst (snd (generateOdooApiKey sha r32 r8)))"
| "minted sha _ = None"

fun may_revoke :: "string \<Rightarrow> string \<Rightarrow> key_op \<Rightarrow> bool" where
  "may_revoke i t (KeyDelete now (Some m) body) \<longleftrightarrow> mc_tenant m = t
     \<and> js_trim (or_empty (as_string (jget (or_else body (JObj [])) ''id''))) = i
     \<and> jget (or_else body (JObj [])) ''remove'' \<noteq> Some (JBool True)"
| "may_revoke i t (KeyRotate c r32 r8 (Some m) j) \<longleftrightarrow> mc_tenant m = t \<and> j = i"
| "may_revoke i t _ \<longleftrightarrow> False"

section \<open>Effects of the operations\<close>

lemma authorize_manager: "authorize claims p = Inr m \<Longrightarrow> claims = Some m"
  by (auto simp: authorize_def split: option.splits if_splits)

lemma use_effect:
  obtains (kept) "api_keys (key_exec sha (KeyUse now tf h a) db) = api_keys db"
  | (touched) row :: api_key where "api_keys (key_exec sha (KeyUse now tf h a) db)
        = update_where (\<lambda>k. ak_id k = ak_id row \<and> ak_tenant k = ak_tenant row) (\<lambda>k. k\<lparr>ak_last_used := Some now\<rparr>) (api_keys db)"
proof (cases "find_first (\<lambda>k. ak_hash k = hashKey sha (raw_key h a)) (api_keys db)")
  case None
  then show ?thesis by (intro kept) (simp add: validateOdooKey_def Let_def)
next
  case (Some row)
  show ?thesis
  proof (cases "\<not> starts_with (raw_key h a) ''odoo_'' \<or> ak_revoked row \<noteq> None \<or> tf")
    case True
    then show ?thesis using Some by (intro kept) (auto simp: validateOdooKey_def Let_def)
  next
    case False
    then show ?thesis using Some by (intro touched [of row]) (auto simp: validateOdooKey_def Let_def touch_key_def)
  qed
qed

lemma create_effect:
  "api_keys (key_exec sha (KeyCreate zod now r32 r8 claims body) db) = api_keys db
   \<or> (\<exists>k. api_keys (key_exec sha (KeyCreate zod now r32 r8 claims body) db) = api_keys db @ [k]
        \<and> \<not> key_taken (ak_id k) (ak_hash k) db \<and> Some (ak_hash k) = minted sha (KeyCreate zod now r32 r8 claims body))"
  by (auto simp: keys_POST_def new_key_def Let_def split_beta split: sum.splits option.splits)

lemma delete_effect:
  "(\<exists>i t. api_keys (key_exec sha (KeyDelete now claims body) db)
        = delete_where (\<lambda>k. tenant_key i t k \<and> ak_revoked k \<noteq> None) (api_keys db))
   \<or> api_keys (key_exec sha (KeyDelete now claims body) db) = api_keys db
   \<or> (\<exists>i t. may_revoke i t (KeyDelete now claims body)
        \<and> api_keys (key_exec sha (KeyDelete now claims body) db)
        = update_where (tenant_key i t) (\<lambda>k. k\<lparr>ak_revoked := Some now\<rparr>) (api_keys db))"
  by (auto simp: keys_DELETE_def keys_remove_def revoke_key_def Let_def dest!: authorize_manager split: sum.splits)

text \<open>A rotation that answers 201.\<close>

lemma rotated:
  assumes "rotate_POST sha c r32 r8 claims i db = (db', rep)"
  obtains (refused) "db' = db" and "http_status rep \<noteq> 201"
  | (rotated) m and old :: api_key where "claims = Some m" and "find_first (tenant_key i (mc_tenant m)) (api_keys db) = Some old"
      and "ak_revoked old = None" and "ak_id old = i"
      and "\<not> key_taken (snd (snd (generateOdooApiKey sha r32 r8))) (fst (snd (generateOdooApiKey sha r32 r8))) db"
      and "api_keys db' = update_where (tenant_key i (mc_tenant m)) (\<lambda>k. k\<lparr>ak_revoked := Some (app_now c)\<rparr>)
         (api_keys db @ [rotated_key (db_now c) (mc_tenant m) (snd (snd (generateOdooApiKey sha r32 r8)))
                           (fst (snd (generateOdooApiKey sha r32 r8))) old])"
      and "http_status rep = 201" and "jget (http_body rep) ''apiKey'' = Some (JStr (fst (generateOdooApiKey sha r32 r8)))"
proof (cases "authorize claims Integrations_manage")
  case (Inl e)
  then show ?thesis
    using assms by (intro refused) (auto simp: rotate_POST_def authorize_def error_reply_def split: option.splits if_splits)
next
  case (Inr m)
  note m = Inr authorize_manager [OF Inr]
  show ?thesis
  proof (cases "find_first (tenant_key i (mc_tenant m)) (api_keys db)")
    case None
    then show ?thesis
      using assms m(1) by (intro refused) (auto simp: rotate_POST_def rotate_tx_def error_reply_def split: if_splits)
  next
    case (Some old)
    have i: "ak_id old = i" using find_first_Some_iff [OF Some] by (simp add: tenant_key_def)
    show ?thesis
    proof (cases "js_trim i = [] \<or> ak_revoked old \<noteq> None
        \<or> key_taken (snd (snd (generateOdooApiKey sha r32 r8))) (fst (snd (generateOdooApiKey sha r32 r8))) db")
      case True
      then show ?thesis
        using assms m(1) Some
        by (intro refused) (auto simp: rotate_POST_def rotate_tx_def error_reply_def Let_def split_beta split: if_splits)
    next
      case False
      then show ?thesis
        using assms m Some i
        by (intro rotated [of m old])
          (auto simp: rotate_POST_def rotate_tx_def error_reply_def reply_def jprop_def revoke_key_def Let_def split_beta)
    qed
  qed
qed

section \<open>Keys in use and revoked keys\<close>

definition keys_ok :: "gateway_db \<Rightarrow> bool" where
  "keys_ok db \<longleftrightarrow> unique_by ak_id (api_keys db) \<and> unique_by ak_hash (api_keys db)"

definition same_grant :: "api_key \<Rightarrow> api_key \<Rightarrow> bool" where
  "same_grant k l \<longleftrightarrow> ak_id l = ak_id k \<and> ak_hash l = ak_hash k \<and> ak_tenant l = ak_tenant k \<and> ak_scope l = ak_scope k
     \<and> ak_doc_types l = ak_doc_types k"

definition in_use :: "api_key \<Rightarrow> gateway_db \<Rightarrow> bool" where
  "in_use k db \<longleftrightarrow> keys_ok db \<and> list_ex (\<lambda>l. same_grant k l \<and> ak_revoked l = None) (api_keys db)"

definition dead_hash :: "string \<Rightarrow> gateway_db \<Rightarrow> bool" where
  "dead_hash h db \<longleftrightarrow> list_all (\<lambda>k. ak_hash k = h \<longrightarrow> ak_revoked k \<noteq> None) (api_keys db)"

lemma keys_ok_table: "api_keys db' = t \<Longrightarrow> unique_by ak_id t \<Longrightarrow> unique_by ak_hash t \<Longrightarrow> keys_ok db'"
  by (simp add: keys_ok_def)

lemma keys_ok_updated:
  assumes "keys_ok db" and "api_keys db' = update_where g u (api_keys db)" and "\<And>k. ak_id (u k) = ak_id k \<and> ak_hash (u k) = ak_hash k"
  shows "keys_ok db'"
proof -
  have "map ak_id (api_keys db') = map ak_id (api_keys db)" "map ak_hash (api_keys db') = map ak_hash (api_keys db)"
    unfolding assms(2) by (rule keys_of_update, simp add: assms(3))+
  then show ?thesis using assms(1) by (simp add: keys_ok_def unique_by_def)
qed

lemma keys_ok_added:
  assumes "keys_ok db" and "\<not> key_taken (ak_id k) (ak_hash k) db" and "api_keys db' = api_keys db @ [k]"
  shows "keys_ok db'"
  using assms unfolding keys_ok_def key_taken_def
  by (auto simp: unique_by_def list_ex_iff)

lemma keys_ok_exec: "keys_ok db \<Longrightarrow> keys_ok (key_exec sha op db)"
proof (cases op)
  case (KeyCreate zod now r32 r8 claims body)
  assume ok: "keys_ok db"
  then show ?thesis
    using create_effect [of sha zod now r32 r8 claims body db] keys_ok_added [OF ok] unfolding KeyCreate
    by (metis keys_ok_def)
next
  case (KeyDelete now claims body)
  assume ok: "keys_ok db"
  consider (removed) i t where "api_keys (key_exec sha op db) = delete_where (\<lambda>k. tenant_key i t k \<and> ak_revoked k \<noteq> None) (api_keys db)"
    | (kept) "api_keys (key_exec sha op db) = api_keys db"
    | (revoked) i t where "api_keys (key_exec sha op db) = update_where (tenant_key i t) (\<lambda>k. k\<lparr>ak_revoked := Some now\<rparr>) (api_keys db)"
    using delete_effect [of sha now claims body db] unfolding KeyDelete by blast
  then show ?thesis
  proof cases
    case revoked
    show ?thesis by (rule keys_ok_updated [OF ok revoked]) simp
  qed (use ok in \<open>simp_all add: keys_ok_def unique_by_delete\<close>)
next
  case (KeyRotate c r32 r8 claims i)
  assume ok: "keys_ok db"
  obtain rep where run: "rotate_POST sha c r32 r8 claims i db = (key_exec sha op db, rep)"
    unfolding KeyRotate by (cases "rotate_POST sha c r32 r8 claims i db") simp
  show ?thesis
    using run
  proof (cases rule: rotated)
    case refused
    then show ?thesis using ok by simp
  next
    case (rotated m old)
    let ?k = "rotated_key (db_now c) (mc_tenant m) (snd (snd (generateOdooApiKey sha r32 r8))) (fst (snd (generateOdooApiKey sha r32 r8))) old"
    have "keys_ok (db\<lparr>api_keys := api_keys db @ [?k]\<rparr>)"
      by (rule keys_ok_added [OF ok, of ?k]) (use rotated in \<open>simp_all add: rotated_key_def\<close>)
    then show ?thesis
      by (rule keys_ok_updated [where g = "tenant_key i (mc_tenant m)" and u = "\<lambda>k. k\<lparr>ak_revoked := Some (app_now c)\<rparr>"])
        (use rotated in simp_all)
  qed
next
  case (KeyUse now tf h a)
  assume ok: "keys_ok db"
  show ?thesis
  proof (rule use_effect [of sha now tf h a db])
    assume "api_keys (key_exec sha (KeyUse now tf h a) db) = api_keys db"
    then show ?thesis using ok by (simp add: KeyUse keys_ok_def)
  next
    fix row :: api_key
    assume "api_keys (key_exec sha (KeyUse now tf h a) db)
        = update_where (\<lambda>k. ak_id k = ak_id row \<and> ak_tenant k = ak_tenant row) (\<lambda>k. k\<lparr>ak_last_used := Some now\<rparr>) (api_keys db)"
    then show ?thesis unfolding KeyUse by (rule keys_ok_updated [OF ok]) simp
  qed
qed

lemma in_useE:
  assumes "in_use k db"
  obtains l where "l \<in> set (api_keys db)" and "same_grant k l" and "ak_revoked l = None"
  using assms by (auto simp: in_use_def list_ex_iff)

lemma in_use_kept:
  assumes "keys_ok db'" and "l \<in> set (api_keys db')" and "same_grant k l" and "ak_revoked l = None"
  shows "in_use k db'"
  using assms by (auto simp: in_use_def list_ex_iff)

lemma in_use_updated:
  assumes "keys_ok db'" and "in_use k db" and "api_keys db' = update_where g u (api_keys db)"
    and "\<And>l. same_grant k l \<Longrightarrow> g l \<Longrightarrow> same_grant k (u l) \<and> ak_revoked (u l) = ak_revoked l"
  shows "in_use k db'"
proof -
  obtain l where l: "l \<in> set (api_keys db)" "same_grant k l" "ak_revoked l = None"
    using assms(2) by (rule in_useE)
  have "(if g l then u l else l) \<in> set (api_keys db')"
    using l(1) unfolding assms(3) set_update_where by blast
  then show ?thesis
    by (rule in_use_kept [OF assms(1)]) (use l assms(4) [of l] in auto)
qed

lemma use_exec_in_use:
  assumes "in_use k db"
  shows "in_use k (key_exec sha (KeyUse now tf h a) db)"
proof -
  have ok: "keys_ok (key_exec sha (KeyUse now tf h a) db)"
    using assms by (intro keys_ok_exec) (simp add: in_use_def)
  show ?thesis
  proof (rule use_effect [of sha now tf h a db])
    assume "api_keys (key_exec sha (KeyUse now tf h a) db) = api_keys db"
    then show ?thesis using assms ok by (simp add: in_use_def)
  next
    fix row :: api_key
    assume "api_keys (key_exec sha (KeyUse now tf h a) db)
        = update_where (\<lambda>k. ak_id k = ak_id row \<and> ak_tenant k = ak_tenant row) (\<lambda>k. k\<lparr>ak_last_used := Some now\<rparr>) (api_keys db)"
    then show ?thesis by (rule in_use_updated [OF ok assms]) (simp add: same_grant_def)
  qed
qed

lemma in_use_exec:
  assumes "\<not> may_revoke (ak_id k) (ak_tenant k) op" and use: "in_use k db"
  shows "in_use k (key_exec sha op db)"
proof -
  have ok: "keys_ok (key_exec sha op db)"
    using use by (intro keys_ok_exec) (simp add: in_use_def)
  obtain l where l: "l \<in> set (api_keys db)" "same_grant k l" "ak_revoked l = None"
    using use by (rule in_useE)
  show ?thesis
  proof (cases op)
    case (KeyCreate zod now r32 r8 claims body)
    have "l \<in> set (api_keys (key_exec sha op db))"
      using create_effect [of sha zod now r32 r8 claims body db] l(1) unfolding KeyCreate by auto
    then show ?thesis by (rule in_use_kept [OF ok]) (rule l)+
  next
    case (KeyDelete now claims body)
    consider (same) "l \<in> set (api_keys (key_exec sha op db))"
      | (revoked) i t where "may_revoke i t op"
          "api_keys (key_exec sha op db) = update_where (tenant_key i t) (\<lambda>k. k\<lparr>ak_revoked := Some now\<rparr>) (api_keys db)"
      using delete_effect [of sha now claims body db] l unfolding KeyDelete by (force simp: set_delete_where)
    then show ?thesis
    proof cases
      case same
      then show ?thesis by (rule in_use_kept [OF ok]) (rule l)+
    next
      case revoked
      show ?thesis
        by (rule in_use_updated [OF ok use revoked(2)]) (use assms(1) revoked(1) in \<open>auto simp: tenant_key_def same_grant_def\<close>)
    qed
  next
    case (KeyRotate c r32 r8 claims i)
    obtain rep where run: "rotate_POST sha c r32 r8 claims i db = (key_exec sha op db, rep)"
      unfolding KeyRotate by (cases "rotate_POST sha c r32 r8 claims i db") simp
    show ?thesis
      using run
    proof (cases rule: rotated)
      case refused
      then show ?thesis using use by simp
    next
      case (rotated m old)
      have "\<not> tenant_key i (mc_tenant m) l"
        using assms(1) l(2) rotated(1) unfolding KeyRotate by (auto simp: tenant_key_def same_grant_def)
      then have "l \<in> set (api_keys (key_exec sha op db))"
        unfolding rotated(6) set_update_where using l(1) by auto
      then show ?thesis by (rule in_use_kept [OF ok]) (rule l)+
    qed
  next
    case (KeyUse now tf h a)
    then show ?thesis by (simp only: use_exec_in_use [OF use])
  qed
qed

lemma dead_updated:
  assumes "dead_hash h db" and "api_keys db' = update_where g u (api_keys db)"
    and "\<And>l. ak_hash (u l) = ak_hash l \<and> (ak_revoked l \<noteq> None \<longrightarrow> ak_revoked (u l) \<noteq> None)"
  shows "dead_hash h db'"
proof -
  have "ak_revoked k \<noteq> None" if k: "k \<in> set (update_where g u (api_keys db))" "ak_hash k = h" for k
  proof -
    obtain l where l: "l \<in> set (api_keys db)" "k = (if g l then u l else l)"
      using k(1) unfolding set_update_where by blast
    then show ?thesis
      using assms(1) assms(3) [of l] k(2) by (cases "g l") (auto simp: dead_hash_def list_all_iff)
  qed
  then show ?thesis by (simp add: dead_hash_def list_all_iff assms(2))
qed

lemma dead_exec:
  assumes "minted sha op \<noteq> Some h" and dead: "dead_hash h db"
  shows "dead_hash h (key_exec sha op db)"
proof (cases op)
  case (KeyCreate zod now r32 r8 claims body)
  show ?thesis
    using create_effect [of sha zod now r32 r8 claims body db] assms unfolding KeyCreate
    by (auto simp: dead_hash_def list_all_iff)
next
  case (KeyDelete now claims body)
  consider (removed) i t where "api_keys (key_exec sha op db) = delete_where (\<lambda>k. tenant_key i t k \<and> ak_revoked k \<noteq> None) (api_keys db)"
    | (kept) "api_keys (key_exec sha op db) = api_keys db"
    | (revoked) i t where "api_keys (key_exec sha op db) = update_where (tenant_key i t) (\<lambda>k. k\<lparr>ak_revoked := Some now\<rparr>) (api_keys db)"
    using delete_effect [of sha now claims body db] unfolding KeyDelete by blast
  then show ?thesis
  proof cases
    case revoked
    show ?thesis by (rule dead_updated [OF dead revoked]) simp
  qed (use dead in \<open>auto simp: dead_hash_def list_all_iff set_delete_where\<close>)
next
  case (KeyRotate c r32 r8 claims i)
  obtain rep where run: "rotate_POST sha c r32 r8 claims i db = (key_exec sha op db, rep)"
    unfolding KeyRotate by (cases "rotate_POST sha c r32 r8 claims i db") simp
  show ?thesis
    using run
  proof (cases rule: rotated)
    case refused
    then show ?thesis using dead by simp
  next
    case (rotated m old)
    let ?k = "rotated_key (db_now c) (mc_tenant m) (snd (snd (generateOdooApiKey sha r32 r8))) (fst (snd (generateOdooApiKey sha r32 r8))) old"
    have "ak_hash ?k \<noteq> h" using assms(1) unfolding KeyRotate by (simp add: rotated_key_def)
    then have "dead_hash h (db\<lparr>api_keys := api_keys db @ [?k]\<rparr>)"
      using dead by (simp add: dead_hash_def)
    then show ?thesis
      by (rule dead_updated [where g = "tenant_key i (mc_tenant m)" and u = "\<lambda>k. k\<lparr>ak_revoked := Some (app_now c)\<rparr>"])
        (use rotated in simp_all)
  qed
next
  case (KeyUse now tf hd a)
  show ?thesis
  proof (rule use_effect [of sha now tf hd a db])
    assume "api_keys (key_exec sha (KeyUse now tf hd a) db) = api_keys db"
    then show ?thesis using dead by (simp add: KeyUse dead_hash_def)
  next
    fix row :: api_key
    assume "api_keys (key_exec sha (KeyUse now tf hd a) db)
        = update_where (\<lambda>k. ak_id k = ak_id row \<and> ak_tenant k = ak_tenant row) (\<lambda>k. k\<lparr>ak_last_used := Some now\<rparr>) (api_keys db)"
    then show ?thesis unfolding KeyUse by (rule dead_updated [OF dead]) simp
  qed
qed

interpretation key_use: run_fact "key_exec sha" "\<lambda>op. \<not> may_revoke (ak_id k) (ak_tenant k) op" "in_use k" for sha k
  by unfold_locales (rule in_use_exec)

interpretation key_death: run_fact "key_exec sha" "\<lambda>op. minted sha op \<noteq> Some h" "dead_hash h" for sha h
  by unfold_locales (rule dead_exec)

section \<open>Rotation\<close>

lemma validate_row:
  assumes "snd (validateOdooKey sha now tf auth api db) = Some row"
  shows "row \<in> set (api_keys db) \<and> ak_revoked row = None \<and> ak_hash row = hashKey sha (raw_key auth api)"
  using assms find_first_Some_iff unfolding validateOdooKey_def
  by (fastforce simp: Let_def split: option.splits if_splits)

lemma in_use_validates:
  assumes use: "in_use k db" and key: "hashKey sha (raw_key auth api) = ak_hash k" "starts_with (raw_key auth api) ''odoo_''"
  shows "\<exists>row. snd (validateOdooKey sha now tf auth api db) = Some row \<and> same_grant k row"
proof -
  obtain l where l: "l \<in> set (api_keys db)" "same_grant k l" "ak_revoked l = None"
    using use by (rule in_useE)
  have "unique_by ak_hash (api_keys db)" using use by (simp add: in_use_def keys_ok_def)
  then have "find_first (\<lambda>r. ak_hash r = ak_hash k) (api_keys db) = Some l"
    using row_by_mem [of ak_hash "api_keys db" l] l(1,2) by (simp add: row_by_def same_grant_def)
  then show ?thesis
    using key l by (auto simp: validateOdooKey_def Let_def)
qed

lemma dead_refused: "dead_hash (hashKey sha (raw_key auth api)) db \<Longrightarrow> snd (validateOdooKey sha now tf auth api db) = None"
proof (rule ccontr)
  assume dead: "dead_hash (hashKey sha (raw_key auth api)) db" and "snd (validateOdooKey sha now tf auth api db) \<noteq> None"
  then obtain row where "snd (validateOdooKey sha now tf auth api db) = Some row" by auto
  then show False using validate_row dead by (fastforce simp: dead_hash_def list_all_iff)
qed

lemma minted_header:
  assumes "\<forall>b \<in> set r32. b < 256"
  shows "raw_key (Some (''Bearer '' @ fst (generateOdooApiKey sha r32 r8))) None = fst (generateOdooApiKey sha r32 r8)"
proof -
  let ?s = "b64url_encode r32"
  have "list_all (\<lambda>c. \<not> is_ws c) ?s"
    by (rule b64url_all [OF _ assms]) (use alphabet_plain in \<open>auto simp: list_all_iff url_plain_def\<close>)
  then have "\<not> is_ws (last (''odoo_'' @ ?s))"
    by (cases "?s = []") (auto simp: list_all_iff is_ws_def)
  then have "js_trim (''odoo_'' @ ?s) = ''odoo_'' @ ?s"
    by (intro js_trim_id) (simp_all add: is_ws_def)
  then show ?thesis by (simp add: raw_key_def generateOdooApiKey_def Let_def starts_with_def or_empty_def)
qed

text \<open>A key that is revoked while another one is added is dead.\<close>

lemma replaced_dead:
  assumes keys: "keys_ok db" and row: "row \<in> set (api_keys db)" "tenant_key i t row"
    and new: "ak_hash new \<noteq> ak_hash row"
    and upd: "api_keys db' = update_where (tenant_key i t) (\<lambda>k. k\<lparr>ak_revoked := Some n\<rparr>) (api_keys db @ [new])"
  shows "dead_hash (ak_hash row) db'"
  unfolding dead_hash_def list_all_iff
proof (intro ballI impI)
  fix k assume k: "k \<in> set (api_keys db')" "ak_hash k = ak_hash row"
  then obtain k0 where k0: "k0 \<in> set (api_keys db @ [new])" "k = (if tenant_key i t k0 then k0\<lparr>ak_revoked := Some n\<rparr> else k0)"
    unfolding upd set_update_where by blast
  then have "ak_hash k0 = ak_hash row" using k(2) by (simp split: if_splits)
  then have "k0 = row"
    using k0(1) new keys unique_by_same [of ak_hash "api_keys db" k0 row] row(1) by (auto simp: keys_ok_def)
  then show "ak_revoked k \<noteq> None" using k0(2) row(2) by simp
qed

text \<open>C35. A rotation that answers 201 revokes the presented key for good and puts one in its place: the old key is refused
  after any run that does not draw its hash again, and the returned one is accepted for the same tenant, scope and document
  types after any run in which it is neither revoked nor rotated itself.\<close>

theorem rotation_replaces:
  assumes keys: "keys_ok db"
    and rot: "rotate_POST sha c random32 random8 claims i db = (db', rep)" and st: "http_status rep = 201"
    and old: "snd (validateOdooKey sha now tf auth api db) = Some row" and i: "ak_id row = i"
    and bytes: "\<forall>b \<in> set random32. b < 256"
  shows "\<exists>m raw new. claims = Some m \<and> mc_tenant m = ak_tenant row \<and> jget (http_body rep) ''apiKey'' = Some (JStr raw)
     \<and> ak_tenant new = ak_tenant row \<and> ak_scope new = ak_scope row \<and> ak_doc_types new = ak_doc_types row \<and> ak_id new \<noteq> i
     \<and> (\<forall>ops now2 tf2. list_all (\<lambda>op. minted sha op \<noteq> Some (ak_hash row)) ops \<longrightarrow>
          snd (validateOdooKey sha now2 tf2 auth api (key_run sha ops db')) = None)
     \<and> (\<forall>ops now2 tf2. list_all (\<lambda>op. \<not> may_revoke (ak_id new) (ak_tenant new) op) ops \<longrightarrow>
          (\<exists>row2. snd (validateOdooKey sha now2 tf2 (Some (''Bearer '' @ raw)) None (key_run sha ops db')) = Some row2
             \<and> same_grant new row2))"
  using rot
proof (cases rule: rotated)
  case refused
  then show ?thesis using st by simp
next
  case (rotated m l)
  let ?raw = "fst (generateOdooApiKey sha random32 random8)" and ?hash = "fst (snd (generateOdooApiKey sha random32 random8))"
  let ?new = "rotated_key (db_now c) (mc_tenant m) (snd (snd (generateOdooApiKey sha random32 random8))) ?hash l"
  note row = validate_row [OF old]
  have l: "l \<in> set (api_keys db)" "ak_tenant l = mc_tenant m"
    using find_first_Some_iff [OF rotated(2)] by (simp_all add: tenant_key_def)
  have "row = l"
    using keys unique_by_same [of ak_id "api_keys db" row l] row l(1) i rotated(4) by (simp add: keys_ok_def)
  have new: "ak_id ?new \<noteq> i" "ak_hash ?new \<noteq> ak_hash row"
    using rotated(5) l(1) \<open>row = l\<close> i by (auto simp: rotated_key_def key_taken_def list_ex_iff)
  have ok: "keys_ok db'"
    using keys_ok_exec [OF keys, of sha "KeyRotate c random32 random8 claims i"] rot by simp
  have "in_use ?new db'"
    by (rule in_use_kept [OF ok, of ?new])
      (use new(1) in \<open>auto simp: rotated(6) set_update_where tenant_key_def same_grant_def rotated_key_def\<close>)
  then have live: "in_use ?new (key_run sha ops db')" if "list_all (\<lambda>op. \<not> may_revoke (ak_id ?new) (ak_tenant ?new) op) ops" for ops
    unfolding key_run_def by (rule key_use.run_keeps [OF that])
  have "dead_hash (ak_hash row) db'"
    by (rule replaced_dead [OF keys _ _ new(2) rotated(6)]) (use row l \<open>row = l\<close> i in \<open>simp_all add: tenant_key_def\<close>)
  then have "dead_hash (ak_hash row) (key_run sha ops db')" if "list_all (\<lambda>op. minted sha op \<noteq> Some (ak_hash row)) ops" for ops
    unfolding key_run_def by (rule key_death.run_keeps [OF that])
  then have "snd (validateOdooKey sha now2 tf2 auth api (key_run sha ops db')) = None"
    if "list_all (\<lambda>op. minted sha op \<noteq> Some (ak_hash row)) ops" for ops now2 tf2
    using dead_refused row that by simp
  moreover have "\<exists>row2. snd (validateOdooKey sha now2 tf2 (Some (''Bearer '' @ ?raw)) None (key_run sha ops db')) = Some row2 \<and> same_grant ?new row2"
    if "list_all (\<lambda>op. \<not> may_revoke (ak_id ?new) (ak_tenant ?new) op) ops" for ops now2 tf2
    by (rule in_use_validates [OF live [OF that]])
      (simp_all only: minted_header [OF bytes], simp_all add: rotated_key_def generateOdooApiKey_def starts_with_def Let_def)
  ultimately show ?thesis
    using rotated(1,8) l(2) \<open>row = l\<close> new(1)
    by (intro exI [of _ m] exI [of _ ?raw] exI [of _ ?new]) (simp add: rotated_key_def)
qed

definition demo_key :: api_key where
  "demo_key = \<lparr>ak_id = ''key_1'', ak_tenant = ''t'', ak_scope = ''read_only'', ak_name = ''Odoo'', ak_description = None,
     ak_hash = ''#odoo_old'', ak_doc_types = Some [''Invoice''], ak_created = 0, ak_last_used = None, ak_revoked = None\<rparr>"

definition key_manager :: ManagerClaims where
  "key_manager = \<lparr>mc_jti = ''j'', mc_iat = 0, mc_exp = 100, mc_tenant = ''t'', mc_user = Some ''u'', mc_role = Admin\<rparr>"

definition key_rotation :: "gateway_db \<times> http" where
  "key_rotation = rotate_POST (\<lambda>s. CHR ''#'' # s) \<lparr>db_now = 5, app_now = 5\<rparr> [0, 16, 131] [7] (Some key_manager) ''key_1''
     (empty_db\<lparr>api_keys := [demo_key]\<rparr>)"

lemma rotation_replaces_witness:
  "jget (http_body (snd key_rotation)) ''apiKey'' = Some (JStr ''odoo_ABCD'')
   \<and> snd (validateOdooKey (\<lambda>s. CHR ''#'' # s) 1 False None (Some ''odoo_old '') (empty_db\<lparr>api_keys := [demo_key]\<rparr>)) = Some demo_key
   \<and> snd (validateOdooKey (\<lambda>s. CHR ''#'' # s) 9 False None (Some ''odoo_old '') (fst key_rotation)) = None"
proof (intro conjI)
  show "jget (http_body (snd key_rotation)) ''apiKey'' = Some (JStr ''odoo_ABCD'')" by code_simp
  show old: "snd (validateOdooKey (\<lambda>s. CHR ''#'' # s) 1 False None (Some ''odoo_old '') (empty_db\<lparr>api_keys := [demo_key]\<rparr>)) = Some demo_key"
    by code_simp
  have ok: "keys_ok (empty_db\<lparr>api_keys := [demo_key]\<rparr>)" by code_simp
  have run: "rotate_POST (\<lambda>s. CHR ''#'' # s) \<lparr>db_now = 5, app_now = 5\<rparr> [0, 16, 131] [7] (Some key_manager) ''key_1''
     (empty_db\<lparr>api_keys := [demo_key]\<rparr>) = (fst key_rotation, snd key_rotation)"
    by (simp add: key_rotation_def)
  have st: "http_status (snd key_rotation) = 201" by code_simp
  have i: "ak_id demo_key = ''key_1''" and bytes: "\<forall>b \<in> set [0, 16, 131 :: nat]. b < 256"
    by (simp_all add: demo_key_def)
  have "\<forall>ops now2 tf2. list_all (\<lambda>op. minted (\<lambda>s. CHR ''#'' # s) op \<noteq> Some (ak_hash demo_key)) ops \<longrightarrow>
      snd (validateOdooKey (\<lambda>s. CHR ''#'' # s) now2 tf2 None (Some ''odoo_old '') (key_run (\<lambda>s. CHR ''#'' # s) ops (fst key_rotation))) = None"
    using rotation_replaces [OF ok run st old i bytes] by blast
  from this [rule_format, of "[]" 9 False]
  show "snd (validateOdooKey (\<lambda>s. CHR ''#'' # s) 9 False None (Some ''odoo_old '') (fst key_rotation)) = None"
    by (simp add: key_run_def)
qed

end
