(* ===== verification/Job_Listing.thy ===== *)
theory Job_Listing
  imports Agent_Admin
begin

text \<open>
  What managers are shown: the job list (\<open>api/jobs\<close> and \<open>getDashboardJobs\<close>), one job
  (\<open>api/jobs/[id]\<close>), the dashboard's state, the listings of discoveries and the diagnosis of a printer. SQL's LIKE
  and LOWER are written out; LOWER changes the letters \<^const>\<open>js_lower\<close> changes.
\<close>

section \<open>LIKE\<close>

text \<open>The pattern first: percent for any text, underscore for any character, backslash for the next character itself.\<close>

fun sql_like :: "string \<Rightarrow> string \<Rightarrow> bool" where
  "sql_like [] s = (s = [])"
| "sql_like (p # ps) s =
     (if p = CHR ''%'' then sql_like ps s \<or> (case s of [] \<Rightarrow> False | c # cs \<Rightarrow> sql_like (p # ps) cs)
      else
        case s of
          [] \<Rightarrow> False
        | c # cs \<Rightarrow>
            if p = CHR ''_'' then sql_like ps cs
            else if p = CHR 0x5C then (case ps of [] \<Rightarrow> False | q # qs \<Rightarrow> c = q \<and> sql_like qs cs)
            else c = p \<and> sql_like ps cs)"

section \<open>The filters\<close>

definition error_marked :: "string option \<Rightarrow> bool" where
  "error_marked err \<longleftrightarrow>
     list_ex (\<lambda>m. case err of None \<Rightarrow> False | Some e \<Rightarrow> sql_like (m @ ''%'') e) PHYSICAL_OUTCOME_UNKNOWN_MARKERS"

definition error_unmarked :: "string option \<Rightarrow> bool" where
  "error_unmarked err \<longleftrightarrow> list_all (\<lambda>m. \<not> sql_like (m @ ''%'') (or_empty err)) PHYSICAL_OUTCOME_UNKNOWN_MARKERS"

definition unassigned :: "gateway_db \<Rightarrow> print_job \<Rightarrow> bool" where
  "unassigned db j \<longleftrightarrow>
     jb_destination j = Some ''unassigned'' \<or> jb_printer j = ''unassigned''
     \<or> \<not> List.member (map pr_id (select_where (\<lambda>p. pr_lifecycle p = Active) (printers db))) (jb_printer j)
     \<or> \<not> List.member (map ag_id (select_where (\<lambda>a. ag_lifecycle a = Active) (agents db))) (jb_agent j)"

definition status_filter :: "string \<Rightarrow> gateway_db \<Rightarrow> print_job \<Rightarrow> bool" where
  "status_filter status db j =
     (if status = ''active'' \<or> status = ''in_flight'' then List.member [Queued, Claimed, Printing] (jb_status j)
      else if status = ''queued'' \<or> status = ''claimed'' \<or> status = ''printing'' \<or> status = ''expired''
      then status_str (jb_status j) = status
      else if status = ''success'' \<or> status = ''printed'' then jb_status j = Success
      else if status = ''unknown'' \<or> status = ''attention'' then error_marked (jb_error j)
      else if status = ''failed'' then jb_status j = Failed \<and> error_unmarked (jb_error j)
      else if status = ''unassigned'' then unassigned db j
      else True)"

definition search_filter :: "string \<Rightarrow> print_job \<Rightarrow> bool" where
  "search_filter search j =
     (let pat = ''%'' @ js_lower search @ ''%'' in
      sql_like pat (js_lower (jb_id j)) \<or> sql_like pat (js_lower (or_empty (jb_destination j)))
      \<or> sql_like pat (js_lower (or_empty (jb_doc_type j))) \<or> sql_like pat (js_lower (jb_printer j))
      \<or> sql_like pat (js_lower (jb_agent j)) \<or> sql_like pat (js_lower (or_empty (jb_error j))))"

record job_query =
  jq_status :: "string option"
  jq_search :: "string option"
  jq_printer :: "string option"
  jq_agent :: "string option"

definition job_conditions :: "string \<Rightarrow> job_query \<Rightarrow> gateway_db \<Rightarrow> print_job \<Rightarrow> bool" where
  "job_conditions tenantId q db j \<longleftrightarrow>
     jb_tenant j = tenantId
     \<and> (truthy (jq_status q) \<and> jq_status q \<noteq> Some ''all'' \<longrightarrow> status_filter (the (jq_status q)) db j)
     \<and> (truthy (jq_printer q) \<longrightarrow> Some (jb_printer j) = jq_printer q)
     \<and> (truthy (jq_agent q) \<longrightarrow> Some (jb_agent j) = jq_agent q)
     \<and> (truthy (jq_search q) \<longrightarrow> search_filter (the (jq_search q)) j)"

text \<open>
  ORDER BY names the creation time alone, so the database lists jobs of the same instant in any order,
  which may be another one at each request: \<open>tie\<close> is the one it takes.
\<close>

definition job_rows ::
  "(print_job \<Rightarrow> nat) \<Rightarrow> string \<Rightarrow> job_query \<Rightarrow> nat \<Rightarrow> nat \<Rightarrow> gateway_db \<Rightarrow> print_job list" where
  "job_rows tie tenantId q limit offset db =
     take limit (drop offset
       (sort_key (\<lambda>j. - jb_created j) (sort_key tie (select_where (job_conditions tenantId q db) (print_jobs db)))))"

section \<open>The job list\<close>

definition listed_columns :: "print_job \<Rightarrow> (string \<times> json) list" where
  "listed_columns j =
     [(''id'', JStr (jb_id j)), (''destination'', jopt (jb_destination j)), (''documentType'', jopt (jb_doc_type j)),
      (''agentId'', JStr (jb_agent j)), (''printerId'', JStr (jb_printer j)), (''status'', JStr (status_str (jb_status j))),
      (''error'', jopt (jb_error j)), (''requestedBy'', jopt (jb_requested_by j)), (''idempotencyKey'', jopt (jb_idem j)),
      (''retries'', jint (int (jb_retries j))), (''deliveryAttempts'', jint (int (jb_attempts j))),
      (''claimedAt'', jdate (jb_claimed_at j)), (''deliveredAt'', jdate (jb_delivered_at j)), (''ackedAt'', jdate (jb_acked_at j)),
      (''expiresAt'', jdate (Some (jb_expires j))), (''createdAt'', jdate (Some (jb_created j))),
      (''updatedAt'', jdate (Some (jb_updated j)))]"

definition job_outcome :: "print_job \<Rightarrow> PhysicalOutcome" where
  "job_outcome j = derivePhysicalOutcome (status_str (jb_status j)) (jb_error j)"

definition listed_job :: "print_job \<Rightarrow> json" where
  "listed_job j = JObj (listed_columns j @ [(''physicalOutcome'', JStr (outcome_str (job_outcome j)))])"

text \<open>\<open>parseInt(s, 10)\<close>, \<^const>\<open>None\<close> for NaN.\<close>

definition parseInt10 :: "string \<Rightarrow> int option" where
  "parseInt10 s =
     (let t = dropWhile is_ws s;
          body = (if t \<noteq> [] \<and> (hd t = CHR ''-'' \<or> hd t = CHR ''+'') then tl t else t);
          digits = takeWhile (\<lambda>c. 48 \<le> (of_char c :: nat) \<and> (of_char c :: nat) \<le> 57) body;
          n = foldl (\<lambda>acc c. acc * 10 + (int (of_char c) - 48)) 0 digits
      in if digits = [] then None else Some (if t \<noteq> [] \<and> hd t = CHR ''-'' then - n else n))"

definition int_param :: "string option \<Rightarrow> int \<Rightarrow> int" where
  "int_param v d =
     (case v of None \<Rightarrow> d | Some s \<Rightarrow> (case parseInt10 s of None \<Rightarrow> d | Some n \<Rightarrow> if n = 0 then d else n))"

text \<open>A negative LIMIT is refused by the database, which no handler catches.\<close>

definition jobs_GET ::
  "(print_job \<Rightarrow> nat) \<Rightarrow> ManagerClaims option \<Rightarrow> (string \<Rightarrow> string option) \<Rightarrow> gateway_db \<Rightarrow> http" where
  "jobs_GET tie claims get db =
     (case authorize claims Jobs_read of
        Inl rep \<Rightarrow> rep
      | Inr m \<Rightarrow>
          (let statusParam = map_option (\<lambda>s. js_lower (js_trim s)) (get ''status'');
               searchParam = map_option js_trim (case get ''search'' of None \<Rightarrow> get ''q'' | Some s \<Rightarrow> Some s);
               limit = min (int_param (get ''limit'') 50) 200;
               offset = max (int_param (get ''offset'') 0) 0
           in if truthy statusParam \<and> \<not> isJobFilterStatus statusParam then error_reply 400 ''invalid status filter''
              else if limit < 0 then reply 500 []
              else http_json 200 (JArr (map listed_job
                     (job_rows tie (mc_tenant m)
                        \<lparr>jq_status = statusParam, jq_search = searchParam, jq_printer = get ''printerId'', jq_agent = get ''agentId''\<rparr>
                        (nat limit) (nat offset) db)))))"

definition getDashboardJobs ::
  "(print_job \<Rightarrow> nat) \<Rightarrow> ManagerClaims option \<Rightarrow> string option \<Rightarrow> string option \<Rightarrow> int option \<Rightarrow> int option \<Rightarrow> gateway_db
     \<Rightarrow> action_error + json list" where
  "getDashboardJobs tie claims status search limit_opt offset_opt db =
     (case requireManager claims Jobs_read of
        Inl e \<Rightarrow> Inl e
      | Inr m \<Rightarrow>
          (let statusParam = map_option (\<lambda>s. js_lower (js_trim s)) status;
               searchParam = map_option js_trim search;
               limit = min (max (case limit_opt of Some n \<Rightarrow> n | None \<Rightarrow> 50) 1) 200;
               offset = max (case offset_opt of Some n \<Rightarrow> n | None \<Rightarrow> 0) 0
           in if truthy statusParam \<and> \<not> isJobFilterStatus statusParam then Inl (ActionError ''Invalid status filter'' 400)
              else Inr (map listed_job
                     (job_rows tie (mc_tenant m) \<lparr>jq_status = statusParam, jq_search = searchParam, jq_printer = None, jq_agent = None\<rparr>
                        (nat limit) (nat offset) db))))"

text \<open>The whole row.\<close>

definition job_json :: "print_job \<Rightarrow> json" where
  "job_json j =
     JObj (listed_columns j @
       [(''tenantId'', JStr (jb_tenant j)), (''apiKeyId'', jopt (jb_api_key j)), (''payload'', jb_payload j),
        (''requestId'', jopt (jb_request_id j)), (''claimToken'', jopt (jb_token j))])"

definition job_GET :: "ManagerClaims option \<Rightarrow> string \<Rightarrow> gateway_db \<Rightarrow> http" where
  "job_GET claims i db =
     (case authorize claims Jobs_read of
        Inl rep \<Rightarrow> rep
      | Inr m \<Rightarrow>
          (case find_first (\<lambda>j. jb_id j = i \<and> jb_tenant j = mc_tenant m) (print_jobs db) of
             None \<Rightarrow> error_reply 404 ''Not found''
           | Some j \<Rightarrow> http_json 200 (job_json j)))"

section \<open>The cleanup route\<close>

definition MAX_CLEANUP_ROWS :: nat where "MAX_CLEANUP_ROWS = 5000"

text \<open>\<open>to_number\<close> is \<open>Number(text)\<close>, \<open>date_parse\<close> is \<open>new Date(text)\<close>.\<close>

definition jobs_DELETE ::
  "(string \<Rightarrow> js_number) \<Rightarrow> (string \<Rightarrow> time option) \<Rightarrow> time \<Rightarrow> ManagerClaims option \<Rightarrow> (string \<Rightarrow> string option) \<Rightarrow> gateway_db
     \<Rightarrow> gateway_db \<times> http" where
  "jobs_DELETE to_number date_parse now claims get db =
     (case authorize claims Jobs_cancel of
        Inl rep \<Rightarrow> (db, rep)
      | Inr m \<Rightarrow>
          if get ''confirm'' \<noteq> Some ''1'' then (db, error_reply 400 ''Cleanup requires confirm=1'')
          else if \<not> truthy (get ''before'') then (db, error_reply 400 ''Cleanup requires before=<ISO-8601 timestamp>'')
          else
            case date_parse (the (get ''before'')) of
              None \<Rightarrow> (db, error_reply 400 ''before must be a valid ISO-8601 timestamp'')
            | Some before \<Rightarrow>
                if before > now then (db, error_reply 400 ''before cannot be in the future'')
                else
                  (let bad = (db, error_reply 400 (''limit must be an integer between 1 and '' @ nat_str MAX_CLEANUP_ROWS)) in
                   case (case get ''limit'' of None \<Rightarrow> Fin (of_nat MAX_CLEANUP_ROWS) | Some s \<Rightarrow> to_number s) of
                     NotFinite \<Rightarrow> bad
                   | Fin r \<Rightarrow>
                       if of_int \<lfloor>r\<rfloor> \<noteq> r \<or> r < 1 \<or> r > of_nat MAX_CLEANUP_ROWS then bad
                       else
                         case cleanup_jobs (mc_tenant m) before (nat \<lfloor>r\<rfloor>) db of
                           (db', deleted) \<Rightarrow>
                             (db', reply 200 [(''deleted'', jint (int deleted)), (''before'', JStr (toISOString before)),
                                              (''limit'', JNum r)])))"

section \<open>The dashboard's state\<close>

definition dashboard_agent :: "string \<Rightarrow> gateway_db \<Rightarrow> agent \<Rightarrow> json" where
  "dashboard_agent tenantId db a =
     JObj [(''id'', JStr (ag_id a)), (''name'', JStr (ag_name a)), (''pairingCode'', JNull),
           (''pairingCodeExpiresAt'', jdate (ag_pairing_expires a)),
           (''status'', JStr (if ag_status a = Online then ''online'' else ''offline'')),
           (''lifecycle'', JStr (lifecycle_str (ag_lifecycle a))),
           (''metadata'', case ag_metadata a of Some es \<Rightarrow> JObj es | None \<Rightarrow> JNull), (''lastSeenAt'', jdate (ag_last_seen a)),
           (''createdAt'', jdate (Some (ag_created a))),
           (''printerCount'', jint (int (count_where (printer_of (ag_id a) tenantId) (printers db))))]"

definition getDashboardState :: "ManagerClaims option \<Rightarrow> gateway_db \<Rightarrow> action_error + json" where
  "getDashboardState claims db =
     (case requireManager claims Tenant_read of
        Inl e \<Rightarrow> Inl e
      | Inr m \<Rightarrow>
          (let t = mc_tenant m in
           Inr (JObj
             [(''agents'', JArr (map (dashboard_agent t db)
                (sort_key (\<lambda>a. - ag_created a) (select_where (\<lambda>a. ag_tenant a = t) (agents db))))),
              (''printers'', JArr (map printer_json
                (sort_key (\<lambda>p. - pr_created p) (select_where (\<lambda>p. pr_tenant p = t) (printers db))))),
              (''jobs'', JArr (map (\<lambda>j. JObj (listed_columns j @ [(''tenantId'', JStr (jb_tenant j))]))
                (order_limit (\<lambda>j. - jb_created j) 50 (select_where (\<lambda>j. jb_tenant j = t) (print_jobs db)))))])))"

section \<open>Discoveries\<close>

definition session_json :: "discovery_session \<Rightarrow> json" where
  "session_json s =
     JObj [(''id'', JStr (ds_id s)), (''tenantId'', JStr (ds_tenant s)), (''agentId'', JStr (ds_agent s)),
           (''status'', JStr (ds_status s)), (''config'', JObj (ds_config s)),
           (''stats'', JObj (case ds_candidates s of Some n \<Rightarrow> [(''candidates'', jint (int n))] | None \<Rightarrow> [])),
           (''startedAt'', jdate (Some (ds_started s))), (''completedAt'', jdate (ds_completed s)),
           (''createdAt'', jdate (Some (ds_created s))), (''updatedAt'', jdate (Some (ds_updated s)))]"

definition discovery_list_GET :: "ManagerClaims option \<Rightarrow> string \<Rightarrow> gateway_db \<Rightarrow> http" where
  "discovery_list_GET claims agentId db =
     (case authorize claims Agents_read of
        Inl rep \<Rightarrow> rep
      | Inr m \<Rightarrow>
          (case find_first (agent_in agentId (mc_tenant m)) (agents db) of
             None \<Rightarrow> error_reply 404 ''Agent not found''
           | Some a \<Rightarrow>
               http_json 200 (JArr (map session_json
                 (order_limit (\<lambda>s. - ds_created s) 20
                   (select_where (\<lambda>s. ds_agent s = agentId \<and> ds_tenant s = mc_tenant m) (discovery_sessions db)))))))"

section \<open>The diagnosis of a printer\<close>

definition diagnosis :: "printer \<Rightarrow> bool \<Rightarrow> bool \<Rightarrow> string option \<Rightarrow> (string \<times> json) list" where
  "diagnosis p reachable agentOnline err =
     [(''reachable'', JBool reachable), (''latencyMs'', JNull), (''live'', JBool False), (''lastHeartbeatAt'', jdate (pr_last_seen p)),
      (''agentOnline'', JBool agentOnline), (''error'', jopt err)]"

text \<open>The dash of one message is a character above 255 and given as a hyphen.\<close>

definition test_connection_POST :: "js_number option \<Rightarrow> time \<Rightarrow> ManagerClaims option \<Rightarrow> string \<Rightarrow> gateway_db \<Rightarrow> http" where
  "test_connection_POST env now claims i db =
     (case authorize claims Printers_test of
        Inl rep \<Rightarrow> rep
      | Inr m \<Rightarrow>
          (case find_first (printer_in i (mc_tenant m)) (printers db) of
             None \<Rightarrow> error_reply 404 ''Printer not found''
           | Some p \<Rightarrow>
               if pr_lifecycle p \<noteq> Active then reply 200 (diagnosis p False False (Some ''printer disabled''))
               else
                 case find_first (agent_in (pr_agent p) (mc_tenant m)) (agents db) of
                   None \<Rightarrow> reply 404 (diagnosis p False False (Some ''agent not found''))
                 | Some a \<Rightarrow>
                     (let cfg = or_else (pr_config p) [] in
                      if pr_connection p = ''network'' \<and> (\<not> js_truthy (jprop ''ip'' cfg) \<or> \<not> js_truthy (jprop ''port'' cfg))
                      then reply 200 (diagnosis p False False (Some ''missing ip/port in config''))
                      else if \<not> fst (getAgentAvailability env a now)
                      then reply 200 (diagnosis p False False (Some ''agent offline - printer reachability unknown until agent reconnects''))
                      else
                        let reachable = (pr_status p = ''online'')
                        in reply 200 (diagnosis p reachable True
                             (if reachable then None else Some (''last heartbeat printer.status='' @ pr_status p))))))"

section \<open>What the filters tell\<close>

lemma like_any: "sql_like ''%'' s"
  by (induction s) auto

lemma like_prefix: "list_all (\<lambda>c. c \<noteq> CHR ''%'' \<and> c \<noteq> CHR 0x5C) m \<Longrightarrow> starts_with s m \<Longrightarrow> sql_like (m @ ''%'') s"
proof (induction m arbitrary: s)
  case Nil
  then show ?case by (simp only: append_Nil like_any)
next
  case (Cons c m)
  then show ?case by (cases s) auto
qed

lemma markers_plain: "list_all (list_all (\<lambda>c. c \<noteq> CHR ''%'' \<and> c \<noteq> CHR 0x5C)) PHYSICAL_OUTCOME_UNKNOWN_MARKERS"
  by code_simp

lemma unknown_marked: "job_outcome j = UnknownOutcome \<Longrightarrow> error_marked (jb_error j)"
proof -
  assume "job_outcome j = UnknownOutcome"
  then obtain m where m: "m \<in> set PHYSICAL_OUTCOME_UNKNOWN_MARKERS" "starts_with (or_empty (jb_error j)) m"
    by (auto simp: job_outcome_def derivePhysicalOutcome_def list_ex_iff split: if_splits)
  have plain: "list_all (\<lambda>c. c \<noteq> CHR ''%'' \<and> c \<noteq> CHR 0x5C) m" and "m \<noteq> []"
    using m(1) markers_plain by (auto simp: list_all_iff PHYSICAL_OUTCOME_UNKNOWN_MARKERS_def)
  then have "jb_error j \<noteq> None" using m(2) by (cases m; cases "jb_error j") (auto simp: or_empty_def)
  then show ?thesis using like_prefix [OF plain m(2)] m(1)
    by (auto simp: error_marked_def list_ex_iff or_empty_def)
qed

lemma marked_or_not: "error_unmarked err \<longleftrightarrow> \<not> error_marked err"
proof (cases err)
  case None
  have "list_all (\<lambda>m. \<not> sql_like (m @ ''%'') '''') PHYSICAL_OUTCOME_UNKNOWN_MARKERS" by code_simp
  then show ?thesis by (simp add: None error_unmarked_def error_marked_def or_empty_def list_ex_iff)
qed (auto simp: error_unmarked_def error_marked_def or_empty_def list_ex_iff list_all_iff)

lemma failed_outcome: "status_filter ''failed'' db j \<Longrightarrow> jb_status j = Failed \<and> job_outcome j = NotPrinted"
  using unknown_marked [of j] marked_or_not [of "jb_error j"]
  by (cases "job_outcome j") (auto simp: status_filter_def job_outcome_def derivePhysicalOutcome_def split: if_splits)

lemma unknown_listed: "job_outcome j = UnknownOutcome \<Longrightarrow> status_filter ''unknown'' db j"
  using unknown_marked [of j] by (simp add: status_filter_def)

text \<open>Where a job can stand on the list: after the matching jobs that are newer, before those that are older.\<close>

definition newer_jobs :: "string \<Rightarrow> job_query \<Rightarrow> gateway_db \<Rightarrow> print_job \<Rightarrow> nat" where
  "newer_jobs t q db j = count_where (\<lambda>i. job_conditions t q db i \<and> jb_created i > jb_created j) (print_jobs db)"

definition not_older_jobs :: "string \<Rightarrow> job_query \<Rightarrow> gateway_db \<Rightarrow> print_job \<Rightarrow> nat" where
  "not_older_jobs t q db j = count_where (\<lambda>i. job_conditions t q db i \<and> jb_created i \<ge> jb_created j) (print_jobs db)"

lemma sorted_position:
  assumes "sorted (map k xs)" and "i < length xs"
  shows "length (filter (\<lambda>y. k y < k (xs ! i)) xs) \<le> i" and "i < length (filter (\<lambda>y. k y \<le> k (xs ! i)) xs)"
proof -
  have xs: "xs = take i xs @ drop i xs" by simp
  have "k (xs ! i) \<le> k y" if "y \<in> set (drop i xs)" for y
  proof -
    obtain n where "n < length xs - i" "y = xs ! (i + n)" using \<open>y \<in> set (drop i xs)\<close> by (auto simp: in_set_conv_nth)
    then show ?thesis using sorted_nth_mono [OF assms(1), of i "i + n"] by simp
  qed
  then have "filter (\<lambda>y. k y < k (xs ! i)) (drop i xs) = []" by (auto simp: filter_empty_conv not_less)
  then have "filter (\<lambda>y. k y < k (xs ! i)) xs = filter (\<lambda>y. k y < k (xs ! i)) (take i xs)"
    by (subst xs, subst filter_append) simp
  then show "length (filter (\<lambda>y. k y < k (xs ! i)) xs) \<le> i"
    using length_filter_le [of _ "take i xs"] by (simp add: le_trans)
  have "k y \<le> k (xs ! i)" if "y \<in> set (take (Suc i) xs)" for y
  proof -
    obtain n where "n < length (take (Suc i) xs)" "y = take (Suc i) xs ! n"
      using \<open>y \<in> set (take (Suc i) xs)\<close> by (metis in_set_conv_nth)
    then have "n \<le> i" "y = xs ! n" by simp_all
    then show ?thesis using sorted_nth_mono [OF assms(1), of n i] assms(2) by simp
  qed
  then have "filter (\<lambda>y. k y \<le> k (xs ! i)) (take (Suc i) xs) = take (Suc i) xs" by (simp add: filter_id_conv)
  moreover have "filter (\<lambda>y. k y \<le> k (xs ! i)) xs
      = filter (\<lambda>y. k y \<le> k (xs ! i)) (take (Suc i) xs) @ filter (\<lambda>y. k y \<le> k (xs ! i)) (drop (Suc i) xs)"
    by (metis append_take_drop_id filter_append)
  ultimately show "i < length (filter (\<lambda>y. k y \<le> k (xs ! i)) xs)" using assms(2) by simp
qed

lemma listed_position:
  fixes db :: gateway_db
  defines "ordered \<equiv> \<lambda>tie t q. sort_key (\<lambda>j. - jb_created j) (sort_key tie (select_where (job_conditions t q db) (print_jobs db)))"
  assumes "i < length (ordered tie t q)"
  shows "newer_jobs t q db (ordered tie t q ! i) \<le> i" and "i < not_older_jobs t q db (ordered tie t q ! i)"
proof -
  let ?s = "ordered tie t q"
  have len: "length (filter P ?s) = count_where (\<lambda>j. job_conditions t q db j \<and> P j) (print_jobs db)" for P
    unfolding ordered_def count_where_def select_where_def filter_sort length_sort
    by (simp add: conj_commute)
  have "sorted (map (\<lambda>j. - jb_created j) ?s)" unfolding ordered_def by simp
  note pos = sorted_position [OF this assms(2)]
  show "newer_jobs t q db (?s ! i) \<le> i" using pos(1) unfolding len newer_jobs_def by simp
  show "i < not_older_jobs t q db (?s ! i)" using pos(2) unfolding len not_older_jobs_def by simp
qed

lemma page_index:
  "j \<in> set (take n (drop off xs)) \<longleftrightarrow> (\<exists>i. off \<le> i \<and> i < off + n \<and> i < length xs \<and> j = xs ! i)"
proof
  assume "j \<in> set (take n (drop off xs))"
  then obtain k where "k < n" "k < length xs - off" "j = xs ! (off + k)" by (auto simp: in_set_conv_nth)
  then show "\<exists>i. off \<le> i \<and> i < off + n \<and> i < length xs \<and> j = xs ! i" by (intro exI [of _ "off + k"]) simp
next
  assume "\<exists>i. off \<le> i \<and> i < off + n \<and> i < length xs \<and> j = xs ! i"
  then obtain i where i: "off \<le> i" "i < off + n" "i < length xs" "j = xs ! i" by blast
  then have "i - off < n" by arith
  then have "take n (drop off xs) ! (i - off) = j" "i - off < length (take n (drop off xs))"
    using i by (simp_all add: diff_less_mono)
  then show "j \<in> set (take n (drop off xs))" using nth_mem by metis
qed

lemma listed_job_position:
  assumes "j \<in> set (job_rows tie t q n off db)"
  shows "j \<in> set (print_jobs db) \<and> job_conditions t q db j
    \<and> newer_jobs t q db j < off + n \<and> off < not_older_jobs t q db j"
proof -
  let ?s = "sort_key (\<lambda>j. - jb_created j) (sort_key tie (select_where (job_conditions t q db) (print_jobs db)))"
  obtain i where i: "off \<le> i" "i < off + n" "i < length ?s" "j = ?s ! i"
    using assms by (auto simp: job_rows_def page_index)
  have "j \<in> set ?s" unfolding i(4) by (rule nth_mem [OF i(3)])
  then show ?thesis
    using listed_position [OF i(3)] i by (auto simp: select_where_def)
qed

lemma position_listed:
  assumes "j \<in> set (print_jobs db)" and "job_conditions t q db j"
    and "off \<le> newer_jobs t q db j" and "not_older_jobs t q db j \<le> off + n"
  shows "j \<in> set (job_rows tie t q n off db)"
proof -
  let ?s = "sort_key (\<lambda>j. - jb_created j) (sort_key tie (select_where (job_conditions t q db) (print_jobs db)))"
  have "j \<in> set ?s" using assms(1,2) by (simp add: select_where_def)
  then obtain i where "i < length ?s" "j = ?s ! i" by (metis in_set_conv_nth)
  then show ?thesis
    using listed_position [of i tie t q db] assms(3,4)
    unfolding job_rows_def page_index by (intro exI [of _ i]) simp
qed

definition query_of :: "(string \<Rightarrow> string option) \<Rightarrow> job_query" where
  "query_of get =
     \<lparr>jq_status = map_option (\<lambda>s. js_lower (js_trim s)) (get ''status''),
      jq_search = map_option js_trim (case get ''search'' of None \<Rightarrow> get ''q'' | Some s \<Rightarrow> Some s),
      jq_printer = get ''printerId'', jq_agent = get ''agentId''\<rparr>"

lemma listing_rows:
  assumes "jobs_GET tie claims get db = rep" and "http_status rep = 200"
  obtains m where "claims = Some m" and "int_param (get ''limit'') 50 \<ge> 0"
    and "http_body rep = JArr (map listed_job (job_rows tie (mc_tenant m) (query_of get)
           (nat (min (int_param (get ''limit'') 50) 200)) (nat (max (int_param (get ''offset'') 0) 0)) db))"
  using assms
  by (auto simp: jobs_GET_def authorize_def query_of_def http_json_def error_reply_def Let_def split: option.splits if_splits)

lemma listed_fields:
  "jget (listed_job j) ''status'' = Some (JStr (status_str (jb_status j)))"
  "jget (listed_job j) ''physicalOutcome'' = Some (JStr (outcome_str (job_outcome j)))"
  by (simp_all add: listed_job_def listed_columns_def)

lemma short_page: "length (job_rows tie t q n 0 db) < n \<Longrightarrow> job_conditions t q db j \<Longrightarrow> j \<in> set (print_jobs db) \<Longrightarrow> j \<in> set (job_rows tie t q n 0 db)"
  by (simp add: job_rows_def select_where_def split: if_splits)


text \<open>Two jobs of one instant and a page of one entry: the database may list the same one on both pages.\<close>

definition twin_db :: gateway_db where
  "twin_db = shop_db\<lparr>print_jobs := [shop_row, shop_row\<lparr>jb_id := ''j2''\<rparr>]\<rparr>"

definition everything :: job_query where
  "everything = \<lparr>jq_status = None, jq_search = None, jq_printer = None, jq_agent = None\<rparr>"

lemma tied_job_missed:
  "map jb_id (job_rows (\<lambda>_. 0) ''t1'' everything 1 0 twin_db) = [''j1'']
   \<and> map jb_id (job_rows (\<lambda>j. if jb_id j = ''j1'' then 1 else 0) ''t1'' everything 1 1 twin_db) = [''j1'']"
  by code_simp

definition broken_db :: gateway_db where
  "broken_db = shop_db\<lparr>print_jobs :=
     [shop_row\<lparr>jb_status := Failed, jb_error := Some ''no paper''\<rparr>,
      shop_row\<lparr>jb_id := ''j2'', jb_status := Failed, jb_error := Some ''UNKNOWN_PARTIAL_DELIVERY: cable''\<rparr>]\<rparr>"

definition shop_manager :: ManagerClaims where
  "shop_manager = \<lparr>mc_jti = ''j'', mc_iat = 0, mc_exp = 100, mc_tenant = ''t1'', mc_user = Some ''u'', mc_role = Admin\<rparr>"

definition ask :: "string \<Rightarrow> string \<Rightarrow> string option" where
  "ask status k = (if k = ''status'' then Some status else None)"


end
