(* ===== verification/Print_Route.thy ===== *)
theory Print_Route
  imports Odoo_Keys Admission
begin

text \<open>
  The job routes of Odoo installations, \<open>api/print/jobs\<close> and \<open>api/print/jobs/batch-status\<close>: a
  request becomes a job or one of the errors, and what a key can read of jobs. Messages of the
  schema library, the parser of date texts and the request id are arguments.
\<close>

section \<open>The request\<close>

definition MAX_BODY :: rat where "MAX_BODY = 8 * 1024 * 1024"

record print_request =
  pq_printer :: string
  pq_doc_type :: string
  pq_destination :: "string option"
  pq_payload :: json
  pq_expires :: "string option"
  pq_idem :: "string option"

definition any_text :: "json option \<Rightarrow> string option option" where
  "any_text v = string_field (\<lambda>_. True) v"

definition bodySchema :: "json \<Rightarrow> print_request option" where
  "bodySchema body =
     (case body of
        JObj es \<Rightarrow>
          (case (trimmed_field 1 120 (jprop ''printerId'' es), trimmed_field 1 120 (jprop ''documentType'' es),
                 trimmed_field 1 255 (jprop ''destination'' es), any_text (jprop ''expiresAt'' es),
                 trimmed_field 1 200 (jprop ''idempotencyKey'' es)) of
             (Some (Some p), Some (Some d), Some dest, Some ex, Some idem) \<Rightarrow>
               if only_keys [''printerId'', ''documentType'', ''destination'', ''payload'', ''expiresAt'', ''idempotencyKey''] es
               then Some \<lparr>pq_printer = p, pq_doc_type = d, pq_destination = dest, pq_payload = or_else (jprop ''payload'' es) JNull,
                          pq_expires = ex, pq_idem = idem\<rparr>
               else None
           | _ \<Rightarrow> None)
      | _ \<Rightarrow> None)"

definition parseExpiresAt :: "(string \<Rightarrow> time option) \<Rightarrow> time \<Rightarrow> string option \<Rightarrow> string + time" where
  "parseExpiresAt date_parse now value =
     (if \<not> truthy value then Inr (now + 60 * 60 * 1000)
      else
        case date_parse (the value) of
          None \<Rightarrow> Inl ''expiresAt must be in the future''
        | Some t \<Rightarrow>
            if t \<le> now then Inl ''expiresAt must be in the future''
            else if t - now > 24 * 60 * 60 * 1000 then Inl ''expiresAt exceeds the 24 hour maximum''
            else Inr t)"

definition job_fields :: "print_job \<Rightarrow> (string \<times> json) list" where
  "job_fields row =
     [(''jobId'', JStr (jb_id row)), (''status'', JStr (status_str (jb_status row))), (''printerId'', JStr (jb_printer row)),
      (''agentId'', JStr (jb_agent row)), (''destination'', jopt (jb_destination row)), (''documentType'', jopt (jb_doc_type row)),
      (''error'', jopt (jb_error row))]"

definition responseForRow :: "print_job \<Rightarrow> http" where
  "responseForRow row = reply 200 (job_fields row)"

definition idempotencyMatches :: "(rat \<Rightarrow> string) \<Rightarrow> print_job \<Rightarrow> print_request \<Rightarrow> PrintJobPayload \<Rightarrow> bool" where
  "idempotencyMatches num row request payload \<longleftrightarrow>
     stored_fingerprint num row
       = idempotencyFingerprint num (pq_printer request) (Some (pq_doc_type request)) (pq_destination request) (payload_json payload)"

definition idempotencyConflict :: http where
  "idempotencyConflict =
     reply 409 [(''error'', JStr ''IDEMPOTENCY_CONFLICT''), (''code'', JStr ''IDEMPOTENCY_CONFLICT''), (''retryable'', JBool False)]"

definition keyed_job :: "api_key \<Rightarrow> string option \<Rightarrow> print_job \<Rightarrow> bool" where
  "keyed_job key idem j \<longleftrightarrow> jb_tenant j = ak_tenant key \<and> jb_api_key j = Some (ak_id key) \<and> jb_idem j = idem"

section \<open>Errors\<close>

text \<open>The answer to a thrown error; an idempotency conflict of a request with a key looks the job up again.\<close>

definition coded :: "nat \<Rightarrow> string \<Rightarrow> string \<Rightarrow> bool \<Rightarrow> http" where
  "coded st msg code again = reply st [(''error'', JStr msg), (''code'', JStr code), (''retryable'', JBool again)]"

fun create_failed :: "(json \<Rightarrow> string) \<Rightarrow> json \<Rightarrow> service_error \<Rightarrow> http" where
  "create_failed zod_message payload (EntitlementExceeded key limit) =
     (reply 429 [(''error'', JStr (entitlement_message (key, limit))), (''code'', JStr ''TENANT_ENTITLEMENT_EXCEEDED'')])
       \<lparr>http_headers := [(''Retry-After'', ''60'')]\<rparr>"
| "create_failed zod_message payload (PrintJobRateLimited s) =
     (reply 429 [(''error'', JStr ''PRINT_JOB_RATE_LIMITED''), (''retryable'', JBool True), (''retryAfterSeconds'', jint s)])
       \<lparr>http_headers := [(''Retry-After'', int_str s), (''Cache-Control'', ''no-store'')]\<rparr>"
| "create_failed zod_message payload (AgentQueueFull i n) = coded 503 ''AGENT_QUEUE_FULL'' ''AGENT_QUEUE_FULL'' True"
| "create_failed zod_message payload (AgentQueuedJobsFull i n) = coded 503 ''AGENT_QUEUED_QUEUE_FULL'' ''AGENT_QUEUED_QUEUE_FULL'' True"
| "create_failed zod_message payload (CapabilityMismatch reason) = coded 422 reason ''CAPABILITY_MISMATCH'' False"
| "create_failed zod_message payload (InputError msg code st) = coded st msg code (st \<ge> 500)"
| "create_failed zod_message payload InvalidPayload = coded 400 (zod_message payload) ''INVALID_PAYLOAD'' False"
| "create_failed zod_message payload IdempotencyConflict = coded 500 ''Internal server error'' ''INTERNAL_ERROR'' True"
| "create_failed zod_message payload DatabaseError = coded 500 ''Internal server error'' ''INTERNAL_ERROR'' True"

section \<open>Creating a job\<close>

text \<open>
  What the environment supplies besides the key's row: \<open>pe_env0\<close> and \<open>pe_env4\<close> are what other
  transactions do before the first lookup and before the last one.
\<close>

record order_env =
  pe_zod_message :: "json \<Rightarrow> string"
  pe_payload_message :: "json \<Rightarrow> string"
  pe_date_parse :: "string \<Rightarrow> time option"
  pe_now :: time
  pe_request_id :: "string option"
  pe_env0 :: "gateway_db \<Rightarrow> gateway_db"
  pe_create :: create_env
  pe_env4 :: "gateway_db \<Rightarrow> gateway_db"

definition job_options :: "api_key \<Rightarrow> string option \<Rightarrow> time \<Rightarrow> print_request \<Rightarrow> create_options" where
  "job_options key request_id expiresAt request =
     \<lparr>co_requestedBy = ''odoo'', co_idempotencyKey = pq_idem request, co_tenantId = ak_tenant key,
      co_destination = pq_destination request, co_documentType = Some (pq_doc_type request),
      co_expiresAt = Some (Some expiresAt), co_rateLimitKeyId = Some (ak_id key), co_requestId = request_id\<rparr>"

text \<open>The answer to a repeated key: the job if the request is the same, a conflict otherwise.\<close>

definition answer_existing :: "(rat \<Rightarrow> string) \<Rightarrow> print_job option \<Rightarrow> print_request \<Rightarrow> PrintJobPayload \<Rightarrow> http" where
  "answer_existing num existing request payload =
     (case existing of
        Some row \<Rightarrow> if idempotencyMatches num row request payload then responseForRow row else idempotencyConflict
      | None \<Rightarrow> idempotencyConflict)"

definition created_reply :: "print_request \<Rightarrow> create_result \<Rightarrow> http" where
  "created_reply request r =
     reply 201 [(''jobId'', JStr (cr_id r)), (''status'', JStr (cr_status r)), (''printerId'', JStr (cr_printerId r)),
                (''agentId'', JStr (cr_agentId r)), (''destination'', jopt (pq_destination request)),
                (''documentType'', JStr (pq_doc_type request))]"

definition print_create ::
  "order_env \<Rightarrow> api_key \<Rightarrow> print_request \<Rightarrow> PrintJobPayload \<Rightarrow> time \<Rightarrow> ws_registry \<Rightarrow> gateway_db \<Rightarrow> gateway_db \<times> ws_registry \<times> http" where
  "print_create e key request payload expiresAt reg db =
     (case createPrintJobForPrinter (pe_create e) (pq_printer request) (payload_json payload)
             (job_options key (pe_request_id e) expiresAt request) reg db of
        (db1, reg1, Inr r) \<Rightarrow>
          if cr_isReused r
          then let db2 = pe_env4 e db1 in
               (db2, reg1,
                case find_first (\<lambda>j. jb_id j = cr_id r \<and> jb_tenant j = ak_tenant key) (print_jobs db2) of
                  Some row \<Rightarrow> responseForRow row
                | None \<Rightarrow> idempotencyConflict)
          else (db1, reg1, created_reply request r)
      | (db1, reg1, Inl err) \<Rightarrow>
          if err = IdempotencyConflict \<and> truthy (pq_idem request)
          then let db2 = pe_env4 e db1 in
               (db2, reg1,
                answer_existing (ce_num (pe_create e)) (find_first (keyed_job key (pq_idem request)) (print_jobs db2)) request payload)
          else (db1, reg1, create_failed (pe_zod_message e) (payload_json payload) err))"

text \<open>\<open>key\<close> is what \<^const>\<open>validateOdooKey\<close> gave and \<open>db\<close> the state after it.\<close>

definition print_POST ::
  "order_env \<Rightarrow> api_key option \<Rightarrow> js_number option \<Rightarrow> json option \<Rightarrow> ws_registry \<Rightarrow> gateway_db
     \<Rightarrow> gateway_db \<times> ws_registry \<times> http" where
  "print_POST e key len body reg db =
     (if hasBodyOverLimit len MAX_BODY then (db, reg, error_reply 413 ''Request body too large'')
      else
        case key of
          None \<Rightarrow> (db, reg, error_reply 401 ''Unauthorized'')
        | Some odoo \<Rightarrow>
            (case body of
               None \<Rightarrow> (db, reg, error_reply 400 ''Invalid JSON'')
             | Some v \<Rightarrow>
                 (case bodySchema v of
                    None \<Rightarrow> (db, reg, error_reply 400 (pe_zod_message e v))
                  | Some request \<Rightarrow>
                      if \<not> isOdooKeyAllowedForDocumentType odoo (Some (pq_doc_type request)) Write_op
                      then (db, reg, coded 403 ''API key is not allowed to create this document type'' ''ODOO_KEY_NOT_ALLOWED'' False)
                      else
                        case validatePrintJobPayload (pq_payload request) of
                          None \<Rightarrow> (db, reg, error_reply 400 (pe_payload_message e (pq_payload request)))
                        | Some payload \<Rightarrow>
                            (case parseExpiresAt (pe_date_parse e) (pe_now e) (pq_expires request) of
                               Inl msg \<Rightarrow> (db, reg, error_reply 400 msg)
                             | Inr expiresAt \<Rightarrow>
                                 (let db0 = pe_env0 e db;
                                      existing = (if truthy (pq_idem request)
                                                  then find_first (keyed_job odoo (pq_idem request)) (print_jobs db0) else None)
                                  in if existing \<noteq> None
                                     then (db0, reg, answer_existing (ce_num (pe_create e)) existing request payload)
                                     else print_create e odoo request payload expiresAt reg db0)))))"

section \<open>Reading jobs\<close>

definition own_job :: "api_key \<Rightarrow> print_job \<Rightarrow> bool" where
  "own_job key j \<longleftrightarrow> jb_tenant j = ak_tenant key \<and> jb_api_key j = Some (ak_id key)"

definition print_GET :: "api_key option \<Rightarrow> string option \<Rightarrow> gateway_db \<Rightarrow> http" where
  "print_GET key id_param db =
     (case key of
        None \<Rightarrow> error_reply 401 ''Unauthorized''
      | Some odoo \<Rightarrow>
          (let i = map_option js_trim id_param in
           if \<not> truthy i then error_reply 400 ''id query param required''
           else
             case find_first (\<lambda>j. jb_id j = the i \<and> own_job odoo j) (print_jobs db) of
               None \<Rightarrow> error_reply 404 ''Not found''
             | Some row \<Rightarrow>
                 if \<not> isOdooKeyAllowedForDocumentType odoo (jb_doc_type row) Read_op
                 then coded 403 ''API key is not allowed to read this document type'' ''ODOO_KEY_NOT_ALLOWED'' False
                 else responseForRow row))"

definition job_ids_field :: "json option \<Rightarrow> string list option" where
  "job_ids_field v =
     (case v of
        Some (JArr xs) \<Rightarrow>
          if 1 \<le> length xs \<and> length xs \<le> 100 \<and> list_all (\<lambda>x. trimmed_field 1 120 (Some x) \<noteq> None) xs
          then Some (map (\<lambda>x. case x of JStr s \<Rightarrow> js_trim s | _ \<Rightarrow> '''') xs) else None
      | _ \<Rightarrow> None)"

definition batchQuerySchema :: "json \<Rightarrow> string list option" where
  "batchQuerySchema body =
     (case body of JObj es \<Rightarrow> if only_keys [''jobIds''] es then job_ids_field (jprop ''jobIds'' es) else None | _ \<Rightarrow> None)"

definition batch_row :: "print_job \<Rightarrow> json" where
  "batch_row row =
     JObj (job_fields row @ [(''deliveredAt'', jdate (jb_delivered_at row)), (''ackedAt'', jdate (jb_acked_at row)),
                             (''updatedAt'', jdate (Some (jb_updated row)))])"

definition batch_POST :: "(json \<Rightarrow> string) \<Rightarrow> api_key option \<Rightarrow> js_number option \<Rightarrow> json option \<Rightarrow> gateway_db \<Rightarrow> http" where
  "batch_POST zod_message key len body db =
     (if hasBodyOverLimit len MAX_BODY then error_reply 413 ''Request body too large''
      else
        case key of
          None \<Rightarrow> error_reply 401 ''Unauthorized''
        | Some odoo \<Rightarrow>
            (case body of
               None \<Rightarrow> coded 400 ''Invalid JSON body'' ''INVALID_BODY'' False
             | Some v \<Rightarrow>
                 (case batchQuerySchema v of
                    None \<Rightarrow> coded 400 (zod_message v) ''INVALID_PAYLOAD'' False
                  | Some jobIds \<Rightarrow>
                      let rows = select_where (\<lambda>j. List.member (remdups jobIds) (jb_id j) \<and> own_job odoo j) (print_jobs db)
                      in reply 200 [(''jobs'', JArr (map batch_row
                           (filter (\<lambda>row. isOdooKeyAllowedForDocumentType odoo (jb_doc_type row) Read_op) rows)))])))"

end
