(* ===== verification/Print_Answers.thy ===== *)
theory Print_Answers
  imports Print_Route
begin

text \<open>
  What the job routes of Odoo installations guarantee: a request sent again with its idempotency
  key names the job of the first one, and what a key reads depends on its own jobs only.
\<close>

section \<open>Errors have error statuses\<close>

lemma trim_trim [simp]: "js_trim (js_trim s) = js_trim s"
proof (cases "js_trim s = []")
  case True
  have "js_trim [] = []" by (simp add: js_trim_def)
  then show ?thesis unfolding True .
next
  case False
  have d: "dropWhile is_ws (rev (dropWhile is_ws s)) \<noteq> []" using False by (simp add: js_trim_def)
  have "\<not> is_ws (last (js_trim s))"
    using hd_dropWhile [OF d] by (simp add: js_trim_def last_rev)
  moreover have "\<not> is_ws (hd (js_trim s))"
  proof -
    let ?r = "rev (dropWhile is_ws s)"
    obtain pre where split: "?r = pre @ dropWhile is_ws ?r" by (metis takeWhile_dropWhile_id)
    have whole: "dropWhile is_ws s = js_trim s @ rev pre"
      unfolding js_trim_def by (metis split rev_append rev_rev_ident)
    have "hd (js_trim s) = hd (dropWhile is_ws s)"
      unfolding whole using False by (simp add: hd_append)
    moreover have "dropWhile is_ws s \<noteq> []" unfolding whole using False by simp
    ultimately show ?thesis using hd_dropWhile [of is_ws s] by simp
  qed
  ultimately show ?thesis using False by (intro js_trim_id)
qed

lemma prepare_error_status:
  assumes "prepare_job e printerId payload opts db = Inl (InputError msg code st)"
  shows "st \<ge> 400"
proof -
  have checks: "normalizeRequestedBy s = Inl (InputError msg code st) \<Longrightarrow> st \<ge> 400"
    "check_printer i t d = Inl (InputError msg code st) \<Longrightarrow> st \<ge> 400"
    "check_payload v p = Inl (InputError msg code st) \<Longrightarrow> st \<ge> 400"
    "check_agent env n p t d = Inl (InputError msg code st) \<Longrightarrow> st \<ge> 400"
    "check_expiry e opts = Inl (InputError msg code st) \<Longrightarrow> st \<ge> 400" for s i t d v p env n
    by (auto simp: normalizeRequestedBy_def check_printer_def check_payload_def check_agent_def check_expiry_def Let_def
        split: if_splits option.splits CapabilityCheckResult.splits)
  show ?thesis
    using assms unfolding prepare_job_def bind_result_def Let_def
    by (auto dest: checks split: if_splits sum.splits)
qed

lemma insert_error_status:
  "insertQueuedJobAtomically num c jsonb v db = (db', Inl (InputError msg code st)) \<Longrightarrow> st = 400"
  by (auto simp: insertQueuedJobAtomically_def admit_and_insert_def Let_def split: if_splits option.splits sum.splits prod.splits)

lemma create_error_status:
  assumes "createPrintJobForPrinter e printerId payload opts reg db = (db', reg', Inl err)"
  shows "http_status (create_failed zod_message v err) \<noteq> 201"
proof -
  have "st \<ge> 400" if "err = InputError msg code st" for msg code st
    using assms that prepare_error_status insert_error_status unfolding createPrintJobForPrinter_def
    by (fastforce simp: Let_def split: sum.splits prod.splits if_splits)
  then show ?thesis by (cases err) (auto simp: coded_def)
qed

text \<open>The database right after the transaction of a call.\<close>

definition commit_of :: "create_env \<Rightarrow> string \<Rightarrow> json \<Rightarrow> create_options \<Rightarrow> gateway_db \<Rightarrow> gateway_db" where
  "commit_of ce printerId payload opts db =
     (case prepare_job ce printerId payload opts db of
        Inl err \<Rightarrow> ce_env1 ce db
      | Inr v \<Rightarrow> fst (insertQueuedJobAtomically (ce_num ce) (ce_clocks ce) (ce_jsonb ce) v (ce_env2 ce (ce_env1 ce db))))"

text \<open>A call that answers with a new job has committed its row.\<close>

lemma create_committed:
  assumes "createPrintJobForPrinter e printerId payload opts reg db = (db', reg', Inr r)" and "\<not> cr_isReused r"
  obtains v ir where "prepare_job e printerId payload opts db = Inr v"
    and "insertQueuedJobAtomically (ce_num e) (ce_clocks e) (ce_jsonb e) v (ce_env2 e (ce_env1 e db))
       = (commit_of e printerId payload opts db, Inr ir)"
    and "\<not> ir_isReused ir" and "cr_id r = jv_id v"
proof (cases "prepare_job e printerId payload opts db")
  case (Inl err)
  then show ?thesis using assms by (simp add: createPrintJobForPrinter_def Let_def)
next
  case (Inr v)
  obtain dbi res where i: "insertQueuedJobAtomically (ce_num e) (ce_clocks e) (ce_jsonb e) v (ce_env2 e (ce_env1 e db)) = (dbi, res)"
    by (cases "insertQueuedJobAtomically (ce_num e) (ce_clocks e) (ce_jsonb e) v (ce_env2 e (ce_env1 e db))")
  show ?thesis
  proof (cases res)
    case (Inl err)
    then show ?thesis using assms Inr i by (simp add: createPrintJobForPrinter_def Let_def)
  next
    case ok: (Inr ir)
    have fresh: "\<not> ir_isReused ir"
      using assms Inr i ok by (auto simp: createPrintJobForPrinter_def Let_def split: if_splits)
    then have "cr_id r = ir_jobId ir"
      using assms Inr i ok by (auto simp: createPrintJobForPrinter_def Let_def split: prod.splits)
    moreover have "ir_jobId ir = jv_id v"
      using admitted_db [OF fresh_insert(1) [OF i [unfolded ok] fresh]] by simp
    moreover have "commit_of e printerId payload opts db = dbi" by (simp add: commit_of_def Inr i)
    ultimately show ?thesis using that [OF Inr _ fresh] i ok by simp
  qed
qed

lemma prepared_options:
  assumes "prepare_job e printerId payload opts db = Inr v"
  shows "jv_tenant v = co_tenantId opts \<and> jv_api_key v = co_rateLimitKeyId opts \<and> jv_destination v = co_destination opts
     \<and> jv_doc_type v = co_documentType opts \<and> jv_idem v = co_idempotencyKey opts \<and> jv_printer v = js_trim printerId
     \<and> (\<exists>pl. validatePrintJobPayload payload = Some pl \<and> jv_payload v = payload_json pl)"
  using assms
  by (auto simp: prepare_job_def Let_def bind_Inr dest!: check_printer_Inr check_payload_Inr split: if_splits)

section \<open>A request sent again\<close>

text \<open>A request of a key that passes every check before the jobs of the key are looked up.\<close>

definition acceptable :: "order_env \<Rightarrow> api_key \<Rightarrow> js_number option \<Rightarrow> json \<Rightarrow> print_request \<Rightarrow> PrintJobPayload \<Rightarrow> bool" where
  "acceptable e key len body rq pl \<longleftrightarrow>
     \<not> hasBodyOverLimit len MAX_BODY \<and> bodySchema body = Some rq
     \<and> isOdooKeyAllowedForDocumentType key (Some (pq_doc_type rq)) Write_op
     \<and> validatePrintJobPayload (pq_payload rq) = Some pl
     \<and> (\<exists>t. parseExpiresAt (pe_date_parse e) (pe_now e) (pq_expires rq) = Inr t)"

lemma trimmed_text: "trimmed_field lo hi v = Some (Some s) \<Longrightarrow> js_trim s = s"
  by (auto simp: trimmed_field_def string_field_def Let_def split: json.splits option.splits if_splits)

lemma schema_trimmed:
  assumes "bodySchema body = Some rq"
  shows "js_trim (pq_printer rq) = pq_printer rq"
proof -
  obtain es where "trimmed_field 1 120 (jprop ''printerId'' es) = Some (Some (pq_printer rq))"
    using assms by (cases body) (simp_all add: bodySchema_def split: option.splits if_splits, auto)
  then show ?thesis by (rule trimmed_text)
qed

lemma existing_answered:
  assumes "acceptable e key len body rq pl" and "truthy (pq_idem rq)"
    and "find_first (keyed_job key (pq_idem rq)) (print_jobs (pe_env0 e db)) = Some q"
  shows "print_POST e (Some key) len (Some body) reg db
    = (pe_env0 e db, reg, if idempotencyMatches (ce_num (pe_create e)) q rq pl then responseForRow q else idempotencyConflict)"
  using assms by (auto simp: print_POST_def acceptable_def answer_existing_def Let_def)

lemma created_request:
  assumes post: "print_POST e (Some key) len (Some body) reg db = (db', reg', rep)" "http_status rep = 201"
    and acc: "acceptable e key len body rq pl" "parseExpiresAt (pe_date_parse e) (pe_now e) (pq_expires rq) = Inr t"
  obtains r where "createPrintJobForPrinter (pe_create e) (pq_printer rq) (payload_json pl)
           (job_options key (pe_request_id e) t rq) reg (pe_env0 e db) = (db', reg', Inr r)"
    and "\<not> cr_isReused r" and "rep = created_reply rq r"
proof -
  have made: "print_create e key rq pl t reg (pe_env0 e db) = (db', reg', rep)"
    using post acc
    by (auto simp: print_POST_def acceptable_def answer_existing_def responseForRow_def idempotencyConflict_def Let_def
        split: if_splits option.splits)
  obtain db1 reg1 res where c: "createPrintJobForPrinter (pe_create e) (pq_printer rq) (payload_json pl)
      (job_options key (pe_request_id e) t rq) reg (pe_env0 e db) = (db1, reg1, res)"
    by (metis prod_cases3)
  show ?thesis
  proof (cases res)
    case (Inl err)
    then show ?thesis
      using made post(2) c create_error_status [OF c [unfolded Inl]]
      by (auto simp: print_create_def answer_existing_def responseForRow_def idempotencyConflict_def Let_def
          split: if_splits option.splits)
  next
    case (Inr r)
    then show ?thesis
      using made post(2) c that [of r]
      by (auto simp: print_create_def responseForRow_def idempotencyConflict_def Let_def
          split: if_splits option.splits)
  qed
qed

lemma keyed_idempotent:
  assumes "truthy idem" and "ak_id key \<noteq> []"
    and "jv_tenant v = ak_tenant key" and "jv_api_key v = Some (ak_id key)" and "jv_idem v = idem"
  shows "idempotent_where v = keyed_job key idem"
  using assms by (auto simp: idempotent_where_def keyed_job_def fun_eq_iff)

text \<open>The database right after the transaction that inserts the job of a request whose expiry is \<open>t\<close>.\<close>

definition committed_db :: "order_env \<Rightarrow> api_key \<Rightarrow> print_request \<Rightarrow> PrintJobPayload \<Rightarrow> time \<Rightarrow> gateway_db \<Rightarrow> gateway_db" where
  "committed_db e key rq pl t db =
     commit_of (pe_create e) (pq_printer rq) (payload_json pl) (job_options key (pe_request_id e) t rq) (pe_env0 e db)"

lemma created_values:
  assumes acc: "acceptable e key len body rq pl" "parseExpiresAt (pe_date_parse e) (pe_now e) (pq_expires rq) = Inr t"
    and post: "print_POST e (Some key) len (Some body) reg db = (db', reg', rep)" "http_status rep = 201"
  obtains v r where "insertQueuedJobAtomically (ce_num (pe_create e)) (ce_clocks (pe_create e)) (ce_jsonb (pe_create e)) v
        (ce_env2 (pe_create e) (ce_env1 (pe_create e) (pe_env0 e db))) = (committed_db e key rq pl t db, Inr r)"
    and "\<not> ir_isReused r" and "jget (http_body rep) ''jobId'' = Some (JStr (jv_id v))"
    and "jv_tenant v = ak_tenant key" and "jv_api_key v = Some (ak_id key)" and "jv_destination v = pq_destination rq"
    and "jv_doc_type v = Some (pq_doc_type rq)" and "jv_idem v = pq_idem rq" and "jv_printer v = pq_printer rq"
    and "jv_payload v = payload_json pl"
proof -
  have rq: "bodySchema body = Some rq" and pl: "validatePrintJobPayload (pq_payload rq) = Some pl"
    using acc(1) by (simp_all add: acceptable_def)
  obtain r where c: "createPrintJobForPrinter (pe_create e) (pq_printer rq) (payload_json pl)
           (job_options key (pe_request_id e) t rq) reg (pe_env0 e db) = (db', reg', Inr r)"
    and fresh: "\<not> cr_isReused r" and rep: "rep = created_reply rq r"
    by (rule created_request [OF post acc])
  obtain v ir where v: "prepare_job (pe_create e) (pq_printer rq) (payload_json pl)
        (job_options key (pe_request_id e) t rq) (pe_env0 e db) = Inr v"
    and ins: "insertQueuedJobAtomically (ce_num (pe_create e)) (ce_clocks (pe_create e)) (ce_jsonb (pe_create e)) v
        (ce_env2 (pe_create e) (ce_env1 (pe_create e) (pe_env0 e db))) = (committed_db e key rq pl t db, Inr ir)"
    and new: "\<not> ir_isReused ir" and idv: "cr_id r = jv_id v"
    unfolding committed_db_def by (rule create_committed [OF c fresh])
  have "jv_tenant v = ak_tenant key" "jv_api_key v = Some (ak_id key)" "jv_destination v = pq_destination rq"
    "jv_doc_type v = Some (pq_doc_type rq)" "jv_idem v = pq_idem rq" "jv_printer v = pq_printer rq" "jv_payload v = payload_json pl"
    using prepared_options [OF v] validate_payload_json [OF validate_wf [OF pl]] schema_trimmed [OF rq]
    by (auto simp: job_options_def)
  then show ?thesis
    using that [of v ir] ins new idv by (simp add: rep created_reply_def reply_def)
qed

text \<open>C34. A request sent again names the job of the first one. After a request with an idempotency key was answered with a new
  job, and whatever operations ran on the jobs table since it was inserted (while the row exists and the idempotency index
  holds), a request of the same API key with the same idempotency key that passes the route's checks is answered with that
  job, if it asks for the same printer, document type, destination and payload, and with a conflict otherwise; no second job
  is created, nothing is written and no socket is used.\<close>

theorem resend_same_job:
  assumes jsonb: "\<And>w. json_eqv w (ce_jsonb (pe_create e) w)"
    and acc: "acceptable e key len body rq pl" "parseExpiresAt (pe_date_parse e) (pe_now e) (pq_expires rq) = Inr t"
    and post: "print_POST e (Some key) len (Some body) reg db = (db', reg', rep)" "http_status rep = 201"
      "jget (http_body rep) ''jobId'' = Some (JStr jobId)"
    and keyed: "truthy (pq_idem rq)" "ak_id key \<noteq> []"
    and run: "db_ok (committed_db e key rq pl t db)" "later = run_ops ops (committed_db e key rq pl t db)"
      "inserted jobId ops (committed_db e key rq pl t db) = 0" "has_job jobId later" "idempotency_unique (print_jobs later)"
    and again: "acceptable e2 key2 len2 body2 rq2 pl2" "pq_idem rq2 = pq_idem rq"
      "ak_id key2 = ak_id key" "ak_tenant key2 = ak_tenant key"
      "pe_env0 e2 db2 = later" "ce_num (pe_create e2) = ce_num (pe_create e)"
  shows "\<exists>q \<in> set (print_jobs later). jb_id q = jobId
    \<and> print_POST e2 (Some key2) len2 (Some body2) reg2 db2
      = (later, reg2,
         if pq_printer rq2 = pq_printer rq
            \<and> fingerprint_type (Some (pq_doc_type rq2)) = fingerprint_type (Some (pq_doc_type rq))
            \<and> fingerprint_destination (pq_destination rq2) = fingerprint_destination (pq_destination rq)
            \<and> canonicalize (payload_json pl2) = canonicalize (payload_json pl)
         then responseForRow q else idempotencyConflict)"
proof -
  obtain v r where ins: "insertQueuedJobAtomically (ce_num (pe_create e)) (ce_clocks (pe_create e)) (ce_jsonb (pe_create e)) v
        (ce_env2 (pe_create e) (ce_env1 (pe_create e) (pe_env0 e db))) = (committed_db e key rq pl t db, Inr r)"
      "\<not> ir_isReused r"
    and idv: "jget (http_body rep) ''jobId'' = Some (JStr (jv_id v))"
    and opts: "jv_tenant v = ak_tenant key" "jv_api_key v = Some (ak_id key)" "jv_destination v = pq_destination rq"
      "jv_doc_type v = Some (pq_doc_type rq)" "jv_idem v = pq_idem rq" "jv_printer v = pq_printer rq" "jv_payload v = payload_json pl"
    by (rule created_values [OF acc post(1,2)])
  have jobId: "jobId = jv_id v" using idv post(3) by simp
  have key: "truthy (jv_idem v)" "jv_api_key v \<noteq> Some []" using keyed opts by simp_all
  obtain q where raw: "q \<in> set (print_jobs (run_ops ops (committed_db e key rq pl t db)))" "jb_id q = jv_id v"
      "find_first (idempotent_where v) (print_jobs (run_ops ops (committed_db e key rq pl t db))) = Some q"
    and fp: "\<forall>printerId documentType destination pl.
      stored_fingerprint (ce_num (pe_create e)) q
        = idempotencyFingerprint (ce_num (pe_create e)) printerId documentType destination (payload_json pl)
      \<longleftrightarrow> printerId = jv_printer v \<and> fingerprint_type documentType = fingerprint_type (jv_doc_type v)
          \<and> fingerprint_destination destination = fingerprint_destination (jv_destination v)
          \<and> canonicalize (payload_json pl) = canonicalize (jv_payload v)"
    by (rule replay_row [OF jsonb ins opts(7) run(1) run(3-5) [unfolded run(2) jobId] key(1) refl refl refl key(2)])
  note q = raw(1,2) [folded run(2) jobId] and found = raw(3) [folded run(2)]
  have "idempotent_where v = keyed_job key2 (pq_idem rq2)"
    by (rule keyed_idempotent) (simp_all add: again opts keyed)
  then have "find_first (keyed_job key2 (pq_idem rq2)) (print_jobs (pe_env0 e2 db2)) = Some q"
    using found again(5) by simp
  from existing_answered [OF again(1) _ this] have
    "print_POST e2 (Some key2) len2 (Some body2) reg2 db2
      = (later, reg2, if idempotencyMatches (ce_num (pe_create e)) q rq2 pl2 then responseForRow q else idempotencyConflict)"
    using again keyed(1) by simp
  then show ?thesis
    using q by (intro bexI [of _ q]) (simp_all only: idempotencyMatches_def fp [rule_format] opts)
qed

definition shop_key :: api_key where
  "shop_key = \<lparr>ak_id = ''key_1'', ak_tenant = ''t1'', ak_scope = ''standard'', ak_name = ''Odoo'', ak_description = None,
     ak_hash = ''h'', ak_doc_types = Some [''Invoice''], ak_created = 0, ak_last_used = None, ak_revoked = None\<rparr>"

definition key_db :: gateway_db where
  "key_db = shop_db\<lparr>api_keys := [shop_key]\<rparr>"

definition order_body :: "string \<Rightarrow> json" where
  "order_body destination = JObj [(''printerId'', JStr '' p1''), (''documentType'', JStr ''Invoice''), (''destination'', JStr destination),
     (''payload'', receipt), (''idempotencyKey'', JStr ''SO-7'')]"

definition order_request :: "string \<Rightarrow> print_request" where
  "order_request destination = \<lparr>pq_printer = ''p1'', pq_doc_type = ''Invoice'', pq_destination = Some destination, pq_payload = receipt,
     pq_expires = None, pq_idem = Some ''SO-7''\<rparr>"

definition order_at :: "(gateway_db \<Rightarrow> gateway_db) \<Rightarrow> order_env" where
  "order_at env0 = \<lparr>pe_zod_message = (\<lambda>_. ''bad''), pe_payload_message = (\<lambda>_. ''bad''), pe_date_parse = (\<lambda>_. None), pe_now = 900,
     pe_request_id = None, pe_env0 = env0, pe_create = till_env, pe_env4 = id\<rparr>"

definition order_values :: job_values where
  "order_values = \<lparr>jv_id = ''job_abc'', jv_tenant = ''t1'', jv_api_key = Some ''key_1'', jv_destination = Some ''bar'',
     jv_doc_type = Some ''Invoice'', jv_agent = ''a1'', jv_printer = ''p1'', jv_payload = payload_json receipt_payload,
     jv_requested_by = ''odoo'', jv_request_id = None, jv_idem = Some ''SO-7'', jv_expires = 3600900\<rparr>"

definition order_db :: gateway_db where
  "order_db = fst (insertQueuedJobAtomically (\<lambda>_. '''') till_clocks id order_values key_db)"

lemma order_prepared:
  "prepare_job till_env ''p1'' (payload_json receipt_payload) (job_options shop_key None 3600900 (order_request ''bar'')) key_db
     = Inr order_values"
proof -
  have "normalizeRequestedBy ''odoo'' = Inr ''odoo''" "js_trim ''p1'' = ''p1''" "js_trim ''t1'' = ''t1''"
    "check_printer ''p1'' ''t1'' key_db = Inr shop_printer"
    "check_agent None 1000 shop_printer ''t1'' key_db = Inr shop_agent"
    "validatePayloadForPrinter (Some (payload_spec receipt_payload)) (capable shop_printer) = CapOk"
    by code_simp+
  moreover have "check_expiry till_env (job_options shop_key None 3600900 (order_request ''bar'')) = Inr 3600900"
    by (simp add: check_expiry_def till_env_def job_options_def)
  ultimately show ?thesis
    by (simp add: prepare_job_def till_env_def job_options_def order_request_def shop_key_def order_values_def bind_result_def
      check_payload_def validate_payload_json [OF validate_wf [OF receipt_accepted]] shop_printer_def shop_agent_def)
qed

lemma order_acceptable: "acceptable (order_at env0) shop_key None (order_body d) (order_request d) receipt_payload
    \<and> parseExpiresAt (pe_date_parse (order_at env0)) (pe_now (order_at env0)) (pq_expires (order_request d)) = Inr 3600900"
  if "d \<in> {''bar'', ''desk''}"
proof -
  have "bodySchema (order_body ''bar'') = Some (order_request ''bar'')" "bodySchema (order_body ''desk'') = Some (order_request ''desk'')"
    "isOdooKeyAllowedForDocumentType shop_key (Some ''Invoice'') Write_op"
    by code_simp+
  then show ?thesis
    using that by (auto simp: acceptable_def order_request_def receipt_accepted parseExpiresAt_def order_at_def)
qed

lemma order_inserted:
  "insertQueuedJobAtomically (\<lambda>_. '''') till_clocks id order_values key_db
     = (order_db, Inr \<lparr>ir_jobId = ''job_abc'', ir_status = ''queued'', ir_agentId = ''a1'', ir_printerId = ''p1'', ir_isReused = False\<rparr>)"
  unfolding order_db_def by code_simp

lemma order_committed: "committed_db (order_at id) shop_key (order_request ''bar'') receipt_payload 3600900 key_db = order_db"
  using order_prepared order_inserted
  by (simp add: committed_db_def commit_of_def order_at_def order_request_def) (simp add: till_env_def)

lemma order_created:
  "print_POST (order_at id) (Some shop_key) None (Some (order_body ''bar'')) empty_registry key_db
     = (order_db, empty_registry, created_reply (order_request ''bar'')
          \<lparr>cr_id = ''job_abc'', cr_printerId = ''p1'', cr_agentId = ''a1'', cr_status = ''queued'', cr_isReused = False\<rparr>)"
proof -
  have push: "claimAndPushJobToAgent u j ''a1'' empty_registry d = (d, empty_registry, PushNoSocket, None)" for u j d
    by (simp add: claimAndPushJobToAgent_def hasOpenAgentSocket_def agent_set_def empty_registry_def)
  have env: "ce_env1 till_env = id" "ce_env2 till_env = id" "ce_env3 till_env = id" "ce_num till_env = (\<lambda>_. '''')"
    "ce_clocks till_env = till_clocks" "ce_jsonb till_env = id"
    by (simp_all add: till_env_def)
  have "createPrintJobForPrinter till_env ''p1'' (payload_json receipt_payload)
      (job_options shop_key None 3600900 (order_request ''bar'')) empty_registry key_db
    = (order_db, empty_registry,
       Inr \<lparr>cr_id = ''job_abc'', cr_printerId = ''p1'', cr_agentId = ''a1'', cr_status = ''queued'', cr_isReused = False\<rparr>)"
    by (simp add: createPrintJobForPrinter_def order_prepared order_inserted env) (simp add: order_values_def push)
  moreover have "print_jobs key_db = []" by code_simp
  ultimately show ?thesis
    using order_acceptable [of "''bar''" id]
    by (auto simp: print_POST_def acceptable_def print_create_def Let_def order_at_def order_request_def find_first_def)
qed

definition order_claim :: db_op where "order_claim = Op_Claim 1 (\<lambda>_. False) ''x'' ''job_abc'' ''a1''"

theorem resend_same_job_witness:
  "\<exists>q \<in> set (print_jobs (run_ops [order_claim] order_db)). jb_id q = ''job_abc'' \<and> jb_status q = Claimed
     \<and> print_POST (order_at (run_ops [order_claim])) (Some shop_key) None (Some (order_body ''bar'')) empty_registry order_db
         = (run_ops [order_claim] order_db, empty_registry, responseForRow q)
     \<and> print_POST (order_at (run_ops [order_claim])) (Some shop_key) None (Some (order_body ''desk'')) empty_registry order_db
         = (run_ops [order_claim] order_db, empty_registry, idempotencyConflict)"
proof -
  have table: "print_jobs order_db = [queued_row 0 order_values]"
    using admitted_db [OF fresh_insert(1) [OF order_inserted]]
    by (simp add: till_clocks_def key_db_def shop_db_def empty_db_def order_values_def)
  have run: "db_ok (committed_db (order_at id) shop_key (order_request ''bar'') receipt_payload 3600900 key_db)"
    "inserted ''job_abc'' [order_claim] (committed_db (order_at id) shop_key (order_request ''bar'') receipt_payload 3600900 key_db) = 0"
    "has_job ''job_abc'' (run_ops [order_claim] order_db)" "idempotency_unique (print_jobs (run_ops [order_claim] order_db))"
    "list_all (\<lambda>q. jb_status q = Claimed) (print_jobs (run_ops [order_claim] order_db))"
    unfolding order_committed by (simp add: db_ok_def jobs_ok_def unique_by_def table, code_simp+)
  have later: "run_ops [order_claim] order_db
      = run_ops [order_claim] (committed_db (order_at id) shop_key (order_request ''bar'') receipt_payload 3600900 key_db)"
    by (simp only: order_committed)
  have other: "fingerprint_destination (Some ''desk'') \<noteq> fingerprint_destination (Some ''bar'')" by code_simp
  have first: "http_status (created_reply (order_request ''bar'')
      \<lparr>cr_id = ''job_abc'', cr_printerId = ''p1'', cr_agentId = ''a1'', cr_status = ''queued'', cr_isReused = False\<rparr>) = 201"
    "jget (http_body (created_reply (order_request ''bar'')
      \<lparr>cr_id = ''job_abc'', cr_printerId = ''p1'', cr_agentId = ''a1'', cr_status = ''queued'', cr_isReused = False\<rparr>)) ''jobId''
      = Some (JStr ''job_abc'')"
    by (simp_all add: created_reply_def reply_def)
  have jsonb: "json_eqv w (ce_jsonb (pe_create (order_at id)) w)" for w
    by (simp add: order_at_def till_env_def eqv_refl)
  have plain: "truthy (pq_idem (order_request ''bar''))" "ak_id shop_key \<noteq> []" "pq_idem (order_request d) = pq_idem (order_request ''bar'')"
    "pe_env0 (order_at (run_ops os)) order_db = run_ops os order_db"
    "ce_num (pe_create (order_at env)) = ce_num (pe_create (order_at id))" for d env os
    by (simp_all add: order_request_def shop_key_def order_at_def)
  note again = resend_same_job [OF jsonb conjunct1 [OF order_acceptable] conjunct2 [OF order_acceptable] order_created first plain(1,2)
      run(1) later run(2-4) conjunct1 [OF order_acceptable] plain(3) refl refl plain(4,5)]
  obtain q1 where q1: "q1 \<in> set (print_jobs (run_ops [order_claim] order_db))" "jb_id q1 = ''job_abc''"
    "print_POST (order_at (run_ops [order_claim])) (Some shop_key) None (Some (order_body ''bar'')) empty_registry order_db
         = (run_ops [order_claim] order_db, empty_registry, responseForRow q1)"
    using again [of "''bar''" "empty_registry"] by (auto simp: order_request_def)
  moreover have "print_POST (order_at (run_ops [order_claim])) (Some shop_key) None (Some (order_body ''desk'')) empty_registry order_db
         = (run_ops [order_claim] order_db, empty_registry, idempotencyConflict)"
    using again [of "''desk''" "empty_registry"] other by (auto simp: order_request_def)
  ultimately show ?thesis using run(5) by (auto simp: list_all_iff)
qed

section \<open>What a key can read\<close>

text \<open>
  The columns of its own jobs that a key is told, in table order; of a job whose document type it may not read, only
  that the id is one of its own.
\<close>

definition visible_job :: "api_key \<Rightarrow> print_job \<Rightarrow> string \<times> json option" where
  "visible_job key j =
     (jb_id j, if isOdooKeyAllowedForDocumentType key (jb_doc_type j) Read_op then Some (batch_row j) else None)"

definition key_view :: "api_key \<Rightarrow> gateway_db \<Rightarrow> (string \<times> json option) list" where
  "key_view key db = map (visible_job key) (filter (own_job key) (print_jobs db))"

lemma batch_row_fields: "batch_row a = batch_row b \<Longrightarrow> responseForRow a = responseForRow b"
  by (simp add: batch_row_def responseForRow_def)

lemma found_in_view:
  "map_option (visible_job key) (find_first (\<lambda>j. jb_id j = i \<and> own_job key j) (print_jobs db))
     = find_first (\<lambda>v. fst v = i) (key_view key db)"
proof -
  have "map_option (visible_job key) (find_first (\<lambda>j. jb_id j = i \<and> own_job key j) xs)
     = find_first (\<lambda>v. fst v = i) (map (visible_job key) (filter (own_job key) xs))" for xs
    by (induction xs) (auto simp: find_first_def visible_job_def)
  then show ?thesis by (simp add: key_view_def)
qed

lemma listed_in_view:
  "map batch_row (filter (\<lambda>row. isOdooKeyAllowedForDocumentType key (jb_doc_type row) Read_op)
      (select_where (\<lambda>j. List.member ids (jb_id j) \<and> own_job key j) (print_jobs db)))
     = map (the \<circ> snd) (filter (\<lambda>v. List.member ids (fst v) \<and> snd v \<noteq> None) (key_view key db))"
proof -
  have "map batch_row (filter (\<lambda>row. isOdooKeyAllowedForDocumentType key (jb_doc_type row) Read_op)
      (select_where (\<lambda>j. List.member ids (jb_id j) \<and> own_job key j) xs))
     = map (the \<circ> snd) (filter (\<lambda>v. List.member ids (fst v) \<and> snd v \<noteq> None) (map (visible_job key) (filter (own_job key) xs)))" for xs
    by (induction xs) (auto simp: select_where_def visible_job_def)
  then show ?thesis by (simp add: key_view_def)
qed

text \<open>C36. What an API key reads of jobs depends on its own jobs only. Two databases that agree on the reported columns of the
  jobs created with the key in its tenant, document types it may not read left out, give the same answer to every status
  request and every batch request: nothing else (jobs of other keys and tenants, payloads, tokens) shows in any answer.\<close>

theorem odoo_reads_isolated:
  assumes view: "key_view key db1 = key_view key db2"
  shows "print_GET (Some key) i db1 = print_GET (Some key) i db2
    \<and> batch_POST zod_message (Some key) len body db1 = batch_POST zod_message (Some key) len body db2"
proof
  have one: "(case r1 of None \<Rightarrow> error_reply 404 ''Not found''
      | Some row \<Rightarrow> if \<not> isOdooKeyAllowedForDocumentType key (jb_doc_type row) Read_op then refusal else responseForRow row)
    = (case r2 of None \<Rightarrow> error_reply 404 ''Not found''
      | Some row \<Rightarrow> if \<not> isOdooKeyAllowedForDocumentType key (jb_doc_type row) Read_op then refusal else responseForRow row)"
    if "map_option (visible_job key) r1 = map_option (visible_job key) r2" for r1 r2 refusal
    using that by (cases r1; cases r2) (auto simp: visible_job_def split: if_splits dest: batch_row_fields)
  show "print_GET (Some key) i db1 = print_GET (Some key) i db2"
    unfolding print_GET_def Let_def option.case
    by (intro if_cong refl one) (simp only: found_in_view view)
  show "batch_POST zod_message (Some key) len body db1 = batch_POST zod_message (Some key) len body db2"
    by (simp only: batch_POST_def Let_def option.case listed_in_view view)
qed

definition other_key :: api_key where
  "other_key = shop_key\<lparr>ak_id := ''key_2'', ak_doc_types := None\<rparr>"

text \<open>A job of another key, with the same document type and destination, leaves no trace.\<close>

theorem odoo_reads_isolated_witness:
  "key_view shop_key key_db = []
   \<and> print_GET (Some other_key) (Some ''job_abc '') order_db = error_reply 404 ''Not found''
   \<and> batch_POST (\<lambda>_. ''bad'') (Some other_key) None (Some (JObj [(''jobIds'', JArr [JStr ''job_abc''])])) order_db
       = reply 200 [(''jobs'', JArr [])]"
proof -
  have table: "print_jobs order_db = [queued_row 0 order_values]" "print_jobs key_db = []"
    using admitted_db [OF fresh_insert(1) [OF order_inserted]]
    by (simp_all add: till_clocks_def key_db_def shop_db_def empty_db_def order_values_def)
  have view: "key_view other_key order_db = key_view other_key key_db"
    by (simp add: key_view_def table own_job_def order_values_def other_key_def)
  have "print_GET (Some other_key) (Some ''job_abc '') key_db = error_reply 404 ''Not found''"
    "batch_POST (\<lambda>_. ''bad'') (Some other_key) None (Some (JObj [(''jobIds'', JArr [JStr ''job_abc''])])) key_db
       = reply 200 [(''jobs'', JArr [])]"
    "key_view shop_key key_db = []"
    by code_simp+
  then show ?thesis using odoo_reads_isolated [OF view] by simp
qed

end
