(* ===== verification/Reprints.thy ===== *)
theory Reprints
  imports Job_Listing Print_Answers
begin

text \<open>
  Jobs that managers create: \<open>createPrintJob\<close>, \<open>createTestPrintJob\<close> and \<open>reprintJob\<close> of
  \<open>src/app/actions.ts\<close> and the route \<open>api/printers/[id]/test-print\<close>. Page revalidation and log lines are
  left out.
\<close>

section \<open>Actions\<close>

text \<open>
  What the environment supplies: \<open>ax_read\<close> is what other transactions do after the first read of the
  action, \<open>ax_env\<close> what they do before the job is created; \<open>ax_message\<close> is the text of an error whose
  text is the schema library's or the driver's, \<open>ax_build\<close> that of a test page that cannot be built.
\<close>

record action_env =
  ax_read :: "gateway_db \<Rightarrow> gateway_db"
  ax_env :: "gateway_db \<Rightarrow> gateway_db"
  ax_create :: create_env
  ax_now :: time
  ax_message :: "service_error \<Rightarrow> string"
  ax_build :: string

definition manager_options :: "ManagerClaims \<Rightarrow> string \<Rightarrow> string option \<Rightarrow> string option \<Rightarrow> string option \<Rightarrow> string option \<Rightarrow> create_options" where
  "manager_options m requestedBy idem destination documentType requestId =
     \<lparr>co_requestedBy = requestedBy, co_idempotencyKey = idem, co_tenantId = mc_tenant m, co_destination = destination,
      co_documentType = documentType, co_expiresAt = None, co_rateLimitKeyId = None, co_requestId = requestId\<rparr>"

text \<open>\<open>error.message\<close> of what the call throws.\<close>

fun thrown_message :: "action_env \<Rightarrow> service_error \<Rightarrow> string" where
  "thrown_message e (EntitlementExceeded key limit) = entitlement_message (key, limit)"
| "thrown_message e (PrintJobRateLimited s) = ''Print job rate limit exceeded; retry after '' @ int_str s @ '' seconds''"
| "thrown_message e (AgentQueueFull i n) =
     ''Agent '' @ i @ '' has reached the maximum of '' @ nat_str MAX_AGENT_IN_FLIGHT_JOBS @ '' in-flight jobs''"
| "thrown_message e (AgentQueuedJobsFull i n) =
     ''Agent '' @ i @ '' has reached the maximum of '' @ nat_str MAX_AGENT_QUEUED_JOBS @ '' queued jobs''"
| "thrown_message e (CapabilityMismatch reason) = reason"
| "thrown_message e (InputError msg code st) = msg"
| "thrown_message e IdempotencyConflict = ''IDEMPOTENCY_CONFLICT''"
| "thrown_message e err = ax_message e err"

definition createPrintJob ::
  "action_env \<Rightarrow> ManagerClaims option \<Rightarrow> string \<Rightarrow> json \<Rightarrow> ws_registry \<Rightarrow> gateway_db
     \<Rightarrow> gateway_db \<times> ws_registry \<times> (action_error + string)" where
  "createPrintJob e claims printerId payload reg db =
     (case requireManager claims Jobs_create of
        Inl err \<Rightarrow> (db, reg, Inl err)
      | Inr m \<Rightarrow>
          (case createPrintJobForPrinter (ax_create e) printerId payload (manager_options m ''manager'' None None None None) reg db of
             (db', reg', Inl err) \<Rightarrow> (db', reg', Inl (Thrown (thrown_message e err)))
           | (db', reg', Inr r) \<Rightarrow> (db', reg', Inr (cr_id r))))"

definition declared_protocols :: "printer \<Rightarrow> json option" where
  "declared_protocols p = (case pr_capabilities p of Some c \<Rightarrow> jget c ''supported_protocols'' | None \<Rightarrow> None)"

definition test_ticket :: "time \<Rightarrow> printer \<Rightarrow> agent \<Rightarrow> PrintJobPayload option" where
  "test_ticket now p a =
     buildTestPrintPayloadForPrinter (pr_name p) (ag_name a) (Some (pr_protocol p)) (Some (pr_connection p)) (declared_protocols p) now"

definition createTestPrintJob ::
  "action_env \<Rightarrow> ManagerClaims option \<Rightarrow> string \<Rightarrow> ws_registry \<Rightarrow> gateway_db
     \<Rightarrow> gateway_db \<times> ws_registry \<times> (action_error + string)" where
  "createTestPrintJob e claims printerId reg db =
     (case requireManager claims Printers_test of
        Inl err \<Rightarrow> (db, reg, Inl err)
      | Inr m \<Rightarrow>
          (case find_first (printer_in printerId (mc_tenant m)) (printers db) of
             None \<Rightarrow> (db, reg, Inl (ActionError ''Printer not found'' 404))
           | Some p \<Rightarrow>
               let db1 = ax_read e db in
               case find_first (agent_in (pr_agent p) (mc_tenant m)) (agents db1) of
                 None \<Rightarrow> (db1, reg, Inl (ActionError ''The agent that owns this printer is missing.'' 500))
               | Some a \<Rightarrow>
                   (case test_ticket (ax_now e) p a of
                      None \<Rightarrow> (db1, reg, Inl (ActionError (ax_build e) 400))
                    | Some pl \<Rightarrow>
                        (case createPrintJobForPrinter (ax_create e) printerId (payload_json pl)
                                (manager_options m ''manager-test'' None None (Some ''test_page'') None) reg (ax_env e db1) of
                           (db', reg', Inl err) \<Rightarrow> (db', reg', Inl (ActionError (thrown_message e err) 400))
                         | (db', reg', Inr r) \<Rightarrow> (db', reg', Inr (cr_id r))))))"

definition test_print_failed :: "action_env \<Rightarrow> service_error \<Rightarrow> http" where
  "test_print_failed e err =
     (case err of
        AgentQueueFull i n \<Rightarrow>
          reply 503 [(''error'', JStr ''AGENT_QUEUE_FULL''), (''code'', JStr ''AGENT_QUEUE_FULL''), (''agentId'', JStr i),
                     (''limit'', jint (int MAX_AGENT_IN_FLIGHT_JOBS)), (''retryable'', JBool True)]
      | AgentQueuedJobsFull i n \<Rightarrow>
          reply 503 [(''error'', JStr ''AGENT_QUEUE_FULL''), (''code'', JStr ''AGENT_QUEUE_FULL''), (''agentId'', JStr i),
                     (''limit'', jint (int MAX_AGENT_IN_FLIGHT_JOBS)), (''retryable'', JBool True)]
      | CapabilityMismatch reason \<Rightarrow> coded 422 reason ''CAPABILITY_MISMATCH'' False
      | InputError msg code st \<Rightarrow> coded st msg code (st \<ge> 500)
      | _ \<Rightarrow> reply 500 [(''error'', JStr ''Internal server error''), (''code'', JStr ''INTERNAL_ERROR'')])"

definition test_print_POST ::
  "action_env \<Rightarrow> string option \<Rightarrow> ManagerClaims option \<Rightarrow> string \<Rightarrow> ws_registry \<Rightarrow> gateway_db \<Rightarrow> gateway_db \<times> ws_registry \<times> http" where
  "test_print_POST e request_id claims i reg db =
     (case authorize claims Printers_test of
        Inl rep \<Rightarrow> (db, reg, rep)
      | Inr m \<Rightarrow>
          (case find_first (printer_in i (mc_tenant m)) (printers db) of
             None \<Rightarrow> (db, reg, error_reply 404 ''Printer not found'')
           | Some p \<Rightarrow>
               let db1 = ax_read e db in
               case find_first (agent_in (pr_agent p) (mc_tenant m)) (agents db1) of
                 None \<Rightarrow> (db1, reg, reply 500 [(''error'', JStr ''Printer owner agent missing''), (''code'', JStr ''AGENT_NOT_FOUND'')])
               | Some a \<Rightarrow>
                   if pr_lifecycle p \<noteq> Active then (db1, reg, error_reply 409 ''printer disabled'')
                   else
                     case test_ticket (ax_now e) p a of
                       None \<Rightarrow> (db1, reg, coded 422 (ax_build e) ''CAPABILITY_MISMATCH'' False)
                     | Some pl \<Rightarrow>
                         (case createPrintJobForPrinter (ax_create e) (pr_id p) (payload_json pl)
                                 (manager_options m ''manager-test'' None None None request_id) reg (ax_env e db1) of
                            (db', reg', Inl err) \<Rightarrow> (db', reg', test_print_failed e err)
                          | (db', reg', Inr r) \<Rightarrow>
                              (db', reg', reply 201 [(''ok'', JBool True), (''jobId'', JStr (cr_id r)), (''printerId'', JStr (pr_id p)),
                                                     (''status'', JStr (cr_status r))]))))"

section \<open>Reprinting\<close>

definition reprint_prefix :: "print_job \<Rightarrow> string" where
  "reprint_prefix job = ''gw-reprint:'' @ jb_id job @ '':''"

definition reprint_attempts :: "string \<Rightarrow> print_job \<Rightarrow> gateway_db \<Rightarrow> nat" where
  "reprint_attempts tenantId job db =
     count_where (\<lambda>j. jb_tenant j = tenantId
                      \<and> (case jb_idem j of None \<Rightarrow> False | Some k \<Rightarrow> sql_like (reprint_prefix job @ ''%'') k)) (print_jobs db)"

definition reprint_options :: "ManagerClaims \<Rightarrow> print_job \<Rightarrow> nat \<Rightarrow> create_options" where
  "reprint_options m job attempts =
     manager_options m ''manager-reprint'' (Some (reprint_prefix job @ nat_str (attempts + 1))) (jb_destination job) (jb_doc_type job) None"

text \<open>The result is the id of the job and whether it existed.\<close>

definition reprintJob ::
  "action_env \<Rightarrow> ManagerClaims option \<Rightarrow> string option \<Rightarrow> ws_registry \<Rightarrow> gateway_db
     \<Rightarrow> gateway_db \<times> ws_registry \<times> (action_error + string \<times> bool)" where
  "reprintJob e claims jobId reg db =
     (case requireManager claims Jobs_retry of
        Inl err \<Rightarrow> (db, reg, Inl err)
      | Inr m \<Rightarrow>
          (let i = js_trim (or_empty jobId) in
           if i = [] then (db, reg, Inl (ActionError ''job id is required'' 400))
           else
             case find_first (\<lambda>j. jb_id j = i \<and> jb_tenant j = mc_tenant m) (print_jobs db) of
               None \<Rightarrow> (db, reg, Inl (ActionError ''Job not found'' 404))
             | Some job \<Rightarrow>
                 if \<not> isTerminal (jb_status job)
                 then (db, reg, Inl (ActionError ''Only finished, failed, or expired jobs can be reprinted. The current job is still in progress.'' 409))
                 else
                   let db1 = ax_read e db in
                   case createPrintJobForPrinter (ax_create e) (jb_printer job) (jb_payload job)
                          (reprint_options m job (reprint_attempts (mc_tenant m) job db1)) reg (ax_env e db1) of
                     (db', reg', Inl err) \<Rightarrow> (db', reg', Inl (Thrown (thrown_message e err)))
                   | (db', reg', Inr r) \<Rightarrow> (db', reg', Inr (cr_id r, cr_isReused r))))"

section \<open>A reprint is made once\<close>

text \<open>The database right after the transaction that inserts the reprint.\<close>

definition reprint_committed :: "action_env \<Rightarrow> ManagerClaims \<Rightarrow> print_job \<Rightarrow> gateway_db \<Rightarrow> gateway_db" where
  "reprint_committed e m job db =
     commit_of (ax_create e) (jb_printer job) (jb_payload job)
       (reprint_options m job (reprint_attempts (mc_tenant m) job (ax_read e db))) (ax_env e (ax_read e db))"

lemma reprint_call:
  assumes "reprintJob e claims jobId reg db = (db', reg', Inr (i, reused))"
  obtains m job r where "claims = Some m" and "job \<in> set (print_jobs db)" and "jb_tenant job = mc_tenant m"
    and "createPrintJobForPrinter (ax_create e) (jb_printer job) (jb_payload job)
           (reprint_options m job (reprint_attempts (mc_tenant m) job (ax_read e db))) reg (ax_env e (ax_read e db)) = (db', reg', Inr r)"
    and "i = cr_id r" and "reused = cr_isReused r"
    and "find_first (\<lambda>j. jb_id j = js_trim (or_empty jobId) \<and> jb_tenant j = mc_tenant m) (print_jobs db) = Some job"
  using assms
  by (auto simp: reprintJob_def requireManager_def Let_def split: option.splits if_splits prod.splits sum.splits dest: find_first_Some_iff)

text \<open>A later call that inserts on a database whose row with the key is \<open>q\<close> reuses it.\<close>

lemma reuse_call:
  assumes v: "prepare_job ce printerId payload opts db = Inr v"
    and q: "find_first (idempotent_where v) (print_jobs (ce_env2 ce (ce_env1 ce db))) = Some q"
    and k: "truthy (jv_idem v)" and same: "stored_fingerprint (ce_num ce) q = request_fingerprint (ce_num ce) v"
    and call: "createPrintJobForPrinter ce printerId payload opts reg db = (db', reg', Inr r)"
  shows "db' = ce_env2 ce (ce_env1 ce db) \<and> reg' = reg \<and> cr_id r = jb_id q \<and> cr_isReused r"
  using assms
  by (auto simp: createPrintJobForPrinter_def insertQueuedJobAtomically_def Let_def split: if_splits)

text \<open>What the first attempt has inserted.\<close>

lemma reprint_values_of:
  assumes first: "reprintJob e (Some m) jobId reg db = (db', reg', Inr (i, False))"
    and job: "find_first (\<lambda>j. jb_id j = js_trim (or_empty jobId) \<and> jb_tenant j = mc_tenant m) (print_jobs db) = Some job"
  obtains v ir where "prepare_job (ax_create e) (jb_printer job) (jb_payload job)
        (reprint_options m job (reprint_attempts (mc_tenant m) job (ax_read e db))) (ax_env e (ax_read e db)) = Inr v"
    and "insertQueuedJobAtomically (ce_num (ax_create e)) (ce_clocks (ax_create e)) (ce_jsonb (ax_create e)) v
        (ce_env2 (ax_create e) (ce_env1 (ax_create e) (ax_env e (ax_read e db)))) = (reprint_committed e m job db, Inr ir)"
    and "\<not> ir_isReused ir" and "i = jv_id v"
proof -
  obtain r where c: "createPrintJobForPrinter (ax_create e) (jb_printer job) (jb_payload job)
        (reprint_options m job (reprint_attempts (mc_tenant m) job (ax_read e db))) reg (ax_env e (ax_read e db)) = (db', reg', Inr r)"
    and r: "i = cr_id r" "\<not> cr_isReused r"
    by (rule reprint_call [OF first]) (use job in auto)
  show ?thesis
    by (rule create_committed [OF c r(2)]) (use that r(1) in \<open>simp add: reprint_committed_def\<close>)
qed

text \<open>C39. A reprint asked for twice is made once. When one attempt has created the reprint of a job, a later attempt (a double
  click) of a manager of the tenant that found the same number of reprints of the job is told the job the first one created,
  marked as reused: it creates no job, writes nothing and uses no socket, whatever operations ran on the jobs table
  since the first one's insertion, while the row exists and the idempotency index holds.\<close>

theorem reprint_once:
  assumes jsonb: "\<And>w. json_eqv w (ce_jsonb (ax_create e) w)"
    and first: "reprintJob e (Some m) jobId reg db = (db', reg', Inr (i, False))"
      "find_first (\<lambda>j. jb_id j = js_trim (or_empty jobId) \<and> jb_tenant j = mc_tenant m) (print_jobs db) = Some job"
    and run: "db_ok (reprint_committed e m job db)" "later = run_ops ops (reprint_committed e m job db)"
      "inserted i ops (reprint_committed e m job db) = 0" "has_job i later" "idempotency_unique (print_jobs later)"
    and second: "reprintJob e2 (Some m2) jobId2 reg2 db2 = (db2', reg2', Inr (i2, reused))"
      "find_first (\<lambda>j. jb_id j = js_trim (or_empty jobId2) \<and> jb_tenant j = mc_tenant m2) (print_jobs db2) = Some job2"
      "same_job job job2" "mc_tenant m2 = mc_tenant m" "ce_num (ax_create e2) = ce_num (ax_create e)"
    and count: "reprint_attempts (mc_tenant m) job (ax_read e2 db2) = reprint_attempts (mc_tenant m) job (ax_read e db)"
    and view: "ce_env2 (ax_create e2) (ce_env1 (ax_create e2) (ax_env e2 (ax_read e2 db2))) = later"
  shows "i2 = i \<and> reused \<and> db2' = later \<and> reg2' = reg2"
proof -
  let ?opts = "reprint_options m job (reprint_attempts (mc_tenant m) job (ax_read e db))"
  obtain v ir where v: "prepare_job (ax_create e) (jb_printer job) (jb_payload job) ?opts (ax_env e (ax_read e db)) = Inr v"
    and ins: "insertQueuedJobAtomically (ce_num (ax_create e)) (ce_clocks (ax_create e)) (ce_jsonb (ax_create e)) v
        (ce_env2 (ax_create e) (ce_env1 (ax_create e) (ax_env e (ax_read e db)))) = (reprint_committed e m job db, Inr ir)"
    and new: "\<not> ir_isReused ir" and i: "i = jv_id v"
    by (rule reprint_values_of [OF first])
  have same: "jb_printer job2 = jb_printer job" "jb_payload job2 = jb_payload job" "jb_destination job2 = jb_destination job"
    "jb_doc_type job2 = jb_doc_type job" "jb_id job2 = jb_id job"
    using second(3) by (simp_all add: same_job_def)
  have opts2: "reprint_options m2 job2 (reprint_attempts (mc_tenant m2) job2 (ax_read e2 db2)) = ?opts"
  proof -
    have prefix: "reprint_prefix job2 = reprint_prefix job" by (simp add: reprint_prefix_def same)
    then have "reprint_attempts t job2 d = reprint_attempts t job d" for t d by (simp only: reprint_attempts_def)
    then show ?thesis
      using count by (simp add: reprint_options_def manager_options_def same second(4) prefix)
  qed
  obtain r2 where c2: "createPrintJobForPrinter (ax_create e2) (jb_printer job) (jb_payload job) ?opts reg2 (ax_env e2 (ax_read e2 db2)) = (db2', reg2', Inr r2)"
    and r2: "i2 = cr_id r2" "reused = cr_isReused r2"
    by (rule reprint_call [OF second(1)]) (use second(2) opts2 same in auto)
  obtain v2 where v2: "prepare_job (ax_create e2) (jb_printer job) (jb_payload job) ?opts (ax_env e2 (ax_read e2 db2)) = Inr v2"
    using c2 by (cases "prepare_job (ax_create e2) (jb_printer job) (jb_payload job) ?opts (ax_env e2 (ax_read e2 db2))")
      (simp_all add: createPrintJobForPrinter_def Let_def)
  obtain pl where pl: "jv_payload v = payload_json pl" "jv_payload v2 = payload_json pl"
    using prepared_options [OF v] prepared_options [OF v2] by auto
  have keys: "jv_tenant v2 = jv_tenant v" "jv_api_key v2 = jv_api_key v" "jv_idem v2 = jv_idem v" "jv_printer v2 = jv_printer v"
    "jv_doc_type v2 = jv_doc_type v" "jv_destination v2 = jv_destination v" "truthy (jv_idem v)" "jv_api_key v \<noteq> Some []"
    using prepared_options [OF v] prepared_options [OF v2] by (simp_all add: reprint_options_def manager_options_def reprint_prefix_def)
  obtain q where q: "jb_id q = jv_id v"
      "find_first (idempotent_where v2) (print_jobs (run_ops ops (reprint_committed e m job db))) = Some q"
    and fp: "\<forall>printerId documentType destination pl.
      stored_fingerprint (ce_num (ax_create e)) q
        = idempotencyFingerprint (ce_num (ax_create e)) printerId documentType destination (payload_json pl)
      \<longleftrightarrow> printerId = jv_printer v \<and> fingerprint_type documentType = fingerprint_type (jv_doc_type v)
          \<and> fingerprint_destination destination = fingerprint_destination (jv_destination v)
          \<and> canonicalize (payload_json pl) = canonicalize (jv_payload v)"
    by (rule replay_row [OF jsonb ins new pl(1) run(1) run(3-5) [unfolded run(2) i] keys(7,3,1,2,8)])
  have fp2: "stored_fingerprint (ce_num (ax_create e2)) q = request_fingerprint (ce_num (ax_create e2)) v2"
    unfolding request_fingerprint_def second(5) pl(2) fp [rule_format] by (simp add: keys pl)
  have "find_first (idempotent_where v2) (print_jobs (ce_env2 (ax_create e2) (ce_env1 (ax_create e2) (ax_env e2 (ax_read e2 db2))))) = Some q"
    using q(2) by (simp add: view run(2))
  from reuse_call [OF v2 this _ fp2 c2] keys show ?thesis by (simp add: view r2 q(1) i)
qed

definition failed_job :: print_job where
  "failed_job = shop_row\<lparr>jb_status := Failed, jb_payload := payload_json receipt_payload, jb_error := Some ''UNKNOWN_PARTIAL_DELIVERY''\<rparr>"

definition reprint_db :: gateway_db where "reprint_db = shop_db\<lparr>print_jobs := [failed_job]\<rparr>"

definition click :: "(gateway_db \<Rightarrow> gateway_db) \<Rightarrow> string \<Rightarrow> action_env" where
  "click env nano = \<lparr>ax_read = id, ax_env = env, ax_create = till_env\<lparr>ce_nanoid := nano\<rparr>, ax_now = 0,
     ax_message = (\<lambda>_. ''error''), ax_build = ''error''\<rparr>"

definition reprint_values :: "string \<Rightarrow> job_values" where
  "reprint_values i = \<lparr>jv_id = i, jv_tenant = ''t1'', jv_api_key = None, jv_destination = None, jv_doc_type = None,
     jv_agent = ''a1'', jv_printer = ''p1'', jv_payload = payload_json receipt_payload, jv_requested_by = ''manager-reprint'',
     jv_request_id = None, jv_idem = Some ''gw-reprint:j1:1'', jv_expires = 3601000\<rparr>"

definition reprinted_db :: gateway_db where
  "reprinted_db = fst (insertQueuedJobAtomically (\<lambda>_. '''') till_clocks id (reprint_values ''job_abc'') reprint_db)"

definition first_reprint :: create_options where
  "first_reprint = \<lparr>co_requestedBy = ''manager-reprint'', co_idempotencyKey = Some ''gw-reprint:j1:1'', co_tenantId = ''t1'',
     co_destination = None, co_documentType = None, co_expiresAt = None, co_rateLimitKeyId = None, co_requestId = None\<rparr>"

lemma reprint_prepared:
  assumes "check_printer ''p1'' ''t1'' db = Inr shop_printer" and "check_agent None 1000 shop_printer ''t1'' db = Inr shop_agent"
  shows "prepare_job (till_env\<lparr>ce_nanoid := nano\<rparr>) ''p1'' (payload_json receipt_payload) first_reprint db = Inr (reprint_values (''job_'' @ nano))"
proof -
  have "normalizeRequestedBy ''manager-reprint'' = Inr ''manager-reprint''" "js_trim ''p1'' = ''p1''" "js_trim ''t1'' = ''t1''"
    "validatePayloadForPrinter (Some (payload_spec receipt_payload)) (capable shop_printer) = CapOk"
    by code_simp+
  moreover have "check_expiry (till_env\<lparr>ce_nanoid := nano\<rparr>) first_reprint = Inr 3601000"
    by (simp add: check_expiry_def till_env_def first_reprint_def)
  ultimately show ?thesis
    using assms by (simp add: prepare_job_def till_env_def first_reprint_def reprint_values_def bind_result_def
      check_payload_def validate_payload_json [OF validate_wf [OF receipt_accepted]] shop_printer_def shop_agent_def)
qed

lemma reprint_inserted:
  "insertQueuedJobAtomically (\<lambda>_. '''') till_clocks id (reprint_values ''job_abc'') reprint_db
     = (reprinted_db, Inr \<lparr>ir_jobId = ''job_abc'', ir_status = ''queued'', ir_agentId = ''a1'', ir_printerId = ''p1'', ir_isReused = False\<rparr>)"
  "insertQueuedJobAtomically (\<lambda>_. '''') till_clocks id (reprint_values ''job_def'') reprinted_db
     = (reprinted_db, Inr \<lparr>ir_jobId = ''job_abc'', ir_status = ''queued'', ir_agentId = ''a1'', ir_printerId = ''p1'', ir_isReused = True\<rparr>)"
  unfolding reprinted_db_def by code_simp+

lemma click_facts:
  "check_printer ''p1'' ''t1'' reprint_db = Inr shop_printer" "check_agent None 1000 shop_printer ''t1'' reprint_db = Inr shop_agent"
  "check_printer ''p1'' ''t1'' reprinted_db = Inr shop_printer" "check_agent None 1000 shop_printer ''t1'' reprinted_db = Inr shop_agent"
  "requireManager (Some shop_manager) Jobs_retry = Inr shop_manager" "js_trim (or_empty (Some ''j1'')) = ''j1''"
  "find_first (\<lambda>j. jb_id j = ''j1'' \<and> jb_tenant j = mc_tenant shop_manager) (print_jobs reprint_db) = Some failed_job"
  "isTerminal (jb_status failed_job)" "reprint_attempts (mc_tenant shop_manager) failed_job reprint_db = 0"
  "jb_printer failed_job = ''p1''"
  by code_simp+

lemma click_options: "reprint_options shop_manager failed_job 0 = first_reprint"
  by code_simp

lemma click_simps:
  "ax_read (click env nano) = id" "ax_env (click env nano) = env" "ax_create (click env nano) = till_env\<lparr>ce_nanoid := nano\<rparr>"
  by (simp_all add: click_def)

lemma click_call:
  "reprintJob (click env nano) (Some shop_manager) (Some ''j1'') reg reprint_db
     = (case createPrintJobForPrinter (till_env\<lparr>ce_nanoid := nano\<rparr>) ''p1'' (payload_json receipt_payload) first_reprint reg (env reprint_db) of
          (db', reg', Inl err) \<Rightarrow> (db', reg', Inl (Thrown (thrown_message (click env nano) err)))
        | (db', reg', Inr r) \<Rightarrow> (db', reg', Inr (cr_id r, cr_isReused r)))"
proof -
  have "jb_payload failed_job = payload_json receipt_payload" by (simp add: failed_job_def)
  then show ?thesis by (simp add: reprintJob_def click_facts click_options click_simps)
qed

lemma click_env:
  "ce_env1 (till_env\<lparr>ce_nanoid := nano\<rparr>) = id" "ce_env2 (till_env\<lparr>ce_nanoid := nano\<rparr>) = id" "ce_env3 (till_env\<lparr>ce_nanoid := nano\<rparr>) = id"
  "ce_num (till_env\<lparr>ce_nanoid := nano\<rparr>) = (\<lambda>_. '''')" "ce_clocks (till_env\<lparr>ce_nanoid := nano\<rparr>) = till_clocks"
  "ce_jsonb (till_env\<lparr>ce_nanoid := nano\<rparr>) = id"
  by (simp_all add: till_env_def)

lemma clicks:
  "reprintJob (click id ''abc'') (Some shop_manager) (Some ''j1'') empty_registry reprint_db
     = (reprinted_db, empty_registry, Inr (''job_abc'', False))"
  "reprintJob (click (\<lambda>_. reprinted_db) ''def'') (Some shop_manager) (Some ''j1'') empty_registry reprint_db
     = (reprinted_db, empty_registry, Inr (''job_abc'', True))"
proof -
  have push: "claimAndPushJobToAgent u j ''a1'' empty_registry d = (d, empty_registry, PushNoSocket, None)" for u j d
    by (simp add: claimAndPushJobToAgent_def hasOpenAgentSocket_def agent_set_def empty_registry_def)
  have agent: "jv_agent (reprint_values i) = ''a1''" for i by (simp add: reprint_values_def)
  have "createPrintJobForPrinter (till_env\<lparr>ce_nanoid := ''abc''\<rparr>) ''p1'' (payload_json receipt_payload) first_reprint empty_registry reprint_db
      = (reprinted_db, empty_registry, Inr \<lparr>cr_id = ''job_abc'', cr_printerId = jv_printer (reprint_values ''job_abc''),
           cr_agentId = ''a1'', cr_status = ''queued'', cr_isReused = False\<rparr>)"
    using reprint_prepared [OF click_facts(1,2), of "''abc''"]
    by (simp add: createPrintJobForPrinter_def click_env reprint_inserted(1) agent push)
  then show "reprintJob (click id ''abc'') (Some shop_manager) (Some ''j1'') empty_registry reprint_db
     = (reprinted_db, empty_registry, Inr (''job_abc'', False))"
    by (simp add: click_call)
  have "createPrintJobForPrinter (till_env\<lparr>ce_nanoid := ''def''\<rparr>) ''p1'' (payload_json receipt_payload) first_reprint empty_registry reprinted_db
      = (reprinted_db, empty_registry, Inr \<lparr>cr_id = ''job_abc'', cr_printerId = ''p1'',
           cr_agentId = ''a1'', cr_status = ''queued'', cr_isReused = True\<rparr>)"
    using reprint_prepared [OF click_facts(3,4), of "''def''"]
    by (simp add: createPrintJobForPrinter_def click_env reprint_inserted(2))
  then show "reprintJob (click (\<lambda>_. reprinted_db) ''def'') (Some shop_manager) (Some ''j1'') empty_registry reprint_db
     = (reprinted_db, empty_registry, Inr (''job_abc'', True))"
    by (simp add: click_call)
qed

lemma click_committed: "reprint_committed (click id ''abc'') shop_manager failed_job reprint_db = reprinted_db"
proof -
  have "jb_payload failed_job = payload_json receipt_payload" by (simp add: failed_job_def)
  then show ?thesis
    using reprint_prepared [OF click_facts(1,2), of "''abc''"]
    by (simp add: reprint_committed_def commit_of_def click_def click_facts click_options click_env reprint_inserted(1))
qed

theorem reprint_once_witness:
  "reprintJob (click id ''abc'') (Some shop_manager) (Some ''j1'') empty_registry reprint_db
     = (reprinted_db, empty_registry, Inr (''job_abc'', False))
   \<and> reprintJob (click (\<lambda>_. reprinted_db) ''def'') (Some shop_manager) (Some ''j1'') empty_registry reprint_db
     = (reprinted_db, empty_registry, Inr (''job_abc'', True))"
proof
  show "reprintJob (click id ''abc'') (Some shop_manager) (Some ''j1'') empty_registry reprint_db
     = (reprinted_db, empty_registry, Inr (''job_abc'', False))"
    by (rule clicks)
  have table: "print_jobs reprinted_db = [failed_job, queued_row 0 (reprint_values ''job_abc'')]"
    using admitted_db [OF fresh_insert(1) [OF reprint_inserted(1)]]
    by (simp add: till_clocks_def reprint_db_def reprint_values_def)
  have run: "db_ok reprinted_db" "has_job ''job_abc'' reprinted_db" "idempotency_unique (print_jobs reprinted_db)"
    by (simp add: db_ok_def jobs_ok_def unique_by_def table failed_job_def shop_row_def shop_job_def reprint_values_def, code_simp+)
  have found: "find_first (\<lambda>j. jb_id j = js_trim (or_empty (Some ''j1'')) \<and> jb_tenant j = mc_tenant shop_manager) (print_jobs reprint_db) = Some failed_job"
    by (simp only: click_facts)
  have env: "json_eqv w (ce_jsonb (ax_create (click id ''abc'')) w)"
    "ce_num (ax_create (click (\<lambda>_. reprinted_db) ''def'')) = ce_num (ax_create (click id ''abc''))"
    "reprint_attempts (mc_tenant shop_manager) failed_job (ax_read (click (\<lambda>_. reprinted_db) ''def'') reprint_db)
      = reprint_attempts (mc_tenant shop_manager) failed_job (ax_read (click id ''abc'') reprint_db)"
    "ce_env2 (ax_create (click (\<lambda>_. reprinted_db) ''def'')) (ce_env1 (ax_create (click (\<lambda>_. reprinted_db) ''def''))
       (ax_env (click (\<lambda>_. reprinted_db) ''def'') (ax_read (click (\<lambda>_. reprinted_db) ''def'') reprint_db))) = reprinted_db" for w
    by (simp_all add: click_simps till_env_def eqv_refl)
  obtain d reg i2 reused where second:
    "reprintJob (click (\<lambda>_. reprinted_db) ''def'') (Some shop_manager) (Some ''j1'') empty_registry reprint_db = (d, reg, Inr (i2, reused))"
    using clicks(2) by blast
  have "i2 = ''job_abc'' \<and> reused \<and> d = reprinted_db \<and> reg = empty_registry"
    by (rule reprint_once [OF env(1) clicks(1) found _ _ _ run(2,3) second found same_job_refl refl env(2-4), of "[]"])
      (simp_all add: click_committed run)
  then show "reprintJob (click (\<lambda>_. reprinted_db) ''def'') (Some shop_manager) (Some ''j1'') empty_registry reprint_db
     = (reprinted_db, empty_registry, Inr (''job_abc'', True))"
    using second by simp
qed

end
