(* ===== verification/Job_Settling.thy ===== *)
theory Job_Settling
  imports Admission
begin

text \<open>
  Progress of jobs: the first sweep after a job's TTL settles it for good, whatever the agents,
  the other sweeps and the other requests do before and after.
\<close>

lemma run_ops_append: "run_ops (xs @ ys) db = run_ops ys (run_ops xs db)"
  by (induction xs arbitrary: db) auto

lemma inserted_append: "inserted i (xs @ ys) db = inserted i xs db + inserted i ys (run_ops xs db)"
  by (induction xs arbitrary: db) auto

lemma not_inserted: "inserted i ops db = 0 \<Longrightarrow> has_job i (run_ops ops db) \<Longrightarrow> has_job i db"
  by (induction ops arbitrary: db) (auto split: if_splits)

lemma expiry_sweep_settles:
  assumes "jb_expires q \<le> now" and "agentFilter scope q"
    and "r = (if sweep_expired_where now scope q then sweep_expired_set now q else q)"
  shows "isTerminal (jb_status r)"
  using assms by (cases "jb_status q") (auto simp: sweep_expired_where_def sweep_expired_set_def isTerminal_def)

text \<open>C37. Every job settles. Once a sweep's first statement runs, in the job's scope, at or after the end of its TTL,
  the job is success, failed or expired from then on and is handed to no agent any more; before and after it any
  operations of the gateway may run, as long as none puts a new row of that id into the table.\<close>

theorem job_settles:
  assumes ok: "db_ok db" and p: "p \<in> set (print_jobs db)"
    and due: "jb_expires p \<le> now" "agentFilter scope p"
    and once: "inserted (jb_id p) (before @ Op_Sweep SwExpired now scope # after) db = 0"
  shows "(\<forall>q \<in> set (print_jobs (run_ops (before @ Op_Sweep SwExpired now scope # after) db)).
            jb_id q = jb_id p \<longrightarrow> isTerminal (jb_status q))
    \<and> handed (jb_id p) after (run_ops (before @ [Op_Sweep SwExpired now scope]) db) = 0"
proof -
  let ?db1 = "run_ops before db" and ?sweep = "Op_Sweep SwExpired now scope"
  let ?db2 = "fst (exec ?sweep ?db1)"
  have ins: "inserted (jb_id p) before db = 0" "inserted (jb_id p) after ?db2 = 0"
    using once by (auto simp: inserted_append split: if_splits)
  have ok1: "db_ok ?db1" by (rule run_ops_ok [OF ok])
  have ok2: "db_ok ?db2" by (rule exec_ok [OF ok1 surjective_pairing])
  have settled: "\<forall>r \<in> set (print_jobs ?db2). jb_id r = jb_id p \<longrightarrow> isTerminal (jb_status r)"
  proof (intro ballI impI)
    fix r assume r: "r \<in> set (print_jobs ?db2)" "jb_id r = jb_id p"
    obtain q where q: "q \<in> set (print_jobs ?db1)"
        "r = (if sweep_expired_where now scope q then sweep_expired_set now q else q)"
      using r(1) by (auto simp: set_update_where)
    have "jb_id q = jb_id p"
      using r(2) q(2) by (auto simp: sweep_expired_set_def split: if_splits)
    then have "same_job p q" using run_same_job [OF ok p ins(1) q(1)] by simp
    then show "isTerminal (jb_status r)"
      using expiry_sweep_settles [OF _ _ q(2)] due by (simp add: same_job_def agentFilter_def)
  qed
  have "handed (jb_id p) after ?db2 = 0
      \<and> (\<forall>q \<in> set (print_jobs (run_ops after ?db2)). jb_id q = jb_id p \<longrightarrow> isTerminal (jb_status q))"
  proof (rule terminal_run [OF ok2 settled ins(2)])
    show "has_job (jb_id p) ?db2 \<or> handed (jb_id p) after ?db2 = 0"
      by (cases "has_job (jb_id p) ?db2") (simp_all only: handed_absent [OF ok2 _ ins(2)] simp_thms)
  qed
  then show ?thesis by (simp add: run_ops_append)
qed

definition settled_run :: "db_op list" where
  "settled_run = [shop_claim ''x''] @ Op_Sweep SwExpired (jb_expires shop_row) None # [shop_claim ''y'']"

theorem job_settles_witness:
  "handed ''j1'' settled_run queued_db = 1
   \<and> map jb_status (print_jobs (run_ops settled_run queued_db)) = [Expired]
   \<and> handed ''j1'' [shop_claim ''y''] (run_ops ([shop_claim ''x''] @ [Op_Sweep SwExpired (jb_expires shop_row) None]) queued_db) = 0"
proof (intro conjI)
  show "handed ''j1'' settled_run queued_db = 1" by code_simp
  show "map jb_status (print_jobs (run_ops settled_run queued_db)) = [Expired]" by code_simp
  have p: "shop_row \<in> set (print_jobs queued_db)" "jb_id shop_row = ''j1''"
    by (simp_all add: queued_db_def shop_row_def queued_row_def shop_job_def)
  have once: "inserted ''j1'' settled_run queued_db = 0" by code_simp
  show "handed ''j1'' [shop_claim ''y''] (run_ops ([shop_claim ''x''] @ [Op_Sweep SwExpired (jb_expires shop_row) None]) queued_db) = 0"
    using job_settles [OF queued_db_ok p(1), of "jb_expires shop_row" None "[shop_claim ''x'']" "[shop_claim ''y'']"] once
    unfolding p(2) settled_run_def by (simp add: agentFilter_def)
qed

end
