(* ===== verification/Spec2Isabelle.thy ===== *)
theory Spec2Isabelle
  imports Job_Properties Job_Safety Job_Sweeping Job_Capacity Ws_Buckets Ws_Listener Ws_Push Server_Edge
    Admission Manager_Sessions Fleet_Runs Key_Runs Reprints Job_Settling
begin

text \<open>
  Print gateway: a verification library.

  The program is a print gateway written in TypeScript: Odoo installations ask it to print, print
  agents fetch the jobs and report on them, managers administer agents, printers and API keys. All
  lasting state is in PostgreSQL; \<open>src/db/schema.ts\<close> names the tables. A job is inserted by
  \<open>src/lib/print-job-service.ts\<close>, pushed over a WebSocket (\<open>src/server/ws.ts\<close>) or polled
  (\<open>src/app/api/agent/jobs/route.ts\<close>), reported on by its agent, and cleaned up by the sweep
  (\<open>src/lib/job-maintenance.ts\<close>). The custom server (\<open>server.ts\<close>, \<open>src/server\<close>) stands in front of
  the routes of \<open>src/app/api\<close>.

  How the model corresponds to the code.

  \<^item> A table is a list of records of \<open>Schema\<close>, one record per row, with the columns the modelled code
    uses; \<open>gateway_db\<close> is the record of the tables. \<open>Prelude\<close> has the statements (\<open>select_where\<close>,
    \<open>update_where\<close>, \<open>delete_where\<close>, \<open>find_first\<close>, \<open>count_where\<close>, \<open>order_limit\<close>) and the JavaScript text
    operations. A WHERE clause is a predicate on rows (\<open>..._where\<close>) and a SET clause a function on rows
    (\<open>..._set\<close>), so that an UPDATE is read off the source clause by clause.
  \<^item> A handler is a function from the request, the values of the environment and the state to the new
    state and the reply. Early returns and thrown errors are branches; a transaction that throws leaves
    the state as it was.
  \<^item> Clocks (one per reading of \<open>Date.now()\<close> or \<open>now()\<close> whose order matters), drawn tokens and random
    bytes, rows locked by other transactions, and what other transactions do between two statements
    (functions \<open>ce_env\<close>, \<open>pu_env\<close>, \<open>pe_env\<close> on the state, or a second state argument) are arguments, so
    that the theorems hold for every interleaving at these points.
  \<^item> Times and counters are unbounded integers, as JavaScript numbers below 2^53 behave; where the code
    divides or rounds, the model does it over the rationals. A JavaScript string is a list of characters
    of eight bits, so code units above 255 are outside the model.

  The theories, in the order they build on each other.

  \<^item> Foundations: \<open>Prelude\<close>; \<open>Json\<close>, \<open>Json_Text\<close>, \<open>Json_Parse\<close> (values, \<open>JSON.stringify\<close>,
    \<open>JSON.parse\<close> and their round trip); \<open>Base64\<close> (Node's \<open>Buffer\<close>); \<open>Js_Date\<close>; \<open>Schema\<close>.
  \<^item> Jobs: \<open>Job_Status\<close> (\<open>job-status.ts\<close>), \<open>Job_Fencing\<close>, \<open>Job_Maintenance\<close>, \<open>Job_Delivery\<close>,
    \<open>Agent_Jobs\<close> (the poll and the status report) and \<open>Job_Insert\<close> translate the code. \<open>Job_Spec\<close> is
    the abstract job: its status, the token of its claim, whether anything shows that an agent held
    it, and two budgets. \<open>Job_Rows\<close> shows every UPDATE of the job table to be a step of it, by one
    interpretation of the locale \<open>job_writer\<close> each; \<open>Job_Machine\<close> lifts this to the whole table under all
    operations in any order (\<open>exec\<close>), a simulation, and \<open>Job_Runs\<close> to sequences of them. The results are in
    \<open>Job_Properties\<close> (hand-outs, terminal jobs), \<open>Job_Safety\<close> (fences, delivery evidence),
    \<open>Job_Sweeping\<close>, \<open>Job_Capacity\<close> (the in-flight ceiling, the batch of a poll) and \<open>Job_Settling\<close> (every
    job ends).
  \<^item> Sockets, all from \<open>src/server/ws.ts\<close>: \<open>Ws_Buckets\<close> (message rate), \<open>Ws_Sockets\<close> (the registry, whose
    sets are objects with identity that outlive their map entry), \<open>Ws_Push\<close> (claim, send, evidence or
    release) and \<open>Ws_Listener\<close> (the notification client as an event machine).
  \<^item> \<open>Server_Edge\<close>: CORS, the proxy token, the request body budget, upgrades, startup checks.
  \<^item> Creating jobs: \<open>Payload\<close> (schema and test tickets), \<open>Printer_Virtual\<close>, \<open>Routing\<close>, \<open>Canonical\<close> (the
    fingerprint), \<open>Print_Service\<close> (the whole admission) and \<open>Admission\<close> with its guarantees.
  \<^item> Identities: \<open>Auth_Limits\<close> (failure counters), \<open>Manager_Auth\<close>, \<open>Manager_Login\<close>, \<open>Manager_Sessions\<close>;
    \<open>Agent_Auth\<close> (agents, pairing, lifecycle).
  \<^item> The fleet: \<open>Printer_Model\<close>, \<open>Heartbeat\<close>, \<open>Agent_Admin\<close>, \<open>Network_Address\<close>, \<open>Discovery\<close> translate the
    handlers. \<open>Fleet_Spec\<close> states agents, printers and discovered devices as one state with the writes
    allowed on it and three facts such writes keep (locale \<open>fleet_fact\<close>), \<open>Fleet\<close> shows every handler to be a
    sequence of allowed writes, \<open>Fleet_Runs\<close> has the properties along runs of the handlers.
  \<^item> Odoo: \<open>Odoo_Keys\<close> and \<open>Key_Runs\<close> (keys and what stays true of one over any run), \<open>Print_Route\<close> and
    \<open>Print_Answers\<close> (the job routes).
  \<^item> The dashboard: \<open>Job_Listing\<close> (the job list with its filters over SQL's LIKE, the cleanup route, the
    listings and the diagnosis of a printer) and \<open>Reprints\<close> (jobs that managers create).

  The interfaces. \<open>table_update\<close> (in \<open>Prelude\<close>) is an UPDATE that keeps the primary key; \<open>job_writer\<close>
  extends it by the contract of a write to a job and is interpreted on every statement that
  writes one. \<open>run_fact\<close> is a fact kept by every step of a kind, and gives it for runs; \<open>fleet_fact\<close> is
  the same for the writes of the fleet. Each is interpreted on the code's own statements and handlers.

  Bounds and fuel. \<open>json_parse\<close> recurses with a fuel of twice the length of the text plus two, which
  \<open>Json_Parse\<close> shows to be enough for every text \<open>JSON.stringify\<close> gives. The loop that evicts sockets
  is a \<open>while_option\<close> and shown to end; the other loops recurse over a list. Nothing else is bounded.

  What is an argument of the model. SHA-256, HMAC-SHA-256 and scrypt; \<open>net.isIP\<close>; the messages of the
  schema library (what its schemas accept is translated); \<open>Number.prototype.toString\<close>; \<open>new Date(text)\<close>; the
  collation of the database as the rank of a name; what the \<open>jsonb\<close> column gives back for a
  value; \<open>localeCompare\<close> is not used. The theorems about fingerprints assume of a \<open>jsonb\<close> column that it
  keeps a value up to the order of keys, as PostgreSQL documents; those about identities that hashes
  of the values compared differ where they must, and their instances give a hash for which they do.

  What is taken as one step. A transaction that holds an advisory or a row lock for what it reads, and a
  single statement. Where the code runs several statements without a lock, the model has them as
  separate steps or takes the state between them as an argument. A sequence of writes of the
  heartbeat, of a discovery report and of provisioning is one step of \<open>Fleet_Runs\<close>.

  Not modelled, and why. The pool of database connections (\<open>src/db/index.ts\<close>), migrations and operational
  scripts: configuration and generated SQL. Log lines, audit events and the export of metrics, which nothing
  reads back; the counts the sweep returns are modelled. The pages and components of the web interface and
  of the desktop client (\<open>src/app\<close>, \<open>src/components\<close>, \<open>src/desktop\<close>): rendering, over the vocabulary of
  \<open>Job_Status\<close>. Timers and the shutdown of the process in \<open>server.ts\<close>. The agent is written in Go,
  the desktop shell in Rust and the Odoo addon in Python; of the agent only what it sends and
  receives appears here. \<open>Schema\<close> leaves out columns that no modelled operation reads or writes and keeps
  those foreign keys and unique indexes that decide an outcome.
\<close>

end
